(* ===== verification/Prelude.thy ===== *)
theory Prelude
  imports Main "HOL-Library.Word" "HOL-Library.AList"
begin

text \<open>
  The shared base of the development: the machine integer types of the Go code, results with an
  error side, Go maps as association lists with distinct keys, and the generic lemmas on them that
  the component theories use.
\<close>

named_theorems go_simps \<open>equations that evaluate the standard-library layer\<close>
named_theorems result_splits \<open>case splits for result-valued code\<close>

section \<open>Machine integers\<close>

type_synonym int32 = "32 word"

abbreviation max_int32 :: int where
  "max_int32 \<equiv> 2147483647"

abbreviation min_int32 :: int where
  "min_int32 \<equiv> - 2147483648"

definition fits32 :: "int \<Rightarrow> bool" where
  "fits32 i \<longleftrightarrow> min_int32 \<le> i \<and> i \<le> max_int32"

text \<open>Go's integer division truncates towards zero.\<close>

definition go_div :: "int \<Rightarrow> int \<Rightarrow> int" where
  "go_div a b = sgn a * sgn b * (\<bar>a\<bar> div \<bar>b\<bar>)"

section \<open>Results\<close>

text \<open>
  A Go function that returns a value and an error is a sum: \<open>Inl\<close> carries the error. The early
  return \<open>if err != nil { return err }\<close> is \<open>and_then\<close>.
\<close>

fun and_then :: "'e + 'a \<Rightarrow> ('a \<Rightarrow> 'e + 'b) \<Rightarrow> 'e + 'b" where
  "and_then (Inl e) f = Inl e"
| "and_then (Inr a) f = f a"

fun map_err :: "('e \<Rightarrow> 'f) \<Rightarrow> 'e + 'a \<Rightarrow> 'f + 'a" where
  "map_err g (Inl e) = Inl (g e)"
| "map_err g (Inr a) = Inr a"

fun is_ok :: "'e + 'a \<Rightarrow> bool" where
  "is_ok (Inl e) = False"
| "is_ok (Inr a) = True"

text \<open>\<open>ptr.Deref\<close>: the value behind a pointer, or the default for nil.\<close>

fun deref :: "'a option \<Rightarrow> 'a \<Rightarrow> 'a" where
  "deref None d = d"
| "deref (Some a) d = a"

section \<open>Go maps\<close>

text \<open>
  A Go map is an association list whose keys are distinct; a nil map is told apart from an empty
  one by an option where the code makes the difference. The order of the list stands for the
  order of one iteration over the map.
\<close>

type_synonym ('k, 'v) gomap = "('k \<times> 'v) list"

definition mget :: "('k, 'v) gomap \<Rightarrow> 'k \<Rightarrow> 'v option" where
  "mget m k = map_of m k"

definition mput :: "'k \<Rightarrow> 'v \<Rightarrow> ('k, 'v) gomap \<Rightarrow> ('k, 'v) gomap" where
  "mput k v m = AList.update k v m"

definition mdel :: "'k \<Rightarrow> ('k, 'v) gomap \<Rightarrow> ('k, 'v) gomap" where
  "mdel k m = filter (\<lambda>p. fst p \<noteq> k) m"

definition map_ok :: "('k, 'v) gomap \<Rightarrow> bool" where
  "map_ok m \<longleftrightarrow> distinct (map fst m)"

text \<open>The contract of a map: what a lookup returns after each operation.\<close>

locale go_map =
  fixes get :: "'m \<Rightarrow> 'k \<Rightarrow> 'v option"
    and put :: "'k \<Rightarrow> 'v \<Rightarrow> 'm \<Rightarrow> 'm"
    and del :: "'k \<Rightarrow> 'm \<Rightarrow> 'm"
    and ok :: "'m \<Rightarrow> bool"
  assumes get_put: "get (put k v m) k' = (if k' = k then Some v else get m k')"
    and get_del: "ok m \<Longrightarrow> get (del k m) k' = (if k' = k then None else get m k')"
    and ok_put: "ok m \<Longrightarrow> ok (put k v m)"
    and ok_del: "ok m \<Longrightarrow> ok (del k m)"
begin

lemma get_put_same: "get (put k v m) k = Some v"
  by (simp add: get_put)

lemma get_put_other: "k' \<noteq> k \<Longrightarrow> get (put k v m) k' = get m k'"
  by (simp add: get_put)

lemma put_put_get: "get (put k v (put k w m)) = get (put k v m)"
  by (rule ext) (simp add: get_put)

lemma put_commute_get: "k \<noteq> l \<Longrightarrow> get (put k v (put l w m)) = get (put l w (put k v m))"
  by (rule ext) (simp add: get_put)

lemma fold_put_get:
  "get (fold (\<lambda>(k, v). put k v) ps m) k = (case map_of (rev ps) k of Some v \<Rightarrow> Some v | None \<Rightarrow> get m k)"
  by (induction ps arbitrary: m) (auto simp: get_put map_add_def split: option.splits)

lemma ok_fold_put: "ok m \<Longrightarrow> ok (fold (\<lambda>(k, v). put k v) ps m)"
  by (induction ps arbitrary: m) (auto intro: ok_put)

end

interpretation gm: go_map mget mput mdel map_ok
proof (unfold_locales, goal_cases)
  case (1 k v m k')
  show ?case by (simp add: mget_def mput_def update_conv')
next
  case (2 m k k')
  show ?case by (induction m) (auto simp: mget_def mdel_def)
next
  case (3 m k v)
  then show ?case by (simp add: map_ok_def mput_def distinct_update)
next
  case (4 m k)
  then show ?case
    by (simp add: map_ok_def mdel_def distinct_map_filter)
qed

lemmas [simp] = gm.get_put gm.get_del gm.ok_put gm.ok_del

lemma mget_Nil [simp]: "mget [] k = None"
  by (simp add: mget_def)

lemma map_ok_Nil [simp]: "map_ok []"
  by (simp add: map_ok_def)

section \<open>Generic lemmas\<close>

lemma and_then_Inr_iff [simp]:
  "and_then r f = Inr b \<longleftrightarrow> (\<exists>a. r = Inr a \<and> f a = Inr b)"
  by (cases r) auto

lemma and_then_Inl_iff:
  "and_then r f = Inl e \<longleftrightarrow> r = Inl e \<or> (\<exists>a. r = Inr a \<and> f a = Inl e)"
  by (cases r) auto

lemma map_err_Inl_iff: "map_err g r = Inl e \<longleftrightarrow> (\<exists>d. r = Inl d \<and> e = g d)"
  by (cases r) auto

lemma map_err_Inr_iff [simp]: "map_err g r = Inr a \<longleftrightarrow> r = Inr a"
  by (cases r) auto

lemma and_then_assoc: "and_then (and_then r f) g = and_then r (\<lambda>a. and_then (f a) g)"
  by (cases r) auto

lemma is_ok_iff: "is_ok r \<longleftrightarrow> (\<exists>a. r = Inr a)"
  by (cases r) auto

lemma deref_eq_case: "deref p d = (case p of None \<Rightarrow> d | Some a \<Rightarrow> a)"
  by (cases p) auto

lemma sint_bounds32: "min_int32 \<le> sint (w :: int32)" "sint (w :: int32) \<le> max_int32"
  using sint_range_size [of w] by (auto simp: word_size)

lemma sint_of_int32: "fits32 i \<Longrightarrow> sint (word_of_int i :: int32) = i"
  by (simp add: fits32_def signed_of_int signed_take_bit_int_eq_self)

lemma sint_of_nat32 [simp]: "n < 2147483648 \<Longrightarrow> sint (word_of_nat n :: int32) = int n"
  using sint_of_int32 [of "int n"] by (simp add: fits32_def)

lemma sint_add32: "fits32 (sint a + sint b) \<Longrightarrow> sint (a + b :: int32) = sint a + sint b"
  by (simp add: fits32_def sint_word_ariths signed_take_bit_int_eq_self)

lemma sint_mult32: "fits32 (sint a * sint b) \<Longrightarrow> sint (a * b :: int32) = sint a * sint b"
  by (simp add: fits32_def sint_word_ariths signed_take_bit_int_eq_self)

end
