(* ===== verification/GoStd.thy ===== *)
theory GoStd
  imports Prelude "HOL-Library.Sublist"
begin

text \<open>
  The part of Go's standard library that kjob calls: package \<open>strings\<close> on byte strings,
  \<open>strconv.ParseInt\<close> and \<open>FormatInt\<close>, the line scanner of \<open>bufio\<close>, and the character classes
  of \<open>regexp\<close>. A Go string is its list of bytes, so a \<open>char\<close> is one byte.
\<close>

section \<open>Bytes\<close>

definition byte_of :: "char \<Rightarrow> nat" where
  "byte_of c = of_char c"

definition is_digit :: "char \<Rightarrow> bool" where
  "is_digit c \<longleftrightarrow> 48 \<le> byte_of c \<and> byte_of c \<le> 57"

definition is_upper :: "char \<Rightarrow> bool" where
  "is_upper c \<longleftrightarrow> 65 \<le> byte_of c \<and> byte_of c \<le> 90"

definition is_lower :: "char \<Rightarrow> bool" where
  "is_lower c \<longleftrightarrow> 97 \<le> byte_of c \<and> byte_of c \<le> 122"

text \<open>The classes \<open>\w\<close> and \<open>\s\<close> of RE2; the second has no vertical tab.\<close>

definition is_word :: "char \<Rightarrow> bool" where
  "is_word c \<longleftrightarrow> is_digit c \<or> is_upper c \<or> is_lower c \<or> c = CHR ''_''"

definition is_re_space :: "char \<Rightarrow> bool" where
  "is_re_space c \<longleftrightarrow> byte_of c \<in> {9, 10, 12, 13, 32}"

definition to_lower_char :: "char \<Rightarrow> char" where
  "to_lower_char c = (if is_upper c then char_of (byte_of c + 32) else c)"

text \<open>
  \<open>strings.ToLower\<close> on ASCII strings: it is applied to names of profiles, modes and kinds. \<open>strings.EqualFold\<close> is only
  called with one ASCII string; two other runes are equal to an ASCII letter under folding, the long s
  (U+017F) and the Kelvin sign (U+212A), so the definition is exact whenever one argument is ASCII.
\<close>

definition to_lower :: "string \<Rightarrow> string" where
  "to_lower s = map to_lower_char s"

fun fold_ascii :: "string \<Rightarrow> string" where
  "fold_ascii [] = []"
| "fold_ascii (c # s) =
     (if c = CHR 0xC5 \<and> take 1 s = [CHR 0xBF] then CHR ''s'' # fold_ascii (drop 1 s)
      else if c = CHR 0xE2 \<and> take 2 s = [CHR 0x84, CHR 0xAA] then CHR ''k'' # fold_ascii (drop 2 s)
      else to_lower_char c # fold_ascii s)"

definition equal_fold :: "string \<Rightarrow> string \<Rightarrow> bool" where
  "equal_fold s t \<longleftrightarrow> fold_ascii s = fold_ascii t"

section \<open>Package strings\<close>

definition has_prefix :: "string \<Rightarrow> string \<Rightarrow> bool" where
  "has_prefix s p \<longleftrightarrow> take (length p) s = p"

definition has_suffix :: "string \<Rightarrow> string \<Rightarrow> bool" where
  "has_suffix s p \<longleftrightarrow> has_prefix (rev s) (rev p)"

text \<open>\<open>strings.Index\<close>: the first position of the substring, \<open>None\<close> for -1.\<close>

fun str_index :: "string \<Rightarrow> string \<Rightarrow> nat option" where
  "str_index [] p = (if p = [] then Some 0 else None)"
| "str_index (c # cs) p = (if has_prefix (c # cs) p then Some 0 else map_option Suc (str_index cs p))"

definition str_contains :: "string \<Rightarrow> string \<Rightarrow> bool" where
  "str_contains s p \<longleftrightarrow> str_index s p \<noteq> None"

text \<open>\<open>strings.Split\<close> at a separator of one byte, and \<open>strings.Join\<close>.\<close>

fun split_on :: "char \<Rightarrow> string \<Rightarrow> string list" where
  "split_on c [] = [[]]"
| "split_on c (x # xs) =
     (if x = c then [] # split_on c xs
      else (x # hd (split_on c xs)) # tl (split_on c xs))"

lemma split_on_code [code]:
  "split_on c [] = [[]]"
  "split_on c (x # xs) =
     (if x = c then [] # split_on c xs
      else case split_on c xs of [] \<Rightarrow> [x # hd []] | p # ps \<Rightarrow> (x # p) # ps)"
  by (simp_all split: list.splits)

fun str_join :: "string \<Rightarrow> string list \<Rightarrow> string" where
  "str_join sep [] = []"
| "str_join sep [x] = x"
| "str_join sep (x # y # ys) = x @ sep @ str_join sep (y # ys)"

text \<open>
  The UTF-8 encodings of the runes with \<open>unicode.IsSpace\<close>. No other byte sequence decodes to
  one of them, so trimming them as byte strings is what \<open>strings.TrimSpace\<close> does.
\<close>

definition space_runes :: "string list" where
  "space_runes =
     map (map char_of)
       ([[9], [10], [11], [12], [13], [32], [194, 133], [194, 160], [225, 154, 128],
         [226, 128, 128], [226, 128, 129], [226, 128, 130], [226, 128, 131], [226, 128, 132],
         [226, 128, 133], [226, 128, 134], [226, 128, 135], [226, 128, 136], [226, 128, 137],
         [226, 128, 138], [226, 128, 168], [226, 128, 169], [226, 128, 175], [226, 129, 159],
         [227, 128, 128]] :: nat list list)"

definition rune_len :: "string list \<Rightarrow> string \<Rightarrow> nat" where
  "rune_len rs s = (case find (has_prefix s) rs of None \<Rightarrow> 0 | Some r \<Rightarrow> length r)"

lemma rune_len_le: "rune_len rs s \<le> length s"
proof (cases "find (has_prefix s) rs")
  case (Some r)
  then have "has_prefix s r" by (auto simp: find_Some_iff)
  then have "length (take (length r) s) = length r" by (simp add: has_prefix_def)
  with Some show ?thesis by (simp add: rune_len_def)
qed (simp add: rune_len_def)

function strip_runes :: "string list \<Rightarrow> string \<Rightarrow> string" where
  "strip_runes rs s = (if rune_len rs s = 0 then s else strip_runes rs (drop (rune_len rs s) s))"
  by pat_completeness auto
termination
proof (relation "measure (\<lambda>(rs, s). length s)", goal_cases)
  case (2 rs s)
  with rune_len_le [of rs s] show ?case by auto
qed simp

declare strip_runes.simps [simp del]

definition trim_left :: "string \<Rightarrow> string" where
  "trim_left s = strip_runes space_runes s"

definition trim_right :: "string \<Rightarrow> string" where
  "trim_right s = rev (strip_runes (map rev space_runes) (rev s))"

definition trim_space :: "string \<Rightarrow> string" where
  "trim_space s = trim_right (trim_left s)"

text \<open>\<open>strings.TrimRight(s, " ")\<close>.\<close>

definition trim_right_blank :: "string \<Rightarrow> string" where
  "trim_right_blank s = rev (dropWhile (\<lambda>c. c = CHR '' '') (rev s))"

text \<open>\<open>strings.Fields\<close>: the maximal runs without white space.\<close>

fun fields_aux :: "nat \<Rightarrow> string \<Rightarrow> string \<Rightarrow> string list" where
  "fields_aux skip cur [] = (if cur = [] then [] else [cur])"
| "fields_aux (Suc k) cur (c # cs) = fields_aux k cur cs"
| "fields_aux 0 cur (c # cs) =
     (let n = rune_len space_runes (c # cs)
      in if n = 0 then fields_aux 0 (cur @ [c]) cs
         else (if cur = [] then [] else [cur]) @ fields_aux (n - 1) [] cs)"

definition str_fields :: "string \<Rightarrow> string list" where
  "str_fields s = fields_aux 0 [] s"

section \<open>Package strconv\<close>

datatype num_error = ErrSyntax | ErrRange

definition digit_val :: "char \<Rightarrow> nat" where
  "digit_val c = byte_of c - 48"

text \<open>\<open>strconv.ParseUint\<close> in base 10: the digits from the left, the range checked after each.\<close>

fun parse_uint_from :: "nat \<Rightarrow> nat \<Rightarrow> string \<Rightarrow> num_error + nat" where
  "parse_uint_from bound acc [] = Inr acc"
| "parse_uint_from bound acc (c # cs) =
     (if \<not> is_digit c then Inl ErrSyntax
      else let n = acc * 10 + digit_val c
           in if n > bound then Inl ErrRange else parse_uint_from bound n cs)"

definition parse_uint :: "nat \<Rightarrow> string \<Rightarrow> num_error + nat" where
  "parse_uint bits s = (if s = [] then Inl ErrSyntax else parse_uint_from (2 ^ bits - 1) 0 s)"

text \<open>\<open>strconv.ParseInt(s, 10, bits)\<close>: an optional sign, then an unsigned number below the cutoff.\<close>

definition parse_int :: "nat \<Rightarrow> string \<Rightarrow> num_error + int" where
  "parse_int bits s =
     (if s = [] then Inl ErrSyntax
      else
        let neg = (hd s = CHR ''-'');
            rest = (if hd s = CHR ''+'' \<or> hd s = CHR ''-'' then tl s else s)
        in and_then (parse_uint bits rest) (\<lambda>un.
             if \<not> neg \<and> un \<ge> 2 ^ (bits - 1) then Inl ErrRange
             else if neg \<and> un > 2 ^ (bits - 1) then Inl ErrRange
             else Inr (if neg then - int un else int un)))"

text \<open>\<open>strconv.FormatInt(n, 10)\<close>, also what \<open>%d\<close> prints.\<close>

definition digit_char :: "nat \<Rightarrow> char" where
  "digit_char d = char_of (48 + d)"

fun format_nat :: "nat \<Rightarrow> string" where
  "format_nat n = (if n < 10 then [digit_char n] else format_nat (n div 10) @ [digit_char (n mod 10)])"

declare format_nat.simps [simp del]

definition format_int :: "int \<Rightarrow> string" where
  "format_int i = (if i < 0 then CHR ''-'' # format_nat (nat (- i)) else format_nat (nat i))"

definition format_int32 :: "int32 \<Rightarrow> string" where
  "format_int32 w = format_int (sint w)"

section \<open>Package bufio\<close>

text \<open>
  \<open>bufio.Scanner\<close> with \<open>ScanLines\<close>: the lines without their newline and a carriage return before
  it; no line after the last newline. A line of \<open>MaxScanTokenSize\<close> bytes does not fit the
  buffer and ends the scan.
\<close>

definition max_scan_token_size :: nat where
  "max_scan_token_size = 65536"

definition drop_cr :: "string \<Rightarrow> string" where
  "drop_cr s = (if s \<noteq> [] \<and> last s = CHR 0x0D then butlast s else s)"

definition raw_lines :: "string \<Rightarrow> string list" where
  "raw_lines s = (let ls = split_on (CHR 0x0A) s in if last ls = [] then butlast ls else ls)"

definition scan_lines :: "string \<Rightarrow> string list" where
  "scan_lines s = map drop_cr (takeWhile (\<lambda>l. length l < max_scan_token_size) (raw_lines s))"


section \<open>Facts on strings\<close>

lemma has_prefix_Nil [simp]: "has_prefix s []"
  by (simp add: has_prefix_def)

lemma has_prefix_iff_append: "has_prefix s p \<longleftrightarrow> (\<exists>t. s = p @ t)"
  by (metis append_eq_conv_conj append_take_drop_id has_prefix_def)

lemma has_suffix_iff_append: "has_suffix s p \<longleftrightarrow> (\<exists>t. s = t @ p)"
  by (metis has_prefix_iff_append has_suffix_def rev_append rev_rev_ident)

lemma str_index_Some:
  "str_index s p = Some i \<Longrightarrow> i + length p \<le> length s \<and> take (length p) (drop i s) = p"
proof (induction s p arbitrary: i rule: str_index.induct)
  case (2 c cs p)
  then show ?case
    by (auto simp: has_prefix_def split: if_splits)
      (metis length_Cons length_take min.bounded_iff nle_le)
qed (auto split: if_splits)

lemma str_index_None: "str_index s p = None \<Longrightarrow> s \<noteq> a @ p @ b"
proof (induction s p arbitrary: a rule: str_index.induct)
  case (2 c cs p)
  then show ?case
    by (cases a) (auto simp: has_prefix_iff_append split: if_splits)
qed (auto split: if_splits)

lemma split_on_nonempty [simp]: "split_on c s \<noteq> []"
  by (cases s) auto

lemma join_split [simp]: "str_join [c] (split_on c s) = s"
proof (induction s)
  case (Cons x xs)
  show ?case
    using Cons by (cases "split_on c xs"; cases "tl (split_on c xs)") auto
qed simp

lemma split_on_no_sep: "p \<in> set (split_on c s) \<Longrightarrow> c \<notin> set p"
proof (induction s arbitrary: p)
  case (Cons x xs)
  then show ?case
    by (cases "split_on c xs") (auto split: if_splits)
qed simp

lemma split_on_free: "c \<notin> set s \<Longrightarrow> split_on c s = [s]"
  by (induction s) auto

lemma split_on_append_sep: "c \<notin> set s \<Longrightarrow> split_on c (s @ c # t) = s # split_on c t"
  by (induction s) auto

lemma split_join:
  "xs \<noteq> [] \<Longrightarrow> (\<forall>x \<in> set xs. c \<notin> set x) \<Longrightarrow> split_on c (str_join [c] xs) = xs"
proof (induction "[c]" xs rule: str_join.induct)
  case (3 x y ys)
  then show ?case by (simp add: split_on_append_sep del: split_on.simps)
qed (auto simp: split_on_free)

lemma set_split_on: "p \<in> set (split_on c s) \<Longrightarrow> set p \<subseteq> set s"
proof (induction s arbitrary: p)
  case (Cons x xs)
  then show ?case
    by (cases "split_on c xs") (fastforce split: if_splits)+
qed simp

lemma set_split_on_conv: "set s - {c} = (\<Union>p \<in> set (split_on c s). set p)"
proof (induction s)
  case (Cons x xs)
  then show ?case
    by (cases "split_on c xs") (auto simp: insert_Diff_if)
qed simp

lemma length_split_on: "length (split_on c s) = Suc (count_list s c)"
proof (induction s)
  case (Cons x xs)
  then show ?case by (cases "split_on c xs") auto
qed simp

lemma split_on_append: "split_on c (s @ c # t) = split_on c s @ split_on c t"
proof (induction s)
  case (Cons a s)
  then show ?case by (cases "split_on c s") (auto dest: arg_cong [where f = length] simp: length_split_on)
qed simp

lemma set_str_join: "set (str_join sep ps) \<subseteq> set sep \<union> (\<Union>p \<in> set ps. set p)"
  by (induction sep ps rule: str_join.induct) auto

lemma str_join_append:
  "xs \<noteq> [] \<Longrightarrow> ys \<noteq> [] \<Longrightarrow> str_join sep (xs @ ys) = str_join sep xs @ sep @ str_join sep ys"
proof (induction sep xs rule: str_join.induct)
  case (2 sep x)
  then show ?case by (cases ys) auto
qed auto

section \<open>Facts on white space\<close>

lemma strip_runes_suffix: "\<exists>t. s = t @ strip_runes rs s"
proof (induction rs s rule: strip_runes.induct)
  case (1 rs s)
  show ?case
  proof (cases "rune_len rs s = 0")
    case True
    then show ?thesis by (simp add: strip_runes.simps [of rs s])
  next
    case False
    with 1 obtain t where "drop (rune_len rs s) s = t @ strip_runes rs (drop (rune_len rs s) s)"
      by blast
    then have "s = (take (rune_len rs s) s @ t) @ strip_runes rs (drop (rune_len rs s) s)"
      by (metis append.assoc append_take_drop_id)
    with False show ?thesis by (metis strip_runes.simps)
  qed
qed

lemma strip_runes_done: "rune_len rs (strip_runes rs s) = 0"
  by (induction rs s rule: strip_runes.induct) (subst strip_runes.simps, simp)

lemma strip_runes_idem [simp]: "strip_runes rs (strip_runes rs s) = strip_runes rs s"
  by (subst strip_runes.simps) (simp add: strip_runes_done)

lemma strip_runes_Nil [simp]: "strip_runes rs [] = []"
  by (metis Nil_is_append_conv strip_runes_suffix)

lemma trim_space_infix: "\<exists>a b. s = a @ trim_space s @ b"
proof -
  obtain a where a: "s = a @ trim_left s"
    using strip_runes_suffix by (metis trim_left_def)
  obtain b where "rev (trim_left s) = b @ strip_runes (map rev space_runes) (rev (trim_left s))"
    using strip_runes_suffix by blast
  then have "trim_left s = trim_right (trim_left s) @ rev b"
    by (metis rev_append rev_swap trim_right_def)
  with a show ?thesis by (metis trim_space_def)
qed

lemma set_trim_space: "set (trim_space s) \<subseteq> set s"
  by (metis Un_iff set_append subsetI trim_space_infix)

lemma trim_space_Nil [simp]: "trim_space [] = []"
  by (simp add: trim_space_def trim_left_def trim_right_def)

text \<open>A string without blanks or bytes above ASCII at its ends is left as it is.\<close>

definition plain_char :: "char \<Rightarrow> bool" where
  "plain_char c \<longleftrightarrow> 33 \<le> byte_of c \<and> byte_of c \<le> 126"

lemma byte_of_char_of [simp]: "n < 256 \<Longrightarrow> byte_of (char_of n) = n"
  by (simp add: byte_of_def)

lemma space_runes_ends:
  "list_all (\<lambda>r. r \<noteq> [] \<and> \<not> plain_char (hd r) \<and> \<not> plain_char (last r)) space_runes"
  by (simp add: space_runes_def plain_char_def)

lemma rune_len_no_prefix: "(\<And>r. r \<in> set rs \<Longrightarrow> \<not> has_prefix s r) \<Longrightarrow> rune_len rs s = 0"
  by (auto simp: rune_len_def find_Some_iff split: option.splits)

lemma rune_len_plain:
  assumes "plain_char c"
  shows "rune_len space_runes (c # cs) = 0" and "rune_len (map rev space_runes) (c # cs) = 0"
proof -
  have ends: "r \<noteq> [] \<and> hd r \<noteq> c \<and> last r \<noteq> c" if "r \<in> set space_runes" for r
    using space_runes_ends assms that by (auto simp: list_all_iff)
  then show "rune_len space_runes (c # cs) = 0"
    by (intro rune_len_no_prefix) (metis has_prefix_iff_append hd_append2 list.sel(1))
  from ends show "rune_len (map rev space_runes) (c # cs) = 0"
    by (intro rune_len_no_prefix)
      (auto simp: has_prefix_iff_append, metis hd_append2 hd_rev list.sel(1) rev_is_Nil_conv)
qed

lemma trim_space_plain:
  assumes "s \<noteq> []" and "plain_char (hd s)" and "plain_char (last s)"
  shows "trim_space s = s"
proof -
  from assms obtain c cs where s: "s = c # cs" by (cases s) auto
  from assms obtain d ds where r: "rev s = d # ds" and d: "plain_char d"
    by (metis hd_rev list.exhaust_sel rev_is_Nil_conv)
  have "trim_left s = s"
    using assms s by (simp add: trim_left_def strip_runes.simps [of space_runes "c # cs"] rune_len_plain)
  moreover have "trim_right s = s"
    using r d by (simp add: trim_right_def strip_runes.simps rune_len_plain)
  ultimately show ?thesis by (simp add: trim_space_def)
qed

section \<open>Facts on decimal numbers\<close>

definition dec_val_from :: "nat \<Rightarrow> string \<Rightarrow> nat" where
  "dec_val_from acc s = foldl (\<lambda>a c. a * 10 + digit_val c) acc s"

definition dec_val :: "string \<Rightarrow> nat" where
  "dec_val s = dec_val_from 0 s"

definition is_number :: "string \<Rightarrow> bool" where
  "is_number s \<longleftrightarrow> s \<noteq> [] \<and> list_all is_digit s"

lemma dec_val_from_ge: "acc \<le> dec_val_from acc s"
  unfolding dec_val_from_def
proof (induction s arbitrary: acc)
  case (Cons c cs)
  have "acc \<le> acc * 10 + digit_val c" by simp
  also have "\<dots> \<le> foldl (\<lambda>a c. a * 10 + digit_val c) (acc * 10 + digit_val c) cs" by (rule Cons)
  finally show ?case by simp
qed simp

lemma dec_val_from_Cons: "dec_val_from acc (c # cs) = dec_val_from (acc * 10 + digit_val c) cs"
  by (simp add: dec_val_from_def)

lemma parse_uint_from_digits:
  "list_all is_digit s \<Longrightarrow> acc \<le> bound \<Longrightarrow>
   parse_uint_from bound acc s =
     (if dec_val_from acc s \<le> bound then Inr (dec_val_from acc s) else Inl ErrRange)"
proof (induction s arbitrary: acc)
  case (Cons c cs)
  show ?case
  proof (cases "acc * 10 + digit_val c \<le> bound")
    case True
    with Cons show ?thesis by (simp add: dec_val_from_Cons Let_def)
  next
    case False
    then have "\<not> dec_val_from acc (c # cs) \<le> bound"
      by (metis dec_val_from_Cons dec_val_from_ge le_trans)
    with False Cons.prems show ?thesis by (simp add: Let_def)
  qed
qed (simp add: dec_val_from_def)

lemma parse_uint_from_ok_digits: "parse_uint_from bound acc s = Inr n \<Longrightarrow> list_all is_digit s"
  by (induction bound acc s rule: parse_uint_from.induct) (auto simp: Let_def split: if_splits)

lemma number_hd_no_sign:
  "is_number s \<Longrightarrow> hd s \<noteq> CHR ''-'' \<and> hd s \<noteq> CHR ''+''"
  by (cases s) (auto simp: is_number_def is_digit_def byte_of_def)

lemma parse_int_number:
  assumes "is_number s" and "0 < bits"
  shows "parse_int bits s =
    (if dec_val s < 2 ^ (bits - 1) then Inr (int (dec_val s)) else Inl ErrRange)"
proof -
  have pow: "(2 :: nat) ^ (bits - 1) \<le> 2 ^ bits - 1"
    using assms(2) by (cases bits) simp_all
  from assms(1) have "s \<noteq> []" and "list_all is_digit s"
    by (simp_all add: is_number_def)
  then show ?thesis
    using number_hd_no_sign [OF assms(1)] pow
    by (auto simp: parse_int_def parse_uint_def Let_def parse_uint_from_digits dec_val_def)
qed

lemma digit_char_digit [simp]: "d < 10 \<Longrightarrow> is_digit (digit_char d)"
  by (simp add: is_digit_def digit_char_def)

lemma digit_val_char [simp]: "d < 10 \<Longrightarrow> digit_val (digit_char d) = d"
  by (simp add: digit_val_def digit_char_def)

lemma format_nat_number: "is_number (format_nat n)"
proof (induction n rule: format_nat.induct)
  case (1 n)
  then show ?case
    by (cases "n < 10") (simp_all add: format_nat.simps [of n] is_number_def)
qed

lemma number_no_sep: "is_number s \<Longrightarrow> \<not> is_digit c \<Longrightarrow> c \<notin> set s"
  by (auto simp: is_number_def list_all_iff)

lemma format_nat_no_sep [simp]: "\<not> is_digit c \<Longrightarrow> c \<notin> set (format_nat n)"
  by (rule number_no_sep [OF format_nat_number])

lemma dec_val_append: "dec_val (s @ [c]) = dec_val s * 10 + digit_val c"
  by (simp add: dec_val_def dec_val_from_def)

lemma dec_val_format_nat [simp]: "dec_val (format_nat n) = n"
proof (induction n rule: format_nat.induct)
  case (1 n)
  show ?case
  proof (cases "n < 10")
    case True
    then show ?thesis
      by (simp add: format_nat.simps [of n] dec_val_def dec_val_from_def)
  next
    case False
    with 1 show ?thesis by (simp add: format_nat.simps [of n] dec_val_append)
  qed
qed

lemma format_nat_hd_pos: "0 < n \<Longrightarrow> hd (format_nat n) \<noteq> CHR ''0''"
proof (induction n rule: format_nat.induct)
  case (1 n)
  show ?case
  proof (cases "n < 10")
    case True
    with 1 have "byte_of (digit_char n) \<noteq> byte_of (CHR ''0'')"
      by (simp add: digit_char_def) (simp add: byte_of_def)
    then have "digit_char n \<noteq> CHR ''0''" by auto
    with True show ?thesis by (simp add: format_nat.simps [of n])
  next
    case False
    then have "0 < n div 10" by auto
    with 1 False have "hd (format_nat (n div 10)) \<noteq> CHR ''0''" by simp
    moreover have "format_nat (n div 10) \<noteq> []"
      using format_nat_number by (auto simp: is_number_def)
    ultimately show ?thesis using False by (simp add: format_nat.simps [of n])
  qed
qed

lemma parse_format_int32: "parse_int 32 (format_int32 w) = Inr (sint w)" if "0 \<le> sint w"
proof -
  from that sint_bounds32(2) [of w] have "nat (sint w) < 2 ^ 31" by simp
  with that show ?thesis
    by (simp add: format_int32_def format_int_def parse_int_number format_nat_number)
qed

text \<open>The equations that evaluate the layer on closed strings.\<close>

lemmas [go_simps] =
  byte_of_def is_digit_def is_upper_def is_lower_def is_word_def is_re_space_def
  has_prefix_def has_suffix_def str_contains_def to_lower_def to_lower_char_def equal_fold_def
  parse_int_def parse_uint_def digit_val_def is_number_def

end
