(* ===== verification/ArrayIndexes.thy ===== *)
theory ArrayIndexes
  imports GoStd
begin

text \<open>
  \<open>pkg/parser/array_indexes.go\<close>: the value of Slurm's \<open>--array\<close> flag, a list of indexes or a
  range with a step or a parallelism. Indexes are Go \<open>int32\<close> values. The loop of
  \<open>parseRangeIndexes\<close> adds the step with wrap-around and may never end, so its result is an
  option in which \<open>None\<close> is "does not return".
\<close>

section \<open>Model\<close>

datatype array_error = InvalidArrayFlagFormat

record array_indexes =
  Indexes :: "int32 list"
  Step :: "int32 option"
  Parallelism :: "int32 option"

definition ArrayIndexes_Count :: "array_indexes \<Rightarrow> nat" where
  "ArrayIndexes_Count ai = length (Indexes ai)"

text \<open>\<open>slices.Min\<close> and \<open>slices.Max\<close> panic on an empty slice: \<open>None\<close>.\<close>

definition ArrayIndexes_Min :: "array_indexes \<Rightarrow> int32 option" where
  "ArrayIndexes_Min ai =
     (case Indexes ai of [] \<Rightarrow> None
      | x # xs \<Rightarrow> Some (fold (\<lambda>y m. if y <s m then y else m) xs x))"

definition ArrayIndexes_Max :: "array_indexes \<Rightarrow> int32 option" where
  "ArrayIndexes_Max ai =
     (case Indexes ai of [] \<Rightarrow> None
      | x # xs \<Rightarrow> Some (fold (\<lambda>y m. if m <s y then y else m) xs x))"

text \<open>A number whose first digit is not zero: \<open>[1-9]\d*\<close>.\<close>

definition is_pos_number :: "string \<Rightarrow> bool" where
  "is_pos_number s \<longleftrightarrow> is_number s \<and> hd s \<noteq> CHR ''0''"

text \<open>\<open>^[0-9]\d*(,[1-9]\d*)*$\<close>\<close>

definition commaIndexesRegex :: "string \<Rightarrow> bool" where
  "commaIndexesRegex s =
     (let ps = split_on (CHR '','') s in is_number (hd ps) \<and> list_all is_pos_number (tl ps))"

text \<open>
  \<open>(^[0-9]\d*-[1-9]\d*)(([:%])([1-9]\d*))?$\<close>: the submatches 1, 3 and 4. The digits before a
  separator are followed by a byte that is no digit, so taking all of them is the only match.
\<close>

definition rangeIndexesRegex :: "string \<Rightarrow> (string \<times> string \<times> string) option" where
  "rangeIndexesRegex s =
     (let a = takeWhile is_digit s; r = dropWhile is_digit s
      in if a = [] \<or> r = [] \<or> hd r \<noteq> CHR ''-'' then None
         else
           let b = takeWhile is_digit (tl r); q = dropWhile is_digit (tl r)
           in if \<not> is_pos_number b then None
              else if q = [] then Some (a @ CHR ''-'' # b, [], [])
              else if (hd q = CHR '':'' \<or> hd q = CHR ''%'') \<and> is_pos_number (tl q)
                then Some (a @ CHR ''-'' # b, [hd q], tl q)
              else None)"

text \<open>\<open>for i := int32(from); i <= int32(to); i += *step { indexes = append(indexes, i) }\<close>\<close>

partial_function (option) range_loop ::
  "int32 \<Rightarrow> int32 \<Rightarrow> int32 \<Rightarrow> int32 list \<Rightarrow> int32 list option" where
  "range_loop i lim step acc =
     (if i \<le>s lim then range_loop (i + step) lim step (acc @ [i]) else Some acc)"

definition parseRangeIndexes :: "string \<Rightarrow> int32 option \<Rightarrow> (array_error + int32 list) option" where
  "parseRangeIndexes str stp =
     (let step = deref stp 1
      in if step \<le>s 0 then Some (Inl InvalidArrayFlagFormat)
         else case split_on (CHR ''-'') str of
           [p0, p1] \<Rightarrow>
             (case parse_int 32 p0 of
               Inl e \<Rightarrow> Some (Inl InvalidArrayFlagFormat)
             | Inr from \<Rightarrow>
                 (case parse_int 32 p1 of
                   Inl e \<Rightarrow> Some (Inl InvalidArrayFlagFormat)
                 | Inr lim \<Rightarrow>
                     if from > lim then Some (Inl InvalidArrayFlagFormat)
                     else map_option Inr (range_loop (word_of_int from) (word_of_int lim) step [])))
         | _ \<Rightarrow> Some (Inl InvalidArrayFlagFormat))"

text \<open>
  The set of \<open>parseCommaSeparatedIndexes\<close> is the list of its elements in the order of their
  insertion. \<open>UnsortedList\<close> may return another order, but its only caller sorts the result.
\<close>

fun comma_loop :: "int32 \<Rightarrow> int32 list \<Rightarrow> string list \<Rightarrow> array_error + int32 list" where
  "comma_loop maxValue seen [] = Inr seen"
| "comma_loop maxValue seen (x # xs) =
     (case parse_int 32 x of
       Inl e \<Rightarrow> Inl InvalidArrayFlagFormat
     | Inr num \<Rightarrow>
         let index = word_of_int num
         in if index <s maxValue then Inl InvalidArrayFlagFormat
            else if index \<in> set seen then Inl InvalidArrayFlagFormat
            else comma_loop index (seen @ [index]) xs)"

definition parseCommaSeparatedIndexes :: "string \<Rightarrow> array_error + int32 list" where
  "parseCommaSeparatedIndexes str = comma_loop (- 1) [] (split_on (CHR '','') str)"

text \<open>The tail of \<open>ParseArrayIndexes\<close>: return the error, or sort and fill the struct.\<close>

definition finish_indexes ::
  "int32 option \<Rightarrow> int32 option \<Rightarrow> array_error + int32 list \<Rightarrow> array_error + array_indexes" where
  "finish_indexes step parallelism r =
     (case r of
       Inl e \<Rightarrow> Inl e
     | Inr is \<Rightarrow> Inr \<lparr>Indexes = sort_key sint is, Step = step, Parallelism = parallelism\<rparr>)"

definition ParseArrayIndexes :: "string \<Rightarrow> (array_error + array_indexes) option" where
  "ParseArrayIndexes str =
     (if commaIndexesRegex str
      then Some (finish_indexes None None (parseCommaSeparatedIndexes str))
      else case rangeIndexesRegex str of
        None \<Rightarrow> Some (Inl InvalidArrayFlagFormat)
      | Some (m1, m3, m4) \<Rightarrow>
          (case (if m4 \<noteq> [] then parse_int 32 m4 else Inr 0) of
            Inl e \<Rightarrow> Some (Inl InvalidArrayFlagFormat)
          | Inr num \<Rightarrow>
              let step = (if m3 = '':'' then Some (word_of_int num) else None);
                  parallelism = (if m3 = ''%'' then Some (word_of_int num) else None)
              in map_option (finish_indexes step parallelism) (parseRangeIndexes m1 step)))"

section \<open>The range loop\<close>

text \<open>Reference: the integers from \<open>a\<close> to \<open>b\<close> that are \<open>a\<close> modulo the step, ascending.\<close>

definition progression :: "int \<Rightarrow> int \<Rightarrow> int \<Rightarrow> int32 list" where
  "progression a b s = map word_of_int (filter (\<lambda>j. (j - a) mod s = 0) [a..b])"

lemma progression_empty: "b < a \<Longrightarrow> progression a b s = []"
  by (simp add: progression_def)

lemma progression_step:
  assumes "0 < s" and "a \<le> b"
  shows "progression a b s = word_of_int a # progression (a + s) b s"
proof -
  let ?P = "\<lambda>j. (j - a) mod s = 0"
  have split: "[a..b] = a # [a + 1..min b (a + s - 1)] @ [a + s..b]"
  proof (cases "a + s \<le> b")
    case True
    then have "[a + 1..b] = [a + 1..a + s - 1] @ [a + s..b]"
      using upto_split1 [of "a + 1" "a + s" b] assms(1) by simp
    with True assms show ?thesis by (simp add: upto_rec1 min_def)
  next
    case False
    with assms show ?thesis by (simp add: upto_rec1 min_def)
  qed
  have "filter ?P [a + 1..min b (a + s - 1)] = []"
    using assms(1) by (auto simp: filter_empty_conv)
  moreover have "filter ?P [a + s..b] = filter (\<lambda>j. (j - (a + s)) mod s = 0) [a + s..b]"
    by (intro filter_cong) (auto simp: diff_diff_eq [symmetric])
  ultimately show ?thesis by (simp add: progression_def split)
qed

lemma range_loop_progression:
  assumes "0 < sint step" and "fits32 (sint lim + sint step)"
    and "fits32 i" and "i \<le> sint lim + sint step"
  shows "range_loop (word_of_int i) lim step acc = Some (acc @ progression i (sint lim) (sint step))"
  using assms(3,4)
proof (induction "nat (sint lim + sint step - i)" arbitrary: i acc rule: less_induct)
  case less
  have i: "sint (word_of_int i :: int32) = i" using less.prems(1) by (rule sint_of_int32)
  show ?case
  proof (cases "i \<le> sint lim")
    case True
    have fit: "fits32 (i + sint step)"
      using True less.prems assms(1,2) by (auto simp: fits32_def)
    have w: "word_of_int i + step = word_of_int (i + sint step)"
      by (simp add: word_of_int_eq_iff [symmetric] wi_hom_add [symmetric])
    have "range_loop (word_of_int (i + sint step)) lim step (acc @ [word_of_int i]) =
        Some ((acc @ [word_of_int i]) @ progression (i + sint step) (sint lim) (sint step))"
      using True assms(1) fit by (intro less.hyps) auto
    with True i w assms(1) show ?thesis
      by (simp add: range_loop.simps [of "word_of_int i"] word_sle_eq progression_step)
  next
    case False
    with i show ?thesis
      by (simp add: range_loop.simps [of "word_of_int i"] word_sle_eq progression_empty)
  qed
qed

lemma range_loop_diverges: "range_loop i 2147483647 step acc = None"
proof (rule ccontr)
  assume "range_loop i 2147483647 step acc \<noteq> None"
  then obtain r where ret: "range_loop i 2147483647 step acc = Some r" by blast
  have "(2147483647 :: int32) \<noteq> 2147483647"
  proof (rule range_loop.raw_induct [where P = "\<lambda>i lim step acc r. lim \<noteq> 2147483647", OF _ ret])
    fix f :: "int32 \<Rightarrow> int32 \<Rightarrow> int32 \<Rightarrow> int32 list \<Rightarrow> int32 list option"
      and i lim step :: int32 and acc r :: "int32 list"
    assume IH: "\<And>i lim step acc r. f i lim step acc = Some r \<Longrightarrow> lim \<noteq> 2147483647"
      and eq: "(if i \<le>s lim then f (i + step) lim step (acc @ [i]) else Some acc) = Some r"
    show "lim \<noteq> 2147483647"
    proof
      assume "lim = 2147483647"
      then have "i \<le>s lim" using sint_bounds32(2) [of i] by (simp add: word_sle_eq)
      with eq have "f (i + step) lim step (acc @ [i]) = Some r" by simp
      then have "lim \<noteq> 2147483647" by (rule IH)
      with \<open>lim = 2147483647\<close> show False by simp
    qed
  qed
  then show False by simp
qed

lemma range_loop_extends: "range_loop i lim step acc = Some r \<Longrightarrow> \<exists>t. r = acc @ t"
proof -
  assume ret: "range_loop i lim step acc = Some r"
  show ?thesis
  proof (rule range_loop.raw_induct [where P = "\<lambda>i lim step acc r. \<exists>t. r = acc @ t", OF _ ret])
    fix f :: "int32 \<Rightarrow> int32 \<Rightarrow> int32 \<Rightarrow> int32 list \<Rightarrow> int32 list option"
      and i lim step :: int32 and acc r :: "int32 list"
    assume "\<And>i lim step acc r. f i lim step acc = Some r \<Longrightarrow> \<exists>t. r = acc @ t"
      and "(if i \<le>s lim then f (i + step) lim step (acc @ [i]) else Some acc) = Some r"
    then show "\<exists>t. r = acc @ t" by (fastforce split: if_splits)
  qed
qed


section \<open>The regular expressions on printed values\<close>

lemma sep_no_digit [simp]:
  "\<not> is_digit (CHR ''-'')" "\<not> is_digit (CHR '','')" "\<not> is_digit (CHR '':'')" "\<not> is_digit (CHR ''%'')"
  by (simp_all add: is_digit_def byte_of_def)

lemma takeWhile_number:
  "is_number a \<Longrightarrow> \<not> is_digit c \<Longrightarrow> takeWhile is_digit (a @ c # r) = a"
  "is_number a \<Longrightarrow> \<not> is_digit c \<Longrightarrow> dropWhile is_digit (a @ c # r) = c # r"
  "is_number a \<Longrightarrow> takeWhile is_digit a = a"
  "is_number a \<Longrightarrow> dropWhile is_digit a = []"
  by (simp_all add: is_number_def list_all_iff takeWhile_append2 dropWhile_append2)

lemma is_pos_numberD: "is_pos_number s \<Longrightarrow> is_number s"
  by (simp add: is_pos_number_def)

lemma not_comma_range:
  assumes "is_number a" and "CHR '','' \<notin> set r"
  shows "\<not> commaIndexesRegex (a @ CHR ''-'' # r)"
proof -
  have "CHR '','' \<notin> set (a @ CHR ''-'' # r)"
    using assms number_no_sep [OF assms(1), of "CHR '',''"] by auto
  then have "split_on (CHR '','') (a @ CHR ''-'' # r) = [a @ CHR ''-'' # r]"
    by (rule split_on_free)
  moreover have "\<not> is_number (a @ CHR ''-'' # r)" by (simp add: is_number_def)
  ultimately show ?thesis by (simp add: commaIndexesRegex_def)
qed

lemma rangeIndexesRegex_plain:
  assumes "is_number a" and "is_pos_number b"
  shows "rangeIndexesRegex (a @ CHR ''-'' # b) = Some (a @ CHR ''-'' # b, [], [])"
  using assms is_pos_numberD [OF assms(2)]
  by (simp add: rangeIndexesRegex_def takeWhile_number Let_def) (simp add: is_number_def)

lemma rangeIndexesRegex_sep:
  assumes "is_number a" and "is_pos_number b" and "is_pos_number n"
    and "sep = CHR '':'' \<or> sep = CHR ''%''"
  shows "rangeIndexesRegex (a @ CHR ''-'' # b @ sep # n) = Some (a @ CHR ''-'' # b, [sep], n)"
  using assms is_pos_numberD [OF assms(2)]
  by (auto simp: rangeIndexesRegex_def takeWhile_number Let_def) (simp_all add: is_number_def)

lemma parseRangeIndexes_number:
  assumes "is_number a" and "is_number b" and "dec_val a \<le> dec_val b" and "dec_val b < 2 ^ 31"
    and "0 < sint (deref stp 1)"
  shows "parseRangeIndexes (a @ CHR ''-'' # b) stp =
    map_option Inr (range_loop (word_of_int (int (dec_val a))) (word_of_int (int (dec_val b))) (deref stp 1) [])"
proof -
  have "split_on (CHR ''-'') (a @ CHR ''-'' # b) = [a, b]"
    using number_no_sep [OF assms(1)] number_no_sep [OF assms(2)]
    by (simp add: split_on_append_sep split_on_free)
  with assms show ?thesis
    by (simp add: parseRangeIndexes_def parse_int_number Let_def word_sle_eq)
qed

lemma parseRangeIndexes_progression:
  assumes "is_number a" and "is_number b" and "dec_val a \<le> dec_val b"
    and "0 < sint (deref stp 1)" and "int (dec_val b) + sint (deref stp 1) \<le> max_int32"
  shows "parseRangeIndexes (a @ CHR ''-'' # b) stp =
    Some (Inr (progression (int (dec_val a)) (int (dec_val b)) (sint (deref stp 1))))"
proof -
  have b: "dec_val b < 2 ^ 31" using assms(4,5) by simp
  have sb: "sint (word_of_int (int (dec_val b)) :: int32) = int (dec_val b)"
    using b by (intro sint_of_int32) (simp add: fits32_def)
  have "range_loop (word_of_int (int (dec_val a))) (word_of_int (int (dec_val b))) (deref stp 1) [] =
      Some ([] @ progression (int (dec_val a)) (sint (word_of_int (int (dec_val b)) :: int32)) (sint (deref stp 1)))"
    using assms sb by (intro range_loop_progression) (auto simp: fits32_def)
  with assms b sb show ?thesis by (simp add: parseRangeIndexes_number)
qed

lemma sorted_progression:
  assumes "0 \<le> a" and "b \<le> max_int32"
  shows "sort_key sint (progression a b s) = progression a b s"
proof -
  have "map sint (progression a b s) = filter (\<lambda>j. (j - a) mod s = 0) [a..b]"
    unfolding progression_def map_map
    by (rule map_idI) (use assms in \<open>auto simp: fits32_def sint_of_int32\<close>)
  moreover have "sorted (filter (\<lambda>j. (j - a) mod s = 0) [a..b])"
    by (simp add: sorted_wrt_filter)
  ultimately show ?thesis by (simp add: sort_key_id_if_sorted)
qed

section \<open>The comma-separated form\<close>

lemma comma_loop_numbers:
  assumes "list_all is_number ps" and "\<forall>x \<in> set seen. sint x \<le> sint m"
    and "m \<in> set seen \<or> (seen = [] \<and> m = - 1)"
  shows "comma_loop m seen ps =
    (if (\<forall>p \<in> set ps. dec_val p < 2 ^ 31) \<and> sorted_wrt (<) (sint m # map (\<lambda>p. int (dec_val p)) ps)
     then Inr (seen @ map (\<lambda>p. word_of_nat (dec_val p)) ps) else Inl InvalidArrayFlagFormat)"
  using assms
proof (induction ps arbitrary: m seen)
  case (Cons p ps)
  show ?case
  proof (cases "dec_val p < 2 ^ 31")
    case True
    let ?w = "word_of_nat (dec_val p) :: int32"
    have w: "sint ?w = int (dec_val p)"
      using True by simp
    have parse: "parse_int 32 p = Inr (int (dec_val p))"
      using Cons.prems(1) True by (simp add: parse_int_number)
    show ?thesis
    proof (cases "sint m < int (dec_val p)")
      case less: True
      have new: "?w \<notin> set seen" using Cons.prems(2) less w by force
      have "comma_loop ?w (seen @ [?w]) ps =
        (if (\<forall>p \<in> set ps. dec_val p < 2 ^ 31) \<and> sorted_wrt (<) (sint ?w # map (\<lambda>p. int (dec_val p)) ps)
         then Inr ((seen @ [?w]) @ map (\<lambda>p. word_of_nat (dec_val p)) ps) else Inl InvalidArrayFlagFormat)"
        using Cons.prems less w by (intro Cons.IH) auto
      with less new parse w True show ?thesis
        by (auto simp: Let_def word_sless_alt)
    next
      case False
      have "?w <s m \<or> ?w \<in> set seen"
      proof (cases "sint m = int (dec_val p)")
        case True
        then have "(word_of_int (sint ?w) :: int32) = word_of_int (sint m)" using w by simp
        then have "?w = m" by simp
        moreover have "m \<noteq> - 1" using True by auto
        ultimately show ?thesis using Cons.prems(3) by auto
      next
        case neq: False
        with False w show ?thesis by (simp add: word_sless_alt)
      qed
      with False parse show ?thesis by (auto simp: Let_def)
    qed
  next
    case False
    with Cons.prems(1) show ?thesis by (auto simp: parse_int_number)
  qed
qed simp

lemma parseCommaSeparatedIndexes_eq:
  assumes "commaIndexesRegex s"
  shows "parseCommaSeparatedIndexes s =
    (if (\<forall>p \<in> set (split_on (CHR '','') s). dec_val p < 2 ^ 31)
        \<and> sorted_wrt (<) (map dec_val (split_on (CHR '','') s))
     then Inr (map (\<lambda>p. word_of_nat (dec_val p)) (split_on (CHR '','') s))
     else Inl InvalidArrayFlagFormat)"
proof -
  have "list_all is_number (split_on (CHR '','') s)"
    using assms by (cases "split_on (CHR '','') s")
      (auto simp: commaIndexesRegex_def list_all_iff dest: is_pos_numberD)
  then show ?thesis
    by (simp add: parseCommaSeparatedIndexes_def comma_loop_numbers sorted_wrt_map)
qed

lemma comma_indexes_sorted:
  assumes "\<forall>n \<in> set ns. n < 2 ^ 31" and "sorted_wrt (<) ns"
  shows "sort_key sint (map word_of_nat ns :: int32 list) = map word_of_nat ns"
proof -
  have "map sint (map word_of_nat ns :: int32 list) = map int ns"
    using assms(1) by simp
  moreover have "sorted (map int ns)"
    using strict_sorted_imp_sorted [OF assms(2)] by (simp add: sorted_map)
  ultimately show ?thesis by (metis sort_key_id_if_sorted)
qed


section \<open>Properties\<close>

text \<open>The definitions that evaluate the parser on a closed string.\<close>

lemmas array_eval = ParseArrayIndexes_def commaIndexesRegex_def rangeIndexesRegex_def is_pos_number_def
  parseCommaSeparatedIndexes_def finish_indexes_def word_sless_alt

lemma commaIndexesRegex_join:
  assumes "ns \<noteq> []" and "sorted_wrt (<) ns"
  shows "commaIndexesRegex (str_join '','' (map format_nat ns))"
    and "split_on (CHR '','') (str_join '','' (map format_nat ns)) = map format_nat ns"
proof -
  show split: "split_on (CHR '','') (str_join '','' (map format_nat ns)) = map format_nat ns"
    using assms(1) format_nat_number by (intro split_join) auto
  obtain m ms where ns: "ns = m # ms" using assms(1) by (cases ns) auto
  with assms(2) have "\<forall>n \<in> set ms. 0 < n" by auto
  then have "list_all is_pos_number (map format_nat ms)"
    by (auto simp: list_all_iff is_pos_number_def format_nat_number format_nat_hd_pos)
  with split ns show "commaIndexesRegex (str_join '','' (map format_nat ns))"
    by (simp add: commaIndexesRegex_def format_nat_number)
qed

lemma parse_int_fits32: "parse_int 32 s = Inr v \<Longrightarrow> fits32 v"
  by (auto simp: parse_int_def fits32_def Let_def split: if_splits)

lemma range_loop_nonempty:
  "i \<le>s lim \<Longrightarrow> range_loop i lim step [] = Some r \<Longrightarrow> r \<noteq> []"
  by (subst (asm) range_loop.simps) (auto dest: range_loop_extends)

lemma parseRangeIndexes_nonempty: "parseRangeIndexes s stp = Some (Inr is) \<Longrightarrow> is \<noteq> []"
  by (auto simp: parseRangeIndexes_def Let_def word_sle_eq sint_of_int32 parse_int_fits32
      split: if_splits list.splits sum.splits dest!: range_loop_nonempty [rotated])

lemma comma_loop_extends: "comma_loop m seen ps = Inr is \<Longrightarrow> length is = length seen + length ps"
  by (induction m seen ps rule: comma_loop.induct)
    (auto simp: Let_def split: sum.splits if_splits)

lemma finish_indexes_Inr:
  "finish_indexes st par r = Inr ai \<longleftrightarrow>
   (\<exists>is. r = Inr is \<and> ai = \<lparr>Indexes = sort_key sint is, Step = st, Parallelism = par\<rparr>)"
  by (auto simp: finish_indexes_def split: sum.splits)

lemma ParseArrayIndexes_sorted_nonempty:
  assumes "ParseArrayIndexes s = Some (Inr ai)"
  shows "Indexes ai \<noteq> [] \<and> sorted (map sint (Indexes ai))"
proof -
  obtain "is" st par where ai: "ai = \<lparr>Indexes = sort_key sint is, Step = st, Parallelism = par\<rparr>"
    and ne: "is \<noteq> []"
  proof (cases "commaIndexesRegex s")
    case True
    with assms obtain "is" where i: "parseCommaSeparatedIndexes s = Inr is"
      and "ai = \<lparr>Indexes = sort_key sint is, Step = None, Parallelism = None\<rparr>"
      by (auto simp: ParseArrayIndexes_def finish_indexes_Inr)
    moreover have "is \<noteq> []"
      using comma_loop_extends [OF i [unfolded parseCommaSeparatedIndexes_def]] by auto
    ultimately show ?thesis by (rule_tac that)
  next
    case False
    with assms show ?thesis
      by (auto simp: ParseArrayIndexes_def finish_indexes_Inr Let_def
          split: option.splits sum.splits dest!: parseRangeIndexes_nonempty intro: that)
  qed
  have "length (sort_key sint is) = length is" by simp
  with ai ne show ?thesis by (auto simp flip: length_greater_0_conv)
qed

lemma fold_min_sorted:
  "sorted (map sint (x # xs)) \<Longrightarrow> fold (\<lambda>y m. if y <s m then y else m) xs x = (x :: int32)"
  by (induction xs) (auto simp: word_sless_alt)

lemma fold_max_sorted:
  "sorted (map sint (x # xs)) \<Longrightarrow> fold (\<lambda>y m. if m <s y then y else m) xs x = last (x # xs :: int32 list)"
proof (induction xs arbitrary: x)
  case (Cons y ys)
  have "\<not> x <s y \<Longrightarrow> x = y"
    using Cons.prems by (auto simp: word_sless_alt intro: signed_word_eqI)
  with Cons show ?case by auto
qed simp
text \<open>
  C29. A range \<open>from-to:step\<close>, printed from numbers with a positive step, parses to exactly the
  indexes between \<open>from\<close> and \<open>to\<close> that are \<open>from\<close> modulo the step, in ascending order, as long as
  \<open>to + step\<close> is an \<open>int32\<close>; the step is recorded and there is no parallelism.
\<close>

theorem ParseArrayIndexes_range_step:
  assumes "from \<le> lim" and "0 < lim" and "0 < step" and "lim + step \<le> 2147483647"
  shows "ParseArrayIndexes (format_nat from @ ''-'' @ format_nat lim @ '':'' @ format_nat step) =
    Some (Inr \<lparr>Indexes = progression (int from) (int lim) (int step),
               Step = Some (word_of_nat step), Parallelism = None\<rparr>)"
proof -
  let ?s = "format_nat from @ CHR ''-'' # format_nat lim @ CHR '':'' # format_nat step"
  have pos: "is_pos_number (format_nat lim)" "is_pos_number (format_nat step)"
    using assms by (simp_all add: is_pos_number_def format_nat_number format_nat_hd_pos)
  have "\<not> commaIndexesRegex ?s"
    using format_nat_number by (intro not_comma_range) auto
  moreover have "rangeIndexesRegex ?s = Some (format_nat from @ CHR ''-'' # format_nat lim, '':'', format_nat step)"
    using pos format_nat_number by (simp add: rangeIndexesRegex_sep)
  moreover have "parseRangeIndexes (format_nat from @ CHR ''-'' # format_nat lim) (Some (word_of_nat step)) =
      Some (Inr (progression (int from) (int lim) (int step)))"
    using assms parseRangeIndexes_progression [of "format_nat from" "format_nat lim" "Some (word_of_nat step)"]
    by (simp add: format_nat_number)
  moreover have "format_nat step \<noteq> []" using format_nat_number [of step] by (auto simp: is_number_def)
  ultimately show ?thesis
    using assms
    by (simp add: ParseArrayIndexes_def finish_indexes_def parse_int_number format_nat_number
        sorted_progression)
qed

theorem ParseArrayIndexes_range_step_witness:
  "ParseArrayIndexes (format_nat 3 @ ''-'' @ format_nat 9 @ '':'' @ format_nat 3) =
    Some (Inr \<lparr>Indexes = [3, 6, 9], Step = Some 3, Parallelism = None\<rparr>)"
proof -
  have "progression 3 9 3 = [3, 6, 9]" by code_simp
  then show ?thesis using ParseArrayIndexes_range_step [of 3 9 3] by simp
qed

text \<open>
  C40. A range that ends at the largest index the command line documents, 2147483647, never
  returns: the loop counter wraps around and stays below the bound.
\<close>

theorem ParseArrayIndexes_max_index_diverges:
  assumes "from \<le> 2147483647"
  shows "ParseArrayIndexes (format_nat from @ ''-2147483647'') = None"
proof -
  let ?b = "''2147483647''"
  have b: "is_pos_number ?b" "dec_val ?b = 2147483647"
    by (simp_all add: is_pos_number_def is_number_def is_digit_def byte_of_def dec_val_def
        dec_val_from_def digit_val_def)
  have "\<not> commaIndexesRegex (format_nat from @ CHR ''-'' # ?b)"
    using format_nat_number by (intro not_comma_range) auto
  moreover have "rangeIndexesRegex (format_nat from @ CHR ''-'' # ?b) =
      Some (format_nat from @ CHR ''-'' # ?b, [], [])"
    using b(1) format_nat_number by (intro rangeIndexesRegex_plain)
  moreover have "parseRangeIndexes (format_nat from @ CHR ''-'' # ?b) None = None"
    using assms b is_pos_numberD [OF b(1)]
    by (subst parseRangeIndexes_number) (simp_all add: format_nat_number range_loop_diverges)
  ultimately show ?thesis by (simp add: ParseArrayIndexes_def)
qed

theorem ParseArrayIndexes_max_index_diverges_witness:
  "ParseArrayIndexes (format_nat 0 @ ''-2147483647'') = None"
  by (rule ParseArrayIndexes_max_index_diverges) simp

text \<open>
  C30. Round trip of the comma-separated form: a non-empty strictly ascending list of \<open>int32\<close>
  indexes, printed and joined with commas, parses back to the same list.
\<close>

theorem ParseArrayIndexes_comma_roundtrip:
  assumes "ns \<noteq> []" and "sorted_wrt (<) ns" and "\<forall>n \<in> set ns. n < 2147483648"
  shows "ParseArrayIndexes (str_join '','' (map format_nat ns)) =
    Some (Inr \<lparr>Indexes = map word_of_nat ns, Step = None, Parallelism = None\<rparr>)"
  using assms commaIndexesRegex_join [OF assms(1,2)] comma_indexes_sorted [of ns]
  by (simp add: ParseArrayIndexes_def finish_indexes_def parseCommaSeparatedIndexes_eq comp_def)

theorem ParseArrayIndexes_comma_roundtrip_witness:
  "ParseArrayIndexes (str_join '','' (map format_nat [0, 6, 16])) =
    Some (Inr \<lparr>Indexes = [0, 6, 16], Step = None, Parallelism = None\<rparr>)"
  using ParseArrayIndexes_comma_roundtrip [of "[0, 6, 16]"] by simp

text \<open>
  Whatever the input, a successful parse gives a non-empty list in ascending order, so
  \<open>Min\<close> and \<open>Max\<close> do not panic and are its first and last element.
\<close>

theorem ParseArrayIndexes_min_max:
  assumes "ParseArrayIndexes s = Some (Inr ai)"
  shows "Indexes ai \<noteq> [] \<and> sorted (map sint (Indexes ai)) \<and>
    ArrayIndexes_Min ai = Some (hd (Indexes ai)) \<and> ArrayIndexes_Max ai = Some (last (Indexes ai))"
proof -
  from ParseArrayIndexes_sorted_nonempty [OF assms] obtain x xs
    where "Indexes ai = x # xs" and "sorted (map sint (x # xs))"
    by (cases "Indexes ai") auto
  then show ?thesis
    using fold_min_sorted [of x xs] fold_max_sorted [of x xs]
    by (simp add: ArrayIndexes_Min_def ArrayIndexes_Max_def)
qed

theorem ParseArrayIndexes_min_max_witness:
  "ParseArrayIndexes ''1,4,5'' = Some (Inr \<lparr>Indexes = [1, 4, 5], Step = None, Parallelism = None\<rparr>) \<and>
   ArrayIndexes_Min \<lparr>Indexes = [1, 4, 5], Step = None, Parallelism = None\<rparr> = Some 1 \<and>
   ArrayIndexes_Max \<lparr>Indexes = [1, 4, 5], Step = None, Parallelism = None\<rparr> = Some 5"
proof -
  have "ParseArrayIndexes ''1,4,5'' = Some (Inr \<lparr>Indexes = [1, 4, 5], Step = None, Parallelism = None\<rparr>)"
    by (simp add: go_simps array_eval)
  from this ParseArrayIndexes_min_max [OF this] show ?thesis by simp
qed

text \<open>
  The mixed form \<open>0,6,16-32\<close>, which the help text of \<open>--array\<close> gives as an example, is
  rejected as an invalid format.
\<close>

theorem ParseArrayIndexes_rejects_mixed:
  "ParseArrayIndexes ''0,6,16-32'' = Some (Inl InvalidArrayFlagFormat)"
  by (simp add: go_simps array_eval)

end
