(* ===== verification/TimeLimit.thy ===== *)
theory TimeLimit
  imports GoStd
begin

text \<open>
  \<open>pkg/parser/time_limit.go\<close>: Slurm time limits. \<open>isValidTimeSpec\<close> is the counting scan of the
  source; \<open>TimeLimitToSeconds\<close> reads the fields with \<open>fmt.Sscanf\<close> and adds them up in \<open>int32\<close>
  arithmetic, which wraps around.
\<close>

section \<open>Model\<close>

datatype time_error = InvalidTimeFormat

text \<open>The loop of \<open>isValidTimeSpec\<close>; \<open>None\<close> is a \<open>return false\<close> inside the loop.\<close>

fun time_scan :: "nat \<Rightarrow> nat \<Rightarrow> nat \<Rightarrow> bool \<Rightarrow> string \<Rightarrow> (nat \<times> nat \<times> nat) option" where
  "time_scan digit dash colon alreadyDigit [] = Some (digit, dash, colon)"
| "time_scan digit dash colon alreadyDigit (ch # cs) =
     (if is_digit ch
      then (if \<not> alreadyDigit then time_scan (digit + 1) dash colon True cs
            else time_scan digit dash colon True cs)
      else if ch = CHR ''-''
      then (if colon > 0 then None else time_scan digit (dash + 1) colon False cs)
      else if ch = CHR '':'' then time_scan digit dash (colon + 1) False cs
      else None)"

definition isValidTimeSpec :: "string \<Rightarrow> bool" where
  "isValidTimeSpec val =
     (case time_scan 0 0 0 False val of
       None \<Rightarrow> False
     | Some (digit, dash, colon) \<Rightarrow>
         if digit = 0 then False
         else if dash > 1 \<or> colon > 2 then False
         else if dash > 0
         then (if colon = 0 \<and> digit \<noteq> 2 then False
               else if colon = 1 \<and> digit < 3 then False
               else if colon = 2 \<and> digit < 4 then False
               else True)
         else (if colon = 1 \<and> digit < 2 then False
               else if colon = 2 \<and> digit < 3 then False
               else True))"

text \<open>
  \<open>%d\<close> of \<open>fmt.Sscanf\<close> into an \<open>int32\<close>: an optional sign and digits, read as a 64-bit number that
  must fit 32 bits. \<open>None\<close> is a scan error.
\<close>

definition scan_int :: "string \<Rightarrow> (int \<times> string) option" where
  "scan_int s =
     (let sign = (if s \<noteq> [] \<and> (hd s = CHR ''+'' \<or> hd s = CHR ''-'') then [hd s] else []);
          rest = drop (length sign) s;
          ds = takeWhile is_digit rest
      in if ds = [] then None
         else case parse_int 64 (sign @ ds) of
           Inl e \<Rightarrow> None
         | Inr v \<Rightarrow> if fits32 v then Some (v, dropWhile is_digit rest) else None)"

text \<open>
  \<open>fmt.Sscanf\<close> with the format \<open>%d\<close>, then a separator and \<open>%d\<close> for each character of the first
  argument: the values stored before the first mismatch.
\<close>

fun sscanf :: "char list \<Rightarrow> string \<Rightarrow> int list" where
  "sscanf [] s = (case scan_int s of None \<Rightarrow> [] | Some (v, r) \<Rightarrow> [v])"
| "sscanf (c # cs) s =
     (case scan_int s of
       None \<Rightarrow> []
     | Some (v, r) \<Rightarrow> v # (if r \<noteq> [] \<and> hd r = c then sscanf cs (tl r) else []))"

text \<open>A variable that \<open>Sscanf\<close> did not reach keeps its zero value.\<close>

definition scanned :: "int list \<Rightarrow> nat \<Rightarrow> int32" where
  "scanned vs i = (if i < length vs then word_of_int (vs ! i) else 0)"

definition isUnlimited :: "string \<Rightarrow> bool" where
  "isUnlimited val \<longleftrightarrow>
     val = [] \<or> equal_fold val ''-1'' \<or> equal_fold val ''INFINITE'' \<or> equal_fold val ''UNLIMITED''"

definition TimeLimitToSeconds :: "string \<Rightarrow> time_error + int32 option" where
  "TimeLimitToSeconds v =
     (let val = trim_space v
      in if isUnlimited val then Inr None
         else if \<not> isValidTimeSpec val then Inl InvalidTimeFormat
         else
           let res =
             (if str_contains val ''-''
              then
                let vs = sscanf ''-::'' val;
                    d = scanned vs 0 * 86400; h = scanned vs 1 * 3600;
                    m = scanned vs 2 * 60; s = scanned vs 3
                in d + h + m + s
              else
                let vs = sscanf ''::'' val;
                    h = scanned vs 0; m = scanned vs 1; s = scanned vs 2
                in if length vs = 3 then 0 + h * 3600 + m * 60 + s
                   else 0 + 0 + h * 60 + m)
           in if res = 0 then Inr None else Inr (Some res))"

section \<open>The grammar of time limits\<close>

text \<open>
  The documented formats: one to three numbers separated by colons, or a number of days, a dash,
  and one to three numbers separated by colons.
\<close>

definition colon_groups :: "string \<Rightarrow> bool" where
  "colon_groups s =
     (let gs = split_on (CHR '':'') s in length gs \<le> 3 \<and> list_all is_number gs)"

definition time_grammar :: "string \<Rightarrow> bool" where
  "time_grammar s =
     (case split_on (CHR ''-'') s of
       [x] \<Rightarrow> colon_groups x
     | [d, x] \<Rightarrow> is_number d \<and> colon_groups x
     | _ \<Rightarrow> False)"

text \<open>Auxiliary views of the scan: the number of runs of digits, and the pieces between separators.\<close>

fun digit_runs :: "bool \<Rightarrow> string \<Rightarrow> nat" where
  "digit_runs al [] = 0"
| "digit_runs al (c # cs) =
     (if is_digit c then (if al then 0 else 1) + digit_runs True cs else digit_runs False cs)"

fun time_pieces :: "string \<Rightarrow> string list" where
  "time_pieces [] = [[]]"
| "time_pieces (c # cs) =
     (if c = CHR ''-'' \<or> c = CHR '':'' then [] # time_pieces cs
      else (c # hd (time_pieces cs)) # tl (time_pieces cs))"

definition time_char :: "char \<Rightarrow> bool" where
  "time_char c \<longleftrightarrow> is_digit c \<or> c = CHR ''-'' \<or> c = CHR '':''"

lemma time_seps_no_digit [simp]: "\<not> is_digit (CHR ''-'')" "\<not> is_digit (CHR '':'')"
  by (simp_all add: go_simps)

lemma time_scan_Some:
  "time_scan d a c al s = Some (d', a', c') \<Longrightarrow>
   list_all time_char s \<and> d' = d + digit_runs al s \<and>
   a' = a + count_list s (CHR ''-'') \<and> c' = c + count_list s (CHR '':'')"
  by (induction d a c al s rule: time_scan.induct) (auto simp: time_char_def split: if_splits)

lemma time_scan_dash_first:
  "time_scan d a c al (xs @ CHR ''-'' # ys) = Some r \<Longrightarrow> c = 0 \<and> CHR '':'' \<notin> set xs"
proof (induction xs arbitrary: d a c al)
  case (Cons x xs)
  then show ?case by (auto split: if_splits)
qed (simp split: if_splits)

lemma time_pieces_nonempty [simp]: "time_pieces s \<noteq> []"
  by (cases s) auto

lemma digit_runs_pieces:
  "list_all time_char s \<Longrightarrow>
   digit_runs al s + (if al \<and> hd (time_pieces s) \<noteq> [] then 1 else 0) =
   length (filter (\<lambda>p. p \<noteq> []) (time_pieces s))"
proof (induction s arbitrary: al)
  case (Cons c cs)
  have cs: "list_all time_char cs" using Cons.prems by simp
  have c: "is_digit c \<or> c = CHR ''-'' \<or> c = CHR '':''"
    using Cons.prems by (simp add: time_char_def)
  obtain p ps where "time_pieces cs = p # ps" by (cases "time_pieces cs") auto
  with c Cons.IH [OF cs, of True] Cons.IH [OF cs, of False] show ?case
    by (cases al) (auto split: if_splits)
qed simp

lemma length_time_pieces:
  "length (time_pieces s) = Suc (count_list s (CHR ''-'') + count_list s (CHR '':''))"
proof (induction s)
  case (Cons c cs)
  then show ?case by (cases "time_pieces cs") auto
qed simp

lemma time_pieces_digits:
  "list_all time_char s \<Longrightarrow> list_all (list_all is_digit) (time_pieces s)"
proof (induction s)
  case (Cons c cs)
  then show ?case by (cases "time_pieces cs") (auto simp: time_char_def)
qed simp

lemma all_pieces_numbers:
  assumes "list_all time_char s"
    and "digit_runs False s = Suc (count_list s (CHR ''-'') + count_list s (CHR '':''))"
  shows "list_all is_number (time_pieces s)"
proof -
  have "length (filter (\<lambda>p. p \<noteq> []) (time_pieces s)) = length (time_pieces s)"
    using digit_runs_pieces [OF assms(1), of False] assms(2) by (simp add: length_time_pieces)
  then have "\<forall>p \<in> set (time_pieces s). p \<noteq> []"
    using length_filter_less [of _ "time_pieces s" "\<lambda>p. p \<noteq> []"] by fastforce
  with time_pieces_digits [OF assms(1)] show ?thesis
    by (auto simp: list_all_iff is_number_def)
qed

lemma time_pieces_no_dash: "CHR ''-'' \<notin> set s \<Longrightarrow> time_pieces s = split_on (CHR '':'') s"
  by (induction s) auto

lemma time_pieces_prefix:
  "CHR ''-'' \<notin> set d \<Longrightarrow> CHR '':'' \<notin> set d \<Longrightarrow> time_pieces (d @ CHR ''-'' # x) = d # time_pieces x"
  by (induction d) auto

lemma time_pieces_grammar:
  assumes "list_all is_number (time_pieces s)" and "count_list s (CHR '':'') \<le> 2"
    and "count_list s (CHR ''-'') \<le> 1"
    and "\<And>xs ys. s = xs @ CHR ''-'' # ys \<Longrightarrow> CHR '':'' \<notin> set xs"
  shows "time_grammar s"
proof (cases "CHR ''-'' \<in> set s")
  case False
  then have "split_on (CHR ''-'') s = [s]" by (rule split_on_free)
  with False assms(1,2) show ?thesis
    by (simp add: time_grammar_def colon_groups_def time_pieces_no_dash length_split_on)
next
  case True
  then obtain d x where s: "s = d @ CHR ''-'' # x" and d: "CHR ''-'' \<notin> set d"
    by (metis split_list_first)
  then have x: "CHR ''-'' \<notin> set x"
    using assms(3) by (auto simp: count_list_0_iff)
  have "CHR '':'' \<notin> set d" using assms(4) s by blast
  then have "time_pieces s = d # split_on (CHR '':'') x"
    using s d x by (simp add: time_pieces_prefix time_pieces_no_dash)
  moreover have "split_on (CHR ''-'') s = [d, x]"
    using s d x by (simp add: split_on_append_sep split_on_free)
  ultimately show ?thesis
    using assms(1,2) s by (simp add: time_grammar_def colon_groups_def length_split_on)
qed

lemma time_scan_number:
  "is_number n \<Longrightarrow> time_scan d a c False (n @ r) = time_scan (d + 1) a c True r"
proof -
  have skip: "list_all is_digit n \<Longrightarrow> time_scan d a c True (n @ r) = time_scan d a c True r" for n d
    by (induction n) auto
  assume "is_number n"
  then show ?thesis by (cases n) (auto simp: is_number_def skip)
qed

lemma time_scan_groups:
  "list_all is_number gs \<Longrightarrow> gs \<noteq> [] \<Longrightarrow>
   time_scan d a c False (str_join '':'' gs) = Some (d + length gs, a, c + length gs - 1)"
proof (induction "'':''" gs arbitrary: d c rule: str_join.induct)
  case (2 x)
  then show ?case using time_scan_number [of x d a c "[]"] by simp
next
  case (3 x y ys)
  then show ?case by (simp add: time_scan_number)
qed simp

lemma isValidTimeSpec_grammar: "isValidTimeSpec s \<Longrightarrow> time_grammar s"
proof -
  assume valid: "isValidTimeSpec s"
  then obtain dg da co where scan: "time_scan 0 0 0 False s = Some (dg, da, co)"
    by (auto simp: isValidTimeSpec_def split: option.splits)
  note counts = time_scan_Some [OF scan]
  have "dg \<le> Suc (da + co)"
    using digit_runs_pieces [of s False] counts length_filter_le [of "\<lambda>p. p \<noteq> []" "time_pieces s"]
    by (simp add: length_time_pieces)
  moreover have "da \<le> 1 \<and> co \<le> 2 \<and> Suc (da + co) \<le> dg"
    using valid scan by (auto simp: isValidTimeSpec_def split: if_splits)
  ultimately have "digit_runs False s = Suc (count_list s (CHR ''-'') + count_list s (CHR '':''))"
    and "da \<le> 1" and "co \<le> 2"
    using counts by auto
  then show ?thesis
    using counts time_scan_dash_first scan
    by (intro time_pieces_grammar all_pieces_numbers) auto
qed

lemma grammar_isValidTimeSpec: "time_grammar s \<Longrightarrow> isValidTimeSpec s"
proof -
  assume "time_grammar s"
  then consider x where "split_on (CHR ''-'') s = [x]" and "colon_groups x"
    | d x where "split_on (CHR ''-'') s = [d, x]" and "is_number d" and "colon_groups x"
    by (auto simp: time_grammar_def split: list.splits)
  then show ?thesis
  proof cases
    case 1
    let ?gs = "split_on (CHR '':'') x"
    have "s = str_join '':'' ?gs" using 1 join_split [of "CHR ''-''" s] by simp
    moreover have "length ?gs = 1 \<or> length ?gs = 2 \<or> length ?gs = 3"
      using 1 length_split_on [of "CHR '':''" x] by (simp add: colon_groups_def) arith
    ultimately show ?thesis
      using 1 time_scan_groups [of ?gs 0 0 0]
      by (auto simp: isValidTimeSpec_def colon_groups_def)
  next
    case 2
    let ?gs = "split_on (CHR '':'') x"
    have "s = d @ CHR ''-'' # str_join '':'' ?gs" using 2 join_split [of "CHR ''-''" s] by simp
    moreover have "length ?gs = 1 \<or> length ?gs = 2 \<or> length ?gs = 3"
      using 2 length_split_on [of "CHR '':''" x] by (simp add: colon_groups_def) arith
    ultimately show ?thesis
      using 2 time_scan_groups [of ?gs 1 1 0]
      by (auto simp: isValidTimeSpec_def colon_groups_def time_scan_number)
  qed
qed

section \<open>Reading valid time limits\<close>

text \<open>A time limit as days and colon-separated groups, its rendering, and the seconds it stands for.\<close>

type_synonym time_fields = "string option \<times> string list"

fun print_time :: "time_fields \<Rightarrow> string" where
  "print_time (None, gs) = str_join '':'' gs"
| "print_time (Some d, gs) = d @ ''-'' @ str_join '':'' gs"

fun seconds_of :: "time_fields \<Rightarrow> nat" where
  "seconds_of (None, [m]) = 60 * dec_val m"
| "seconds_of (None, [m, s]) = 60 * dec_val m + dec_val s"
| "seconds_of (None, [h, m, s]) = 3600 * dec_val h + 60 * dec_val m + dec_val s"
| "seconds_of (Some d, [h]) = 86400 * dec_val d + 3600 * dec_val h"
| "seconds_of (Some d, [h, m]) = 86400 * dec_val d + 3600 * dec_val h + 60 * dec_val m"
| "seconds_of (Some d, [h, m, s]) = 86400 * dec_val d + 3600 * dec_val h + 60 * dec_val m + dec_val s"
| "seconds_of _ = 0"

fun time_fields_ok :: "time_fields \<Rightarrow> bool" where
  "time_fields_ok (d, gs) \<longleftrightarrow>
     gs \<noteq> [] \<and> length gs \<le> 3 \<and> list_all is_number gs \<and> (case d of None \<Rightarrow> True | Some n \<Rightarrow> is_number n)"

lemma scan_int_number:
  assumes "is_number n" and "r = [] \<or> \<not> is_digit (hd r)"
  shows "scan_int (n @ r) = (if dec_val n < 2147483648 then Some (int (dec_val n), r) else None)"
proof -
  from assms(1) obtain c cs where n: "n = c # cs" "is_digit c" "list_all is_digit n"
    by (cases n) (auto simp: is_number_def)
  then have sign: "c \<noteq> CHR ''+''" "c \<noteq> CHR ''-''" by (auto simp: go_simps)
  have tw: "takeWhile is_digit (n @ r) = n" and dw: "dropWhile is_digit (n @ r) = r"
    using n(3) assms(2) by (cases r; auto simp: list_all_iff takeWhile_append dropWhile_append)+
  show ?thesis
    using n sign tw dw assms(1) by (auto simp: scan_int_def Let_def parse_int_number fits32_def)
qed

lemma sscanf_last:
  "is_number n \<Longrightarrow> sscanf [] n = (if dec_val n < 2147483648 then [int (dec_val n)] else [])"
  using scan_int_number [of n "[]"] by simp

lemma sscanf_numbers:
  assumes "is_number n" and "\<not> is_digit c"
  shows "sscanf (c # cs) n = (if dec_val n < 2147483648 then [int (dec_val n)] else [])"
    and "sscanf (c # cs) (n @ c # r) =
      (if dec_val n < 2147483648 then int (dec_val n) # sscanf cs r else [])"
  using assms scan_int_number [of n "[]"] scan_int_number [of n "c # r"] by simp_all

lemma digits_no_dash [simp]: "is_number n \<Longrightarrow> CHR ''-'' \<notin> set n" "is_number n \<Longrightarrow> CHR '':'' \<notin> set n"
  by (simp_all add: number_no_sep)

lemma digit_plain: "is_digit c \<Longrightarrow> plain_char c"
  by (simp add: is_digit_def plain_char_def)

lemma grammar_fields:
  assumes "time_grammar s"
  shows "\<exists>t. time_fields_ok t \<and> s = print_time t"
proof -
  from assms consider x where "split_on (CHR ''-'') s = [x]" and "colon_groups x"
    | d x where "split_on (CHR ''-'') s = [d, x]" and "is_number d" and "colon_groups x"
    by (auto simp: time_grammar_def split: list.splits)
  then show ?thesis
  proof cases
    case 1
    then have "time_fields_ok (None, split_on (CHR '':'') x) \<and> s = print_time (None, split_on (CHR '':'') x)"
      using join_split [of "CHR ''-''" s] length_split_on [of "CHR '':''" x]
      by (auto simp: colon_groups_def)
    then show ?thesis by blast
  next
    case 2
    then have "time_fields_ok (Some d, split_on (CHR '':'') x) \<and> s = print_time (Some d, split_on (CHR '':'') x)"
      using join_split [of "CHR ''-''" s] length_split_on [of "CHR '':''" x]
      by (auto simp: colon_groups_def)
    then show ?thesis by blast
  qed
qed

lemma join_groups_no_dash: "list_all is_number gs \<Longrightarrow> CHR ''-'' \<notin> set (str_join '':'' gs)"
  by (induction "'':''" gs rule: str_join.induct) auto

lemma fields_grammar:
  assumes "time_fields_ok t"
  shows "time_grammar (print_time t)"
proof (cases t)
  case (Pair d gs)
  have "split_on (CHR '':'') (str_join '':'' gs) = gs"
    using Pair assms by (intro split_join) (auto simp: list_all_iff)
  with Pair assms join_groups_no_dash [of gs] show ?thesis
    by (auto simp: time_grammar_def colon_groups_def split_on_append_sep split_on_free split: option.splits)
qed

lemma print_time_ends:
  assumes "time_fields_ok t"
  shows "print_time t \<noteq> [] \<and> is_digit (hd (print_time t)) \<and> is_digit (last (print_time t))"
proof -
  have ends: "n \<noteq> [] \<and> is_digit (hd n) \<and> is_digit (last n)" if "is_number n" for n
    using that by (auto simp: is_number_def list_all_iff)
  have groups: "str_join '':'' gs \<noteq> [] \<and> is_digit (hd (str_join '':'' gs)) \<and> is_digit (last (str_join '':'' gs))"
    if "gs \<noteq> []" "list_all is_number gs" for gs
    using that by (induction "'':''" gs rule: str_join.induct) (auto dest: ends)
  from assms show ?thesis
    by (cases t) (auto split: option.splits dest: ends groups)
qed

lemma print_time_not_unlimited: "time_fields_ok t \<Longrightarrow> \<not> isUnlimited (print_time t)"
  using print_time_ends [of t]
  by (cases "print_time t") (auto simp: isUnlimited_def equal_fold_def to_lower_def go_simps split: if_splits)

lemma trim_print_time [simp]: "time_fields_ok t \<Longrightarrow> trim_space (print_time t) = print_time t"
  using print_time_ends [of t] by (simp add: trim_space_plain digit_plain)

lemma str_contains_char: "str_contains s [c] \<longleftrightarrow> c \<in> set s"
  by (induction s) (auto simp: str_contains_def has_prefix_def)

lemma print_time_days:
  "time_fields_ok (d, gs) \<Longrightarrow> str_contains (print_time (d, gs)) ''-'' \<longleftrightarrow> d \<noteq> None"
  by (cases d) (auto simp: str_contains_char join_groups_no_dash)

lemma groups_cases:
  assumes "time_fields_ok (d, gs)"
  shows "(\<exists>x. gs = [x]) \<or> (\<exists>x y. gs = [x, y]) \<or> (\<exists>x y z. gs = [x, y, z])"
  using assms by (cases gs; cases "tl gs"; cases "tl (tl gs)"; auto)

lemma TimeLimitToSeconds_fields:
  assumes "time_fields_ok (d, gs)"
    and "\<forall>n \<in> set gs \<union> set_option d. dec_val n < 2147483648"
  shows "TimeLimitToSeconds (print_time (d, gs)) =
    Inr (if word_of_nat (seconds_of (d, gs)) = (0 :: int32) then None
         else Some (word_of_nat (seconds_of (d, gs))))"
proof -
  note unl = print_time_not_unlimited [OF assms(1)]
  note valid = grammar_isValidTimeSpec [OF fields_grammar [OF assms(1)]]
  note facts = unl valid trim_print_time [OF assms(1)] print_time_days [OF assms(1)]
  note cases = groups_cases [OF assms(1)]
  show ?thesis
  proof (cases d)
    case None
    with cases facts assms show ?thesis
      by (auto simp: TimeLimitToSeconds_def sscanf_last sscanf_numbers scanned_def Let_def mult.commute
          simp del: sscanf.simps)
  next
    case (Some a)
    with cases facts assms show ?thesis
      by (auto simp: TimeLimitToSeconds_def sscanf_last sscanf_numbers scanned_def Let_def mult.commute
          simp del: sscanf.simps)
  qed
qed

lemma fields_bounded:
  assumes "time_fields_ok (d, gs)" and "seconds_of (d, gs) < 2147483648"
  shows "\<forall>n \<in> set gs \<union> set_option d. dec_val n < 2147483648"
  using groups_cases [OF assms(1)] assms(2) by (cases d) auto

section \<open>Properties\<close>

text \<open>
  C27. The counting validator accepts exactly the strings of the documented grammar: one to three
  numbers separated by colons, optionally after a number of days and a dash.
\<close>

theorem isValidTimeSpec_iff_grammar: "isValidTimeSpec s \<longleftrightarrow> time_grammar s"
  using isValidTimeSpec_grammar grammar_isValidTimeSpec by blast

text \<open>
  \<open>TimeLimitToSeconds\<close> fails exactly on the strings that, after trimming, neither say
  unlimited nor follow the grammar.
\<close>

theorem TimeLimitToSeconds_error_iff:
  "TimeLimitToSeconds v = Inl InvalidTimeFormat \<longleftrightarrow>
     \<not> isUnlimited (trim_space v) \<and> \<not> time_grammar (trim_space v)"
  using isValidTimeSpec_grammar grammar_isValidTimeSpec
  by (auto simp: TimeLimitToSeconds_def Let_def)

text \<open>
  C28. On a well-formed limit whose total is below \<open>2^31\<close> seconds, \<open>TimeLimitToSeconds\<close> returns the
  number of seconds the days, hours, minutes and seconds stand for; zero means no limit.
\<close>

theorem TimeLimitToSeconds_exact:
  assumes "time_fields_ok t" and "seconds_of t < 2147483648"
  shows "\<exists>r. TimeLimitToSeconds (print_time t) = Inr r \<and>
    (case r of None \<Rightarrow> seconds_of t = 0 | Some w \<Rightarrow> sint w = int (seconds_of t) \<and> seconds_of t > 0)"
proof -
  obtain d gs where t: "t = (d, gs)" by (cases t)
  define w where "w = (word_of_nat (seconds_of t) :: int32)"
  have val: "sint w = int (seconds_of t)"
    using assms(2) by (simp add: w_def)
  have "w = 0 \<longleftrightarrow> sint w = 0" by (rule signed_eq_0_iff [symmetric])
  with val assms t fields_bounded [of d gs] show ?thesis
    by (simp add: TimeLimitToSeconds_fields w_def del: time_fields_ok.simps)
qed

theorem TimeLimitToSeconds_exact_witness:
  "\<exists>w. TimeLimitToSeconds (print_time (Some ''1'', [''02'', ''03'', ''04''])) = Inr (Some w) \<and>
    sint w = 93784"
proof -
  have ok: "time_fields_ok (Some ''1'', [''02'', ''03'', ''04''])"
    and sec: "seconds_of (Some ''1'', [''02'', ''03'', ''04'']) = 93784"
    by (simp_all add: is_number_def dec_val_def dec_val_from_def go_simps)
  show ?thesis
    using TimeLimitToSeconds_exact [OF ok] sec by (auto split: option.splits)
qed

text \<open>
  A number of minutes that does not fit \<open>int32\<close> is accepted and means no limit at all: the scan
  error is dropped and the zero result is read as unlimited.
\<close>

theorem TimeLimitToSeconds_out_of_range:
  assumes "is_number n" and "2147483648 \<le> dec_val n"
  shows "TimeLimitToSeconds n = Inr None"
proof -
  have ok: "time_fields_ok (None, [n])" using assms by simp
  from grammar_isValidTimeSpec [OF fields_grammar [OF this]] print_time_not_unlimited [OF this]
    trim_print_time [OF this] print_time_days [OF this] assms
  show ?thesis
    by (simp add: TimeLimitToSeconds_def sscanf_numbers scanned_def Let_def del: sscanf.simps)
qed

theorem TimeLimitToSeconds_out_of_range_witness: "TimeLimitToSeconds ''99999999999'' = Inr None"
  by (rule TimeLimitToSeconds_out_of_range)
    (simp_all add: is_number_def dec_val_def dec_val_from_def go_simps)

text \<open>
  A limit of 24856 days, a few hours above \<open>2^31\<close> seconds, is accepted and gives a negative
  number of seconds.
\<close>

theorem TimeLimitToSeconds_wraps_negative:
  "\<exists>w. TimeLimitToSeconds ''24856-0'' = Inr (Some w) \<and> w <s 0"
proof -
  have ok: "time_fields_ok (Some ''24856'', [''0''])"
    by (simp add: is_number_def go_simps)
  moreover have "dec_val ''24856'' = 24856" "dec_val ''0'' = 0"
    by (simp_all add: dec_val_def dec_val_from_def go_simps)
  ultimately show ?thesis
    using TimeLimitToSeconds_fields [OF ok] by (simp add: word_sless_alt)
qed

end
