(* ===== verification/Utils.thy ===== *)
theory Utils
  imports GoStd "HOL-Library.List_Lexorder" "HOL-Library.Char_ord"
begin

text \<open>
  The helper packages \<open>pkg/util/maps\<close>, \<open>pkg/util/slices\<close> and \<open>pkg/util/validate\<close>. A nil map or
  slice is \<open>None\<close>. Strings are compared byte by byte, which is the order of \<open>slices.Sort\<close> on
  them.
\<close>

section \<open>Package maps\<close>

fun merge_entry ::
  "('k, 'v) gomap \<Rightarrow> ('v \<Rightarrow> 'v \<Rightarrow> 'v) \<Rightarrow> 'k \<times> 'v \<Rightarrow> ('k, 'v) gomap \<Rightarrow> ('k, 'v) gomap" where
  "merge_entry a commonKeyValue (k, v) ret =
     (case mget a k of
       Some w \<Rightarrow> mput k (commonKeyValue w v) ret
     | None \<Rightarrow> mput k v ret)"

definition Merge ::
  "('k, 'v) gomap option \<Rightarrow> ('k, 'v) gomap option \<Rightarrow> ('v \<Rightarrow> 'v \<Rightarrow> 'v) \<Rightarrow> ('k, 'v) gomap option" where
  "Merge a b commonKeyValue =
     (case a of
       None \<Rightarrow> b
     | Some m \<Rightarrow> Some (fold (merge_entry m commonKeyValue) (case b of None \<Rightarrow> [] | Some bs \<Rightarrow> bs) m))"

definition MergeKeepFirst ::
  "('k, 'v) gomap option \<Rightarrow> ('k, 'v) gomap option \<Rightarrow> ('k, 'v) gomap option" where
  "MergeKeepFirst a b = Merge a b (\<lambda>v w. v)"

definition Keys :: "('k, 'v) gomap option \<Rightarrow> 'k list" where
  "Keys m = (case m of None \<Rightarrow> [] | Some es \<Rightarrow> map fst es)"

definition SortedKeys :: "('k :: linorder, 'v) gomap option \<Rightarrow> 'k list" where
  "SortedKeys m = sort (Keys m)"

section \<open>Package slices\<close>

definition slices_Map :: "('a \<Rightarrow> 'b) \<Rightarrow> 'a list option \<Rightarrow> 'b list option" where
  "slices_Map f s = (case s of None \<Rightarrow> None | Some xs \<Rightarrow> Some (map f xs))"

section \<open>Package validate\<close>

text \<open>The error carries all flags of the group and the ones that were set.\<close>

datatype mutually_exclusive_error = MutuallyExclusiveError (allFlags: "string list") (setFlags: "string list")

definition mutually_exclusive_message :: "mutually_exclusive_error \<Rightarrow> string" where
  "mutually_exclusive_message e =
     ''if any flags in the group ['' @ str_join '' '' (allFlags e) @
     ''] are set none of the others can be; ['' @ str_join '' '' (setFlags e) @ ''] were set''"

definition ValidateMutuallyExclusiveFlags ::
  "(string, bool) gomap \<Rightarrow> mutually_exclusive_error + unit" where
  "ValidateMutuallyExclusiveFlags flagsMap =
     (if length flagsMap < 2 then Inr ()
      else
        let all = SortedKeys (Some flagsMap);
            set = filter (\<lambda>flag. mget flagsMap flag = Some True) all
        in if length set > 1 then Inl (MutuallyExclusiveError all set) else Inr ())"

section \<open>Properties\<close>

lemma merge_entries_get:
  "mget (fold (merge_entry m f) bs ret) k =
     (case map_of (rev bs) k of
       Some v \<Rightarrow> Some (case mget m k of Some w \<Rightarrow> f w v | None \<Rightarrow> v)
     | None \<Rightarrow> mget ret k)"
proof (induction bs arbitrary: ret)
  case (Cons b bs)
  obtain k' v where "b = (k', v)" by (cases b)
  with Cons show ?case
    by (auto simp: gm.get_put map_add_def split: option.splits)
qed simp

lemma map_of_rev_ok: "map_ok m \<Longrightarrow> map_of (rev m) k = mget m k"
  using map_of_inject_set [of "rev m" m] by (simp add: map_ok_def mget_def flip: rev_map)

lemma distinct_count_filter:
  "distinct xs \<Longrightarrow> length (filter P xs) > 1 \<longleftrightarrow> (\<exists>x \<in> set xs. \<exists>y \<in> set xs. x \<noteq> y \<and> P x \<and> P y)"
proof -
  assume d: "distinct xs"
  have "length (filter P xs) > 1 \<longleftrightarrow> \<not> card {x \<in> set xs. P x} \<le> Suc 0"
    using distinct_card [of "filter P xs"] d by auto
  also have "\<dots> \<longleftrightarrow> (\<exists>x \<in> set xs. \<exists>y \<in> set xs. x \<noteq> y \<and> P x \<and> P y)"
    using card_le_Suc0_iff_eq [of "{x \<in> set xs. P x}"] by fastforce
  finally show ?thesis .
qed

lemma Merge_lookup:
  assumes "map_ok b"
  shows "map_option (\<lambda>m. mget m k) (Merge (Some a) (Some b) f) =
    Some (case mget b k of
        None \<Rightarrow> mget a k
      | Some v \<Rightarrow> Some (case mget a k of Some w \<Rightarrow> f w v | None \<Rightarrow> v))"
  using assms by (simp add: Merge_def merge_entries_get map_of_rev_ok split: option.splits)

lemma validate_exclusive_ok_iff:
  assumes "map_ok m"
  shows "ValidateMutuallyExclusiveFlags m = Inr () \<longleftrightarrow>
    (\<forall>x y. mget m x = Some True \<longrightarrow> mget m y = Some True \<longrightarrow> x = y)"
proof (cases "length m < 2")
  case True
  then have "(\<exists>p. m = [p]) \<or> m = []" by (cases m; cases "tl m") auto
  then show ?thesis using True by (auto simp: ValidateMutuallyExclusiveFlags_def mget_def split: if_splits)
next
  case False
  have "distinct (sort (map fst m))" using assms by (simp add: map_ok_def)
  from distinct_count_filter [OF this, of "\<lambda>flag. mget m flag = Some True"] False show ?thesis
    by (auto simp: ValidateMutuallyExclusiveFlags_def SortedKeys_def Keys_def Let_def mget_def
        dest: map_of_SomeD) (metis fst_conv map_of_SomeD image_eqI)+
qed

text \<open>
  \<open>MergeKeepFirst\<close> keeps every binding of the first map and adds exactly the bindings of the
  second whose key is new.
\<close>

theorem MergeKeepFirst_lookup:
  assumes "map_ok b"
  shows "\<exists>m. MergeKeepFirst (Some a) (Some b) = Some m \<and>
    (\<forall>k. mget m k = (case mget a k of Some v \<Rightarrow> Some v | None \<Rightarrow> mget b k))"
  using assms by (auto simp: MergeKeepFirst_def Merge_def merge_entries_get map_of_rev_ok split: option.splits)

theorem MergeKeepFirst_lookup_witness:
  "map_ok [(''x'', 10), (''z'', 3 :: int)] \<and>
   mget (the (MergeKeepFirst (Some [(''x'', 1), (''y'', 2 :: int)]) (Some [(''x'', 10), (''z'', 3)]))) ''x'' = Some 1"
proof -
  have ok: "map_ok [(''x'', 10), (''z'', 3 :: int)]" by (simp add: map_ok_def)
  from MergeKeepFirst_lookup [OF this, of "[(''x'', 1), (''y'', 2)]"] ok show ?thesis
    by (auto simp: mget_def)
qed

text \<open>
  \<open>ValidateMutuallyExclusiveFlags\<close> accepts a group of flags exactly when no two different
  flags of it are set.
\<close>

theorem ValidateMutuallyExclusiveFlags_iff:
  assumes "map_ok m"
  shows "ValidateMutuallyExclusiveFlags m = Inr () \<longleftrightarrow>
    \<not> (\<exists>x y. x \<noteq> y \<and> mget m x = Some True \<and> mget m y = Some True)"
  using validate_exclusive_ok_iff [OF assms] by blast

theorem ValidateMutuallyExclusiveFlags_iff_witness:
  "map_ok [(''nodes'', True), (''array'', True)] \<and>
   ValidateMutuallyExclusiveFlags [(''nodes'', True), (''array'', True)] \<noteq> Inr ()"
proof -
  let ?m = "[(''nodes'', True), (''array'', True)]"
  have ok: "map_ok ?m" by (simp add: map_ok_def)
  have "''nodes'' \<noteq> ''array'' \<and> mget ?m ''nodes'' = Some True \<and> mget ?m ''array'' = Some True"
    by (simp add: mget_def)
  then have "\<exists>x y. x \<noteq> y \<and> mget ?m x = Some True \<and> mget ?m y = Some True"
    by (intro exI)
  with ValidateMutuallyExclusiveFlags_iff [OF ok] ok show ?thesis by simp
qed

end
