(* ===== verification/ApiTypes.thy ===== *)
theory ApiTypes
  imports GoStd
begin

text \<open>
  The API types: \<open>apis/v1alpha1\<close> (application profiles, volume bundles, the templates), the label
  and environment names of \<open>pkg/constants\<close>, and the part of the Kubernetes, Ray and metadata types
  the program reads or writes. The type variable \<open>'q\<close> stands for \<open>resource.Quantity\<close>, which is
  code of another module; its operations come in a record of functions. A field that ends in
  \<open>rest\<close> holds the other fields of the struct, which the program only carries along.
\<close>

section \<open>Modes and flags\<close>

datatype application_profile_mode = InteractiveMode | JobMode | RayJobMode | RayClusterMode | SlurmMode

primrec mode_name :: "application_profile_mode \<Rightarrow> string" where
  "mode_name InteractiveMode = ''Interactive''"
| "mode_name JobMode = ''Job''"
| "mode_name RayJobMode = ''RayJob''"
| "mode_name RayClusterMode = ''RayCluster''"
| "mode_name SlurmMode = ''Slurm''"

datatype flag =
    CmdFlag | ParallelismFlag | CompletionsFlag | ReplicasFlag | MinReplicasFlag | MaxReplicasFlag
  | RequestFlag | LocalQueueFlag | RayClusterFlag | ArrayFlag | CpusPerTaskFlag | ErrorFlag
  | GpusPerTaskFlag | InputFlag | JobNameFlag | MemPerNodeFlag | MemPerCPUFlag | MemPerGPUFlag
  | MemPerTaskFlag | NodesFlag | NTasksFlag | NTasksPerNodeFlag | OutputFlag | PartitionFlag
  | PriorityFlag | TimeFlag | PodTemplateLabelFlag | PodTemplateAnnotationFlag

primrec flag_name :: "flag \<Rightarrow> string" where
  "flag_name CmdFlag = ''cmd''"
| "flag_name ParallelismFlag = ''parallelism''"
| "flag_name CompletionsFlag = ''completions''"
| "flag_name ReplicasFlag = ''replicas''"
| "flag_name MinReplicasFlag = ''min-replicas''"
| "flag_name MaxReplicasFlag = ''max-replicas''"
| "flag_name RequestFlag = ''request''"
| "flag_name LocalQueueFlag = ''localqueue''"
| "flag_name RayClusterFlag = ''raycluster''"
| "flag_name ArrayFlag = ''array''"
| "flag_name CpusPerTaskFlag = ''cpus-per-task''"
| "flag_name ErrorFlag = ''error''"
| "flag_name GpusPerTaskFlag = ''gpus-per-task''"
| "flag_name InputFlag = ''input''"
| "flag_name JobNameFlag = ''job-name''"
| "flag_name MemPerNodeFlag = ''mem''"
| "flag_name MemPerCPUFlag = ''mem-per-cpu''"
| "flag_name MemPerGPUFlag = ''mem-per-gpu''"
| "flag_name MemPerTaskFlag = ''mem-per-task''"
| "flag_name NodesFlag = ''nodes''"
| "flag_name NTasksFlag = ''ntasks''"
| "flag_name NTasksPerNodeFlag = ''ntasks-per-node''"
| "flag_name OutputFlag = ''output''"
| "flag_name PartitionFlag = ''partition''"
| "flag_name PriorityFlag = ''priority''"
| "flag_name TimeFlag = ''time''"
| "flag_name PodTemplateLabelFlag = ''pod-template-label''"
| "flag_name PodTemplateAnnotationFlag = ''pod-template-annotation''"

text \<open>Both types are finite: what holds of every mode or flag can be evaluated.\<close>

lemma UNIV_mode: "(UNIV :: application_profile_mode set) = {InteractiveMode, JobMode, RayJobMode, RayClusterMode, SlurmMode}"
  by (auto intro: application_profile_mode.exhaust)

instantiation application_profile_mode :: enum
begin

definition enum_application_profile_mode :: "application_profile_mode list" where
  "enum_application_profile_mode = [InteractiveMode, JobMode, RayJobMode, RayClusterMode, SlurmMode]"

definition enum_all_application_profile_mode :: "(application_profile_mode \<Rightarrow> bool) \<Rightarrow> bool" where
  "enum_all_application_profile_mode P \<longleftrightarrow> list_all P [InteractiveMode, JobMode, RayJobMode, RayClusterMode, SlurmMode]"

definition enum_ex_application_profile_mode :: "(application_profile_mode \<Rightarrow> bool) \<Rightarrow> bool" where
  "enum_ex_application_profile_mode P \<longleftrightarrow> list_ex P [InteractiveMode, JobMode, RayJobMode, RayClusterMode, SlurmMode]"

instance
proof
qed (simp_all only: enum_application_profile_mode_def enum_all_application_profile_mode_def
    enum_ex_application_profile_mode_def UNIV_mode, simp_all)

end

definition all_flags :: "flag list" where
  "all_flags =
     [CmdFlag, ParallelismFlag, CompletionsFlag, ReplicasFlag, MinReplicasFlag, MaxReplicasFlag,
      RequestFlag, LocalQueueFlag, RayClusterFlag, ArrayFlag, CpusPerTaskFlag, ErrorFlag,
      GpusPerTaskFlag, InputFlag, JobNameFlag, MemPerNodeFlag, MemPerCPUFlag, MemPerGPUFlag,
      MemPerTaskFlag, NodesFlag, NTasksFlag, NTasksPerNodeFlag, OutputFlag, PartitionFlag,
      PriorityFlag, TimeFlag, PodTemplateLabelFlag, PodTemplateAnnotationFlag]"

lemma in_all_flags: "f \<in> set all_flags"
  by (cases f) (simp_all add: all_flags_def)

lemma UNIV_flag: "(UNIV :: flag set) = set all_flags"
  using in_all_flags by blast

instantiation flag :: enum
begin

definition enum_flag :: "flag list" where "enum_flag = all_flags"

definition enum_all_flag :: "(flag \<Rightarrow> bool) \<Rightarrow> bool" where "enum_all_flag P \<longleftrightarrow> list_all P all_flags"

definition enum_ex_flag :: "(flag \<Rightarrow> bool) \<Rightarrow> bool" where "enum_ex_flag P \<longleftrightarrow> list_ex P all_flags"

instance
proof
  show "distinct (enum_class.enum :: flag list)" unfolding enum_flag_def all_flags_def by simp
qed (simp_all add: enum_flag_def enum_all_flag_def enum_ex_flag_def UNIV_flag list_all_iff list_ex_iff)

end

lemma mode_name_inject: "mode_name a = mode_name b \<longleftrightarrow> a = b"
proof -
  have "\<forall>a b. mode_name a = mode_name b \<longrightarrow> a = b" by code_simp
  then show ?thesis by blast
qed

lemma flag_name_inject: "flag_name f = flag_name g \<longleftrightarrow> f = g"
proof -
  have "distinct (map flag_name all_flags)" by code_simp
  then have "inj flag_name" by (simp add: distinct_map UNIV_flag)
  then show ?thesis by (simp add: inj_eq)
qed

section \<open>Constants\<close>

definition ProfileLabel :: string where "ProfileLabel = ''kjobctl.x-k8s.io/profile''"
definition ModeLabel :: string where "ModeLabel = ''kjobctl.x-k8s.io/mode''"
definition ScriptAnnotation :: string where "ScriptAnnotation = ''kjobctl.x-k8s.io/script''"

definition SystemEnvVarNameUser :: string where "SystemEnvVarNameUser = ''USER''"

definition EnvVarNameUserID :: string where "EnvVarNameUserID = ''USER_ID''"
definition EnvVarTaskName :: string where "EnvVarTaskName = ''TASK_NAME''"
definition EnvVarTaskID :: string where "EnvVarTaskID = ''TASK_ID''"
definition EnvVarNameProfile :: string where "EnvVarNameProfile = ''PROFILE''"
definition EnvVarNameTimestamp :: string where "EnvVarNameTimestamp = ''TIMESTAMP''"

lemmas label_defs = ProfileLabel_def ModeLabel_def ScriptAnnotation_def

text \<open>
  Names that other modules define: labels of Kueue and KubeRay (\<open>kueueconstants\<close>, \<open>rayutil\<close>),
  resource names and the completion mode of Kubernetes.
\<close>

record api_names =
  QueueLabel :: string
  WorkloadPriorityClassLabel :: string
  MaxExecTimeSecondsLabel :: string
  RayClusterLabelKey :: string
  ResourceCPU :: string
  ResourceMemory :: string
  IndexedCompletion :: string

definition labels_distinct :: "api_names \<Rightarrow> bool" where
  "labels_distinct N \<longleftrightarrow>
     distinct [ProfileLabel, ModeLabel, QueueLabel N, WorkloadPriorityClassLabel N, MaxExecTimeSecondsLabel N]"

section \<open>Quantities\<close>

text \<open>
  The operations of \<open>resource.Quantity\<close> that the program calls. \<open>q_new_milli\<close> and \<open>q_new\<close> take the
  format from their last argument.
\<close>

record 'q quantity_api =
  q_parse :: "string \<Rightarrow> string + 'q"
  q_zero :: 'q
  q_add :: "'q \<Rightarrow> 'q \<Rightarrow> 'q"
  q_mul :: "'q \<Rightarrow> int \<Rightarrow> 'q"
  q_value :: "'q \<Rightarrow> int"
  q_milli :: "'q \<Rightarrow> int"
  q_is_zero :: "'q \<Rightarrow> bool"
  q_string :: "'q \<Rightarrow> string"
  q_new :: "int \<Rightarrow> 'q \<Rightarrow> 'q"
  q_new_milli :: "int \<Rightarrow> 'q \<Rightarrow> 'q"

section \<open>Kubernetes types\<close>

type_synonym str_map = "(string, string) gomap"

record owner_reference =
  own_APIVersion :: string
  own_Kind :: string
  own_Name :: string
  own_UID :: string

record object_meta =
  meta_Name :: string
  meta_GenerateName :: string
  meta_Namespace :: string
  meta_UID :: string
  meta_Labels :: "str_map option"
  meta_Annotations :: "str_map option"
  meta_OwnerReferences :: "owner_reference list"

definition empty_meta :: object_meta where
  "empty_meta = \<lparr>meta_Name = [], meta_GenerateName = [], meta_Namespace = [], meta_UID = [],
     meta_Labels = None, meta_Annotations = None, meta_OwnerReferences = []\<rparr>"

text \<open>The value of an environment variable, or the path of a field of the pod.\<close>

record env_var =
  env_Name :: string
  env_Value :: string
  env_ValueFrom :: "string option"

record key_to_path =
  kp_Key :: string
  kp_Path :: string
  kp_Mode :: "int32 option"

datatype volume_source =
    ConfigMapVolume string "key_to_path list"
  | EmptyDirVolume
  | OtherVolume string

record volume =
  vol_Name :: string
  vol_Source :: volume_source

record volume_mount =
  vm_Name :: string
  vm_MountPath :: string
  vm_rest :: string

type_synonym 'q resource_list = "(string, 'q) gomap"

record 'q container =
  ctr_Name :: string
  ctr_Image :: string
  ctr_Command :: "string list"
  ctr_Env :: "env_var list"
  ctr_VolumeMounts :: "volume_mount list"
  ctr_Requests :: "'q resource_list option"
  ctr_Limits :: "'q resource_list option"
  ctr_TTY :: bool
  ctr_Stdin :: bool
  ctr_rest :: string

record 'q pod_spec =
  ps_Containers :: "'q container list"
  ps_InitContainers :: "'q container list"
  ps_Volumes :: "volume list"
  ps_Subdomain :: string
  ps_rest :: string

record 'q pod_template_spec =
  pt_Meta :: object_meta
  pt_Spec :: "'q pod_spec"

record 'q job_spec =
  js_Parallelism :: "int32 option"
  js_Completions :: "int32 option"
  js_CompletionMode :: "string option"
  js_Template :: "'q pod_template_spec"
  js_rest :: string

record 'q worker_group_spec =
  wg_GroupName :: string
  wg_Replicas :: "int32 option"
  wg_MinReplicas :: "int32 option"
  wg_MaxReplicas :: "int32 option"
  wg_Template :: "'q pod_template_spec"
  wg_rest :: string

record 'q ray_cluster_spec =
  rc_HeadTemplate :: "'q pod_template_spec"
  rc_WorkerGroupSpecs :: "'q worker_group_spec list"
  rc_rest :: string

record 'q ray_job_spec =
  rj_Entrypoint :: string
  rj_ClusterSelector :: "str_map option"
  rj_RayClusterSpec :: "'q ray_cluster_spec option"
  rj_rest :: string

section \<open>Types of v1alpha1\<close>

record supported_mode =
  sm_Name :: string
  sm_Template :: string
  sm_RequiredFlags :: "flag list"

record application_profile =
  ap_Meta :: object_meta
  ap_SupportedModes :: "supported_mode list"
  ap_VolumeBundles :: "string list"

record volume_bundle =
  vb_Volumes :: "volume list"
  vb_ContainerVolumeMounts :: "volume_mount list"
  vb_EnvVars :: "env_var list"

text \<open>\<open>JobTemplate\<close>, \<open>RayJobTemplate\<close>, \<open>RayClusterTemplate\<close> and \<open>PodTemplate\<close>: metadata and a spec.\<close>

record 'q job_template_spec =
  jt_Meta :: object_meta
  jt_Spec :: "'q job_spec"

record 'q ray_job_template_spec =
  rjt_Meta :: object_meta
  rjt_Spec :: "'q ray_job_spec"

record 'q ray_cluster_template_spec =
  rct_Meta :: object_meta
  rct_Spec :: "'q ray_cluster_spec"

text \<open>The validation rules of the custom resource definition for one supported mode.\<close>

definition slurm_only_flags :: "flag list" where
  "slurm_only_flags =
     [ArrayFlag, CpusPerTaskFlag, ErrorFlag, GpusPerTaskFlag, InputFlag, JobNameFlag, MemPerNodeFlag,
      MemPerCPUFlag, MemPerGPUFlag, MemPerTaskFlag, NodesFlag, NTasksFlag, NTasksPerNodeFlag,
      OutputFlag, PartitionFlag]"

definition supported_mode_valid :: "supported_mode \<Rightarrow> bool" where
  "supported_mode_valid m =
     (let req = (\<lambda>f. f \<in> set (sm_RequiredFlags m));
          mode = (\<lambda>ms. sm_Name m \<in> set (map mode_name ms))
      in (req ReplicasFlag \<longrightarrow> mode [RayJobMode, RayClusterMode]) \<and>
         (req MinReplicasFlag \<longrightarrow> mode [RayJobMode, RayClusterMode]) \<and>
         (req MaxReplicasFlag \<longrightarrow> mode [RayJobMode, RayClusterMode]) \<and>
         (req RequestFlag \<longrightarrow> mode [JobMode, InteractiveMode, RayJobMode]) \<and>
         (req CmdFlag \<longrightarrow> mode [JobMode, InteractiveMode, RayJobMode]) \<and>
         (req RayClusterFlag \<longrightarrow> mode [RayJobMode]) \<and>
         (req RayClusterFlag \<longrightarrow>
            \<not> (req LocalQueueFlag \<or> req ReplicasFlag \<or> req MinReplicasFlag \<or> req MaxReplicasFlag)) \<and>
         (\<forall>f \<in> set slurm_only_flags. req f \<longrightarrow> mode [SlurmMode]) \<and>
         (mode [SlurmMode] \<longrightarrow> \<not> req ParallelismFlag) \<and>
         (mode [SlurmMode] \<longrightarrow> \<not> req CompletionsFlag) \<and>
         mode [InteractiveMode, JobMode, RayJobMode, RayClusterMode, SlurmMode] \<and>
         \<not> req MemPerNodeFlag \<and>
         length (sm_RequiredFlags m) \<le> 14 \<and> distinct (sm_RequiredFlags m))"

section \<open>Objects\<close>

text \<open>The \<open>runtime.Object\<close>s the builders return, with their \<open>TypeMeta\<close> read off the constructor.\<close>

datatype 'q runtime_object =
    PodObject object_meta "'q pod_spec"
  | JobObject object_meta "'q job_spec"
  | RayJobObject object_meta "'q ray_job_spec"
  | RayClusterObject object_meta "'q ray_cluster_spec"
  | ConfigMapObject object_meta str_map
  | ServiceObject object_meta string str_map

fun object_kind :: "'q runtime_object \<Rightarrow> string" where
  "object_kind (PodObject m s) = ''Pod''"
| "object_kind (JobObject m s) = ''Job''"
| "object_kind (RayJobObject m s) = ''RayJob''"
| "object_kind (RayClusterObject m s) = ''RayCluster''"
| "object_kind (ConfigMapObject m d) = ''ConfigMap''"
| "object_kind (ServiceObject m c s) = ''Service''"

fun object_api_version :: "'q runtime_object \<Rightarrow> string" where
  "object_api_version (PodObject m s) = ''v1''"
| "object_api_version (JobObject m s) = ''batch/v1''"
| "object_api_version (RayJobObject m s) = ''ray.io/v1''"
| "object_api_version (RayClusterObject m s) = ''ray.io/v1''"
| "object_api_version (ConfigMapObject m d) = ''v1''"
| "object_api_version (ServiceObject m c s) = ''v1''"

fun object_meta_of :: "'q runtime_object \<Rightarrow> object_meta" where
  "object_meta_of (PodObject m s) = m"
| "object_meta_of (JobObject m s) = m"
| "object_meta_of (RayJobObject m s) = m"
| "object_meta_of (RayClusterObject m s) = m"
| "object_meta_of (ConfigMapObject m d) = m"
| "object_meta_of (ServiceObject m c s) = m"

text \<open>Looking a label up; a nil map has none.\<close>

definition label_of :: "object_meta \<Rightarrow> string \<Rightarrow> string option" where
  "label_of m k = (case meta_Labels m of None \<Rightarrow> None | Some ls \<Rightarrow> mget ls k)"

end
