(* ===== verification/SlurmScript.thy ===== *)
theory SlurmScript
  imports ApiTypes
begin

text \<open>
  \<open>pkg/parser/slurm.go\<close>: reading the \<open>#SBATCH\<close> directives of a batch script, and checking and
  rewriting its commands. The quantity parser and the command-line parser of \<open>srun\<close> (\<open>pflag\<close> with
  unknown flags allowed) are parameters.
\<close>

section \<open>Directives\<close>

record 'q parsed_slurm_flags =
  pf_Array :: string
  pf_CpusPerTask :: "'q option"
  pf_GpusPerTask :: "(string, 'q) gomap option"
  pf_MemPerNode :: "'q option"
  pf_MemPerTask :: "'q option"
  pf_MemPerCPU :: "'q option"
  pf_MemPerGPU :: "'q option"
  pf_Nodes :: "int32 option"
  pf_NTasks :: "int32 option"
  pf_Output :: string
  pf_Error :: string
  pf_Input :: string
  pf_JobName :: string
  pf_Partition :: string
  pf_TimeLimit :: string

definition empty_slurm_flags :: "'q parsed_slurm_flags" where
  "empty_slurm_flags =
     \<lparr>pf_Array = [], pf_CpusPerTask = None, pf_GpusPerTask = None, pf_MemPerNode = None,
      pf_MemPerTask = None, pf_MemPerCPU = None, pf_MemPerGPU = None, pf_Nodes = None,
      pf_NTasks = None, pf_Output = [], pf_Error = [], pf_Input = [], pf_JobName = [],
      pf_Partition = [], pf_TimeLimit = []\<rparr>"

datatype gpu_error = InvalidGpuFormat | GpuQuantity string

datatype env_error = MissedBeforeExport | DoubleSemicolon | InvalidEnvVar string | MissedBeforeCommand string

datatype slurm_error =
    CannotParse string string
  | CannotParseGpus string gpu_error
  | InvalidNumber num_error
  | UnknownFlag string
  | InvalidNumberOfTasks int32
  | MultipleSteps
  | InvalidSrun string string
  | NoSrunArgument string
  | InvalidEnvVars string env_error
  | CommandNotSupported string

definition slurmDirective :: string where
  "slurmDirective = ''#SBATCH''"

text \<open>
  The regular expression \<open>(\w+[\w+-]*)=(\S+)\<close>: the characters of the key do not contain the equals
  sign, so a match that starts at a position takes all key characters there.
\<close>

definition is_key_char :: "char \<Rightarrow> bool" where
  "is_key_char c \<longleftrightarrow> is_word c \<or> c = CHR ''+'' \<or> c = CHR ''-''"

definition long_at :: "string \<Rightarrow> (string \<times> string) option" where
  "long_at s =
     (let key = takeWhile is_key_char s;
          rest = dropWhile is_key_char s;
          val = takeWhile (\<lambda>c. \<not> is_re_space c) (tl rest)
      in if s \<noteq> [] \<and> is_word (hd s) \<and> rest \<noteq> [] \<and> hd rest = CHR ''='' \<and> val \<noteq> []
         then Some (key, val) else None)"

fun longFlagFormat :: "string \<Rightarrow> (string \<times> string) option" where
  "longFlagFormat [] = None"
| "longFlagFormat (c # cs) =
     (case long_at (c # cs) of Some kv \<Rightarrow> Some kv | None \<Rightarrow> longFlagFormat cs)"

text \<open>The regular expression \<open>-(\w)\s+(\S+)\<close>.\<close>

definition short_at :: "string \<Rightarrow> (string \<times> string) option" where
  "short_at s =
     (case s of
       d # k # rest \<Rightarrow>
         let val = takeWhile (\<lambda>c. \<not> is_re_space c) (dropWhile is_re_space rest)
         in if d = CHR ''-'' \<and> is_word k \<and> rest \<noteq> [] \<and> is_re_space (hd rest) \<and> val \<noteq> []
            then Some ([k], val) else None
     | _ \<Rightarrow> None)"

fun shortFlagFormat :: "string \<Rightarrow> (string \<times> string) option" where
  "shortFlagFormat [] = None"
| "shortFlagFormat (c # cs) =
     (case short_at (c # cs) of Some kv \<Rightarrow> Some kv | None \<Rightarrow> shortFlagFormat cs)"

definition extractKeyValue :: "string \<Rightarrow> string \<times> string" where
  "extractKeyValue s =
     (case longFlagFormat s of
       Some kv \<Rightarrow> kv
     | None \<Rightarrow> (case shortFlagFormat s of Some kv \<Rightarrow> kv | None \<Rightarrow> ([], [])))"

fun gpus_loop ::
  "(string \<Rightarrow> string + 'q) \<Rightarrow> string list \<Rightarrow> (string, 'q) gomap \<Rightarrow> gpu_error + (string, 'q) gomap" where
  "gpus_loop parse [] gpus = Inr gpus"
| "gpus_loop parse (v # vs) gpus =
     (let gpu = split_on (CHR '':'') v
      in if length gpu \<noteq> 2 then Inl InvalidGpuFormat
         else case parse (gpu ! 1) of
           Inl err \<Rightarrow> Inl (GpuQuantity err)
         | Inr quantity \<Rightarrow> gpus_loop parse vs (mput (gpu ! 0) quantity gpus))"

definition GpusFlag :: "(string \<Rightarrow> string + 'q) \<Rightarrow> string \<Rightarrow> gpu_error + (string, 'q) gomap" where
  "GpusFlag parse val = gpus_loop parse (split_on (CHR '','') val) []"

definition parse_quantity :: "(string \<Rightarrow> string + 'q) \<Rightarrow> string \<Rightarrow> slurm_error + 'q" where
  "parse_quantity parse val = map_err (CannotParse val) (parse val)"

text \<open>The \<open>switch\<close> on the key of one directive. An unknown flag is an error unless it is ignored.\<close>

definition apply_flag ::
  "(string \<Rightarrow> string + 'q) \<Rightarrow> bool \<Rightarrow> string \<Rightarrow> string \<Rightarrow> 'q parsed_slurm_flags \<Rightarrow>
   slurm_error + 'q parsed_slurm_flags" where
  "apply_flag parse ignoreUnknown key val flags =
     (if key = ''a'' \<or> key = flag_name ArrayFlag then Inr (flags\<lparr>pf_Array := val\<rparr>)
      else if key = flag_name CpusPerTaskFlag
      then and_then (parse_quantity parse val) (\<lambda>q. Inr (flags\<lparr>pf_CpusPerTask := Some q\<rparr>))
      else if key = ''e'' \<or> key = flag_name ErrorFlag then Inr (flags\<lparr>pf_Error := val\<rparr>)
      else if key = flag_name GpusPerTaskFlag
      then and_then (map_err (CannotParseGpus val) (GpusFlag parse val)) (\<lambda>g. Inr (flags\<lparr>pf_GpusPerTask := Some g\<rparr>))
      else if key = ''i'' \<or> key = flag_name InputFlag then Inr (flags\<lparr>pf_Input := val\<rparr>)
      else if key = ''J'' \<or> key = flag_name JobNameFlag then Inr (flags\<lparr>pf_JobName := val\<rparr>)
      else if key = flag_name MemPerNodeFlag
      then and_then (parse_quantity parse val) (\<lambda>q. Inr (flags\<lparr>pf_MemPerNode := Some q\<rparr>))
      else if key = flag_name MemPerCPUFlag
      then and_then (parse_quantity parse val) (\<lambda>q. Inr (flags\<lparr>pf_MemPerCPU := Some q\<rparr>))
      else if key = flag_name MemPerGPUFlag
      then and_then (parse_quantity parse val) (\<lambda>q. Inr (flags\<lparr>pf_MemPerGPU := Some q\<rparr>))
      else if key = flag_name MemPerTaskFlag
      then and_then (parse_quantity parse val) (\<lambda>q. Inr (flags\<lparr>pf_MemPerTask := Some q\<rparr>))
      else if key = ''N'' \<or> key = flag_name NodesFlag
      then and_then (map_err InvalidNumber (parse_int 32 val)) (\<lambda>i. Inr (flags\<lparr>pf_Nodes := Some (word_of_int i)\<rparr>))
      else if key = ''n'' \<or> key = flag_name NTasksFlag
      then and_then (map_err InvalidNumber (parse_int 32 val)) (\<lambda>i. Inr (flags\<lparr>pf_NTasks := Some (word_of_int i)\<rparr>))
      else if key = ''o'' \<or> key = flag_name OutputFlag then Inr (flags\<lparr>pf_Output := val\<rparr>)
      else if key = ''p'' \<or> key = flag_name PartitionFlag then Inr (flags\<lparr>pf_Partition := val\<rparr>)
      else if key = ''t'' \<or> key = flag_name TimeFlag then Inr (flags\<lparr>pf_TimeLimit := val\<rparr>)
      else if \<not> ignoreUnknown then Inl (UnknownFlag key)
      else Inr flags)"

text \<open>The scan over the lines: \<open>continue\<close> is the recursive call, \<open>break\<close> returns the flags.\<close>

fun flags_loop ::
  "(string \<Rightarrow> string + 'q) \<Rightarrow> bool \<Rightarrow> string list \<Rightarrow> 'q parsed_slurm_flags \<Rightarrow>
   slurm_error + 'q parsed_slurm_flags" where
  "flags_loop parse ignoreUnknown [] flags = Inr flags"
| "flags_loop parse ignoreUnknown (l # ls) flags =
     (let line = trim_space l
      in if line = [] then flags_loop parse ignoreUnknown ls flags
         else if \<not> has_prefix line slurmDirective
         then (if has_prefix line ''#'' then flags_loop parse ignoreUnknown ls flags else Inr flags)
         else
           let (key, val) = extractKeyValue line
           in if key = [] \<or> val = [] then flags_loop parse ignoreUnknown ls flags
              else and_then (apply_flag parse ignoreUnknown key val flags)
                     (flags_loop parse ignoreUnknown ls))"

definition SlurmFlags ::
  "(string \<Rightarrow> string + 'q) \<Rightarrow> string \<Rightarrow> bool \<Rightarrow> slurm_error + 'q parsed_slurm_flags" where
  "SlurmFlags parse script ignoreUnknown =
     flags_loop parse ignoreUnknown (scan_lines script) empty_slurm_flags"

section \<open>Words and quotes\<close>

text \<open>\<open>isEscaped\<close> counts the backslashes before the index, walking down.\<close>

fun escape_count :: "string \<Rightarrow> nat \<Rightarrow> nat" where
  "escape_count str 0 = 0"
| "escape_count str (Suc i) =
     (if i < length str \<and> str ! i = CHR 0x5C then Suc (escape_count str i) else 0)"

definition isEscaped :: "string \<Rightarrow> nat \<Rightarrow> bool" where
  "isEscaped str index \<longleftrightarrow> escape_count str index mod 2 \<noteq> 0"

function split_loop ::
  "string \<Rightarrow> nat \<Rightarrow> string list \<Rightarrow> string \<Rightarrow> bool \<Rightarrow> bool \<Rightarrow> string list" where
  "split_loop str i parts current inSingle inDouble =
     (if i < length str
      then
        let c = str ! i;
            inDouble = (if \<not> inSingle \<and> c = CHR 0x22 \<and> \<not> isEscaped str i then \<not> inDouble else inDouble);
            inSingle = (if \<not> inDouble \<and> c = CHR 0x27 \<and> \<not> isEscaped str i then \<not> inSingle else inSingle)
        in if c \<noteq> CHR '' '' \<or> inSingle \<or> inDouble
           then (if i < length str - 1
                 then split_loop str (i + 1) parts (current @ [c]) inSingle inDouble
                 else split_loop str (i + 1) (parts @ [current @ [c]]) [] inSingle inDouble)
           else split_loop str (i + 1) (parts @ [current]) [] inSingle inDouble
      else parts)"
  by pat_completeness auto
termination by (relation "measure (\<lambda>(str, i, _). length str - i)") auto

definition splitBySpaceWithIgnoreInQuotes :: "string \<Rightarrow> string list" where
  "splitBySpaceWithIgnoreInQuotes str = split_loop str 0 [] [] False False"

section \<open>Commands\<close>

definition srunCommand :: string where
  "srunCommand = ''srun''"

definition notSupportedCommands :: "string list" where
  "notSupportedCommands =
     [''sbatch'', ''salloc'', ''wait'', ''sinfo'', ''scontrol'', ''squeue'', ''scancel'']"

text \<open>\<open>findCommand\<close>: the index in the trimmed input, \<open>None\<close> for -1.\<close>

definition findCommand :: "string \<Rightarrow> string \<Rightarrow> nat option" where
  "findCommand inp command =
     (let input = trim_space inp
      in case str_index input command of
        None \<Rightarrow> None
      | Some index \<Rightarrow>
          if index > 0 \<and> input ! (index - 1) \<noteq> CHR '' '' then None
          else
            let withoutPrefix = drop index input
            in if withoutPrefix \<noteq> command \<and> \<not> has_prefix withoutPrefix (command @ '' '') then None
               else Some index)"

text \<open>The regular expression \<open>^([A-Z0-9_]+)=(?:"([^"]*)"|([^"\s]+))$\<close>.\<close>

definition envVarFormat :: "string \<Rightarrow> bool" where
  "envVarFormat s =
     (let name = takeWhile (\<lambda>c. is_upper c \<or> is_digit c \<or> c = CHR ''_'') s;
          rest = dropWhile (\<lambda>c. is_upper c \<or> is_digit c \<or> c = CHR ''_'') s;
          val = tl rest
      in name \<noteq> [] \<and> rest \<noteq> [] \<and> hd rest = CHR ''='' \<and>
         ((length val \<ge> 2 \<and> hd val = CHR 0x22 \<and> last val = CHR 0x22 \<and>
             CHR 0x22 \<notin> set (butlast (tl val))) \<or>
          (val \<noteq> [] \<and> list_all (\<lambda>c. c \<noteq> CHR 0x22 \<and> \<not> is_re_space c) val)))"

fun env_loop :: "string list \<Rightarrow> bool \<Rightarrow> env_error + bool" where
  "env_loop [] export = Inr export"
| "env_loop (part # parts) export =
     (if part = [] then env_loop parts export
      else if part = ''export''
      then (if export then Inl MissedBeforeExport else env_loop parts True)
      else if part = ''&&'' then env_loop parts False
      else if has_suffix part '';'' \<and> \<not> isEscaped part (length part - 1)
      then (if length part > 1 \<and> part ! (length part - 2) = CHR '';'' then Inl DoubleSemicolon
            else env_loop parts False)
      else if \<not> envVarFormat part then Inl (InvalidEnvVar part)
      else env_loop parts export)"

definition validateEnvVars :: "string \<Rightarrow> string \<Rightarrow> env_error + unit" where
  "validateEnvVars input command =
     and_then (env_loop (splitBySpaceWithIgnoreInQuotes input) False)
       (\<lambda>export. if export then Inl (MissedBeforeCommand command) else Inr ())"

section \<open>Rewriting the script\<close>

text \<open>
  One command line: an \<open>srun\<close> call is replaced by its arguments, kept behind the variable
  assignments in front of it. The second component tells whether the line was an \<open>srun\<close> call.
\<close>

type_synonym srun_parser = "string list \<Rightarrow> string + string list"

definition replace_srun :: "srun_parser \<Rightarrow> string \<Rightarrow> slurm_error + string \<times> bool" where
  "replace_srun srun line =
     (case findCommand line srunCommand of
       None \<Rightarrow> Inr (line, False)
     | Some index \<Rightarrow>
         let args = tl (splitBySpaceWithIgnoreInQuotes (drop index line))
         in case srun args of
           Inl err \<Rightarrow> Inl (InvalidSrun line err)
         | Inr srunArgs \<Rightarrow>
             if srunArgs = [] then Inl (NoSrunArgument line)
             else if index > 0
             then (case validateEnvVars (take index line) srunCommand of
                 Inl err \<Rightarrow> Inl (InvalidEnvVars line err)
               | Inr _ \<Rightarrow> Inr (take index line @ str_join '' '' srunArgs, True))
             else Inr (str_join '' '' srunArgs, True))"

fun check_commands :: "string list \<Rightarrow> string \<Rightarrow> slurm_error + unit" where
  "check_commands [] line = Inr ()"
| "check_commands (command # cs) line =
     (if findCommand line command \<noteq> None then Inl (CommandNotSupported command)
      else check_commands cs line)"

text \<open>The state of the loop over the lines: the output, the number of \<open>srun\<close> calls, the line in
  progress and whether a newline has to be written first.\<close>

record script_state =
  st_out :: string
  st_srunCount :: nat
  st_line :: string
  st_needNewLine :: bool

definition script_line :: "srun_parser \<Rightarrow> int32 \<Rightarrow> string \<Rightarrow> script_state \<Rightarrow> slurm_error + script_state" where
  "script_line srun nTasks l st =
     (let line = (if st_line st \<noteq> [] then st_line st @ '' '' else []) @ trim_space l
      in if has_suffix line (CHR '' '' # [CHR 0x5C])
         then Inr (st\<lparr>st_line := trim_right_blank (take (length line - 2) line)\<rparr>)
         else if line = [] then Inr (st\<lparr>st_out := st_out st @ [CHR 0x0A], st_line := []\<rparr>)
         else if 1 <s nTasks \<and> st_srunCount st > 0 then Inl MultipleSteps
         else
           and_then (replace_srun srun line) (\<lambda>(line, isSrun).
           and_then (check_commands notSupportedCommands line) (\<lambda>_.
             Inr \<lparr>st_out = st_out st @ (if st_needNewLine st then [CHR 0x0A] else []) @ line,
                  st_srunCount = st_srunCount st + (if isSrun then 1 else 0),
                  st_line = [], st_needNewLine = True\<rparr>)))"

fun script_loop :: "srun_parser \<Rightarrow> int32 \<Rightarrow> string list \<Rightarrow> script_state \<Rightarrow> slurm_error + script_state" where
  "script_loop srun nTasks [] st = Inr st"
| "script_loop srun nTasks (l # ls) st =
     and_then (script_line srun nTasks l st) (script_loop srun nTasks ls)"

definition SlurmValidateAndReplaceScript :: "srun_parser \<Rightarrow> string \<Rightarrow> int32 \<Rightarrow> slurm_error + string" where
  "SlurmValidateAndReplaceScript srun script nTasks =
     (if nTasks <s 1 then Inl (InvalidNumberOfTasks nTasks)
      else map_sum (\<lambda>e. e) st_out
             (script_loop srun nTasks (split_on (CHR 0x0A) script)
               \<lparr>st_out = [], st_srunCount = 0, st_line = [], st_needNewLine = False\<rparr>))"

section \<open>Splitting words\<close>

abbreviation with_blanks :: "string list \<Rightarrow> string" where
  "with_blanks ps \<equiv> concat (map (\<lambda>p. p @ '' '') ps)"

lemma escape_count_run:
  "i \<le> length str \<Longrightarrow> escape_count str i = length (takeWhile (\<lambda>c. c = CHR 0x5C) (rev (take i str)))"
  by (induction str i rule: escape_count.induct) (auto simp: take_Suc_conv_app_nth)

declare split_loop.simps [simp del]

lemma split_loop_end [simp]: "length str \<le> i \<Longrightarrow> split_loop str i parts current s d = parts"
  by (simp add: split_loop.simps [of str i])

lemma split_loop_concat:
  "(i < length str \<Longrightarrow> with_blanks parts @ current = take i str) \<Longrightarrow>
   (length str \<le> i \<Longrightarrow> with_blanks parts = str \<or> with_blanks parts = str @ '' '') \<Longrightarrow>
   with_blanks (split_loop str i parts current s d) = str \<or>
   with_blanks (split_loop str i parts current s d) = str @ '' ''"
proof (induction str i parts current s d rule: split_loop.induct)
  case (1 str i parts current s d)
  let ?d = "if \<not> s \<and> str ! i = CHR 0x22 \<and> \<not> isEscaped str i then \<not> d else d"
  let ?s = "if \<not> ?d \<and> str ! i = CHR 0x27 \<and> \<not> isEscaped str i then \<not> s else s"
  show ?case
  proof (cases "i < length str")
    case False
    then show ?thesis using 1(5) by simp
  next
    case True
    note step = split_loop.simps [of str i parts current s d]
    note pre = 1(4) [OF True]
    have next_take: "take (Suc i) str = take i str @ [str ! i]" using True by (simp add: take_Suc_conv_app_nth)
    consider (grow) "str ! i \<noteq> CHR '' '' \<or> ?s \<or> ?d" "i < length str - 1"
      | (last) "str ! i \<noteq> CHR '' '' \<or> ?s \<or> ?d" "\<not> i < length str - 1"
      | (cut) "\<not> (str ! i \<noteq> CHR '' '' \<or> ?s \<or> ?d)" by blast
    then show ?thesis
    proof cases
      case grow
      then have eq: "split_loop str i parts current s d = split_loop str (i + 1) parts (current @ [str ! i]) ?s ?d"
        using True by (simp add: step Let_def)
      show ?thesis unfolding eq
        using 1(1) [OF True refl refl refl] grow pre next_take by (auto simp: Let_def)
    next
      case last
      then have "Suc i = length str" using True by simp
      with last True have "split_loop str i parts current s d = parts @ [current @ [str ! i]]"
        by (simp add: step Let_def)
      moreover have "with_blanks (parts @ [current @ [str ! i]]) = (with_blanks parts @ current) @ [str ! i] @ '' ''"
        by simp
      moreover have "\<dots> = str @ '' ''"
        unfolding pre using next_take \<open>Suc i = length str\<close> by simp
      ultimately show ?thesis by metis
    next
      case cut
      then have eq: "split_loop str i parts current s d = split_loop str (i + 1) (parts @ [current]) [] ?s ?d"
        using True by (subst step) (simp add: Let_def)
      have blanks: "with_blanks (parts @ [current]) = take (Suc i) str"
        unfolding next_take pre [symmetric] using cut by simp
      then show ?thesis unfolding eq
        using 1(3) [OF True refl refl refl] cut by simp
    qed
  qed
qed


lemma split_words_unquoted:
  "(\<forall>c \<in> set str. c \<noteq> CHR 0x22 \<and> c \<noteq> CHR 0x27) \<Longrightarrow> i < length str \<Longrightarrow>
   split_loop str i parts current False False =
     parts @ (let ps = split_on (CHR '' '') (drop i str); qs = (current @ hd ps) # tl ps
              in if last (drop i str) = CHR '' '' then butlast qs else qs)"
proof (induction "length str - i" arbitrary: i parts current)
  case (Suc n)
  let ?c = "str ! i"
  have quote: "?c \<noteq> CHR 0x22" "?c \<noteq> CHR 0x27" using Suc.prems by simp_all
  have dr: "drop i str = ?c # drop (Suc i) str" using Suc.prems by (simp add: Cons_nth_drop_Suc)
  show ?case
  proof (cases "Suc i = length str")
    case True
    then have "\<not> i < length str - 1" by simp
    with True Suc.prems quote dr show ?thesis
      by (simp add: split_loop.simps [of str i] Let_def)
  next
    case False
    then have "Suc i < length str" "n = length str - Suc i" using Suc by simp_all
    then have ih: "split_loop str (Suc i) parts current False False =
      parts @ (let ps = split_on (CHR '' '') (drop (Suc i) str); qs = (current @ hd ps) # tl ps
               in if last (drop (Suc i) str) = CHR '' '' then butlast qs else qs)" for parts current
      using Suc by simp
    obtain p ps where "split_on (CHR '' '') (drop (Suc i) str) = p # ps"
      by (cases "split_on (CHR '' '') (drop (Suc i) str)") (auto dest: arg_cong [where f = length] simp: length_split_on)
    moreover have "split_loop str i parts current False False =
      (if ?c = CHR '' '' then split_loop str (Suc i) (parts @ [current]) [] False False
       else split_loop str (Suc i) parts (current @ [?c]) False False)"
      using \<open>Suc i < length str\<close> quote by (subst split_loop.simps) (simp add: Let_def, linarith)
    ultimately show ?thesis
      unfolding dr using \<open>Suc i < length str\<close> by (simp add: ih Let_def)
  qed
qed simp

section \<open>Directives: lemmas\<close>

lemma flags_loop_append:
  "flags_loop parse iu (ls @ ms) fl =
     (if list_all (\<lambda>l. trim_space l = [] \<or> has_prefix (trim_space l) ''#'') ls
      then and_then (flags_loop parse iu ls fl) (flags_loop parse iu ms)
      else flags_loop parse iu ls fl)"
proof (induction ls arbitrary: fl)
  case (Cons l ls)
  have "has_prefix (trim_space l) ''#''" if "has_prefix (trim_space l) slurmDirective"
    using that by (auto simp: has_prefix_iff_append slurmDirective_def)
  with Cons show ?case
    by (cases "apply_flag parse iu (fst (extractKeyValue (trim_space l))) (snd (extractKeyValue (trim_space l))) fl")
      (auto simp: Let_def split: prod.splits)
qed simp

definition header_line :: "string \<Rightarrow> bool" where
  "header_line l \<longleftrightarrow> trim_space l = [] \<or> has_prefix (trim_space l) ''#''"

lemma flags_loop_stop:
  assumes "\<not> header_line l"
  shows "flags_loop parse iu (ls @ l # ms) fl = flags_loop parse iu ls fl"
proof -
  have "\<not> has_prefix (trim_space l) slurmDirective"
    using assms by (auto simp: header_line_def has_prefix_iff_append slurmDirective_def)
  with assms have "flags_loop parse iu (l # ms) fl' = Inr fl'" for fl'
    by (simp add: header_line_def Let_def)
  then show ?thesis
    by (cases "flags_loop parse iu ls fl") (simp_all add: flags_loop_append)
qed

lemma flags_loop_snoc_blank: "flags_loop parse iu (ls @ [[]]) fl = flags_loop parse iu ls fl"
  by (cases "flags_loop parse iu ls fl") (simp_all add: flags_loop_append)

text \<open>The scan of a script whose last line may be empty, up to directives.\<close>

lemma flags_loop_scan_lines:
  "flags_loop parse iu (scan_lines s) fl =
   flags_loop parse iu (map drop_cr (takeWhile (\<lambda>l. length l < max_scan_token_size) (split_on (CHR 0x0A) s))) fl"
proof (cases "last (split_on (CHR 0x0A) s) = []")
  case True
  let ?P = "\<lambda>l. length l < max_scan_token_size" and ?ls = "split_on (CHR 0x0A) s"
  have "?ls = butlast ?ls @ [[]]"
    using True by (metis append_butlast_last_id length_0_conv length_split_on nat.simps(3))
  then have "takeWhile ?P ?ls = takeWhile ?P (butlast ?ls @ [[]])" by simp
  also have "\<dots> = (if list_all ?P (butlast ?ls) then butlast ?ls @ [[]] else takeWhile ?P (butlast ?ls))"
    by (auto simp: takeWhile_append list_all_iff max_scan_token_size_def takeWhile_tail)
  finally show ?thesis
    using True
    by (simp add: scan_lines_def raw_lines_def drop_cr_def flags_loop_snoc_blank list_all_iff
        takeWhile_eq_all_conv [THEN iffD2])
next
  case False
  then show ?thesis by (simp add: scan_lines_def raw_lines_def)
qed

lemma apply_flag_unknown: "apply_flag parse True key val fl \<noteq> Inl (UnknownFlag k)"
  by (auto simp: apply_flag_def parse_quantity_def and_then_Inl_iff map_err_Inl_iff split: if_splits)

lemma flags_loop_unknown: "flags_loop parse True ls fl \<noteq> Inl (UnknownFlag k)"
  by (induction ls arbitrary: fl)
    (auto simp: Let_def and_then_Inl_iff apply_flag_unknown split: prod.splits if_splits)

lemma apply_flag_ignore: "apply_flag parse False key val fl = Inr fl' \<Longrightarrow> apply_flag parse True key val fl = Inr fl'"
proof -
  have "apply_flag parse False key val fl = Inl (UnknownFlag key) \<or>
      apply_flag parse False key val fl = apply_flag parse True key val fl"
    unfolding apply_flag_def by presburger
  moreover assume "apply_flag parse False key val fl = Inr fl'"
  ultimately show ?thesis by auto
qed

lemma flags_loop_ignore:
  "flags_loop parse False ls fl = Inr fl' \<Longrightarrow> flags_loop parse True ls fl = Inr fl'"
proof (induction ls arbitrary: fl)
  case (Cons l ls)
  then show ?case by (auto simp: Let_def apply_flag_ignore split: prod.splits if_splits)
qed simp

lemma long_at_None: "\<not> is_word c \<Longrightarrow> long_at (c # cs) = None"
  by (simp add: long_at_def)

lemma long_at_blocked:
  assumes "list_all is_key_char key" and "\<not> is_key_char c" and "c \<noteq> CHR ''=''"
  shows "longFlagFormat (key @ c # cs) = longFlagFormat (c # cs)"
  using assms(1)
proof (induction key)
  case (Cons k ks)
  have "takeWhile is_key_char ((k # ks) @ c # cs) = k # ks" "dropWhile is_key_char ((k # ks) @ c # cs) = c # cs"
    using Cons.prems assms(2) by (simp_all add: list_all_iff takeWhile_append dropWhile_append)
  then have "long_at ((k # ks) @ c # cs) = None" using assms(3) by (simp add: long_at_def)
  with Cons show ?case by simp
qed simp

lemma long_at_match:
  assumes "list_all is_key_char key" and "key \<noteq> []" and "is_word (hd key)"
    and "val \<noteq> []" and "list_all (\<lambda>c. \<not> is_re_space c) val"
  shows "long_at (key @ CHR ''='' # val) = Some (key, val)"
proof -
  have "\<not> is_key_char (CHR ''='')" by (simp add: is_key_char_def go_simps)
  then have key: "takeWhile is_key_char (key @ CHR ''='' # val) = key"
    "dropWhile is_key_char (key @ CHR ''='' # val) = CHR ''='' # val"
    using assms(1) by (simp_all add: list_all_iff takeWhile_append dropWhile_append)
  have val: "takeWhile (\<lambda>c. \<not> is_re_space c) val = val"
    using assms(5) by (simp add: list_all_iff)
  show ?thesis
    unfolding long_at_def Let_def key list.sel val using assms by simp
qed

lemma extract_long:
  assumes "list_all is_key_char key" and "key \<noteq> []" and "is_word (hd key)"
    and "val \<noteq> []" and "list_all (\<lambda>c. \<not> is_re_space c) val"
  shows "extractKeyValue (''#SBATCH --'' @ key @ ''='' @ val) = (key, val)"
proof -
  have "longFlagFormat (''SBATCH'' @ CHR '' '' # ''--'' @ key @ ''='' @ val) =
      longFlagFormat (CHR '' '' # ''--'' @ key @ ''='' @ val)"
    by (rule long_at_blocked) (simp_all add: is_key_char_def go_simps)
  moreover obtain k ks where "key = k # ks" using assms(2) by (cases key) auto
  ultimately show ?thesis
    using long_at_match [OF assms] by (simp add: extractKeyValue_def long_at_None go_simps)
qed

section \<open>Rewriting: lemmas\<close>

lemma check_commands_Inr: "check_commands cs line = Inr u \<longleftrightarrow> (\<forall>c \<in> set cs. findCommand line c = None)"
  by (induction cs) auto

text \<open>A trimmed command line without continuation, \<open>srun\<close> and unsupported commands.\<close>

definition plain_line :: "string \<Rightarrow> bool" where
  "plain_line l \<longleftrightarrow>
     trim_space l = l \<and> \<not> has_suffix l (CHR '' '' # [CHR 0x5C]) \<and>
     (\<forall>c \<in> set (srunCommand # notSupportedCommands). findCommand l c = None)"

lemma plain_lineI:
  "trim_space l = l \<Longrightarrow> \<not> has_suffix l (CHR '' '' # [CHR 0x5C]) \<Longrightarrow>
   list_all (\<lambda>c. str_index l c = None) (srunCommand # notSupportedCommands) \<Longrightarrow> plain_line l"
  by (auto simp: plain_line_def findCommand_def list_all_iff)

lemma script_loop_append:
  "script_loop srun n (ls @ ms) st = and_then (script_loop srun n ls st) (script_loop srun n ms)"
proof (induction ls arbitrary: st)
  case (Cons l ls)
  then show ?case by (cases "script_line srun n l st") simp_all
qed simp

lemma script_line_plain:
  assumes "plain_line l" and "st_line st = []" and "st_srunCount st = 0" and "l \<noteq> []"
  shows "script_line srun n l st =
    Inr (st\<lparr>st_out := st_out st @ (if st_needNewLine st then [CHR 0x0A] else []) @ l, st_needNewLine := True\<rparr>)"
  using assms check_commands_Inr [of notSupportedCommands l "()"]
  by (simp add: script_line_def plain_line_def replace_srun_def Let_def)

lemma script_line_blank:
  "st_line st = [] \<Longrightarrow> script_line srun n [] st = Inr (st\<lparr>st_out := st_out st @ [CHR 0x0A]\<rparr>)"
  by (simp add: script_line_def has_suffix_def has_prefix_def Let_def)

lemma script_loop_plain:
  assumes "list_all plain_line ls" and "st_line st = []" and "st_srunCount st = 0" and "st_needNewLine st"
  shows "script_loop srun n ls st = Inr (st\<lparr>st_out := st_out st @ concat (map (\<lambda>l. CHR 0x0A # l) ls)\<rparr>)"
  using assms
proof (induction ls arbitrary: st)
  case (Cons l ls)
  then show ?case
    by (cases "l = []") (simp_all add: script_line_plain script_line_blank)
qed simp

lemma script_loop_blanks:
  assumes "st_line st = []"
  shows "script_loop srun n (replicate k []) st = Inr (st\<lparr>st_out := st_out st @ replicate k (CHR 0x0A)\<rparr>)"
  using assms
proof (induction k arbitrary: st)
  case (Suc k)
  then show ?case by (simp add: script_line_blank)
qed simp

lemma join_newlines: "str_join [c] (l # ls) = l @ concat (map (\<lambda>l. c # l) ls)"
  by (induction ls arbitrary: l) simp_all

lemma join_blanks: "ls \<noteq> [] \<Longrightarrow> str_join [c] (replicate k [] @ ls) = replicate k c @ str_join [c] ls"
proof (induction k)
  case (Suc k)
  moreover have "str_join [c] ([] # xs) = c # str_join [c] xs" if "xs \<noteq> []" for xs
    using that by (cases xs) simp_all
  ultimately show ?case by simp
qed simp

text \<open>
  The reference for the loop. The lines of the script are first joined at their continuations
  (\<open>logical_lines\<close>, with the text pending from the lines before); a continuation at the end of the
  script is dropped. An empty logical line is written as it is, any other with its \<open>srun\<close> call
  replaced and only when none of the unsupported commands is found in the result (\<open>written_as\<close>).
\<close>

fun logical_lines :: "string \<Rightarrow> string list \<Rightarrow> string list" where
  "logical_lines pending [] = []"
| "logical_lines pending (l # ls) =
     (let line = (if pending \<noteq> [] then pending @ '' '' else []) @ trim_space l
      in if has_suffix line (CHR '' '' # [CHR 0x5C])
         then logical_lines (trim_right_blank (take (length line - 2) line)) ls
         else line # logical_lines [] ls)"

definition written_as :: "srun_parser \<Rightarrow> string \<Rightarrow> string \<Rightarrow> bool" where
  "written_as srun l w \<longleftrightarrow>
     (if l = [] then w = []
      else replace_srun srun l = Inr (w, findCommand l srunCommand \<noteq> None) \<and>
           (\<forall>c \<in> set notSupportedCommands. findCommand w c = None))"

definition blank_after_srun :: "string list \<Rightarrow> bool" where
  "blank_after_srun L \<longleftrightarrow> sorted_wrt (\<lambda>l l'. findCommand l srunCommand \<noteq> None \<longrightarrow> l' = []) L"

text \<open>What the loop writes for pairs of a logical line and its replacement.\<close>

fun text_from :: "bool \<Rightarrow> (string \<times> string) list \<Rightarrow> string" where
  "text_from needNewLine [] = []"
| "text_from needNewLine ((l, w) # ps) =
     (if l = [] then CHR 0x0A # text_from needNewLine ps
      else (if needNewLine then [CHR 0x0A] else []) @ w @ text_from True ps)"

lemma findCommand_Nil [simp]: "command \<noteq> [] \<Longrightarrow> findCommand [] command = None"
  by (cases command) (simp_all add: findCommand_def has_prefix_def)

lemma srunCommand_ne [simp]: "srunCommand \<noteq> []"
  by (simp add: srunCommand_def)

lemma replace_srun_flag: "replace_srun srun l = Inr (w, b) \<Longrightarrow> b \<longleftrightarrow> findCommand l srunCommand \<noteq> None"
  by (auto simp: replace_srun_def Let_def split: option.splits sum.splits if_splits)

lemma blank_after_srun_Nil [simp]: "blank_after_srun ([] # L) \<longleftrightarrow> blank_after_srun L"
  by (simp add: blank_after_srun_def)

lemma blank_after_srun_Cons:
  "blank_after_srun (l # L) \<longleftrightarrow>
   (findCommand l srunCommand \<noteq> None \<longrightarrow> (\<forall>l' \<in> set L. l' = [])) \<and> blank_after_srun L"
  by (auto simp: blank_after_srun_def)

text \<open>One command line, neither continued nor empty.\<close>

lemma script_line_command:
  assumes "line = (if st_line st \<noteq> [] then st_line st @ '' '' else []) @ trim_space l"
    and "\<not> has_suffix line (CHR '' '' # [CHR 0x5C])" and "line \<noteq> []"
  shows "script_line srun n l st = Inr st1 \<longleftrightarrow>
    \<not> (1 <s n \<and> st_srunCount st > 0) \<and>
    (\<exists>w. written_as srun line w \<and>
      st1 = \<lparr>st_out = st_out st @ (if st_needNewLine st then [CHR 0x0A] else []) @ w,
        st_srunCount = st_srunCount st + (if findCommand line srunCommand \<noteq> None then 1 else 0),
        st_line = [], st_needNewLine = True\<rparr>)"
proof (cases "replace_srun srun line")
  case (Inl e)
  with assms(2,3) show ?thesis unfolding script_line_def assms(1) [symmetric] Let_def by (simp add: written_as_def)
next
  case (Inr r)
  obtain w b where r: "r = (w, b)" by fastforce
  have b: "b \<longleftrightarrow> findCommand line srunCommand \<noteq> None" by (rule replace_srun_flag [OF Inr [unfolded r]])
  have "check_commands notSupportedCommands w = Inr () \<longleftrightarrow> (\<forall>c \<in> set notSupportedCommands. findCommand w c = None)"
    by (rule check_commands_Inr)
  with assms(2,3) Inr r b show ?thesis unfolding script_line_def assms(1) [symmetric] Let_def
    by (cases "check_commands notSupportedCommands w") (auto simp: written_as_def)
qed

lemma ex_list_all2_Cons:
  "(\<exists>ws. list_all2 P (x # xs) ws \<and> Q ws) \<longleftrightarrow> (\<exists>w ws. P x w \<and> list_all2 P xs ws \<and> Q (w # ws))"
  by (auto simp: list_all2_Cons1)

lemma step_condition:
  "(\<not> (N \<and> S) \<and> (\<exists>w. W w \<and> (\<exists>ws. R ws \<and> (N \<longrightarrow> B \<and> (S \<or> F \<longrightarrow> A)) \<and> Q w ws))) \<longleftrightarrow>
   (\<exists>w ws. W w \<and> R ws \<and> (N \<longrightarrow> ((F \<longrightarrow> A) \<and> B) \<and> \<not> S) \<and> Q w ws)"
  by blast

lemma script_loop_iff:
  "(\<exists>st'. script_loop srun n ls st = Inr st' \<and> st_out st' = out) \<longleftrightarrow>
   (\<exists>ws. list_all2 (written_as srun) (logical_lines (st_line st) ls) ws \<and>
     (1 <s n \<longrightarrow> blank_after_srun (logical_lines (st_line st) ls) \<and>
       (st_srunCount st > 0 \<longrightarrow> (\<forall>l \<in> set (logical_lines (st_line st) ls). l = []))) \<and>
     out = st_out st @ text_from (st_needNewLine st) (zip (logical_lines (st_line st) ls) ws))"
proof (induction ls arbitrary: st out)
  case Nil
  then show ?case by (auto simp: blank_after_srun_def)
next
  case (Cons l ls)
  define line where "line = (if st_line st \<noteq> [] then st_line st @ '' '' else []) @ trim_space l"
  show ?case
  proof (cases "has_suffix line (CHR '' '' # [CHR 0x5C])")
    case True
    then have "script_line srun n l st = Inr (st\<lparr>st_line := trim_right_blank (take (length line - 2) line)\<rparr>)"
      "logical_lines (st_line st) (l # ls) = logical_lines (trim_right_blank (take (length line - 2) line)) ls"
      by (simp_all add: script_line_def line_def [symmetric])
    then show ?thesis using Cons.IH [of "st\<lparr>st_line := trim_right_blank (take (length line - 2) line)\<rparr>" out] by simp
  next
    case False
    then have L: "logical_lines (st_line st) (l # ls) = line # logical_lines [] ls"
      by (simp add: line_def [symmetric])
    show ?thesis
    proof (cases "line = []")
      case True
      with False have "script_line srun n l st = Inr (st\<lparr>st_out := st_out st @ [CHR 0x0A], st_line := []\<rparr>)"
        by (simp add: script_line_def line_def [symmetric])
      then show ?thesis unfolding L
        using Cons.IH [of "st\<lparr>st_out := st_out st @ [CHR 0x0A], st_line := []\<rparr>" out] True
        by (auto simp: list_all2_Cons1 written_as_def)
    next
      case nonblank: False
      define nxt where "nxt w = \<lparr>st_out = st_out st @ (if st_needNewLine st then [CHR 0x0A] else []) @ w,
          st_srunCount = st_srunCount st + (if findCommand line srunCommand \<noteq> None then 1 else 0),
          st_line = [], st_needNewLine = True\<rparr>" for w
      note command = script_line_command [OF line_def False nonblank, of srun n, folded nxt_def]
      have rest: "(\<exists>st'. script_loop srun n ls (nxt w) = Inr st' \<and> st_out st' = out) \<longleftrightarrow>
          (\<exists>ws. list_all2 (written_as srun) (logical_lines [] ls) ws \<and>
            (1 <s n \<longrightarrow> blank_after_srun (logical_lines [] ls) \<and>
              (st_srunCount st > 0 \<or> findCommand line srunCommand \<noteq> None \<longrightarrow> (\<forall>l \<in> set (logical_lines [] ls). l = []))) \<and>
            out = st_out st @ (if st_needNewLine st then [CHR 0x0A] else []) @ w @ text_from True (zip (logical_lines [] ls) ws))"
        for w unfolding Cons.IH by (simp add: nxt_def)
      have "(\<exists>st'. script_loop srun n (l # ls) st = Inr st' \<and> st_out st' = out) \<longleftrightarrow>
          (\<exists>st1. script_line srun n l st = Inr st1 \<and> (\<exists>st'. script_loop srun n ls st1 = Inr st' \<and> st_out st' = out))"
        by (cases "script_line srun n l st") simp_all
      also have "\<dots> \<longleftrightarrow> \<not> (1 <s n \<and> st_srunCount st > 0) \<and> (\<exists>w. written_as srun line w \<and>
          (\<exists>st'. script_loop srun n ls (nxt w) = Inr st' \<and> st_out st' = out))"
        unfolding command by blast
      also have "\<dots> \<longleftrightarrow> (\<exists>w ws. written_as srun line w \<and> list_all2 (written_as srun) (logical_lines [] ls) ws \<and>
          (1 <s n \<longrightarrow> blank_after_srun (line # logical_lines [] ls) \<and> \<not> st_srunCount st > 0) \<and>
          out = st_out st @ (if st_needNewLine st then [CHR 0x0A] else []) @ w @ text_from True (zip (logical_lines [] ls) ws))"
        unfolding rest blank_after_srun_Cons by (rule step_condition)
      also have "\<dots> \<longleftrightarrow> (\<exists>ws. list_all2 (written_as srun) (line # logical_lines [] ls) ws \<and>
          (1 <s n \<longrightarrow> blank_after_srun (line # logical_lines [] ls) \<and>
            (st_srunCount st > 0 \<longrightarrow> (\<forall>l \<in> set (line # logical_lines [] ls). l = []))) \<and>
          out = st_out st @ text_from (st_needNewLine st) (zip (line # logical_lines [] ls) ws))"
        unfolding ex_list_all2_Cons using nonblank by simp
      finally show ?thesis unfolding L .
    qed
  qed
qed

lemma text_from_True:
  "list_all2 (written_as srun) L ws \<Longrightarrow> text_from True (zip L ws) = concat (map (\<lambda>w. CHR 0x0A # w) ws)"
  by (induction L ws rule: list_all2_induct) (auto simp: written_as_def)

lemma text_from_lines:
  "list_all2 (written_as srun) L ws \<Longrightarrow>
   text_from False (zip L ws) =
     (if \<forall>l \<in> set L. l = [] then replicate (length L) (CHR 0x0A) else str_join [CHR 0x0A] ws)"
proof (induction L ws rule: list_all2_induct)
  case (Cons l L w ws)
  show ?case
  proof (cases "l = []")
    case True
    moreover have "str_join [CHR 0x0A] ([] # ws) = CHR 0x0A # str_join [CHR 0x0A] ws" if "ws \<noteq> []"
      using that by (cases ws) simp_all
    ultimately show ?thesis using Cons by (cases ws) (auto simp: written_as_def)
  next
    case False
    with Cons(2) show ?thesis by (simp add: text_from_True join_newlines)
  qed
qed simp

text \<open>The replacement brings no newline into a line, as long as the parser of the flags only drops arguments.\<close>

lemma set_words: "w \<in> set (splitBySpaceWithIgnoreInQuotes str) \<Longrightarrow> set w \<subseteq> insert (CHR '' '') (set str)"
proof -
  assume w: "w \<in> set (splitBySpaceWithIgnoreInQuotes str)"
  then have sub: "set w \<subseteq> set (with_blanks (splitBySpaceWithIgnoreInQuotes str))" by auto
  have "with_blanks (splitBySpaceWithIgnoreInQuotes str) = str \<or>
      with_blanks (splitBySpaceWithIgnoreInQuotes str) = str @ '' ''"
    unfolding splitBySpaceWithIgnoreInQuotes_def by (rule split_loop_concat) simp_all
  then have "set (with_blanks (splitBySpaceWithIgnoreInQuotes str)) \<subseteq> insert (CHR '' '') (set str)"
    by (elim disjE; simp only: set_append list.set) blast+
  with sub show ?thesis by (rule subset_trans)
qed

lemma set_replace_srun:
  assumes "\<And>args rest. srun args = Inr rest \<Longrightarrow> set rest \<subseteq> set args" and "replace_srun srun l = Inr (w, b)"
  shows "set w \<subseteq> insert (CHR '' '') (set l)"
proof (cases "findCommand l srunCommand")
  case None
  with assms(2) show ?thesis by (auto simp: replace_srun_def)
next
  case (Some i)
  let ?args = "tl (splitBySpaceWithIgnoreInQuotes (drop i l))"
  from Some assms(2) obtain rest where rest: "srun ?args = Inr rest"
    and w: "w = take i l @ str_join '' '' rest \<or> w = str_join '' '' rest"
    by (auto simp: replace_srun_def Let_def split: sum.splits if_splits)
  have "set a \<subseteq> insert (CHR '' '') (set l)" if "a \<in> set rest" for a
  proof -
    have "a \<in> set (splitBySpaceWithIgnoreInQuotes (drop i l))"
      using that assms(1) [OF rest] by (auto intro: list.set_sel(2))
    from set_words [OF this] show ?thesis using set_drop_subset [of i l] by blast
  qed
  then have "set (str_join '' '' rest) \<subseteq> insert (CHR '' '') (set l)"
    using set_str_join [of "'' ''" rest] by auto
  with w set_take_subset [of i l] show ?thesis by auto
qed

lemma set_logical_lines:
  "\<forall>l \<in> set ls. c \<notin> set l \<Longrightarrow> c \<notin> set pending \<Longrightarrow> c \<noteq> CHR '' '' \<Longrightarrow> line \<in> set (logical_lines pending ls) \<Longrightarrow> c \<notin> set line"
proof (induction ls arbitrary: pending)
  case (Cons l ls)
  define cur where "cur = (if pending \<noteq> [] then pending @ '' '' else []) @ trim_space l"
  have cur: "c \<notin> set cur" using Cons.prems set_trim_space [of l] by (auto simp: cur_def)
  have "set (trim_right_blank (take (length cur - 2) cur)) \<subseteq> set cur"
    by (auto simp: trim_right_blank_def dest!: set_dropWhileD dest: in_set_takeD)
  with cur have "c \<notin> set (trim_right_blank (take (length cur - 2) cur))" by blast
  then show ?case
    using Cons.IH [of "[]"] Cons.IH [of "trim_right_blank (take (length cur - 2) cur)"] Cons.prems cur
    by (auto simp: cur_def [symmetric] split: if_splits)
qed simp

lemma rewriting_text:
  "SlurmValidateAndReplaceScript srun script n = Inr out \<longleftrightarrow>
   \<not> n <s 1 \<and>
   (\<exists>ws. list_all2 (written_as srun) (logical_lines [] (split_on (CHR 0x0A) script)) ws \<and>
     (1 <s n \<longrightarrow> blank_after_srun (logical_lines [] (split_on (CHR 0x0A) script))) \<and>
     out = text_from False (zip (logical_lines [] (split_on (CHR 0x0A) script)) ws))"
proof -
  have "SlurmValidateAndReplaceScript srun script n = Inr out \<longleftrightarrow> \<not> n <s 1 \<and>
      (\<exists>st'. script_loop srun n (split_on (CHR 0x0A) script)
        \<lparr>st_out = [], st_srunCount = 0, st_line = [], st_needNewLine = False\<rparr> = Inr st' \<and> st_out st' = out)"
    by (auto simp: SlurmValidateAndReplaceScript_def map_sum_def split: sum.splits)
  also have "\<dots> \<longleftrightarrow> \<not> n <s 1 \<and>
      (\<exists>ws. list_all2 (written_as srun) (logical_lines [] (split_on (CHR 0x0A) script)) ws \<and>
        (1 <s n \<longrightarrow> blank_after_srun (logical_lines [] (split_on (CHR 0x0A) script))) \<and>
        out = text_from False (zip (logical_lines [] (split_on (CHR 0x0A) script)) ws))"
    by (subst script_loop_iff) simp
  finally show ?thesis .
qed

text \<open>The lines of the output are empty or free of unsupported commands.\<close>

lemma split_newlines: "split_on c (replicate k c) = replicate (Suc k) []"
  by (induction k) simp_all

lemma written_supported:
  "written_as srun l w \<Longrightarrow> w = [] \<or> (\<forall>c \<in> set notSupportedCommands. findCommand w c = None)"
  by (auto simp: written_as_def split: if_splits)

lemma script_lines_written:
  assumes parser: "\<And>args rest. srun args = Inr rest \<Longrightarrow> set rest \<subseteq> set args"
    and "SlurmValidateAndReplaceScript srun script n = Inr out"
  shows "\<forall>l \<in> set (split_on (CHR 0x0A) out). l = [] \<or> (\<forall>c \<in> set notSupportedCommands. findCommand l c = None)"
proof -
  let ?L = "logical_lines [] (split_on (CHR 0x0A) script)"
  from assms(2) obtain ws where ws: "list_all2 (written_as srun) ?L ws"
    and "out = text_from False (zip ?L ws)"
    unfolding rewriting_text by blast
  then have out: "out = (if \<forall>l \<in> set ?L. l = [] then replicate (length ?L) (CHR 0x0A) else str_join [CHR 0x0A] ws)"
    by (simp only: text_from_lines)
  have "w = [] \<or> (\<forall>c \<in> set notSupportedCommands. findCommand w c = None)" "CHR 0x0A \<notin> set w" if "w \<in> set ws" for w
  proof -
    from that ws obtain l where l: "l \<in> set ?L" "written_as srun l w"
      by (auto simp: list_all2_conv_all_nth in_set_conv_nth) metis
    then show "w = [] \<or> (\<forall>c \<in> set notSupportedCommands. findCommand w c = None)" by (blast dest: written_supported)
    have "CHR 0x0A \<notin> set l"
      using set_logical_lines [OF _ _ _ l(1), where c = "CHR 0x0A"] split_on_no_sep by fastforce
    then show "CHR 0x0A \<notin> set w"
      using l(2) set_replace_srun [OF parser, where l = l and w = w and b = "findCommand l srunCommand \<noteq> None"]
      by (auto simp: written_as_def split: if_splits)
  qed
  note lines = this
  show ?thesis
  proof (cases "\<forall>l \<in> set ?L. l = []")
    case True
    then show ?thesis by (simp add: out split_newlines)
  next
    case False
    then have "ws \<noteq> []" using ws by auto
    then have "split_on (CHR 0x0A) out = ws" using False lines(2) unfolding out if_not_P [OF False]
      by (intro split_join) auto
    then show ?thesis using lines(1) by blast
  qed
qed

lemma script_loop_plain_script:
  assumes "list_all plain_line ls" and "\<exists>l \<in> set ls. l \<noteq> []"
    and "st = \<lparr>st_out = [], st_srunCount = 0, st_line = [], st_needNewLine = False\<rparr>"
  shows "\<exists>st'. script_loop srun n ls st = Inr st' \<and> st_out st' = str_join [CHR 0x0A] ls"
proof -
  from assms(2) obtain bs l rest where ls: "ls = bs @ l # rest" and "l \<noteq> []" and "\<forall>b \<in> set bs. b = []"
    using split_list_first_prop [of ls "\<lambda>l. l \<noteq> []"] by auto
  then have bs: "bs = replicate (length bs) []" by (simp add: replicate_length_same)
  have "script_loop srun n ls st = and_then (script_loop srun n (replicate (length bs) []) st) (script_loop srun n (l # rest))"
    unfolding ls by (subst bs) (rule script_loop_append)
  with assms ls \<open>l \<noteq> []\<close> have "\<exists>st'. script_loop srun n ls st = Inr st' \<and>
      st_out st' = replicate (length bs) (CHR 0x0A) @ str_join [CHR 0x0A] (l # rest)"
    by (simp add: script_loop_blanks script_line_plain script_loop_plain join_newlines)
  moreover have "str_join [CHR 0x0A] ls = replicate (length bs) (CHR 0x0A) @ str_join [CHR 0x0A] (l # rest)"
    unfolding ls by (subst bs) (simp add: join_blanks)
  ultimately show ?thesis by simp
qed

section \<open>Properties\<close>

text \<open>
  Directives are read from the head of the script only: whatever follows the first line that
  is neither blank nor a comment has no influence on the flags.
\<close>

theorem SlurmFlags_header_only:
  assumes "CHR 0x0A \<notin> set command" and "\<not> header_line (drop_cr command)"
  shows "SlurmFlags parse (header @ [CHR 0x0A] @ command @ [CHR 0x0A] @ body) iu =
    SlurmFlags parse (header @ [CHR 0x0A]) iu"
proof -
  let ?P = "\<lambda>l. length l < max_scan_token_size" and ?hs = "split_on (CHR 0x0A) header"
  have lines: "split_on (CHR 0x0A) (header @ CHR 0x0A # command @ CHR 0x0A # body) =
      ?hs @ command # split_on (CHR 0x0A) body"
    "split_on (CHR 0x0A) (header @ [CHR 0x0A]) = ?hs @ [[]]"
    using assms(1) by (simp_all add: split_on_append split_on_free)
  show ?thesis
    unfolding SlurmFlags_def flags_loop_scan_lines
    by (cases "list_all ?P ?hs")
      (auto simp: lines takeWhile_append list_all_iff assms(2) flags_loop_stop max_scan_token_size_def
        flags_loop_snoc_blank drop_cr_def [of "[]"] takeWhile_tail)
qed

theorem SlurmFlags_header_only_witness:
  "SlurmFlags (\<lambda>s. Inr s) (''#SBATCH --array=1-4'' @ [CHR 0x0A] @ ''sleep 1'' @ [CHR 0x0A] @ ''#SBATCH --array=7'') False =
   SlurmFlags (\<lambda>s. Inr s) (''#SBATCH --array=1-4'' @ [CHR 0x0A]) False"
proof -
  have "trim_space ''sleep 1'' = ''sleep 1''" by (rule trim_space_plain) (simp_all add: plain_char_def go_simps)
  then show ?thesis
    by (intro SlurmFlags_header_only) (simp_all add: header_line_def drop_cr_def go_simps)
qed

text \<open>
  With \<open>--ignore-unknown-flags\<close> no directive is rejected as unknown, and a script that is read
  without the option is read to the same flags with it.
\<close>

theorem SlurmFlags_ignore_unknown:
  "SlurmFlags parse script True \<noteq> Inl (UnknownFlag k) \<and>
   (\<forall>fl. SlurmFlags parse script False = Inr fl \<longrightarrow> SlurmFlags parse script True = Inr fl)"
  by (auto simp: SlurmFlags_def flags_loop_unknown intro: flags_loop_ignore)

theorem SlurmFlags_ignore_unknown_witness:
  "SlurmFlags (\<lambda>s. Inr s) ''#SBATCH --nodes=2'' True =
   Inr (empty_slurm_flags\<lparr>pf_Nodes := Some 2\<rparr> :: string parsed_slurm_flags)"
proof -
  let ?l = "''#SBATCH --nodes=2''"
  have "trim_space ?l = ?l"
    by (rule trim_space_plain) (simp_all add: plain_char_def go_simps)
  moreover have lines: "split_on (CHR 0x0A) ?l = [?l]" by code_simp
  have "scan_lines ?l = [?l]"
    unfolding scan_lines_def raw_lines_def lines by (simp add: max_scan_token_size_def drop_cr_def)
  moreover have "extractKeyValue ?l = (''nodes'', ''2'')" by code_simp
  moreover have "apply_flag (\<lambda>s. Inr s) False ''nodes'' ''2'' fl = Inr (fl\<lparr>pf_Nodes := Some 2\<rparr>)"
    for fl :: "string parsed_slurm_flags"
  proof -
    have "parse_int 32 ''2'' = Inr 2" by (simp add: go_simps)
    then show ?thesis by (simp add: apply_flag_def)
  qed
  moreover have "has_prefix ?l slurmDirective" by (simp add: has_prefix_def slurmDirective_def)
  ultimately have "SlurmFlags (\<lambda>s. Inr s) ?l False =
      Inr (empty_slurm_flags\<lparr>pf_Nodes := Some 2\<rparr> :: string parsed_slurm_flags)"
    by (simp add: SlurmFlags_def)
  then show ?thesis by (rule SlurmFlags_ignore_unknown [THEN conjunct2, rule_format])
qed

text \<open>
  A directive in the long form \<open>--key=value\<close> yields exactly its key and its value, for every
  key of word characters, plus and minus and every value without white space.
\<close>

theorem extractKeyValue_long_roundtrip:
  assumes "list_all is_key_char key" and "key \<noteq> []" and "is_word (hd key)"
    and "val \<noteq> []" and "list_all (\<lambda>c. \<not> is_re_space c) val"
  shows "extractKeyValue (slurmDirective @ '' --'' @ key @ ''='' @ val) = (key, val)"
  using extract_long [OF assms] by (simp add: slurmDirective_def)

theorem extractKeyValue_long_roundtrip_witness:
  "extractKeyValue (slurmDirective @ '' --'' @ ''job-name'' @ ''='' @ ''x=1'') = (''job-name'', ''x=1'')"
  by (rule extractKeyValue_long_roundtrip) (simp_all add: is_key_char_def go_simps)

text \<open>
  A short directive whose value contains an equals sign is read as a long one: the output file
  of \<open>-o a=b\<close> is taken for a flag \<open>a\<close> with value \<open>b\<close>.
\<close>

theorem extractKeyValue_short_equals: "extractKeyValue ''#SBATCH -o a=b'' = (''a'', ''b'')"
  by code_simp

text \<open>
  \<open>isEscaped\<close> tells whether the run of backslashes in front of the index has odd length.
\<close>

theorem isEscaped_odd_run:
  assumes "i \<le> length str"
  shows "isEscaped str i \<longleftrightarrow> odd (length (takeWhile (\<lambda>c. c = CHR 0x5C) (rev (take i str))))"
  using assms by (simp add: isEscaped_def escape_count_run odd_iff_mod_2_eq_one)

theorem isEscaped_odd_run_witness: "isEscaped [CHR 0x5C, CHR 0x22] 1 \<and> \<not> isEscaped [CHR 0x5C, CHR 0x5C, CHR 0x22] 2"
  using isEscaped_odd_run [of 1 "[CHR 0x5C, CHR 0x22]"] isEscaped_odd_run [of 2 "[CHR 0x5C, CHR 0x5C, CHR 0x22]"]
  by simp

text \<open>
  Splitting loses nothing: the parts, each followed by a space, give the input back, up to one
  space at its end; and without quotes the parts are the pieces between spaces.
\<close>

theorem split_words_lossless:
  "(with_blanks (splitBySpaceWithIgnoreInQuotes str) = str \<or>
    with_blanks (splitBySpaceWithIgnoreInQuotes str) = str @ '' '') \<and>
   (str \<noteq> [] \<longrightarrow> (\<forall>c \<in> set str. c \<noteq> CHR 0x22 \<and> c \<noteq> CHR 0x27) \<longrightarrow>
    splitBySpaceWithIgnoreInQuotes str =
      (if last str = CHR '' '' then butlast (split_on (CHR '' '') str) else split_on (CHR '' '') str))"
proof -
  have "hd (split_on (CHR '' '') str) # tl (split_on (CHR '' '') str) = split_on (CHR '' '') str"
    by (rule hd_Cons_tl) (metis length_0_conv length_split_on nat.simps(3))
  then show ?thesis
    using split_loop_concat [of 0 str "[]" "[]" False False] split_words_unquoted [of str 0 "[]" "[]"]
    by (auto simp: splitBySpaceWithIgnoreInQuotes_def Let_def)
qed

theorem split_words_lossless_witness:
  "splitBySpaceWithIgnoreInQuotes ''-n 2 hostname'' = [''-n'', ''2'', ''hostname'']"
proof -
  have pieces: "split_on (CHR '' '') ''-n 2 hostname'' = [''-n'', ''2'', ''hostname'']" by code_simp
  have "splitBySpaceWithIgnoreInQuotes ''-n 2 hostname'' = split_on (CHR '' '') ''-n 2 hostname''"
    using split_words_lossless [of "''-n 2 hostname''"] by (simp del: split_on.simps)
  then show ?thesis unfolding pieces .
qed

text \<open>
  A script of trimmed lines without continuations, \<open>srun\<close> calls and unsupported commands
  passes through unchanged, for every positive number of tasks.
\<close>

theorem SlurmValidateAndReplaceScript_plain:
  assumes "\<not> n <s 1" and "list_all plain_line (split_on (CHR 0x0A) script)"
    and "\<exists>l \<in> set (split_on (CHR 0x0A) script). l \<noteq> []"
  shows "SlurmValidateAndReplaceScript srun script n = Inr script"
proof -
  let ?st = "\<lparr>st_out = [], st_srunCount = 0, st_line = [], st_needNewLine = False\<rparr>"
  obtain st' where "script_loop srun n (split_on (CHR 0x0A) script) ?st = Inr st'" and "st_out st' = script"
    using script_loop_plain_script [OF assms(2,3) refl, of srun n] by auto
  with assms(1) show ?thesis by (simp add: SlurmValidateAndReplaceScript_def)
qed

theorem SlurmValidateAndReplaceScript_plain_witness:
  "SlurmValidateAndReplaceScript (\<lambda>args. Inr args) (''#!/bin/bash'' @ [CHR 0x0A] @ ''echo hi'') 1 =
   Inr (''#!/bin/bash'' @ [CHR 0x0A] @ ''echo hi'')"
proof (rule SlurmValidateAndReplaceScript_plain)
  have "plain_line ''#!/bin/bash''"
  proof (rule plain_lineI)
    show "trim_space ''#!/bin/bash'' = ''#!/bin/bash''" by (rule trim_space_plain) (simp_all add: plain_char_def go_simps)
  qed code_simp+
  moreover have "plain_line ''echo hi''"
  proof (rule plain_lineI)
    show "trim_space ''echo hi'' = ''echo hi''" by (rule trim_space_plain) (simp_all add: plain_char_def go_simps)
  qed code_simp+
  moreover have lines: "split_on (CHR 0x0A) (''#!/bin/bash'' @ [CHR 0x0A] @ ''echo hi'') = [''#!/bin/bash'', ''echo hi'']"
    by code_simp
  ultimately show "list_all plain_line (split_on (CHR 0x0A) (''#!/bin/bash'' @ [CHR 0x0A] @ ''echo hi''))"
    unfolding lines by simp
  show "\<exists>l \<in> set (split_on (CHR 0x0A) (''#!/bin/bash'' @ [CHR 0x0A] @ ''echo hi'')). l \<noteq> []"
    unfolding lines by simp
qed (simp add: word_sless_alt)

text \<open>
  C39. The rewriting of a script, exactly: it succeeds with an output if and only if the number of
  tasks is positive, every logical line of the script (after joining continued lines) is empty or has,
  after its \<open>srun\<close> call is replaced by the arguments of the call, none of the unsupported commands,
  and with more than one task only empty lines follow a line with an \<open>srun\<close> call. The output is then
  these lines joined by newlines (a script of empty lines only gets one newline for each of them).
\<close>

theorem SlurmValidateAndReplaceScript_iff:
  "SlurmValidateAndReplaceScript srun script n = Inr out \<longleftrightarrow>
   \<not> n <s 1 \<and>
   (\<exists>ws. list_all2 (written_as srun) (logical_lines [] (split_on (CHR 0x0A) script)) ws \<and>
     (1 <s n \<longrightarrow> blank_after_srun (logical_lines [] (split_on (CHR 0x0A) script))) \<and>
     out = (if \<forall>l \<in> set (logical_lines [] (split_on (CHR 0x0A) script)). l = []
            then replicate (length (logical_lines [] (split_on (CHR 0x0A) script))) (CHR 0x0A)
            else str_join [CHR 0x0A] ws))"
  unfolding rewriting_text by (simp only: text_from_lines [where srun = srun] cong: conj_cong)

theorem SlurmValidateAndReplaceScript_iff_witness:
  "SlurmValidateAndReplaceScript (\<lambda>args. Inr args) (''echo a '' @ [CHR 0x5C, CHR 0x0A] @ ''b'' @ [CHR 0x0A] @ ''srun c'') 2 =
   Inr (''echo a b'' @ [CHR 0x0A] @ ''c'')"
proof -
  let ?s = "''echo a '' @ [CHR 0x5C, CHR 0x0A] @ ''b'' @ [CHR 0x0A] @ ''srun c''" and ?p = "\<lambda>args. Inr args"
  have trim: "trim_space (''echo a '' @ [CHR 0x5C]) = ''echo a '' @ [CHR 0x5C]" "trim_space ''b'' = ''b''"
    "trim_space ''srun c'' = ''srun c''" "trim_space ''echo a b'' = ''echo a b''" "trim_space ''c'' = ''c''"
    by (rule trim_space_plain; simp add: plain_char_def go_simps)+
  have split: "split_on (CHR 0x0A) ?s = [''echo a '' @ [CHR 0x5C], ''b'', ''srun c'']" by code_simp
  have join: "has_suffix (''echo a '' @ [CHR 0x5C]) (CHR '' '' # [CHR 0x5C])"
    "\<not> has_suffix (''echo a'' @ '' '' @ ''b'') (CHR '' '' # [CHR 0x5C])" "\<not> has_suffix ''srun c'' (CHR '' '' # [CHR 0x5C])"
    "trim_right_blank (take (length (''echo a '' @ [CHR 0x5C]) - 2) (''echo a '' @ [CHR 0x5C])) = ''echo a''" by code_simp+
  have L: "logical_lines [] (split_on (CHR 0x0A) ?s) = [''echo a b'', ''srun c'']"
    unfolding split logical_lines.simps Let_def trim using join by simp
  have "str_index ''srun c'' srunCommand = Some 0" by code_simp
  then have srun: "findCommand ''srun c'' srunCommand = Some 0"
    unfolding findCommand_def trim by (simp add: srunCommand_def has_prefix_def)
  have "list_all (\<lambda>c. str_index ''echo a b'' c = None) (srunCommand # notSupportedCommands)"
    "list_all (\<lambda>c. str_index ''c'' c = None) notSupportedCommands" by code_simp+
  then have free: "\<forall>c \<in> set (srunCommand # notSupportedCommands). findCommand ''echo a b'' c = None"
    "\<forall>c \<in> set notSupportedCommands. findCommand ''c'' c = None"
    by (auto simp: findCommand_def trim list_all_iff)
  have "tl (splitBySpaceWithIgnoreInQuotes (drop 0 ''srun c'')) = [''c'']" by code_simp
  with srun have "replace_srun ?p ''srun c'' = Inr (''c'', True)" by (simp add: replace_srun_def)
  with free srun have "list_all2 (written_as ?p) [''echo a b'', ''srun c''] [''echo a b'', ''c'']"
    by (simp add: written_as_def replace_srun_def)
  moreover have "blank_after_srun [''echo a b'', ''srun c'']" using free by (simp add: blank_after_srun_def)
  moreover have "\<not> (2 :: int32) <s 1" by (simp add: word_sless_alt)
  ultimately show ?thesis
    unfolding SlurmValidateAndReplaceScript_iff L by (intro conjI exI [of _ "[''echo a b'', ''c'']"]) simp_all
qed

text \<open>
  C26. No unsupported Slurm command survives: in no line of the output of an accepted script, split
  at its newlines, is one of the commands found. The parser of the flags of \<open>srun\<close>, which is pflag's,
  is only taken to return some of the arguments it is given.
\<close>

theorem SlurmValidateAndReplaceScript_supported:
  assumes "\<And>args rest. srun args = Inr rest \<Longrightarrow> set rest \<subseteq> set args"
    and "SlurmValidateAndReplaceScript srun script n = Inr out" and "l \<in> set (split_on (CHR 0x0A) out)"
    and "c \<in> set notSupportedCommands"
  shows "findCommand l c = None"
proof -
  from script_lines_written [OF assms(1,2)] assms(3) have "l = [] \<or> (\<forall>c \<in> set notSupportedCommands. findCommand l c = None)"
    by blast
  moreover have "c \<noteq> []" using assms(4) by (auto simp: notSupportedCommands_def)
  ultimately show ?thesis using assms(4) by auto
qed

theorem SlurmValidateAndReplaceScript_supported_witness:
  "SlurmValidateAndReplaceScript (\<lambda>args. Inr args) ''srun hostname'' 1 = Inr ''hostname'' \<and>
   findCommand ''hostname'' ''sbatch'' = None"
proof -
  let ?l = "''srun hostname''"
  have trim: "trim_space ?l = ?l" "trim_space ''hostname'' = ''hostname''"
    by (rule trim_space_plain; simp add: plain_char_def go_simps)+
  have "str_index ?l srunCommand = Some 0" by code_simp
  then have "findCommand ?l srunCommand = Some 0"
    unfolding findCommand_def trim by (simp add: srunCommand_def has_prefix_def)
  moreover have "tl (splitBySpaceWithIgnoreInQuotes (drop 0 ?l)) = [''hostname'']" by code_simp
  ultimately have srun: "replace_srun (\<lambda>args. Inr args) ?l = Inr (''hostname'', True)"
    by (simp add: replace_srun_def)
  have "list_all (\<lambda>c. str_index ''hostname'' c = None) notSupportedCommands" by code_simp
  then have check: "check_commands notSupportedCommands ''hostname'' = Inr ()"
    by (auto simp: check_commands_Inr findCommand_def trim list_all_iff)
  have lines: "split_on (CHR 0x0A) ?l = [?l]" by code_simp
  have "SlurmValidateAndReplaceScript (\<lambda>args. Inr args) ?l 1 = Inr ''hostname''"
    unfolding SlurmValidateAndReplaceScript_def lines
    by (simp add: script_line_def trim srun check has_suffix_def has_prefix_def word_sless_alt)
  moreover have "''hostname'' \<in> set (split_on (CHR 0x0A) ''hostname'')" "''sbatch'' \<in> set notSupportedCommands" by code_simp+
  ultimately show ?thesis
    using SlurmValidateAndReplaceScript_supported [of "\<lambda>args. Inr args" ?l 1 "''hostname''" "''hostname''" "''sbatch''"] by blast
qed

text \<open>
  With more than one task a script has a single step: once a line with an \<open>srun\<close> call has been
  taken, the next command line is refused, whatever follows.
\<close>

theorem SlurmValidateAndReplaceScript_single_step:
  assumes "1 <s n" and "\<forall>l \<in> set (pre @ l # post). CHR 0x0A \<notin> set l"
    and "script_loop srun n pre \<lparr>st_out = [], st_srunCount = 0, st_line = [], st_needNewLine = False\<rparr> = Inr st"
    and "st_srunCount st > 0" and "st_line st = []"
    and "trim_space l \<noteq> []" and "\<not> has_suffix (trim_space l) (CHR '' '' # [CHR 0x5C])"
  shows "SlurmValidateAndReplaceScript srun (str_join [CHR 0x0A] (pre @ l # post)) n = Inl MultipleSteps"
proof -
  have "\<not> n <s 1" using assms(1) by (simp add: word_sless_alt)
  moreover have "split_on (CHR 0x0A) (str_join [CHR 0x0A] (pre @ l # post)) = pre @ l # post"
    using assms(2) by (intro split_join) auto
  moreover have "script_line srun n l st = Inl MultipleSteps"
    using assms by (simp add: script_line_def)
  ultimately show ?thesis
    using assms(3) by (simp add: SlurmValidateAndReplaceScript_def script_loop_append)
qed

theorem SlurmValidateAndReplaceScript_single_step_witness:
  "SlurmValidateAndReplaceScript (\<lambda>args. Inr args)
     (str_join [CHR 0x0A] ([''srun a''] @ ''srun b'' # [])) 2 = Inl MultipleSteps"
proof (rule SlurmValidateAndReplaceScript_single_step)
  let ?l = "''srun a''"
  have trim: "trim_space ?l = ?l" "trim_space ''a'' = ''a''" "trim_space ''srun b'' = ''srun b''"
    by (rule trim_space_plain; simp add: plain_char_def go_simps)+
  have "str_index ?l srunCommand = Some 0" by code_simp
  then have "findCommand ?l srunCommand = Some 0"
    unfolding findCommand_def trim by (simp add: srunCommand_def has_prefix_def)
  moreover have "tl (splitBySpaceWithIgnoreInQuotes (drop 0 ?l)) = [''a'']" by code_simp
  ultimately have srun: "replace_srun (\<lambda>args. Inr args) ?l = Inr (''a'', True)"
    by (simp add: replace_srun_def)
  have "list_all (\<lambda>c. str_index ''a'' c = None) notSupportedCommands" by code_simp
  then have check: "check_commands notSupportedCommands ''a'' = Inr ()"
    by (auto simp: check_commands_Inr findCommand_def trim list_all_iff)
  show "script_loop (\<lambda>args. Inr args) 2 [''srun a'']
      \<lparr>st_out = [], st_srunCount = 0, st_line = [], st_needNewLine = False\<rparr> =
    Inr \<lparr>st_out = ''a'', st_srunCount = 1, st_line = [], st_needNewLine = True\<rparr>"
    by (simp add: script_line_def trim srun check has_suffix_def has_prefix_def word_sless_alt)
  show "trim_space ''srun b'' \<noteq> []" "\<not> has_suffix (trim_space ''srun b'') (CHR '' '' # [CHR 0x5C])"
    by (simp_all add: trim has_suffix_def has_prefix_def)
qed (simp_all add: word_sless_alt)

text \<open>
  A script that ends inside a continued line loses that line: the pending text is never
  written and no error is reported.
\<close>

theorem SlurmValidateAndReplaceScript_drops_open_line:
  "SlurmValidateAndReplaceScript srun (''echo hi '' @ [CHR 0x5C]) 1 = Inr []"
proof -
  let ?l = "''echo hi '' @ [CHR 0x5C]"
  have trim: "trim_space ?l = ?l" by (rule trim_space_plain) (simp_all add: plain_char_def go_simps)
  have lines: "split_on (CHR 0x0A) ?l = [?l]" by code_simp
  show ?thesis
    unfolding SlurmValidateAndReplaceScript_def lines script_loop.simps script_line_def trim
    by (simp add: has_suffix_def has_prefix_def word_sless_alt)
qed

end
