(* ===== verification/Builder.thy ===== *)
theory Builder
  imports ApiTypes ArrayIndexes TimeLimit Utils SlurmScript
begin

text \<open>
  \<open>pkg/builder/builder.go\<close>: the builder's options and their setters, the checks before a build, and
  the pieces every mode uses (metadata and labels, volumes and environment variables of pods, Ray
  cluster specifications). What the builder asks of the outside (the API server, the operating
  system, random names, quantities, the \<open>srun\<close> command line) is a record of functions, the world.
\<close>

section \<open>The world\<close>

record 'q world =
  kjobctl_clientset :: "string + unit"
  k8s_clientset :: "string + unit"
  kueue_clientset :: "string + unit"
  get_local_queue :: "string \<Rightarrow> string \<Rightarrow> string + unit"
  get_priority_class :: "string \<Rightarrow> string + unit"
  get_profile :: "string \<Rightarrow> string \<Rightarrow> string + application_profile"
  get_volume_bundle :: "string \<Rightarrow> string \<Rightarrow> string + volume_bundle"
  get_pod_template :: "string \<Rightarrow> string \<Rightarrow> string + 'q pod_template_spec"
  get_job_template :: "string \<Rightarrow> string \<Rightarrow> string + 'q job_template_spec"
  get_ray_job_template :: "string \<Rightarrow> string \<Rightarrow> string + 'q ray_job_template_spec"
  get_ray_cluster_template :: "string \<Rightarrow> string \<Rightarrow> string + 'q ray_cluster_template_spec"
  lookup_env :: "string \<Rightarrow> string option"
  read_file :: "string \<Rightarrow> string + string"
  random_suffix :: string
  names :: api_names
  quantities :: "'q quantity_api"
  srun_parser_of :: srun_parser

definition get_env :: "'q world \<Rightarrow> string \<Rightarrow> string" where
  "get_env W name = deref (lookup_env W name) []"

section \<open>State\<close>

text \<open>Errors of the builders. \<open>Panic\<close> is a run-time panic of the Go code.\<close>

datatype builder_error =
    NoNamespaceSpecified
  | NoApplicationProfileSpecified
  | NoApplicationProfileModeSpecified
  | InvalidApplicationProfileMode
  | ApplicationProfileModeNotConfigured
  | NoFlagSpecified flag
  | ApiError string
  | CannotParseTime string time_error
  | NoScriptSpecified
  | NTasksOrNTasksPerNodeMustBeSpecifiedWithNodes
  | InvalidNodesNTasksOrNTasksPerNodeValue
  | InvalidNTasksOrNTasksPerNodeValue
  | InvalidNodesOrNTasksValue
  | FlagsExclusive mutually_exclusive_error
  | ScriptError slurm_error
  | ArrayError array_error
  | Panic

text \<open>The options of the builder; a nil pointer, map or command is \<open>None\<close>.\<close>

record 'q builder =
  b_namespace :: string
  b_profileName :: string
  b_modeName :: string
  b_command :: "string list option"
  b_parallelism :: "int32 option"
  b_completions :: "int32 option"
  b_replicas :: "(string, int) gomap option"
  b_minReplicas :: "(string, int) gomap option"
  b_maxReplicas :: "(string, int) gomap option"
  b_requests :: "'q resource_list option"
  b_localQueue :: string
  b_rayCluster :: string
  b_script :: string
  b_array :: string
  b_cpusPerTask :: "'q option"
  b_error :: string
  b_gpusPerTask :: "(string, 'q) gomap option"
  b_input :: string
  b_jobName :: string
  b_memPerNode :: "'q option"
  b_memPerCPU :: "'q option"
  b_memPerGPU :: "'q option"
  b_memPerTask :: "'q option"
  b_nodes :: "int32 option"
  b_nTasks :: "int32 option"
  b_nTasksPerNode :: "int32 option"
  b_output :: string
  b_partition :: string
  b_priority :: string
  b_initImage :: string
  b_ignoreUnknown :: bool
  b_skipLocalQueueValidation :: bool
  b_skipPriorityValidation :: bool
  b_firstNodeIP :: bool
  b_firstNodeIPTimeout :: int
  b_changeDir :: string
  b_timeLimit :: string
  b_podTemplateLabels :: "str_map option"
  b_podTemplateAnnotations :: "str_map option"
  b_workerContainers :: "string list"
  b_profile :: "application_profile option"
  b_mode :: "supported_mode option"
  b_volumeBundles :: "volume_bundle list"
  b_buildTime :: string

definition NewBuilder :: "string \<Rightarrow> 'q builder" where
  "NewBuilder buildTime =
     \<lparr>b_namespace = [], b_profileName = [], b_modeName = [], b_command = None,
      b_parallelism = None, b_completions = None, b_replicas = None, b_minReplicas = None,
      b_maxReplicas = None, b_requests = None, b_localQueue = [], b_rayCluster = [],
      b_script = [], b_array = [], b_cpusPerTask = None, b_error = [], b_gpusPerTask = None,
      b_input = [], b_jobName = [], b_memPerNode = None, b_memPerCPU = None, b_memPerGPU = None,
      b_memPerTask = None, b_nodes = None, b_nTasks = None, b_nTasksPerNode = None,
      b_output = [], b_partition = [], b_priority = [], b_initImage = [],
      b_ignoreUnknown = False, b_skipLocalQueueValidation = False,
      b_skipPriorityValidation = False, b_firstNodeIP = False, b_firstNodeIPTimeout = 0,
      b_changeDir = [], b_timeLimit = [], b_podTemplateLabels = None,
      b_podTemplateAnnotations = None, b_workerContainers = [], b_profile = None, b_mode = None,
      b_volumeBundles = [], b_buildTime = buildTime\<rparr>"

section \<open>Setters\<close>

definition WithNamespace :: "string \<Rightarrow> 'q builder \<Rightarrow> 'q builder" where
  "WithNamespace x b = b\<lparr>b_namespace := x\<rparr>"

definition WithProfileName :: "string \<Rightarrow> 'q builder \<Rightarrow> 'q builder" where
  "WithProfileName x b = b\<lparr>b_profileName := x\<rparr>"

definition WithModeName :: "string \<Rightarrow> 'q builder \<Rightarrow> 'q builder" where
  "WithModeName x b = b\<lparr>b_modeName := x\<rparr>"

definition WithCommand :: "string list option \<Rightarrow> 'q builder \<Rightarrow> 'q builder" where
  "WithCommand x b = b\<lparr>b_command := x\<rparr>"

definition WithParallelism :: "int32 option \<Rightarrow> 'q builder \<Rightarrow> 'q builder" where
  "WithParallelism x b = b\<lparr>b_parallelism := x\<rparr>"

definition WithCompletions :: "int32 option \<Rightarrow> 'q builder \<Rightarrow> 'q builder" where
  "WithCompletions x b = b\<lparr>b_completions := x\<rparr>"

definition WithReplicas :: "(string, int) gomap option \<Rightarrow> 'q builder \<Rightarrow> 'q builder" where
  "WithReplicas x b = b\<lparr>b_replicas := x\<rparr>"

definition WithMinReplicas :: "(string, int) gomap option \<Rightarrow> 'q builder \<Rightarrow> 'q builder" where
  "WithMinReplicas x b = b\<lparr>b_minReplicas := x\<rparr>"

definition WithMaxReplicas :: "(string, int) gomap option \<Rightarrow> 'q builder \<Rightarrow> 'q builder" where
  "WithMaxReplicas x b = b\<lparr>b_maxReplicas := x\<rparr>"

definition WithRequests :: "'q resource_list option \<Rightarrow> 'q builder \<Rightarrow> 'q builder" where
  "WithRequests x b = b\<lparr>b_requests := x\<rparr>"

definition WithLocalQueue :: "string \<Rightarrow> 'q builder \<Rightarrow> 'q builder" where
  "WithLocalQueue x b = b\<lparr>b_localQueue := x\<rparr>"

definition WithRayCluster :: "string \<Rightarrow> 'q builder \<Rightarrow> 'q builder" where
  "WithRayCluster x b = b\<lparr>b_rayCluster := x\<rparr>"

definition WithScript :: "string \<Rightarrow> 'q builder \<Rightarrow> 'q builder" where
  "WithScript x b = b\<lparr>b_script := x\<rparr>"

definition WithArray :: "string \<Rightarrow> 'q builder \<Rightarrow> 'q builder" where
  "WithArray x b = b\<lparr>b_array := x\<rparr>"

definition WithCpusPerTask :: "'q option \<Rightarrow> 'q builder \<Rightarrow> 'q builder" where
  "WithCpusPerTask x b = b\<lparr>b_cpusPerTask := x\<rparr>"

definition WithError :: "string \<Rightarrow> 'q builder \<Rightarrow> 'q builder" where
  "WithError x b = b\<lparr>b_error := x\<rparr>"

definition WithGpusPerTask :: "(string, 'q) gomap option \<Rightarrow> 'q builder \<Rightarrow> 'q builder" where
  "WithGpusPerTask x b = b\<lparr>b_gpusPerTask := x\<rparr>"

definition WithInput :: "string \<Rightarrow> 'q builder \<Rightarrow> 'q builder" where
  "WithInput x b = b\<lparr>b_input := x\<rparr>"

definition WithJobName :: "string \<Rightarrow> 'q builder \<Rightarrow> 'q builder" where
  "WithJobName x b = b\<lparr>b_jobName := x\<rparr>"

definition WithMemPerNode :: "'q option \<Rightarrow> 'q builder \<Rightarrow> 'q builder" where
  "WithMemPerNode x b = b\<lparr>b_memPerNode := x\<rparr>"

definition WithMemPerCPU :: "'q option \<Rightarrow> 'q builder \<Rightarrow> 'q builder" where
  "WithMemPerCPU x b = b\<lparr>b_memPerCPU := x\<rparr>"

definition WithMemPerGPU :: "'q option \<Rightarrow> 'q builder \<Rightarrow> 'q builder" where
  "WithMemPerGPU x b = b\<lparr>b_memPerGPU := x\<rparr>"

definition WithMemPerTask :: "'q option \<Rightarrow> 'q builder \<Rightarrow> 'q builder" where
  "WithMemPerTask x b = b\<lparr>b_memPerTask := x\<rparr>"

definition WithNodes :: "int32 option \<Rightarrow> 'q builder \<Rightarrow> 'q builder" where
  "WithNodes x b = b\<lparr>b_nodes := x\<rparr>"

definition WithNTasks :: "int32 option \<Rightarrow> 'q builder \<Rightarrow> 'q builder" where
  "WithNTasks x b = b\<lparr>b_nTasks := x\<rparr>"

definition WithNTasksPerNode :: "int32 option \<Rightarrow> 'q builder \<Rightarrow> 'q builder" where
  "WithNTasksPerNode x b = b\<lparr>b_nTasksPerNode := x\<rparr>"

definition WithOutput :: "string \<Rightarrow> 'q builder \<Rightarrow> 'q builder" where
  "WithOutput x b = b\<lparr>b_output := x\<rparr>"

definition WithPartition :: "string \<Rightarrow> 'q builder \<Rightarrow> 'q builder" where
  "WithPartition x b = b\<lparr>b_partition := x\<rparr>"

definition WithPriority :: "string \<Rightarrow> 'q builder \<Rightarrow> 'q builder" where
  "WithPriority x b = b\<lparr>b_priority := x\<rparr>"

definition WithInitImage :: "string \<Rightarrow> 'q builder \<Rightarrow> 'q builder" where
  "WithInitImage x b = b\<lparr>b_initImage := x\<rparr>"

definition WithIgnoreUnknown :: "bool \<Rightarrow> 'q builder \<Rightarrow> 'q builder" where
  "WithIgnoreUnknown x b = b\<lparr>b_ignoreUnknown := x\<rparr>"

definition WithChangeDir :: "string \<Rightarrow> 'q builder \<Rightarrow> 'q builder" where
  "WithChangeDir x b = b\<lparr>b_changeDir := x\<rparr>"

definition WithSkipLocalQueueValidation :: "bool \<Rightarrow> 'q builder \<Rightarrow> 'q builder" where
  "WithSkipLocalQueueValidation x b = b\<lparr>b_skipLocalQueueValidation := x\<rparr>"

definition WithSkipPriorityValidation :: "bool \<Rightarrow> 'q builder \<Rightarrow> 'q builder" where
  "WithSkipPriorityValidation x b = b\<lparr>b_skipPriorityValidation := x\<rparr>"

definition WithFirstNodeIP :: "bool \<Rightarrow> 'q builder \<Rightarrow> 'q builder" where
  "WithFirstNodeIP x b = b\<lparr>b_firstNodeIP := x\<rparr>"

definition WithFirstNodeIPTimeout :: "int \<Rightarrow> 'q builder \<Rightarrow> 'q builder" where
  "WithFirstNodeIPTimeout x b = b\<lparr>b_firstNodeIPTimeout := x\<rparr>"

definition WithTimeLimit :: "string \<Rightarrow> 'q builder \<Rightarrow> 'q builder" where
  "WithTimeLimit x b = b\<lparr>b_timeLimit := x\<rparr>"

definition WithPodTemplateLabels :: "str_map option \<Rightarrow> 'q builder \<Rightarrow> 'q builder" where
  "WithPodTemplateLabels x b = b\<lparr>b_podTemplateLabels := x\<rparr>"

definition WithPodTemplateAnnotations :: "str_map option \<Rightarrow> 'q builder \<Rightarrow> 'q builder" where
  "WithPodTemplateAnnotations x b = b\<lparr>b_podTemplateAnnotations := x\<rparr>"

definition WithWorkerContainers :: "string list \<Rightarrow> 'q builder \<Rightarrow> 'q builder" where
  "WithWorkerContainers x b = b\<lparr>b_workerContainers := x\<rparr>"

section \<open>Checks\<close>

definition setClients :: "'q world \<Rightarrow> builder_error + unit" where
  "setClients W =
     and_then (map_err ApiError (kjobctl_clientset W)) (\<lambda>_.
     and_then (map_err ApiError (k8s_clientset W)) (\<lambda>_.
     map_err ApiError (kueue_clientset W)))"

definition validateGeneral :: "'q world \<Rightarrow> 'q builder \<Rightarrow> builder_error + unit" where
  "validateGeneral W b =
     (if b_namespace b = [] then Inl NoNamespaceSpecified
      else if b_profileName b = [] then Inl NoApplicationProfileSpecified
      else if b_modeName b = [] then Inl NoApplicationProfileModeSpecified
      else
        and_then (if b_localQueue b \<noteq> [] \<and> \<not> b_skipLocalQueueValidation b
                  then map_err ApiError (get_local_queue W (b_namespace b) (b_localQueue b)) else Inr ())
        (\<lambda>_. if b_priority b \<noteq> [] \<and> \<not> b_skipPriorityValidation b
              then map_err ApiError (get_priority_class W (b_priority b)) else Inr ()))"

text \<open>The mode is the last one of the profile with the name asked for.\<close>

definition find_mode :: "string \<Rightarrow> supported_mode list \<Rightarrow> supported_mode option \<Rightarrow> supported_mode option" where
  "find_mode name modes m0 = fold (\<lambda>mode m. if sm_Name mode = name then Some mode else m) modes m0"

fun fetch_bundles ::
  "(string \<Rightarrow> string + volume_bundle) \<Rightarrow> string list \<Rightarrow> volume_bundle list \<Rightarrow> builder_error + volume_bundle list" where
  "fetch_bundles get [] acc = Inr acc"
| "fetch_bundles get (n # ns) acc =
     and_then (map_err ApiError (get n)) (\<lambda>vb. fetch_bundles get ns (acc @ [vb]))"

definition complete :: "'q world \<Rightarrow> 'q builder \<Rightarrow> builder_error + 'q builder" where
  "complete W b =
     and_then (map_err ApiError (get_profile W (b_namespace b) (b_profileName b))) (\<lambda>profile.
       let mode = find_mode (b_modeName b) (ap_SupportedModes profile) (b_mode b)
       in if mode = None then Inl ApplicationProfileModeNotConfigured
          else and_then
            (fetch_bundles (get_volume_bundle W (meta_Namespace (ap_Meta profile)))
              (ap_VolumeBundles profile) (b_volumeBundles b))
            (\<lambda>bundles. Inr (b\<lparr>b_profile := Some profile, b_mode := mode, b_volumeBundles := bundles\<rparr>)))"

text \<open>
  Whether the option behind a flag counts as given. The \<open>mem\<close> flag is never asked for by
  \<open>validateFlags\<close>; its option is the memory per node.
\<close>

fun flag_given :: "'q builder \<Rightarrow> flag \<Rightarrow> bool" where
  "flag_given b CmdFlag = (deref (b_command b) [] \<noteq> [])"
| "flag_given b ParallelismFlag = (b_parallelism b \<noteq> None)"
| "flag_given b CompletionsFlag = (b_completions b \<noteq> None)"
| "flag_given b ReplicasFlag = (b_replicas b \<noteq> None)"
| "flag_given b MinReplicasFlag = (b_minReplicas b \<noteq> None)"
| "flag_given b MaxReplicasFlag = (b_maxReplicas b \<noteq> None)"
| "flag_given b RequestFlag = (b_requests b \<noteq> None)"
| "flag_given b LocalQueueFlag = (b_localQueue b \<noteq> [])"
| "flag_given b RayClusterFlag = (b_rayCluster b \<noteq> [])"
| "flag_given b ArrayFlag = (b_array b \<noteq> [])"
| "flag_given b CpusPerTaskFlag = (b_cpusPerTask b \<noteq> None)"
| "flag_given b ErrorFlag = (b_error b \<noteq> [])"
| "flag_given b GpusPerTaskFlag = (b_gpusPerTask b \<noteq> None)"
| "flag_given b InputFlag = (b_input b \<noteq> [])"
| "flag_given b JobNameFlag = (b_jobName b \<noteq> [])"
| "flag_given b MemPerNodeFlag = (b_memPerNode b \<noteq> None)"
| "flag_given b MemPerCPUFlag = (b_memPerCPU b \<noteq> None)"
| "flag_given b MemPerGPUFlag = (b_memPerGPU b \<noteq> None)"
| "flag_given b MemPerTaskFlag = (b_memPerTask b \<noteq> None)"
| "flag_given b NodesFlag = (b_nodes b \<noteq> None)"
| "flag_given b NTasksFlag = (b_nTasks b \<noteq> None)"
| "flag_given b NTasksPerNodeFlag = (b_nTasksPerNode b \<noteq> None)"
| "flag_given b OutputFlag = (b_output b \<noteq> [])"
| "flag_given b PartitionFlag = (b_partition b \<noteq> [])"
| "flag_given b PriorityFlag = (b_priority b \<noteq> [])"
| "flag_given b TimeFlag = (b_timeLimit b \<noteq> [])"
| "flag_given b PodTemplateLabelFlag = (b_podTemplateLabels b \<noteq> None)"
| "flag_given b PodTemplateAnnotationFlag = (b_podTemplateAnnotations b \<noteq> None)"

text \<open>The order of the checks in \<open>validateFlags\<close>: the first missing required flag is the error.\<close>

definition checked_flags :: "flag list" where
  "checked_flags =
     [CmdFlag, ParallelismFlag, CompletionsFlag, ReplicasFlag, MinReplicasFlag, MaxReplicasFlag,
      RequestFlag, LocalQueueFlag, RayClusterFlag, ArrayFlag, CpusPerTaskFlag, ErrorFlag,
      GpusPerTaskFlag, InputFlag, JobNameFlag, MemPerCPUFlag, MemPerGPUFlag, MemPerTaskFlag,
      NodesFlag, NTasksFlag, NTasksPerNodeFlag, OutputFlag, PartitionFlag, PriorityFlag, TimeFlag,
      PodTemplateLabelFlag, PodTemplateAnnotationFlag]"

fun check_flags :: "flag list \<Rightarrow> flag list \<Rightarrow> 'q builder \<Rightarrow> builder_error + unit" where
  "check_flags [] required b = Inr ()"
| "check_flags (f # fs) required b =
     (if f \<in> set required \<and> \<not> flag_given b f then Inl (NoFlagSpecified f)
      else check_flags fs required b)"

definition validateFlags :: "'q builder \<Rightarrow> builder_error + unit" where
  "validateFlags b =
     (case b_mode b of
       None \<Rightarrow> Inl Panic
     | Some mode \<Rightarrow> check_flags checked_flags (sm_RequiredFlags mode) b)"

section \<open>Metadata\<close>

definition generatePrefixName :: "'q builder \<Rightarrow> application_profile \<Rightarrow> string" where
  "generatePrefixName b profile =
     to_lower (meta_Name (ap_Meta profile) @ ''-'' @ b_modeName b @ ''-'')"

definition set_label :: "string \<Rightarrow> string \<Rightarrow> object_meta \<Rightarrow> object_meta" where
  "set_label k v m = m\<lparr>meta_Labels := Some (mput k v (deref (meta_Labels m) []))\<rparr>"

definition make_labels :: "object_meta \<Rightarrow> object_meta" where
  "make_labels m = m\<lparr>meta_Labels := Some (deref (meta_Labels m) [])\<rparr>"

definition withKjobLabels :: "'q builder \<Rightarrow> object_meta \<Rightarrow> object_meta" where
  "withKjobLabels b m0 =
     (let m1 = make_labels m0;
          m2 = (case b_profile b of None \<Rightarrow> m1 | Some p \<Rightarrow> set_label ProfileLabel (meta_Name (ap_Meta p)) m1)
      in case b_mode b of None \<Rightarrow> m2 | Some mode \<Rightarrow> set_label ModeLabel (sm_Name mode) m2)"

definition withKueueLabels :: "api_names \<Rightarrow> 'q builder \<Rightarrow> object_meta \<Rightarrow> builder_error + object_meta" where
  "withKueueLabels N b m0 =
     (let m1 = make_labels m0;
          m2 = (if b_localQueue b \<noteq> [] then set_label (QueueLabel N) (b_localQueue b) m1 else m1);
          m3 = (if b_priority b \<noteq> [] then set_label (WorkloadPriorityClassLabel N) (b_priority b) m2 else m2)
      in if b_timeLimit b \<noteq> []
         then and_then (map_err (CannotParseTime (b_timeLimit b)) (TimeLimitToSeconds (b_timeLimit b)))
           (\<lambda>seconds.
             if 0 <s deref seconds 0
             then Inr (set_label (MaxExecTimeSecondsLabel N) (format_int32 (deref seconds 0)) m3)
             else Inr m3)
         else Inr m3)"

definition buildObjectMeta ::
  "'q world \<Rightarrow> 'q builder \<Rightarrow> object_meta \<Rightarrow> bool \<Rightarrow> builder_error + object_meta" where
  "buildObjectMeta W b templateMeta strictNaming =
     (case b_profile b of
       None \<Rightarrow> Inl Panic
     | Some profile \<Rightarrow>
         let m = empty_meta\<lparr>meta_Namespace := meta_Namespace (ap_Meta profile),
                   meta_Labels := meta_Labels templateMeta, meta_Annotations := meta_Annotations templateMeta\<rparr>;
             m = (if strictNaming then m\<lparr>meta_Name := generatePrefixName b profile @ random_suffix W\<rparr>
                  else m\<lparr>meta_GenerateName := generatePrefixName b profile\<rparr>)
         in withKueueLabels (names W) b (withKjobLabels b m))"

definition buildChildObjectMeta :: "'q builder \<Rightarrow> string \<Rightarrow> builder_error + object_meta" where
  "buildChildObjectMeta b name =
     (case b_profile b of
       None \<Rightarrow> Inl Panic
     | Some profile \<Rightarrow>
         Inr (withKjobLabels b
           (empty_meta\<lparr>meta_Name := name, meta_Namespace := meta_Namespace (ap_Meta profile)\<rparr>)))"

definition buildPodObjectMeta :: "'q builder \<Rightarrow> object_meta \<Rightarrow> object_meta" where
  "buildPodObjectMeta b m =
     m\<lparr>meta_Labels := b_podTemplateLabels b, meta_Annotations := b_podTemplateAnnotations b\<rparr>"

section \<open>Pods\<close>

definition mergeBundles :: "volume_bundle list \<Rightarrow> volume_bundle" where
  "mergeBundles bundles =
     fold (\<lambda>b acc.
         \<lparr>vb_Volumes = vb_Volumes acc @ vb_Volumes b,
          vb_ContainerVolumeMounts = vb_ContainerVolumeMounts acc @ vb_ContainerVolumeMounts b,
          vb_EnvVars = vb_EnvVars acc @ vb_EnvVars b\<rparr>)
       bundles \<lparr>vb_Volumes = [], vb_ContainerVolumeMounts = [], vb_EnvVars = []\<rparr>"

definition plain_env :: "string \<Rightarrow> string \<Rightarrow> env_var" where
  "plain_env name v = \<lparr>env_Name = name, env_Value = v, env_ValueFrom = None\<rparr>"

definition additionalEnvironmentVariables :: "'q world \<Rightarrow> 'q builder \<Rightarrow> env_var list" where
  "additionalEnvironmentVariables W b =
     (let userID = get_env W SystemEnvVarNameUser;
          timestamp = b_buildTime b;
          taskName = b_namespace b @ ''_'' @ b_profileName b
      in [plain_env EnvVarNameUserID userID,
          plain_env EnvVarTaskName taskName,
          plain_env EnvVarTaskID (userID @ ''_'' @ timestamp @ ''_'' @ taskName),
          plain_env EnvVarNameProfile (b_namespace b @ ''_'' @ b_profileName b),
          plain_env EnvVarNameTimestamp timestamp])"

text \<open>The same additions are made to containers and init containers.\<close>

definition add_mounts_env ::
  "'q world \<Rightarrow> 'q builder \<Rightarrow> volume_bundle \<Rightarrow> 'q container \<Rightarrow> 'q container" where
  "add_mounts_env W b bundle c =
     c\<lparr>ctr_VolumeMounts := ctr_VolumeMounts c @ vb_ContainerVolumeMounts bundle,
       ctr_Env := (ctr_Env c @ vb_EnvVars bundle) @ additionalEnvironmentVariables W b\<rparr>"

definition buildPodSpecVolumesAndEnv :: "'q world \<Rightarrow> 'q builder \<Rightarrow> 'q pod_spec \<Rightarrow> 'q pod_spec" where
  "buildPodSpecVolumesAndEnv W b spec =
     (let bundle = mergeBundles (b_volumeBundles b)
      in spec\<lparr>ps_Volumes := ps_Volumes spec @ vb_Volumes bundle,
              ps_Containers := map (add_mounts_env W b bundle) (ps_Containers spec),
              ps_InitContainers := map (add_mounts_env W b bundle) (ps_InitContainers spec)\<rparr>)"

definition set_command_requests :: "'q builder \<Rightarrow> nat \<Rightarrow> 'q container \<Rightarrow> 'q container" where
  "set_command_requests b i c0 =
     (let c1 = (if i = 0 \<and> deref (b_command b) [] \<noteq> [] then c0\<lparr>ctr_Command := deref (b_command b) []\<rparr> else c0)
      in if i = 0 \<and> deref (b_requests b) [] \<noteq> [] then c1\<lparr>ctr_Requests := b_requests b\<rparr> else c1)"

definition buildPodSpec :: "'q world \<Rightarrow> 'q builder \<Rightarrow> 'q pod_spec \<Rightarrow> 'q pod_spec" where
  "buildPodSpec W b spec0 =
     (let spec = buildPodSpecVolumesAndEnv W b spec0
      in spec\<lparr>ps_Containers := map (\<lambda>(i, c). set_command_requests b i c) (enumerate 0 (ps_Containers spec))\<rparr>)"

definition buildPodTemplateSpec :: "'q world \<Rightarrow> 'q builder \<Rightarrow> 'q pod_template_spec \<Rightarrow> 'q pod_template_spec" where
  "buildPodTemplateSpec W b t =
     t\<lparr>pt_Meta := buildPodObjectMeta b (pt_Meta t), pt_Spec := buildPodSpec W b (pt_Spec t)\<rparr>"

definition replica_of :: "(string, int) gomap option \<Rightarrow> string \<Rightarrow> int32 option \<Rightarrow> int32 option" where
  "replica_of m grp old =
     (case mget (deref m []) grp of Some n \<Rightarrow> Some (word_of_int n) | None \<Rightarrow> old)"

definition buildWorkerGroup :: "'q world \<Rightarrow> 'q builder \<Rightarrow> 'q worker_group_spec \<Rightarrow> 'q worker_group_spec" where
  "buildWorkerGroup W b wg =
     wg\<lparr>wg_Replicas := replica_of (b_replicas b) (wg_GroupName wg) (wg_Replicas wg),
        wg_MinReplicas := replica_of (b_minReplicas b) (wg_GroupName wg) (wg_MinReplicas wg),
        wg_MaxReplicas := replica_of (b_maxReplicas b) (wg_GroupName wg) (wg_MaxReplicas wg),
        wg_Template := (wg_Template wg)\<lparr>pt_Spec := buildPodSpecVolumesAndEnv W b (pt_Spec (wg_Template wg))\<rparr>\<rparr>"

definition buildRayClusterSpec :: "'q world \<Rightarrow> 'q builder \<Rightarrow> 'q ray_cluster_spec \<Rightarrow> 'q ray_cluster_spec" where
  "buildRayClusterSpec W b spec =
     spec\<lparr>rc_HeadTemplate := (rc_HeadTemplate spec)\<lparr>pt_Spec :=
             buildPodSpecVolumesAndEnv W b (pt_Spec (rc_HeadTemplate spec))\<rparr>,
          rc_WorkerGroupSpecs := map (buildWorkerGroup W b) (rc_WorkerGroupSpecs spec)\<rparr>"

section \<open>Labels: lemmas\<close>

lemma label_of_set_label [simp]: "label_of (set_label k v m) k' = (if k' = k then Some v else label_of m k')"
  by (cases "meta_Labels m") (simp_all add: label_of_def set_label_def gm.get_put mget_def [of "[]"])

lemma label_of_make_labels [simp]: "label_of (make_labels m) k = label_of m k"
  by (cases "meta_Labels m") (simp_all add: label_of_def make_labels_def mget_def)

lemma set_label_frame [simp]:
  "meta_Name (set_label k v m) = meta_Name m" "meta_GenerateName (set_label k v m) = meta_GenerateName m"
  "meta_Namespace (set_label k v m) = meta_Namespace m" "meta_Annotations (set_label k v m) = meta_Annotations m"
  by (simp_all add: set_label_def)

lemma make_labels_frame [simp]:
  "meta_Name (make_labels m) = meta_Name m" "meta_GenerateName (make_labels m) = meta_GenerateName m"
  "meta_Namespace (make_labels m) = meta_Namespace m" "meta_Annotations (make_labels m) = meta_Annotations m"
  by (simp_all add: make_labels_def)

text \<open>The value of the label with the maximal execution time, if the option asks for one.\<close>

definition time_label :: "'q builder \<Rightarrow> string option" where
  "time_label b =
     (if b_timeLimit b = [] then None
      else case TimeLimitToSeconds (b_timeLimit b) of
        Inr (Some w) \<Rightarrow> if 0 <s w then Some (format_int32 w) else None
      | _ \<Rightarrow> None)"

definition set_label_if :: "bool \<Rightarrow> string \<Rightarrow> string \<Rightarrow> object_meta \<Rightarrow> object_meta" where
  "set_label_if p k v m = (if p then set_label k v m else m)"

lemma set_label_if_simps [simp]:
  "label_of (set_label_if p k v m) k' = (if p \<and> k' = k then Some v else label_of m k')"
  "meta_Name (set_label_if p k v m) = meta_Name m" "meta_GenerateName (set_label_if p k v m) = meta_GenerateName m"
  "meta_Namespace (set_label_if p k v m) = meta_Namespace m"
  by (simp_all add: set_label_if_def)

lemma withKjobLabels_spec:
  assumes "b_profile b = Some p" and "b_mode b = Some md"
  shows "label_of (withKjobLabels b m) k =
      (if k = ModeLabel then Some (sm_Name md)
       else if k = ProfileLabel then Some (meta_Name (ap_Meta p)) else label_of m k)"
    and "meta_Name (withKjobLabels b m) = meta_Name m"
    and "meta_GenerateName (withKjobLabels b m) = meta_GenerateName m"
    and "meta_Namespace (withKjobLabels b m) = meta_Namespace m"
  using assms by (simp_all add: withKjobLabels_def Let_def)

lemma withKueueLabels_eq:
  assumes "withKueueLabels N b m = Inr om"
  shows "om = set_label_if (time_label b \<noteq> None) (MaxExecTimeSecondsLabel N) (deref (time_label b) [])
    (set_label_if (b_priority b \<noteq> []) (WorkloadPriorityClassLabel N) (b_priority b)
      (set_label_if (b_localQueue b \<noteq> []) (QueueLabel N) (b_localQueue b) (make_labels m)))"
proof (cases "b_timeLimit b = []")
  case True
  with assms show ?thesis by (simp add: withKueueLabels_def time_label_def set_label_if_def Let_def)
next
  case False
  with assms obtain r where "TimeLimitToSeconds (b_timeLimit b) = Inr r"
    by (auto simp: withKueueLabels_def Let_def)
  with assms False show ?thesis
    by (cases r) (auto simp: withKueueLabels_def time_label_def set_label_if_def Let_def split: if_splits)
qed

lemma withKueueLabels_spec:
  assumes "withKueueLabels N b m = Inr om" and "labels_distinct N"
  shows "label_of om k =
      (if k = QueueLabel N \<and> b_localQueue b \<noteq> [] then Some (b_localQueue b)
       else if k = WorkloadPriorityClassLabel N \<and> b_priority b \<noteq> [] then Some (b_priority b)
       else if k = MaxExecTimeSecondsLabel N \<and> time_label b \<noteq> None then time_label b
       else label_of m k)"
    and "meta_Name om = meta_Name m" and "meta_GenerateName om = meta_GenerateName m"
    and "meta_Namespace om = meta_Namespace m"
  using assms(2) unfolding withKueueLabels_eq [OF assms(1)]
  by (auto simp: labels_distinct_def)

lemma buildObjectMeta_spec:
  assumes "buildObjectMeta W b tm strict = Inr om" and "labels_distinct (names W)"
    and "b_profile b = Some p" and "b_mode b = Some md"
  shows "label_of om k =
      (if k = ProfileLabel then Some (meta_Name (ap_Meta p))
       else if k = ModeLabel then Some (sm_Name md)
       else if k = QueueLabel (names W) \<and> b_localQueue b \<noteq> [] then Some (b_localQueue b)
       else if k = WorkloadPriorityClassLabel (names W) \<and> b_priority b \<noteq> [] then Some (b_priority b)
       else if k = MaxExecTimeSecondsLabel (names W) \<and> time_label b \<noteq> None then time_label b
       else label_of tm k)"
    and "meta_Namespace om = meta_Namespace (ap_Meta p)"
    and "meta_Name om = (if strict then generatePrefixName b p @ random_suffix W else [])"
    and "meta_GenerateName om = (if strict then [] else generatePrefixName b p)"
proof -
  define m0 where "m0 = (if strict
      then empty_meta\<lparr>meta_Namespace := meta_Namespace (ap_Meta p), meta_Labels := meta_Labels tm,
             meta_Annotations := meta_Annotations tm, meta_Name := generatePrefixName b p @ random_suffix W\<rparr>
      else empty_meta\<lparr>meta_Namespace := meta_Namespace (ap_Meta p), meta_Labels := meta_Labels tm,
             meta_Annotations := meta_Annotations tm, meta_GenerateName := generatePrefixName b p\<rparr>)"
  have q: "withKueueLabels (names W) b (withKjobLabels b m0) = Inr om"
    using assms(1,3) by (simp add: buildObjectMeta_def m0_def Let_def split: if_splits)
  have "label_of m0 k = label_of tm k" by (simp add: m0_def label_of_def)
  then show "label_of om k =
      (if k = ProfileLabel then Some (meta_Name (ap_Meta p))
       else if k = ModeLabel then Some (sm_Name md)
       else if k = QueueLabel (names W) \<and> b_localQueue b \<noteq> [] then Some (b_localQueue b)
       else if k = WorkloadPriorityClassLabel (names W) \<and> b_priority b \<noteq> [] then Some (b_priority b)
       else if k = MaxExecTimeSecondsLabel (names W) \<and> time_label b \<noteq> None then time_label b
       else label_of tm k)"
    using assms(2) withKueueLabels_spec(1) [OF q assms(2)] withKjobLabels_spec(1) [OF assms(3,4)]
    by (auto simp: labels_distinct_def)
  note frame = withKueueLabels_spec(2-4) [OF q assms(2)] withKjobLabels_spec(2-4) [OF assms(3,4)]
  show "meta_Namespace om = meta_Namespace (ap_Meta p)"
    and "meta_Name om = (if strict then generatePrefixName b p @ random_suffix W else [])"
    and "meta_GenerateName om = (if strict then [] else generatePrefixName b p)"
    by (simp_all add: frame m0_def empty_meta_def)
qed

lemma buildChildObjectMeta_spec:
  assumes "buildChildObjectMeta b name = Inr om" and "b_profile b = Some p" and "b_mode b = Some md"
  shows "label_of om k =
      (if k = ProfileLabel then Some (meta_Name (ap_Meta p)) else if k = ModeLabel then Some (sm_Name md) else None)"
    and "meta_Namespace om = meta_Namespace (ap_Meta p)" and "meta_Name om = name"
  using assms withKjobLabels_spec [OF assms(2,3)]
  by (auto simp: buildChildObjectMeta_def label_of_def empty_meta_def label_defs)

section \<open>Required flags and pods: lemmas\<close>

lemma check_flags_Inr: "check_flags fs req b = Inr () \<longleftrightarrow> (\<forall>f \<in> set fs. f \<in> set req \<longrightarrow> flag_given b f)"
  by (induction fs) auto

lemma check_flags_Inl: "check_flags fs req b = Inl e \<Longrightarrow> \<exists>f \<in> set req. e = NoFlagSpecified f \<and> \<not> flag_given b f"
  by (induction fs) (auto split: if_splits)

lemma checked_flags_all: "f \<in> set checked_flags \<longleftrightarrow> f \<noteq> MemPerNodeFlag"
  by (cases f) (simp_all add: checked_flags_def)

lemma mergeBundles_eq:
  "mergeBundles bs =
     \<lparr>vb_Volumes = concat (map vb_Volumes bs),
      vb_ContainerVolumeMounts = concat (map vb_ContainerVolumeMounts bs),
      vb_EnvVars = concat (map vb_EnvVars bs)\<rparr>"
proof -
  have "fold (\<lambda>b acc.
         \<lparr>vb_Volumes = vb_Volumes acc @ vb_Volumes b,
          vb_ContainerVolumeMounts = vb_ContainerVolumeMounts acc @ vb_ContainerVolumeMounts b,
          vb_EnvVars = vb_EnvVars acc @ vb_EnvVars b\<rparr>) bs \<lparr>vb_Volumes = v, vb_ContainerVolumeMounts = m, vb_EnvVars = e\<rparr> =
       \<lparr>vb_Volumes = v @ concat (map vb_Volumes bs), vb_ContainerVolumeMounts = m @ concat (map vb_ContainerVolumeMounts bs),
        vb_EnvVars = e @ concat (map vb_EnvVars bs)\<rparr>" for v m e
    by (induction bs arbitrary: v m e) simp_all
  then show ?thesis by (simp add: mergeBundles_def)
qed

lemma find_mode_Some:
  "find_mode name modes None = Some m \<Longrightarrow> m \<in> set modes \<and> sm_Name m = name"
  unfolding find_mode_def by (induction modes rule: rev_induct) (auto split: if_splits)

lemma fetch_bundles_Inr:
  "fetch_bundles get ns acc = Inr bs \<longleftrightarrow> (\<exists>vbs. bs = acc @ vbs \<and> list_all2 (\<lambda>n vb. get n = Inr vb) ns vbs)"
proof (induction ns arbitrary: acc)
  case (Cons n ns)
  then show ?case by (fastforce simp: list_all2_Cons1)
qed auto

section \<open>A sample world\<close>

text \<open>
  A concrete world for the witnesses: quantities in thousandths, one profile with all modes and one
  volume bundle, and a template per kind.
\<close>

definition sample_quantities :: "int quantity_api" where
  "sample_quantities =
     \<lparr>q_parse = (\<lambda>s. case parse_int 32 s of Inl e \<Rightarrow> Inl ''invalid'' | Inr i \<Rightarrow> Inr (1000 * i)), q_zero = 0,
      q_add = (+), q_mul = (*), q_value = (\<lambda>q. (q + 999) div 1000), q_milli = (\<lambda>q. q),
      q_is_zero = (\<lambda>q. q = 0), q_string = (\<lambda>q. format_int q @ ''m''), q_new = (\<lambda>n _. 1000 * n),
      q_new_milli = (\<lambda>n _. n)\<rparr>"

definition sample_names :: api_names where
  "sample_names =
     \<lparr>QueueLabel = ''q'', WorkloadPriorityClassLabel = ''p'', MaxExecTimeSecondsLabel = ''t'',
      RayClusterLabelKey = ''r'', ResourceCPU = ''cpu'', ResourceMemory = ''memory'', IndexedCompletion = ''Indexed''\<rparr>"

definition sample_mode :: "application_profile_mode \<Rightarrow> supported_mode" where
  "sample_mode m = \<lparr>sm_Name = mode_name m, sm_Template = ''tpl'', sm_RequiredFlags = []\<rparr>"

definition sample_profile :: application_profile where
  "sample_profile =
     \<lparr>ap_Meta = empty_meta\<lparr>meta_Name := ''prof'', meta_Namespace := ''ns''\<rparr>,
      ap_SupportedModes = map sample_mode [InteractiveMode, JobMode, RayJobMode, RayClusterMode, SlurmMode],
      ap_VolumeBundles = [''vb'']\<rparr>"

definition sample_bundle :: volume_bundle where
  "sample_bundle =
     \<lparr>vb_Volumes = [\<lparr>vol_Name = ''data'', vol_Source = EmptyDirVolume\<rparr>],
      vb_ContainerVolumeMounts = [\<lparr>vm_Name = ''data'', vm_MountPath = ''/data'', vm_rest = []\<rparr>],
      vb_EnvVars = [plain_env ''DATA'' ''/data'']\<rparr>"

definition sample_container :: "int container" where
  "sample_container =
     \<lparr>ctr_Name = ''c'', ctr_Image = ''img'', ctr_Command = [], ctr_Env = [], ctr_VolumeMounts = [],
      ctr_Requests = None, ctr_Limits = None, ctr_TTY = False, ctr_Stdin = False, ctr_rest = []\<rparr>"

definition sample_pod :: "int pod_template_spec" where
  "sample_pod =
     \<lparr>pt_Meta = empty_meta,
      pt_Spec = \<lparr>ps_Containers = [sample_container], ps_InitContainers = [], ps_Volumes = [],
                 ps_Subdomain = [], ps_rest = []\<rparr>\<rparr>"

definition sample_ray_cluster :: "int ray_cluster_spec" where
  "sample_ray_cluster =
     \<lparr>rc_HeadTemplate = sample_pod,
      rc_WorkerGroupSpecs = [\<lparr>wg_GroupName = ''g'', wg_Replicas = None, wg_MinReplicas = None,
        wg_MaxReplicas = None, wg_Template = sample_pod, wg_rest = []\<rparr>], rc_rest = []\<rparr>"

definition sample_world :: "int world" where
  "sample_world =
     \<lparr>kjobctl_clientset = Inr (), k8s_clientset = Inr (), kueue_clientset = Inr (),
      get_local_queue = (\<lambda>ns n. Inr ()), get_priority_class = (\<lambda>n. Inr ()),
      get_profile = (\<lambda>ns n. if n = ''prof'' then Inr sample_profile else Inl ''not found''),
      get_volume_bundle = (\<lambda>ns n. Inr sample_bundle),
      get_pod_template = (\<lambda>ns n. Inr sample_pod),
      get_job_template = (\<lambda>ns n. Inr \<lparr>jt_Meta = empty_meta,
        jt_Spec = \<lparr>js_Parallelism = None, js_Completions = None, js_CompletionMode = None,
                   js_Template = sample_pod, js_rest = []\<rparr>\<rparr>),
      get_ray_job_template = (\<lambda>ns n. Inr \<lparr>rjt_Meta = empty_meta,
        rjt_Spec = \<lparr>rj_Entrypoint = [], rj_ClusterSelector = None,
                    rj_RayClusterSpec = Some sample_ray_cluster, rj_rest = []\<rparr>\<rparr>),
      get_ray_cluster_template = (\<lambda>ns n. Inr \<lparr>rct_Meta = empty_meta, rct_Spec = sample_ray_cluster\<rparr>),
      lookup_env = (\<lambda>n. if n = ''USER'' then Some ''me'' else None),
      read_file = (\<lambda>n. Inr ''sleep 1''),
      random_suffix = ''abcde'', names = sample_names, quantities = sample_quantities,
      srun_parser_of = (\<lambda>args. Inr args)\<rparr>"

definition sample_builder :: "application_profile_mode \<Rightarrow> int builder" where
  "sample_builder m =
     WithNamespace ''ns'' (WithProfileName ''prof'' (WithModeName (mode_name m) (NewBuilder ''now'')))"

definition sample_completed :: "application_profile_mode \<Rightarrow> int builder" where
  "sample_completed m =
     (sample_builder m)\<lparr>b_profile := Some sample_profile, b_mode := Some (sample_mode m),
        b_volumeBundles := [sample_bundle]\<rparr>"

lemmas sample_defs = sample_world_def sample_builder_def sample_completed_def sample_profile_def
  sample_mode_def sample_names_def WithNamespace_def WithProfileName_def WithModeName_def NewBuilder_def

lemma sample_labels_distinct: "labels_distinct (names sample_world)"
  by (simp add: labels_distinct_def sample_world_def sample_names_def label_defs)

lemma sample_complete: "complete sample_world (sample_builder m) = Inr (sample_completed m)"
  by (cases m) (simp_all add: complete_def sample_defs find_mode_def)

section \<open>Properties\<close>

text \<open>
  C22. \<open>validateFlags\<close> succeeds exactly when every required flag of the mode other than \<open>mem\<close> has
  been given, and an error names a required flag that has not.
\<close>

theorem validateFlags_iff:
  assumes "b_mode b = Some m"
  shows "(validateFlags b = Inr () \<longleftrightarrow>
      (\<forall>f \<in> set (sm_RequiredFlags m). f \<noteq> MemPerNodeFlag \<longrightarrow> flag_given b f)) \<and>
    (\<forall>e. validateFlags b = Inl e \<longrightarrow>
      (\<exists>f \<in> set (sm_RequiredFlags m). e = NoFlagSpecified f \<and> \<not> flag_given b f))"
  using assms check_flags_Inl [of checked_flags "sm_RequiredFlags m" b]
  by (auto simp: validateFlags_def check_flags_Inr checked_flags_all)

theorem validateFlags_iff_witness:
  "validateFlags ((sample_completed JobMode)\<lparr>b_mode := Some \<lparr>sm_Name = ''Job'', sm_Template = ''tpl'',
     sm_RequiredFlags = [CmdFlag]\<rparr>\<rparr>) \<noteq> Inr ()"
  using validateFlags_iff [of "(sample_completed JobMode)\<lparr>b_mode := Some \<lparr>sm_Name = ''Job'',
      sm_Template = ''tpl'', sm_RequiredFlags = [CmdFlag]\<rparr>\<rparr>"]
  by (simp add: sample_defs)

text \<open>
  Completing a builder finds the last mode of the profile with the requested name, and the
  volume bundles of the profile in their order, looked up in the namespace of the profile.
\<close>

theorem complete_spec:
  assumes "complete W b = Inr b'" and "b_mode b = None" and "b_volumeBundles b = []"
  shows "\<exists>p m. get_profile W (b_namespace b) (b_profileName b) = Inr p \<and> b_profile b' = Some p \<and>
    b_mode b' = Some m \<and> m \<in> set (ap_SupportedModes p) \<and> sm_Name m = b_modeName b \<and>
    list_all2 (\<lambda>n vb. get_volume_bundle W (meta_Namespace (ap_Meta p)) n = Inr vb)
      (ap_VolumeBundles p) (b_volumeBundles b')"
proof -
  from assms obtain p bs where p: "get_profile W (b_namespace b) (b_profileName b) = Inr p"
    and mode: "find_mode (b_modeName b) (ap_SupportedModes p) None \<noteq> None"
    and bs: "fetch_bundles (get_volume_bundle W (meta_Namespace (ap_Meta p))) (ap_VolumeBundles p) [] = Inr bs"
    and b': "b' = b\<lparr>b_profile := Some p, b_mode := find_mode (b_modeName b) (ap_SupportedModes p) None,
                   b_volumeBundles := bs\<rparr>"
    by (auto simp: complete_def Let_def split: if_splits)
  from mode obtain m where m: "find_mode (b_modeName b) (ap_SupportedModes p) None = Some m" by blast
  from find_mode_Some [OF this] p m bs b' show ?thesis by (auto simp: fetch_bundles_Inr)
qed

theorem complete_spec_witness:
  "\<exists>b' m. complete sample_world (sample_builder SlurmMode) = Inr b' \<and> b_mode b' = Some m \<and> sm_Name m = ''Slurm''"
  using complete_spec [OF sample_complete [of SlurmMode]] sample_complete [of SlurmMode]
  by (auto simp: sample_defs)

text \<open>
  C20. The metadata of a created object: it lives in the namespace of the profile, carries the labels
  with the names of the profile and of the mode, the queue and the priority class if they are given and
  else those of the template, if it has any, and the maximal execution time if the time limit is a
  positive number of seconds and else that of the template; every other label is the template's. The
  name is the lower-case prefix of profile and mode with a random suffix for strict naming, and
  otherwise left to the server behind that prefix.
\<close>

theorem buildObjectMeta_labels:
  assumes "buildObjectMeta W b tm strict = Inr om" and "labels_distinct (names W)"
    and "b_profile b = Some p" and "b_mode b = Some md"
  shows "meta_Namespace om = meta_Namespace (ap_Meta p) \<and>
    label_of om ProfileLabel = Some (meta_Name (ap_Meta p)) \<and> label_of om ModeLabel = Some (sm_Name md) \<and>
    label_of om (QueueLabel (names W)) =
      (if b_localQueue b \<noteq> [] then Some (b_localQueue b) else label_of tm (QueueLabel (names W))) \<and>
    label_of om (WorkloadPriorityClassLabel (names W)) =
      (if b_priority b \<noteq> [] then Some (b_priority b) else label_of tm (WorkloadPriorityClassLabel (names W))) \<and>
    label_of om (MaxExecTimeSecondsLabel (names W)) =
      (case TimeLimitToSeconds (b_timeLimit b) of
        Inr (Some w) \<Rightarrow> if b_timeLimit b \<noteq> [] \<and> 0 <s w then Some (format_int32 w)
          else label_of tm (MaxExecTimeSecondsLabel (names W))
      | _ \<Rightarrow> label_of tm (MaxExecTimeSecondsLabel (names W))) \<and>
    (\<forall>k. k \<notin> {ProfileLabel, ModeLabel, QueueLabel (names W), WorkloadPriorityClassLabel (names W),
        MaxExecTimeSecondsLabel (names W)} \<longrightarrow> label_of om k = label_of tm k) \<and>
    (meta_Name om, meta_GenerateName om) =
      (let prefix = to_lower (meta_Name (ap_Meta p) @ ''-'' @ b_modeName b @ ''-'')
       in if strict then (prefix @ random_suffix W, []) else ([], prefix))"
proof -
  define q pr t where "q = QueueLabel (names W)" and "pr = WorkloadPriorityClassLabel (names W)"
    and "t = MaxExecTimeSecondsLabel (names W)"
  have "distinct [ProfileLabel, ModeLabel, q, pr, t]"
    using assms(2) by (simp only: labels_distinct_def q_def pr_def t_def)
  then have ne: "ModeLabel \<noteq> ProfileLabel" "q \<noteq> ProfileLabel" "pr \<noteq> ProfileLabel" "t \<noteq> ProfileLabel"
    "q \<noteq> ModeLabel" "pr \<noteq> ModeLabel" "t \<noteq> ModeLabel" "pr \<noteq> q" "t \<noteq> q" "t \<noteq> pr"
    by auto
  note labels = buildObjectMeta_spec(1) [OF assms, folded q_def pr_def t_def]
  show ?thesis
    unfolding q_def [symmetric] pr_def [symmetric] t_def [symmetric] labels
    using ne buildObjectMeta_spec(2-4) [OF assms]
    by (cases "TimeLimitToSeconds (b_timeLimit b)")
      (simp_all add: time_label_def generatePrefixName_def Let_def split: option.splits)
qed

theorem buildObjectMeta_labels_witness:
  "\<exists>om. buildObjectMeta sample_world (sample_completed JobMode) (set_label ''team'' ''red'' empty_meta) False = Inr om \<and>
    label_of om ModeLabel = Some ''Job'' \<and> label_of om (QueueLabel (names sample_world)) = None"
proof -
  let ?tm = "set_label ''team'' ''red'' empty_meta"
  have "\<exists>om. buildObjectMeta sample_world (sample_completed JobMode) ?tm False = Inr om"
    by (simp add: buildObjectMeta_def withKueueLabels_def sample_defs Let_def)
  then obtain om where om: "buildObjectMeta sample_world (sample_completed JobMode) ?tm False = Inr om" ..
  have "b_localQueue (sample_completed JobMode) = []" "label_of ?tm (QueueLabel (names sample_world)) = None"
    by (simp_all add: sample_defs label_of_def empty_meta_def set_label_def mput_def mget_def)
  moreover have "b_profile (sample_completed JobMode) = Some sample_profile" "b_mode (sample_completed JobMode) = Some (sample_mode JobMode)"
    by (simp_all add: sample_completed_def)
  note buildObjectMeta_labels [OF om sample_labels_distinct this]
  ultimately show ?thesis using om by (auto simp: sample_mode_def)
qed

end
