(* ===== verification/ModeBuilders.thy ===== *)
theory ModeBuilders
  imports Builder
begin

text \<open>
  The builders of the modes Interactive, Job, RayJob and RayCluster
  (\<open>pkg/builder/interactive_builder.go\<close>, \<open>job_builder.go\<close>, \<open>ray_job_builder.go\<close>,
  \<open>ray_cluster_builder.go\<close>). A builder fetches its template, builds the metadata and fills the
  specification in; none of the four has child objects.
\<close>

type_synonym 'q build_result = "builder_error + 'q runtime_object \<times> 'q runtime_object list"

text \<open>Fetching a template in the namespace of the profile, by the name the mode gives.\<close>

definition fetch_template ::
  "(string \<Rightarrow> string \<Rightarrow> string + 't) \<Rightarrow> 'q builder \<Rightarrow> builder_error + 't" where
  "fetch_template get b =
     (case (b_profile b, b_mode b) of
       (Some profile, Some mode) \<Rightarrow> map_err ApiError (get (meta_Namespace (ap_Meta profile)) (sm_Template mode))
     | _ \<Rightarrow> Inl Panic)"

definition set_tty :: "'q pod_spec \<Rightarrow> 'q pod_spec" where
  "set_tty spec =
     (case ps_Containers spec of
       [] \<Rightarrow> spec
     | c # cs \<Rightarrow> spec\<lparr>ps_Containers := c\<lparr>ctr_TTY := True, ctr_Stdin := True\<rparr> # cs\<rparr>)"

definition interactive_build :: "'q world \<Rightarrow> 'q builder \<Rightarrow> 'q build_result" where
  "interactive_build W b =
     and_then (fetch_template (get_pod_template W) b) (\<lambda>template.
       let template = template\<lparr>pt_Meta := buildPodObjectMeta b (pt_Meta template)\<rparr>
       in and_then (buildObjectMeta W b (pt_Meta template) False) (\<lambda>objectMeta.
            Inr (PodObject objectMeta (set_tty (buildPodSpec W b (pt_Spec template))), [])))"

definition job_build :: "'q world \<Rightarrow> 'q builder \<Rightarrow> 'q build_result" where
  "job_build W b =
     and_then (fetch_template (get_job_template W) b) (\<lambda>template.
     and_then (buildObjectMeta W b (jt_Meta template) False) (\<lambda>objectMeta.
       let spec = jt_Spec template;
           spec = spec\<lparr>js_Template := buildPodTemplateSpec W b (js_Template spec)\<rparr>;
           spec = (if b_parallelism b \<noteq> None then spec\<lparr>js_Parallelism := b_parallelism b\<rparr> else spec);
           spec = (if b_completions b \<noteq> None then spec\<lparr>js_Completions := b_completions b\<rparr> else spec)
       in Inr (JobObject objectMeta spec, [])))"

definition ray_cluster_build :: "'q world \<Rightarrow> 'q builder \<Rightarrow> 'q build_result" where
  "ray_cluster_build W b =
     and_then (fetch_template (get_ray_cluster_template W) b) (\<lambda>template.
     and_then (buildObjectMeta W b (rct_Meta template) False) (\<lambda>objectMeta.
       Inr (RayClusterObject objectMeta (buildRayClusterSpec W b (rct_Spec template)), [])))"

definition ray_job_build :: "'q world \<Rightarrow> 'q builder \<Rightarrow> 'q build_result" where
  "ray_job_build W b =
     and_then (fetch_template (get_ray_job_template W) b) (\<lambda>template.
     and_then (buildObjectMeta W b (rjt_Meta template) False) (\<lambda>objectMeta.
       let spec = rjt_Spec template;
           spec = (case b_command b of None \<Rightarrow> spec | Some cmd \<Rightarrow> spec\<lparr>rj_Entrypoint := str_join '' '' cmd\<rparr>)
       in if b_rayCluster b \<noteq> []
          then
            Inr (RayJobObject
              (objectMeta\<lparr>meta_Labels := map_option (mdel (QueueLabel (names W))) (meta_Labels objectMeta)\<rparr>)
              (spec\<lparr>rj_RayClusterSpec := None,
                    rj_ClusterSelector :=
                      Some (mput (RayClusterLabelKey (names W)) (b_rayCluster b) (deref (rj_ClusterSelector spec) []))\<rparr>), [])
          else
            Inr (RayJobObject objectMeta
              (spec\<lparr>rj_RayClusterSpec := map_option (buildRayClusterSpec W b) (rj_RayClusterSpec spec)\<rparr>), [])))"

section \<open>The contract of a mode builder\<close>

text \<open>
  What the commands that list, describe and delete objects rely on: the object is in the namespace
  of the profile and its labels name the profile and the mode.
\<close>

definition kjob_owned :: "application_profile \<Rightarrow> supported_mode \<Rightarrow> 'q runtime_object \<Rightarrow> bool" where
  "kjob_owned p m obj \<longleftrightarrow>
     meta_Namespace (object_meta_of obj) = meta_Namespace (ap_Meta p) \<and>
     label_of (object_meta_of obj) ProfileLabel = Some (meta_Name (ap_Meta p)) \<and>
     label_of (object_meta_of obj) ModeLabel = Some (sm_Name m)"

locale mode_builder_contract =
  fixes build :: "'q world \<Rightarrow> 'q builder \<Rightarrow> 'q build_result option"
    and kind :: string
  assumes root_owned:
      "\<lbrakk>build W b = Some (Inr (root, cs)); labels_distinct (names W);
        b_profile b = Some p; b_mode b = Some m\<rbrakk> \<Longrightarrow> kjob_owned p m root"
    and children_owned:
      "\<lbrakk>build W b = Some (Inr (root, cs)); labels_distinct (names W);
        b_profile b = Some p; b_mode b = Some m; c \<in> set cs\<rbrakk> \<Longrightarrow> kjob_owned p m c"
    and root_kind: "build W b = Some (Inr (root, cs)) \<Longrightarrow> object_kind root = kind"
    and needs_profile: "build W b = Some (Inr (root, cs)) \<Longrightarrow> b_profile b \<noteq> None \<and> b_mode b \<noteq> None"
begin

lemma all_owned:
  assumes "build W b = Some (Inr (root, cs))" and "labels_distinct (names W)"
  shows "\<exists>p m. b_profile b = Some p \<and> b_mode b = Some m \<and> (\<forall>obj \<in> set (root # cs). kjob_owned p m obj)"
  using needs_profile [OF assms(1)] root_owned [OF assms] children_owned [OF assms] by auto

end

lemma fetch_template_Inr:
  "fetch_template get b = Inr t \<longleftrightarrow>
   (\<exists>p m. b_profile b = Some p \<and> b_mode b = Some m \<and>
     get (meta_Namespace (ap_Meta p)) (sm_Template m) = Inr t)"
  by (auto simp: fetch_template_def split: option.splits)

lemma buildObjectMeta_owned:
  assumes "buildObjectMeta W b tm strict = Inr om" and "labels_distinct (names W)"
    and "b_profile b = Some p" and "b_mode b = Some m" and "object_meta_of obj = om"
  shows "kjob_owned p m obj"
  using assms(5) buildObjectMeta_spec(1,2) [OF assms(1-4)] by (simp add: kjob_owned_def label_defs)

interpretation ib: mode_builder_contract "\<lambda>W b. Some (interactive_build W b)" "''Pod''"
  by unfold_locales
    (auto simp: interactive_build_def fetch_template_Inr Let_def intro: buildObjectMeta_owned)

interpretation jb: mode_builder_contract "\<lambda>W b. Some (job_build W b)" "''Job''"
  by unfold_locales
    (auto simp: job_build_def fetch_template_Inr Let_def intro: buildObjectMeta_owned)

interpretation rcb: mode_builder_contract "\<lambda>W b. Some (ray_cluster_build W b)" "''RayCluster''"
  by unfold_locales
    (auto simp: ray_cluster_build_def fetch_template_Inr Let_def intro: buildObjectMeta_owned)

lemma label_of_deleted:
  "label_of (m\<lparr>meta_Labels := map_option (mdel k) (meta_Labels m)\<rparr>) k' = (if k' = k then None else label_of m k')"
proof -
  have "mget (mdel k ls) k' = (if k' = k then None else mget ls k')" for ls :: str_map
    by (induction ls) (auto simp: mget_def mdel_def)
  then show ?thesis by (cases "meta_Labels m") (simp_all add: label_of_def)
qed

lemma ray_job_build_Inr:
  assumes "ray_job_build W b = Inr (root, cs)"
  obtains p md om t m' spec' where "b_profile b = Some p" and "b_mode b = Some md"
    and "get_ray_job_template W (meta_Namespace (ap_Meta p)) (sm_Template md) = Inr t"
    and "buildObjectMeta W b (rjt_Meta t) False = Inr om" and "cs = []"
    and "root = RayJobObject m' spec'"
    and "m' = (if b_rayCluster b \<noteq> [] then om\<lparr>meta_Labels := map_option (mdel (QueueLabel (names W))) (meta_Labels om)\<rparr> else om)"
    and "rj_Entrypoint spec' = (case b_command b of None \<Rightarrow> rj_Entrypoint (rjt_Spec t) | Some cmd \<Rightarrow> str_join '' '' cmd)"
    and "rj_RayClusterSpec spec' = (if b_rayCluster b \<noteq> [] then None
        else map_option (buildRayClusterSpec W b) (rj_RayClusterSpec (rjt_Spec t)))"
    and "rj_ClusterSelector spec' = (if b_rayCluster b \<noteq> []
        then Some (mput (RayClusterLabelKey (names W)) (b_rayCluster b) (deref (rj_ClusterSelector (rjt_Spec t)) []))
        else rj_ClusterSelector (rjt_Spec t))"
proof -
  from assms obtain p md t om where pre: "b_profile b = Some p" "b_mode b = Some md"
    "get_ray_job_template W (meta_Namespace (ap_Meta p)) (sm_Template md) = Inr t"
    "buildObjectMeta W b (rjt_Meta t) False = Inr om"
    by (auto simp: ray_job_build_def fetch_template_Inr)
  then have f: "fetch_template (get_ray_job_template W) b = Inr t" by (auto simp: fetch_template_Inr)
  obtain m' spec' where root: "root = RayJobObject m' spec'" and cs: "cs = []"
    using assms f pre(4) by (auto simp: ray_job_build_def Let_def split: if_splits)
  show thesis
    using assms f pre(4) unfolding root
    by (intro that [OF pre cs root]) (auto simp: ray_job_build_def Let_def split: if_splits option.splits)
qed

interpretation rjb: mode_builder_contract "\<lambda>W b. Some (ray_job_build W b)" "''RayJob''"
proof unfold_locales
  fix W :: "'q world" and b root cs p m
  assume build: "Some (ray_job_build W b) = Some (Inr (root, cs))" and d: "labels_distinct (names W)"
    and p: "b_profile b = Some p" and m: "b_mode b = Some m"
  from build have "ray_job_build W b = Inr (root, cs)" by simp
  then show "kjob_owned p m root"
  proof (rule ray_job_build_Inr)
    fix p' md om t m' spec'
    assume om: "buildObjectMeta W b (rjt_Meta t) False = Inr om" and root: "root = RayJobObject m' spec'"
      and m': "m' = (if b_rayCluster b \<noteq> []
        then om\<lparr>meta_Labels := map_option (mdel (QueueLabel (names W))) (meta_Labels om)\<rparr> else om)"
    have "ProfileLabel \<noteq> QueueLabel (names W)" "ModeLabel \<noteq> QueueLabel (names W)"
      using d by (auto simp: labels_distinct_def)
    then have "label_of m' ProfileLabel = label_of om ProfileLabel" "label_of m' ModeLabel = label_of om ModeLabel"
      "meta_Namespace m' = meta_Namespace om"
      using m' label_of_deleted by simp_all
    then show ?thesis
      using root buildObjectMeta_spec(1,2) [OF om d p m] by (simp add: kjob_owned_def label_defs)
  qed
qed (auto elim!: ray_job_build_Inr)

lemma buildPodSpec_containers:
  "ps_Containers (buildPodSpec W b spec) =
     (case map (add_mounts_env W b (mergeBundles (b_volumeBundles b))) (ps_Containers spec) of
       [] \<Rightarrow> [] | c # cs \<Rightarrow> set_command_requests b 0 c # cs)"
proof -
  have "map (\<lambda>(i, c). set_command_requests b i c) (enumerate (Suc n) cs) = cs" for n cs
    by (induction cs arbitrary: n) (simp_all add: set_command_requests_def)
  then show ?thesis
    by (cases "ps_Containers spec") (simp_all add: buildPodSpec_def buildPodSpecVolumesAndEnv_def Let_def)
qed

section \<open>The pods of an object\<close>

text \<open>
  The pods an object describes, and the value a variable has in a container: of several definitions
  of a name the last one counts.
\<close>

definition ray_pods :: "'q ray_cluster_spec \<Rightarrow> 'q pod_spec list" where
  "ray_pods rc = pt_Spec (rc_HeadTemplate rc) # map (\<lambda>g. pt_Spec (wg_Template g)) (rc_WorkerGroupSpecs rc)"

definition object_pods :: "'q runtime_object \<Rightarrow> 'q pod_spec list" where
  "object_pods obj =
     (case obj of
       PodObject m spec \<Rightarrow> [spec]
     | JobObject m js \<Rightarrow> [pt_Spec (js_Template js)]
     | RayJobObject m rj \<Rightarrow> (case rj_RayClusterSpec rj of None \<Rightarrow> [] | Some rc \<Rightarrow> ray_pods rc)
     | RayClusterObject m rc \<Rightarrow> ray_pods rc
     | _ \<Rightarrow> [])"

definition env_value :: "'q container \<Rightarrow> string \<Rightarrow> string option" where
  "env_value c = map_of (rev (map (\<lambda>e. (env_Name e, env_Value e)) (ctr_Env c)))"

text \<open>A container with the variables of the task and what the volume bundles bring.\<close>

definition equipped :: "'q world \<Rightarrow> 'q builder \<Rightarrow> 'q container \<Rightarrow> bool" where
  "equipped W b c \<longleftrightarrow>
     (\<forall>vb \<in> set (b_volumeBundles b). set (vb_ContainerVolumeMounts vb) \<subseteq> set (ctr_VolumeMounts c) \<and>
       set (vb_EnvVars vb) \<subseteq> set (ctr_Env c)) \<and>
     env_value c ''USER_ID'' = Some (get_env W ''USER'') \<and>
     env_value c ''TASK_NAME'' = Some (b_namespace b @ ''_'' @ b_profileName b) \<and>
     env_value c ''TASK_ID'' =
       Some (get_env W ''USER'' @ ''_'' @ b_buildTime b @ ''_'' @ b_namespace b @ ''_'' @ b_profileName b) \<and>
     env_value c ''PROFILE'' = Some (b_namespace b @ ''_'' @ b_profileName b) \<and>
     env_value c ''TIMESTAMP'' = Some (b_buildTime b)"

definition pod_equipped :: "'q world \<Rightarrow> 'q builder \<Rightarrow> 'q pod_spec \<Rightarrow> bool" where
  "pod_equipped W b spec \<longleftrightarrow>
     (\<forall>vb \<in> set (b_volumeBundles b). set (vb_Volumes vb) \<subseteq> set (ps_Volumes spec)) \<and>
     (\<forall>c \<in> set (ps_Containers spec). equipped W b c)"

lemma equipped_mono:
  "equipped W b c \<Longrightarrow> ctr_Env c' = ctr_Env c \<Longrightarrow> set (ctr_VolumeMounts c) \<subseteq> set (ctr_VolumeMounts c') \<Longrightarrow> equipped W b c'"
  by (auto simp: equipped_def env_value_def)

lemma add_mounts_env_equipped: "equipped W b (add_mounts_env W b (mergeBundles (b_volumeBundles b)) c)"
  by (auto simp: equipped_def env_value_def add_mounts_env_def mergeBundles_eq additionalEnvironmentVariables_def
      plain_env_def EnvVarNameUserID_def EnvVarTaskName_def EnvVarTaskID_def EnvVarNameProfile_def
      EnvVarNameTimestamp_def SystemEnvVarNameUser_def Let_def)

lemma buildPodSpecVolumesAndEnv_equipped:
  "pod_equipped W b (buildPodSpecVolumesAndEnv W b spec)"
  "c \<in> set (ps_InitContainers (buildPodSpecVolumesAndEnv W b spec)) \<Longrightarrow> equipped W b c"
  by (auto simp: pod_equipped_def buildPodSpecVolumesAndEnv_def mergeBundles_eq [of "b_volumeBundles b", symmetric]
      add_mounts_env_equipped Let_def) (auto simp: mergeBundles_eq)

lemma set_command_requests_equipped: "equipped W b c \<Longrightarrow> equipped W b (set_command_requests b i c)"
  by (erule equipped_mono) (simp_all add: set_command_requests_def Let_def)

lemma buildPodSpec_equipped:
  "pod_equipped W b (buildPodSpec W b spec)"
  "c \<in> set (ps_InitContainers (buildPodSpec W b spec)) \<Longrightarrow> equipped W b c"
  using buildPodSpecVolumesAndEnv_equipped [where W = W and b = b and spec = spec]
  by (auto simp: pod_equipped_def buildPodSpec_def Let_def in_set_enumerate_eq intro!: set_command_requests_equipped)

lemma set_tty_equipped:
  "pod_equipped W b spec \<Longrightarrow> pod_equipped W b (set_tty spec)"
  "ps_InitContainers (set_tty spec) = ps_InitContainers spec"
  by (auto simp: pod_equipped_def set_tty_def elim!: equipped_mono split: list.splits)

lemma buildRayClusterSpec_equipped:
  assumes "spec \<in> set (ray_pods (buildRayClusterSpec W b rc))"
  shows "pod_equipped W b spec" and "c \<in> set (ps_InitContainers spec) \<Longrightarrow> equipped W b c"
proof -
  from assms obtain spec0 where "spec = buildPodSpecVolumesAndEnv W b spec0"
    by (auto simp: ray_pods_def buildRayClusterSpec_def buildWorkerGroup_def)
  then show "pod_equipped W b spec" and "c \<in> set (ps_InitContainers spec) \<Longrightarrow> equipped W b c"
    using buildPodSpecVolumesAndEnv_equipped [where W = W and b = b and spec = spec0] by simp_all
qed

text \<open>The four plain builders equip every container of every pod they describe.\<close>

lemma plain_builders_equipped:
  assumes "interactive_build W b = Inr (root, cs) \<or> job_build W b = Inr (root, cs) \<or>
      ray_job_build W b = Inr (root, cs) \<or> ray_cluster_build W b = Inr (root, cs)"
    and "spec \<in> set (object_pods root)"
  shows "pod_equipped W b spec" and "c \<in> set (ps_InitContainers spec) \<Longrightarrow> equipped W b c"
proof -
  from assms consider (pod) spec0 where "spec = set_tty (buildPodSpec W b spec0)"
    | (template) spec0 where "spec = buildPodSpec W b spec0"
    | (ray) rc where "spec \<in> set (ray_pods (buildRayClusterSpec W b rc))"
    by (auto simp: interactive_build_def job_build_def ray_job_build_def ray_cluster_build_def object_pods_def
        buildPodTemplateSpec_def Let_def split: if_splits option.splits)
  then have "pod_equipped W b spec \<and> (\<forall>c \<in> set (ps_InitContainers spec). equipped W b c)"
    by cases (auto simp: buildPodSpec_equipped set_tty_equipped buildRayClusterSpec_equipped)
  then show "pod_equipped W b spec" and "c \<in> set (ps_InitContainers spec) \<Longrightarrow> equipped W b c" by blast+
qed

section \<open>Properties\<close>

text \<open>
  A RayJob for an existing cluster: no cluster specification is left, the selector names the
  cluster, and the job has no queue label, so that Kueue does not manage it twice; every other
  label is the one of the job's metadata.
\<close>

theorem ray_job_existing_cluster:
  assumes "ray_job_build W b = Inr (root, cs)" and "b_rayCluster b \<noteq> []"
  shows "\<exists>m spec. root = RayJobObject m spec \<and> cs = [] \<and> rj_RayClusterSpec spec = None \<and>
    map_option (\<lambda>sel. mget sel (RayClusterLabelKey (names W))) (rj_ClusterSelector spec) = Some (Some (b_rayCluster b)) \<and>
    label_of m (QueueLabel (names W)) = None"
  using assms(1)
proof (rule ray_job_build_Inr)
  fix p md om t m' spec'
  assume "root = RayJobObject m' spec'" and "cs = []"
    and m': "m' = (if b_rayCluster b \<noteq> []
        then om\<lparr>meta_Labels := map_option (mdel (QueueLabel (names W))) (meta_Labels om)\<rparr> else om)"
    and "rj_RayClusterSpec spec' = (if b_rayCluster b \<noteq> [] then None
        else map_option (buildRayClusterSpec W b) (rj_RayClusterSpec (rjt_Spec t)))"
    and "rj_ClusterSelector spec' = (if b_rayCluster b \<noteq> []
        then Some (mput (RayClusterLabelKey (names W)) (b_rayCluster b) (deref (rj_ClusterSelector (rjt_Spec t)) []))
        else rj_ClusterSelector (rjt_Spec t))"
  with assms(2) label_of_deleted [of "QueueLabel (names W)" om] show ?thesis by (simp add: gm.get_put)
qed

theorem ray_job_existing_cluster_witness:
  "\<exists>m spec. ray_job_build sample_world ((sample_completed RayJobMode)\<lparr>b_rayCluster := ''rc''\<rparr>) =
      Inr (RayJobObject m spec, []) \<and> rj_RayClusterSpec spec = None"
proof -
  let ?b = "(sample_completed RayJobMode)\<lparr>b_rayCluster := ''rc''\<rparr>"
  have "\<exists>root cs. ray_job_build sample_world ?b = Inr (root, cs)"
    by (simp add: ray_job_build_def fetch_template_def buildObjectMeta_def withKueueLabels_def sample_defs Let_def)
  then obtain root cs where "ray_job_build sample_world ?b = Inr (root, cs)" by blast
  from this ray_job_existing_cluster [OF this] show ?thesis by auto
qed

text \<open>
  A job: the parallelism and completions are the given ones, or else those of the template; the
  first container gets the given command and requests, the other containers keep theirs; labels and
  annotations of the pod template are replaced by the given ones.
\<close>

theorem job_build_spec:
  assumes "job_build W b = Inr (root, cs)"
  shows "\<exists>m spec p md t. root = JobObject m spec \<and> cs = [] \<and> b_profile b = Some p \<and> b_mode b = Some md \<and>
    get_job_template W (meta_Namespace (ap_Meta p)) (sm_Template md) = Inr t \<and>
    js_Parallelism spec = (case b_parallelism b of None \<Rightarrow> js_Parallelism (jt_Spec t) | Some n \<Rightarrow> Some n) \<and>
    js_Completions spec = (case b_completions b of None \<Rightarrow> js_Completions (jt_Spec t) | Some n \<Rightarrow> Some n) \<and>
    meta_Labels (pt_Meta (js_Template spec)) = b_podTemplateLabels b \<and>
    map ctr_Command (ps_Containers (pt_Spec (js_Template spec))) =
      (case map ctr_Command (ps_Containers (pt_Spec (js_Template (jt_Spec t)))) of
        [] \<Rightarrow> [] | c # cs \<Rightarrow> (if deref (b_command b) [] = [] then c else deref (b_command b) []) # cs)"
proof -
  have commands: "map ctr_Command (ps_Containers (buildPodSpec W b spec)) =
      (case map ctr_Command (ps_Containers spec) of
        [] \<Rightarrow> [] | c # cs \<Rightarrow> (if deref (b_command b) [] = [] then c else deref (b_command b) []) # cs)" for spec
    by (cases "ps_Containers spec")
      (simp_all add: buildPodSpec_containers add_mounts_env_def set_command_requests_def Let_def)
  from assms show ?thesis
    by (auto simp: job_build_def fetch_template_Inr Let_def buildPodTemplateSpec_def commands
        buildPodObjectMeta_def split: option.splits)
qed

theorem job_build_spec_witness:
  "\<exists>m spec. job_build sample_world ((sample_completed JobMode)\<lparr>b_command := Some [''ls'']\<rparr>) = Inr (JobObject m spec, []) \<and>
    map ctr_Command (ps_Containers (pt_Spec (js_Template spec))) = [[''ls'']]"
proof -
  let ?b = "(sample_completed JobMode)\<lparr>b_command := Some [''ls'']\<rparr>"
  have "\<exists>root cs. job_build sample_world ?b = Inr (root, cs)"
    by (simp add: job_build_def fetch_template_def buildObjectMeta_def withKueueLabels_def sample_defs Let_def)
  then obtain root cs where "job_build sample_world ?b = Inr (root, cs)" by blast
  from this job_build_spec [OF this] show ?thesis
    by (auto simp: sample_defs sample_pod_def sample_container_def)
qed

end
