(* ===== verification/SlurmBuilder.thy ===== *)
theory SlurmBuilder
  imports ModeBuilders
begin

text \<open>
  \<open>pkg/builder/slurm_builder.go\<close> with the two templates of \<open>pkg/builder/templates\<close>: a Slurm batch
  script becomes an indexed job, a config map with the scripts and a headless service. A build
  that does not return, because the array indexes are parsed in a loop that does not end, is \<open>None\<close>.
\<close>

section \<open>State\<close>

record 'q slurm_builder =
  s_builder :: "'q builder"
  s_scriptContent :: string
  s_arrayIndexes :: "array_indexes option"
  s_cpusOnNode :: "'q option"
  s_cpusPerGpu :: "'q option"
  s_totalMemPerNode :: "'q option"
  s_totalGpus :: "'q option"

definition newSlurmBuilder :: "'q builder \<Rightarrow> 'q slurm_builder" where
  "newSlurmBuilder b =
     \<lparr>s_builder = b, s_scriptContent = [], s_arrayIndexes = None, s_cpusOnNode = None,
      s_cpusPerGpu = None, s_totalMemPerNode = None, s_totalGpus = None\<rparr>"

definition DefaultNodes :: int32 where "DefaultNodes = 1"
definition DefaultNTasks :: int32 where "DefaultNTasks = 1"
definition DefaultNTasksPerNode :: int32 where "DefaultNTasksPerNode = 1"
definition DefaultArrayIndexParallelism :: int32 where "DefaultArrayIndexParallelism = 1"
definition DefaultArrayIndexStep :: int32 where "DefaultArrayIndexStep = 1"

lemmas default_defs = DefaultNodes_def DefaultNTasks_def DefaultNTasksPerNode_def
  DefaultArrayIndexParallelism_def DefaultArrayIndexStep_def

definition SlurmInitContainerName :: string where "SlurmInitContainerName = ''slurm-init-env''"
definition slurmFirstJobID :: int32 where "slurmFirstJobID = 1"
definition slurmScriptsPath :: string where "slurmScriptsPath = ''/slurm/scripts''"
definition slurmInitEntrypointFilename :: string where "slurmInitEntrypointFilename = ''init-entrypoint.sh''"
definition slurmEntrypointFilename :: string where "slurmEntrypointFilename = ''entrypoint.sh''"
definition slurmScriptFilename :: string where "slurmScriptFilename = ''script''"
definition slurmEnvsPath :: string where "slurmEnvsPath = ''/slurm/env''"
definition slurmSlurmEnvFilename :: string where "slurmSlurmEnvFilename = ''slurm.env''"

definition slurmInitEntrypointFilenamePath :: string where
  "slurmInitEntrypointFilenamePath = slurmScriptsPath @ ''/'' @ slurmInitEntrypointFilename"
definition slurmEntrypointFilenamePath :: string where
  "slurmEntrypointFilenamePath = slurmScriptsPath @ ''/'' @ slurmEntrypointFilename"
definition slurmScriptFilenamePath :: string where
  "slurmScriptFilenamePath = slurmScriptsPath @ ''/'' @ slurmScriptFilename"

section \<open>Flags from the environment and the script\<close>

definition env_string :: "'q world \<Rightarrow> string \<Rightarrow> string \<Rightarrow> string" where
  "env_string W name cur = (if cur = [] then get_env W name else cur)"

definition env_quantity :: "'q world \<Rightarrow> string \<Rightarrow> 'q option \<Rightarrow> builder_error + 'q option" where
  "env_quantity W name cur =
     (if cur = None
      then (case lookup_env W name of
          None \<Rightarrow> Inr None
        | Some env \<Rightarrow>
            and_then (map_err (\<lambda>e. ScriptError (CannotParse env e)) (q_parse (quantities W) env)) (\<lambda>q. Inr (Some q)))
      else Inr cur)"

definition env_gpus ::
  "'q world \<Rightarrow> string \<Rightarrow> (string, 'q) gomap option \<Rightarrow> builder_error + (string, 'q) gomap option" where
  "env_gpus W name cur =
     (if cur = None
      then (case lookup_env W name of
          None \<Rightarrow> Inr None
        | Some env \<Rightarrow>
            and_then (map_err (\<lambda>e. ScriptError (CannotParseGpus env e)) (GpusFlag (q_parse (quantities W)) env))
              (\<lambda>g. Inr (Some g)))
      else Inr cur)"

text \<open>\<open>SBATCH_MEM_PER_CPU\<close> fills the memory per task in, as in the source.\<close>

definition getSbatchEnvs :: "'q world \<Rightarrow> 'q builder \<Rightarrow> builder_error + 'q builder" where
  "getSbatchEnvs W b0 =
     (let b1 = b0\<lparr>b_array := env_string W ''SBATCH_ARRAY_INX'' (b_array b0)\<rparr>
      in and_then (env_gpus W ''SBATCH_GPUS_PER_TASK'' (b_gpusPerTask b1)) (\<lambda>gpus.
         and_then (env_quantity W ''SBATCH_MEM_PER_NODE'' (b_memPerNode b1)) (\<lambda>memNode.
         and_then (env_quantity W ''SBATCH_MEM_PER_CPU'' (b_memPerTask b1)) (\<lambda>memTask.
         and_then (env_quantity W ''SBATCH_MEM_PER_GPU'' (b_memPerGPU b1)) (\<lambda>memGpu.
           Inr (b1\<lparr>b_gpusPerTask := gpus, b_memPerNode := memNode, b_memPerTask := memTask,
                   b_memPerGPU := memGpu,
                   b_output := env_string W ''SBATCH_OUTPUT'' (b_output b1),
                   b_error := env_string W ''SBATCH_ERROR'' (b_error b1),
                   b_input := env_string W ''SBATCH_INPUT'' (b_input b1),
                   b_jobName := env_string W ''SBATCH_JOB_NAME'' (b_jobName b1),
                   b_partition := env_string W ''SBATCH_PARTITION'' (b_partition b1),
                   b_timeLimit := env_string W ''SBATCH_TIMELIMIT'' (b_timeLimit b1)\<rparr>))))))"

definition or_string :: "string \<Rightarrow> string \<Rightarrow> string" where
  "or_string cur other = (if cur = [] then other else cur)"

definition or_option :: "'a option \<Rightarrow> 'a option \<Rightarrow> 'a option" where
  "or_option cur other = (if cur = None then other else cur)"

definition replaceScriptFlags :: "'q world \<Rightarrow> string \<Rightarrow> 'q builder \<Rightarrow> builder_error + 'q builder" where
  "replaceScriptFlags W script b =
     and_then (map_err ScriptError (SlurmFlags (q_parse (quantities W)) script (b_ignoreUnknown b))) (\<lambda>fl.
       Inr (b\<lparr>b_array := or_string (b_array b) (pf_Array fl),
              b_cpusPerTask := or_option (b_cpusPerTask b) (pf_CpusPerTask fl),
              b_gpusPerTask := or_option (b_gpusPerTask b) (pf_GpusPerTask fl),
              b_memPerNode := or_option (b_memPerNode b) (pf_MemPerNode fl),
              b_memPerTask := or_option (b_memPerTask b) (pf_MemPerTask fl),
              b_memPerCPU := or_option (b_memPerCPU b) (pf_MemPerCPU fl),
              b_memPerGPU := or_option (b_memPerGPU b) (pf_MemPerGPU fl),
              b_nodes := or_option (b_nodes b) (pf_Nodes fl),
              b_nTasks := or_option (b_nTasks b) (pf_NTasks fl),
              b_output := or_string (b_output b) (pf_Output fl),
              b_error := or_string (b_error b) (pf_Error fl),
              b_input := or_string (b_input b) (pf_Input fl),
              b_jobName := or_string (b_jobName b) (pf_JobName fl),
              b_partition := or_string (b_partition b) (pf_Partition fl),
              b_timeLimit := or_string (b_timeLimit b) (pf_TimeLimit fl)\<rparr>))"

definition isArrayJob :: "'q slurm_builder \<Rightarrow> bool" where
  "isArrayJob s \<longleftrightarrow> b_array (s_builder s) \<noteq> []"

definition slurm_parse :: "'q world \<Rightarrow> 'q slurm_builder \<Rightarrow> (builder_error + 'q slurm_builder) option" where
  "slurm_parse W s =
     (case and_then (map_err ApiError (read_file W (b_script (s_builder s)))) (\<lambda>content.
           and_then (getSbatchEnvs W (s_builder s)) (\<lambda>b.
           and_then (replaceScriptFlags W content b) (\<lambda>b.
             Inr (s\<lparr>s_builder := b, s_scriptContent := content\<rparr>)))) of
       Inl e \<Rightarrow> Some (Inl e)
     | Inr s' \<Rightarrow>
         if isArrayJob s'
         then map_option (\<lambda>r. and_then (map_err ArrayError r) (\<lambda>ai. Inr (s'\<lparr>s_arrayIndexes := Some ai\<rparr>)))
                (ParseArrayIndexes (b_array (s_builder s')))
         else Some (Inr s'))"

section \<open>Completion\<close>

text \<open>
  The quotient of two \<open>int32\<close> values in \<open>float64\<close>, truncated to \<open>int32\<close>, and whether the quotient is
  greater than the truncated value. The operands have at most 32 bits, so the rounding of the
  quotient to 53 bits does not change either answer. For a zero divisor the quotient is an infinity
  or not a number; the truncation, which Go leaves open there, gives the least \<open>int32\<close>.
\<close>

definition float_div :: "int32 \<Rightarrow> int32 \<Rightarrow> int32 \<times> bool" where
  "float_div a d =
     (if d = 0 then (word_of_int min_int32, 0 <s a)
      else
        let t = word_of_int (go_div (sint a) (sint d)) :: int32
        in (t, if 0 <s d then sint t * sint d < sint a else sint a < sint t * sint d))"

text \<open>
  Nodes, tasks and tasks per node: one of the three may be derived from the others. The result is
  the builder with the derived option, and the values of nodes and tasks after it.
\<close>

definition balance_tasks :: "'q builder \<Rightarrow> builder_error + 'q builder \<times> int32 \<times> int32" where
  "balance_tasks b =
     (let nodes = deref (b_nodes b) DefaultNodes;
          nTasks = deref (b_nTasks b) DefaultNTasks;
          nTasksPerNode = deref (b_nTasksPerNode b) DefaultNTasksPerNode
      in if nodes \<noteq> DefaultNodes \<and> nTasks = DefaultNTasks \<and> nTasksPerNode = DefaultNTasksPerNode
         then Inl NTasksOrNTasksPerNodeMustBeSpecifiedWithNodes
         else if nodes \<noteq> DefaultNodes \<and> nTasks \<noteq> DefaultNTasks \<and> nTasksPerNode \<noteq> DefaultNTasksPerNode \<and>
                 nTasks \<noteq> nodes * nTasksPerNode
         then Inl InvalidNodesNTasksOrNTasksPerNodeValue
         else if nodes = DefaultNodes \<and> nTasks \<noteq> DefaultNTasks \<and> nTasksPerNode \<noteq> DefaultNTasksPerNode
         then (let (n, over) = float_div nTasks nTasksPerNode
               in if over then Inl InvalidNTasksOrNTasksPerNodeValue
                  else Inr (b\<lparr>b_nodes := Some n\<rparr>, n, nTasks))
         else if nTasks \<noteq> DefaultNTasks \<and> nTasksPerNode = DefaultNTasksPerNode
         then (let (n, over) = float_div nTasks nodes
               in if over then Inl InvalidNodesOrNTasksValue
                  else Inr (b\<lparr>b_nTasksPerNode := Some n\<rparr>, nodes, nTasks))
         else if nTasks = DefaultNTasks \<and> nTasksPerNode \<noteq> DefaultNTasksPerNode
         then Inr (b\<lparr>b_nTasks := Some (nodes * nTasksPerNode)\<rparr>, nodes, nodes * nTasksPerNode)
         else Inr (b, nodes, nTasks))"

text \<open>The combinations of options that are refused.\<close>

definition check_combinations :: "int32 \<Rightarrow> 'q builder \<Rightarrow> builder_error + unit" where
  "check_combinations nodes b =
     and_then (map_err FlagsExclusive (ValidateMutuallyExclusiveFlags
       [(flag_name NodesFlag, nodes \<noteq> DefaultNodes), (flag_name ArrayFlag, b_array b \<noteq> [])])) (\<lambda>_.
     if b_memPerCPU b \<noteq> None \<and> b_cpusPerTask b = None then Inl (NoFlagSpecified CpusPerTaskFlag)
     else if b_memPerGPU b \<noteq> None \<and> b_gpusPerTask b = None then Inl (NoFlagSpecified GpusPerTaskFlag)
     else map_err FlagsExclusive (ValidateMutuallyExclusiveFlags
       [(flag_name MemPerNodeFlag, b_memPerNode b \<noteq> None), (flag_name MemPerTaskFlag, b_memPerTask b \<noteq> None),
        (flag_name MemPerCPUFlag, b_memPerCPU b \<noteq> None), (flag_name MemPerGPUFlag, b_memPerGPU b \<noteq> None)]))"

definition slurm_complete :: "'q world \<Rightarrow> 'q slurm_builder \<Rightarrow> builder_error + 'q slurm_builder" where
  "slurm_complete W s =
     and_then (balance_tasks (s_builder s)) (\<lambda>(b, nodes, nTasks).
     and_then (check_combinations nodes b) (\<lambda>_.
     and_then (map_err ScriptError
         (SlurmValidateAndReplaceScript (srun_parser_of W) (s_scriptContent s) nTasks)) (\<lambda>content.
       Inr (s\<lparr>s_builder := b, s_scriptContent := content\<rparr>))))"

text \<open>\<open>None\<close> is the nil dereference of an array job without parsed indexes.\<close>

definition slurm_parallelism :: "'q slurm_builder \<Rightarrow> int32 option" where
  "slurm_parallelism s =
     (if isArrayJob s
      then map_option (\<lambda>ai. deref (Parallelism ai) DefaultArrayIndexParallelism) (s_arrayIndexes s)
      else Some (deref (b_nodes (s_builder s)) DefaultNodes))"

definition slurm_completion :: "'q slurm_builder \<Rightarrow> int32 option" where
  "slurm_completion s =
     (if isArrayJob s
      then map_option (\<lambda>ai. word_of_nat (ArrayIndexes_Count ai)) (s_arrayIndexes s)
      else Some (deref (b_nodes (s_builder s)) DefaultNodes))"

definition slurm_containers :: "'q slurm_builder \<Rightarrow> int" where
  "slurm_containers s = sint (deref (b_nTasksPerNode (s_builder s)) DefaultNTasksPerNode)"

section \<open>Scripts\<close>

definition nl :: string where "nl = [CHR 0x0A]"
definition dq :: string where "dq = [CHR 0x22]"
definition sq :: string where "sq = [CHR 0x27]"

record slurm_init_entrypoint_script =
  ie_JobName :: string
  ie_Namespace :: string
  ie_EnvsPath :: string
  ie_SlurmEnvFilename :: string
  ie_SlurmCPUsPerTask :: string
  ie_SlurmCPUsOnNode :: string
  ie_SlurmJobCPUsPerNode :: string
  ie_SlurmCPUsPerGPU :: string
  ie_SlurmMemPerCPU :: string
  ie_SlurmMemPerGPU :: string
  ie_SlurmMemPerNode :: string
  ie_SlurmGPUs :: string
  ie_SlurmFirstJobID :: int32
  ie_SlurmNTasks :: int32
  ie_SlurmNTasksPerNode :: int32
  ie_SlurmJobNumNodes :: int32
  ie_SlurmJobNodeList :: string
  ie_SlurmJobFirstNode :: string
  ie_SlurmTasksPerNode :: string
  ie_SlurmSubmitDir :: string
  ie_ArrayJob :: bool
  ie_ArrayIndexes :: string
  ie_SlurmArrayTaskCount :: int32
  ie_SlurmArrayTaskMax :: int32
  ie_SlurmArrayTaskMin :: int32
  ie_SlurmArrayTaskStep :: int32
  ie_FirstNodeIP :: bool
  ie_FirstNodeIPTimeoutSeconds :: int32

record slurm_entrypoint_script =
  en_EnvsPath :: string
  en_SbatchJobName :: string
  en_SlurmEnvFilename :: string
  en_ChangeDir :: string
  en_BuildEntrypointCommand :: string

text \<open>
  The templates. A \<open>{{-\<close> removes the white space before it, so the optional blocks start with the
  empty lines of their own.
\<close>

definition init_entrypoint_head :: "slurm_init_entrypoint_script \<Rightarrow> string" where
  "init_entrypoint_head v =
     str_join nl
     [''#!/bin/sh'',
      [],
      ''set -o errexit'',
      ''set -o nounset'',
      ''set -o pipefail'',
      ''set -x'',
      [],
      ''mkdir -p '' @ ie_EnvsPath v,
      [],
      ''job_id=$(expr $JOB_COMPLETION_INDEX + '' @ format_int32 (ie_SlurmFirstJobID v) @ '')'',
      [],
      ''cat << EOF > '' @ ie_EnvsPath v @ ''/'' @ ie_SlurmEnvFilename v,
      ''SLURM_CPUS_PER_TASK='' @ ie_SlurmCPUsPerTask v,
      ''SLURM_CPUS_ON_NODE='' @ ie_SlurmCPUsOnNode v,
      ''SLURM_JOB_CPUS_PER_NODE='' @ ie_SlurmJobCPUsPerNode v,
      ''SLURM_CPUS_PER_GPU='' @ ie_SlurmCPUsPerGPU v,
      ''SLURM_MEM_PER_CPU='' @ ie_SlurmMemPerCPU v,
      ''SLURM_MEM_PER_GPU='' @ ie_SlurmMemPerGPU v,
      ''SLURM_MEM_PER_NODE='' @ ie_SlurmMemPerNode v,
      ''SLURM_GPUS='' @ ie_SlurmGPUs v,
      [],
      ''SLURM_TASKS_PER_NODE='' @ ie_SlurmTasksPerNode v,
      ''SLURM_NTASKS='' @ format_int32 (ie_SlurmNTasks v),
      ''SLURM_NTASKS_PER_NODE='' @ format_int32 (ie_SlurmNTasksPerNode v),
      ''SLURM_NPROCS='' @ format_int32 (ie_SlurmNTasks v),
      ''SLURM_JOB_NUM_NODES='' @ format_int32 (ie_SlurmJobNumNodes v),
      ''SLURM_NNODES='' @ format_int32 (ie_SlurmJobNumNodes v),
      [],
      ''SLURM_SUBMIT_DIR='' @ ie_SlurmSubmitDir v,
      ''SLURM_SUBMIT_HOST=$HOSTNAME'',
      [],
      ''SLURM_JOB_NODELIST='' @ ie_SlurmJobNodeList v,
      ''SLURM_JOB_FIRST_NODE='' @ ie_SlurmJobFirstNode v,
      [],
      ''SLURM_JOB_ID=$job_id'',
      ''SLURM_JOBID=$job_id'',
      ''EOF'']"

definition init_entrypoint_array :: "slurm_init_entrypoint_script \<Rightarrow> string" where
  "init_entrypoint_array v =
     str_join nl
     [[],
      [],
      ''array_indexes='' @ dq @ ie_ArrayIndexes v @ dq,
      ''array_task_id=$(echo '' @ dq @ ''$array_indexes'' @ dq @ '' | awk -F'' @ sq @ '','' @ sq @
        '' -v idx='' @ dq @ ''$JOB_COMPLETION_INDEX'' @ dq @ '' '' @ sq @
        ''{print $((idx + 1))}'' @ sq @ '')'',
      [],
      ''cat << EOF >> '' @ ie_EnvsPath v @ ''/'' @ ie_SlurmEnvFilename v,
      ''SLURM_ARRAY_JOB_ID='' @ format_int32 (ie_SlurmFirstJobID v),
      ''SLURM_ARRAY_TASK_ID=$array_task_id'',
      ''SLURM_ARRAY_TASK_COUNT='' @ format_int32 (ie_SlurmArrayTaskCount v),
      ''SLURM_ARRAY_TASK_MAX='' @ format_int32 (ie_SlurmArrayTaskMax v),
      ''SLURM_ARRAY_TASK_MIN='' @ format_int32 (ie_SlurmArrayTaskMin v),
      ''SLURM_ARRAY_TASK_STEP='' @ format_int32 (ie_SlurmArrayTaskStep v),
      ''EOF'']"

definition init_entrypoint_first_node :: "slurm_init_entrypoint_script \<Rightarrow> string" where
  "init_entrypoint_first_node v =
     str_join nl
     [[],
      [],
      ''if [[ '' @ dq @ ''$JOB_COMPLETION_INDEX'' @ dq @ '' -eq 0 ]]; then'',
      ''  echo '' @ dq @ ''SLURM_JOB_FIRST_NODE_IP=${POD_IP}'' @ dq @ '' >> '' @ ie_EnvsPath v @
        ''/'' @ ie_SlurmEnvFilename v,
      ''else'',
      ''  timeout='' @ format_int32 (ie_FirstNodeIPTimeoutSeconds v),
      ''  start_time=$(date +%s)'',
      ''  while true; do'',
      ''    ip=$(nslookup '' @ dq @ ie_SlurmJobFirstNode v @ dq @ '' | grep '' @ dq @
        ''Address 1'' @ dq @ '' | awk '' @ sq @ ''NR==2 {print $3}'' @ sq @ '') || true'',
      ''    if [[ -n '' @ dq @ ''$ip'' @ dq @ '' ]]; then'',
      ''      echo '' @ dq @ ''SLURM_JOB_FIRST_NODE_IP=$ip'' @ dq @ '' >> '' @ ie_EnvsPath v @
        ''/'' @ ie_SlurmEnvFilename v,
      ''      break'',
      ''    else'',
      ''      current_time=$(date +%s)'',
      ''      elapsed_time=$((current_time - start_time))'',
      ''      if [ '' @ dq @ ''$elapsed_time'' @ dq @ '' -ge '' @ dq @ ''$timeout'' @ dq @ '' ]; then'',
      ''        echo '' @ dq @ ''Timeout reached, IP address for the first node ('' @
        ie_SlurmJobFirstNode v @ '') not found.'' @ dq,
      ''        break'',
      ''      fi'',
      ''      echo '' @ dq @ ''IP Address for the first node ('' @ ie_SlurmJobFirstNode v @
        '') not found, retrying...'' @ dq,
      ''      sleep 1'',
      ''    fi'',
      ''  done'',
      ''fi'']"

definition entrypoint_head :: "slurm_entrypoint_script \<Rightarrow> string" where
  "entrypoint_head v =
     str_join nl
     [''#!/usr/local/bin/bash'',
      [],
      ''set -o errexit'',
      ''set -o nounset'',
      ''set -o pipefail'',
      [],
      ''if [ ! -d '' @ dq @ en_EnvsPath v @ dq @ '' ]; then'',
      [CHR 0x09] @ ''exit 0'',
      ''fi'',
      [],
      ''SBATCH_JOB_NAME='' @ en_SbatchJobName v,
      [],
      ''export $(cat '' @ en_EnvsPath v @ ''/'' @ en_SlurmEnvFilename v @ '' | xargs)'']"

definition init_entrypoint_template :: "slurm_init_entrypoint_script \<Rightarrow> string" where
  "init_entrypoint_template v =
     init_entrypoint_head v @
     (if ie_ArrayJob v then init_entrypoint_array v else []) @
     (if ie_FirstNodeIP v then init_entrypoint_first_node v else []) @ nl"

definition entrypoint_template :: "slurm_entrypoint_script \<Rightarrow> string" where
  "entrypoint_template v =
     entrypoint_head v @
     (if en_ChangeDir v \<noteq> [] then nl @ ''cd '' @ en_ChangeDir v else []) @
     nl @ nl @ en_BuildEntrypointCommand v @ nl"

definition getValueOrEmpty :: "'q world \<Rightarrow> 'q option \<Rightarrow> string" where
  "getValueOrEmpty W q = (case q of None \<Rightarrow> [] | Some v \<Rightarrow> q_string (quantities W) v)"

definition buildArrayIndexes :: "array_indexes \<Rightarrow> string" where
  "buildArrayIndexes ai = str_join '','' (map format_int32 (Indexes ai))"

definition node_name :: "string \<Rightarrow> nat \<Rightarrow> string" where
  "node_name jobName i = jobName @ ''-'' @ format_nat i @ ''.'' @ jobName"

text \<open>
  \<open>make\<close> panics on a negative length, and so does the access to the first node of an empty list. The
  seconds of the timeout are its nanoseconds divided and truncated; \<open>Duration.Seconds\<close> goes through a
  float, which has the same truncation for timeouts below \<open>2 ^ 24\<close> seconds (194 days).
\<close>

definition buildInitEntrypointScript ::
  "'q world \<Rightarrow> 'q slurm_builder \<Rightarrow> string \<Rightarrow> builder_error + string" where
  "buildInitEntrypointScript W s jobName =
     (let b = s_builder s;
          nTasks = deref (b_nTasks b) DefaultNTasks;
          nTasksPerNode = deref (b_nTasksPerNode b) DefaultNTasksPerNode
      in case slurm_completion s of
        None \<Rightarrow> Inl Panic
      | Some nNodes \<Rightarrow>
        if \<not> 0 <s nNodes then Inl Panic
        else
          let nodeList = map (node_name jobName) [0..<unat nNodes];
              v = \<lparr>ie_JobName = jobName, ie_Namespace = b_namespace b, ie_EnvsPath = slurmEnvsPath,
                   ie_SlurmEnvFilename = slurmSlurmEnvFilename,
                   ie_SlurmCPUsPerTask = getValueOrEmpty W (b_cpusPerTask b),
                   ie_SlurmCPUsOnNode = getValueOrEmpty W (s_cpusOnNode s),
                   ie_SlurmJobCPUsPerNode = getValueOrEmpty W (s_cpusOnNode s),
                   ie_SlurmCPUsPerGPU = getValueOrEmpty W (s_cpusPerGpu s),
                   ie_SlurmMemPerCPU = getValueOrEmpty W (b_memPerCPU b),
                   ie_SlurmMemPerGPU = getValueOrEmpty W (b_memPerGPU b),
                   ie_SlurmMemPerNode = getValueOrEmpty W (s_totalMemPerNode s),
                   ie_SlurmGPUs = getValueOrEmpty W (s_totalGpus s),
                   ie_SlurmFirstJobID = slurmFirstJobID, ie_SlurmNTasks = nTasks,
                   ie_SlurmNTasksPerNode = nTasksPerNode, ie_SlurmJobNumNodes = nNodes,
                   ie_SlurmJobNodeList = str_join '','' nodeList,
                   ie_SlurmJobFirstNode = hd nodeList, ie_SlurmTasksPerNode = [],
                   ie_SlurmSubmitDir = slurmScriptsPath,
                   ie_ArrayJob = False, ie_ArrayIndexes = [], ie_SlurmArrayTaskCount = 0,
                   ie_SlurmArrayTaskMax = 0, ie_SlurmArrayTaskMin = 0, ie_SlurmArrayTaskStep = 0,
                   ie_FirstNodeIP = False, ie_FirstNodeIPTimeoutSeconds = 0\<rparr>;
              v = (if b_firstNodeIP b
                   then v\<lparr>ie_FirstNodeIP := True,
                          ie_FirstNodeIPTimeoutSeconds := word_of_int (go_div (b_firstNodeIPTimeout b) 1000000000)\<rparr>
                   else v)
          in if isArrayJob s
             then (case s_arrayIndexes s of
                 None \<Rightarrow> Inl Panic
               | Some ai \<Rightarrow>
                   case (ArrayIndexes_Max ai, ArrayIndexes_Min ai) of
                     (Some mx, Some mn) \<Rightarrow>
                       Inr (init_entrypoint_template
                         (v\<lparr>ie_ArrayJob := True, ie_ArrayIndexes := buildArrayIndexes ai,
                            ie_SlurmArrayTaskCount := word_of_nat (ArrayIndexes_Count ai),
                            ie_SlurmArrayTaskMax := mx, ie_SlurmArrayTaskMin := mn,
                            ie_SlurmArrayTaskStep := deref (Step ai) DefaultArrayIndexStep\<rparr>))
                   | _ \<Rightarrow> Inl Panic)
             else Inr (init_entrypoint_template v))"

text \<open>
  The replacer tries its pairs at each position; all of them are two characters long and start with
  a percent sign.
\<close>

definition unmask_pairs :: "(char \<times> string) list" where
  "unmask_pairs =
     [(CHR ''%'', ''%''), (CHR ''A'', ''${SLURM_ARRAY_JOB_ID}''), (CHR ''a'', ''${SLURM_ARRAY_TASK_ID}''),
      (CHR ''j'', ''${SLURM_JOB_ID}''), (CHR ''N'', ''${HOSTNAME}''), (CHR ''n'', ''${JOB_COMPLETION_INDEX}''),
      (CHR ''t'', ''${SLURM_ARRAY_TASK_ID}''), (CHR ''u'', ''${USER_ID}''), (CHR ''x'', ''${SBATCH_JOB_NAME}'')]"

fun unmaskReplacer :: "string \<Rightarrow> string" where
  "unmaskReplacer (c # d # cs) =
     (if c = CHR ''%''
      then (case map_of unmask_pairs d of
          Some r \<Rightarrow> r @ unmaskReplacer cs
        | None \<Rightarrow> c # unmaskReplacer (d # cs))
      else c # unmaskReplacer (d # cs))"
| "unmaskReplacer cs = cs"

text \<open>\<open>strings.ReplaceAll\<close> of two backslashes by nothing.\<close>

fun drop_double_backslash :: "string \<Rightarrow> string" where
  "drop_double_backslash (c # d # cs) =
     (if c = CHR 0x5C \<and> d = CHR 0x5C then drop_double_backslash cs
      else c # drop_double_backslash (d # cs))"
| "drop_double_backslash cs = cs"

definition unmaskFilename :: "string \<Rightarrow> string" where
  "unmaskFilename filename =
     (if str_contains filename [CHR 0x5C, CHR 0x5C] then drop_double_backslash filename
      else unmaskReplacer filename)"

definition buildEntrypointCommand :: "'q builder \<Rightarrow> string" where
  "buildEntrypointCommand b =
     slurmScriptFilenamePath @
     (if b_input b \<noteq> [] then '' <'' @ unmaskFilename (b_input b) else []) @
     (if b_output b \<noteq> [] then '' 1> >(tee '' @ unmaskFilename (b_output b) @ '')'' else []) @
     (if b_error b \<noteq> [] then '' 2> >(tee '' @ unmaskFilename (b_error b) @ '' >&2)'' else [])"

definition buildEntrypointScript :: "'q builder \<Rightarrow> string" where
  "buildEntrypointScript b =
     entrypoint_template
       \<lparr>en_EnvsPath = slurmEnvsPath, en_SbatchJobName = b_jobName b,
        en_SlurmEnvFilename = slurmSlurmEnvFilename, en_ChangeDir = b_changeDir b,
        en_BuildEntrypointCommand = buildEntrypointCommand b\<rparr>"

section \<open>The job\<close>

definition slurm_volumes :: "string \<Rightarrow> volume list" where
  "slurm_volumes jobName =
     [\<lparr>vol_Name = ''slurm-scripts'',
       vol_Source = ConfigMapVolume jobName
         [\<lparr>kp_Key = slurmInitEntrypointFilename, kp_Path = slurmInitEntrypointFilename, kp_Mode = None\<rparr>,
          \<lparr>kp_Key = slurmEntrypointFilename, kp_Path = slurmEntrypointFilename, kp_Mode = None\<rparr>,
          \<lparr>kp_Key = slurmScriptFilename, kp_Path = slurmScriptFilename, kp_Mode = Some 493\<rparr>]\<rparr>,
      \<lparr>vol_Name = ''slurm-env'', vol_Source = EmptyDirVolume\<rparr>]"

definition slurm_mounts :: "volume_mount list" where
  "slurm_mounts =
     [\<lparr>vm_Name = ''slurm-scripts'', vm_MountPath = slurmScriptsPath, vm_rest = []\<rparr>,
      \<lparr>vm_Name = ''slurm-env'', vm_MountPath = slurmEnvsPath, vm_rest = []\<rparr>]"

definition slurm_init_container :: "string \<Rightarrow> 'q container" where
  "slurm_init_container img =
     \<lparr>ctr_Name = SlurmInitContainerName, ctr_Image = img,
      ctr_Command = [''sh'', slurmInitEntrypointFilenamePath],
      ctr_Env = [\<lparr>env_Name = ''POD_IP'', env_Value = [], env_ValueFrom = Some ''status.podIP''\<rparr>],
      ctr_VolumeMounts = slurm_mounts, ctr_Requests = None, ctr_Limits = None,
      ctr_TTY = False, ctr_Stdin = False, ctr_rest = []\<rparr>"

text \<open>The memory amounts derived from the options, per container.\<close>

record 'q slurm_memory =
  sm_totalGPUsPerTask :: 'q
  sm_memPerCPU :: 'q
  sm_memPerGPU :: 'q
  sm_memPerContainer :: 'q

definition slurm_memory_of :: "'q world \<Rightarrow> 'q builder \<Rightarrow> nat \<Rightarrow> builder_error + 'q slurm_memory" where
  "slurm_memory_of W b nContainers =
     (let Q = quantities W;
          gpus = fold (\<lambda>(name, number) t. q_add Q t number) (deref (b_gpusPerTask b) []) (q_zero Q);
          cpuMem = (case (b_memPerCPU b, b_cpusPerTask b) of
              (Some m, Some c) \<Rightarrow> q_mul Q m (q_value Q c) | _ \<Rightarrow> q_zero Q);
          gpuMem = (case (b_memPerGPU b, b_gpusPerTask b) of
              (Some m, Some g) \<Rightarrow> q_mul Q m (q_value Q gpus) | _ \<Rightarrow> q_zero Q)
      in case b_memPerNode b of
        None \<Rightarrow> Inr \<lparr>sm_totalGPUsPerTask = gpus, sm_memPerCPU = cpuMem, sm_memPerGPU = gpuMem,
                     sm_memPerContainer = q_zero Q\<rparr>
      | Some mem \<Rightarrow>
          if nContainers = 0 then Inl Panic
          else Inr \<lparr>sm_totalGPUsPerTask = gpus, sm_memPerCPU = cpuMem, sm_memPerGPU = gpuMem,
                    sm_memPerContainer = q_new_milli Q (go_div (q_milli Q mem) (int nContainers)) mem\<rparr>)"

text \<open>
  The requests of a worker container. The source writes into the map of the requests option when
  there is one; every container writes the same entries, so the value is the same for all.
\<close>

definition put_if :: "bool \<Rightarrow> 'k \<Rightarrow> 'v \<Rightarrow> ('k, 'v) gomap \<Rightarrow> ('k, 'v) gomap" where
  "put_if p k v m = (if p then mput k v m else m)"

definition slurm_requests :: "'q world \<Rightarrow> 'q builder \<Rightarrow> 'q slurm_memory \<Rightarrow> 'q resource_list" where
  "slurm_requests W b mem =
     (let Q = quantities W; N = names W;
          r0 = deref (b_requests b) [];
          r1 = (case b_cpusPerTask b of None \<Rightarrow> r0 | Some c \<Rightarrow> mput (ResourceCPU N) c r0);
          r2 = (case b_memPerTask b of None \<Rightarrow> r1 | Some m \<Rightarrow> mput (ResourceMemory N) m r1);
          r3 = put_if (\<not> q_is_zero Q (sm_memPerCPU mem)) (ResourceMemory N) (sm_memPerCPU mem) r2
      in put_if (\<not> q_is_zero Q (sm_memPerGPU mem)) (ResourceMemory N) (sm_memPerGPU mem) r3)"

definition slurm_limits :: "'q world \<Rightarrow> 'q builder \<Rightarrow> 'q slurm_memory \<Rightarrow> 'q resource_list" where
  "slurm_limits W b mem =
     (let Q = quantities W; N = names W;
          l0 = put_if (\<not> q_is_zero Q (sm_memPerContainer mem)) (ResourceMemory N) (sm_memPerContainer mem) []
      in fold (\<lambda>(name, number). mput name number) (deref (b_gpusPerTask b) []) l0)"

definition slurm_container :: "'q world \<Rightarrow> 'q builder \<Rightarrow> 'q slurm_memory \<Rightarrow> 'q container \<Rightarrow> 'q container" where
  "slurm_container W b mem c0 =
     (let c1 = c0\<lparr>ctr_Command := [''bash'', slurmEntrypointFilenamePath]\<rparr>;
          requests = slurm_requests W b mem;
          c2 = (if requests \<noteq> [] then c1\<lparr>ctr_Requests := Some requests\<rparr> else c1);
          limits = slurm_limits W b mem;
          c3 = (if limits \<noteq> [] then c2\<lparr>ctr_Limits := Some limits\<rparr> else c2)
      in c3\<lparr>ctr_VolumeMounts := ctr_VolumeMounts c3 @ slurm_mounts\<rparr>)"

text \<open>The running totals of CPUs, GPUs and memory on a node.\<close>

record 'q slurm_totals =
  tot_cpus :: 'q
  tot_gpus :: 'q
  tot_mem :: 'q

definition add_some :: "'q quantity_api \<Rightarrow> 'q option \<Rightarrow> 'q \<Rightarrow> 'q" where
  "add_some Q x t = (case x of None \<Rightarrow> t | Some q \<Rightarrow> q_add Q t q)"

definition add_nonzero :: "'q quantity_api \<Rightarrow> 'q \<Rightarrow> 'q \<Rightarrow> 'q" where
  "add_nonzero Q q t = (if q_is_zero Q q then t else q_add Q t q)"

definition container_totals :: "'q world \<Rightarrow> 'q builder \<Rightarrow> 'q slurm_memory \<Rightarrow> 'q slurm_totals \<Rightarrow> 'q slurm_totals" where
  "container_totals W b mem t =
     (let Q = quantities W
      in \<lparr>tot_cpus = add_some Q (b_cpusPerTask b) (tot_cpus t),
          tot_gpus = (if b_gpusPerTask b \<noteq> None then q_add Q (tot_gpus t) (sm_totalGPUsPerTask mem) else tot_gpus t),
          tot_mem = add_nonzero Q (sm_memPerGPU mem) (add_nonzero Q (sm_memPerCPU mem)
                      (add_some Q (b_memPerTask b) (tot_mem t)))\<rparr>)"

definition replica_totals :: "'q world \<Rightarrow> 'q builder \<Rightarrow> 'q slurm_memory \<Rightarrow> 'q slurm_totals \<Rightarrow> 'q slurm_totals" where
  "replica_totals W b mem t =
     (let Q = quantities W
      in t\<lparr>tot_cpus := add_some Q (b_cpusPerTask b) (tot_cpus t),
           tot_mem := add_nonzero Q (sm_memPerGPU mem) (add_nonzero Q (sm_memPerCPU mem) (tot_mem t))\<rparr>)"

definition is_worker :: "'q builder \<Rightarrow> 'q container \<Rightarrow> bool" where
  "is_worker b c \<longleftrightarrow> b_workerContainers b = [] \<or> ctr_Name c \<in> set (b_workerContainers b)"

definition slurm_containers_of ::
  "'q world \<Rightarrow> 'q builder \<Rightarrow> 'q slurm_memory \<Rightarrow> 'q container list \<Rightarrow> 'q container list" where
  "slurm_containers_of W b mem cs = map (\<lambda>c. if is_worker b c then slurm_container W b mem c else c) cs"

definition worker_totals ::
  "'q world \<Rightarrow> 'q builder \<Rightarrow> 'q slurm_memory \<Rightarrow> 'q container list \<Rightarrow> 'q slurm_totals" where
  "worker_totals W b mem cs =
     fold (\<lambda>c t. if is_worker b c then container_totals W b mem t else t) cs
       \<lparr>tot_cpus = q_zero (quantities W), tot_gpus = q_zero (quantities W), tot_mem = q_zero (quantities W)\<rparr>"

text \<open>
  One container per task: the first container is copied, the copies are numbered from 1, and then
  it is renamed itself. Without a container the access to the first one panics.
\<close>

definition replicate_containers :: "int \<Rightarrow> 'q container list \<Rightarrow> builder_error + 'q container list" where
  "replicate_containers n cs =
     (if n > 1
      then (case cs of
          [] \<Rightarrow> Inl Panic
        | c # rest \<Rightarrow>
            Inr (c\<lparr>ctr_Name := ctr_Name c @ ''-0''\<rparr> # rest @
                 map (\<lambda>i. c\<lparr>ctr_Name := ctr_Name c @ ''-'' @ format_nat i\<rparr>) [1..<nat n]))
      else Inr cs)"

definition nonzero :: "'q quantity_api \<Rightarrow> 'q \<Rightarrow> 'q option" where
  "nonzero Q q = (if q_is_zero Q q then None else Some q)"

definition slurm_set_totals :: "'q world \<Rightarrow> 'q slurm_totals \<Rightarrow> 'q slurm_builder \<Rightarrow> builder_error + 'q slurm_builder" where
  "slurm_set_totals W t s =
     (let Q = quantities W;
          s1 = s\<lparr>s_cpusOnNode := nonzero Q (tot_cpus t), s_totalGpus := nonzero Q (tot_gpus t),
                 s_totalMemPerNode := (if b_memPerNode (s_builder s) \<noteq> None then b_memPerNode (s_builder s)
                                       else nonzero Q (tot_mem t))\<rparr>
      in case (s_cpusOnNode s1, s_totalGpus s1) of
        (Some c, Some g) \<Rightarrow>
          if q_milli Q g = 0 then Inl Panic
          else Inr (s1\<lparr>s_cpusPerGpu := Some (q_new Q (go_div (q_milli Q c) (q_milli Q g)) c)\<rparr>)
      | _ \<Rightarrow> Inr s1)"

text \<open>The config map with the three scripts, and the headless service of the job's pods.\<close>

definition slurm_children ::
  "'q slurm_builder \<Rightarrow> object_meta \<Rightarrow> string \<Rightarrow> string \<Rightarrow> 'q runtime_object list" where
  "slurm_children s childMeta jobName initScript =
     [ConfigMapObject childMeta
        [(slurmInitEntrypointFilename, initScript),
         (slurmEntrypointFilename, buildEntrypointScript (s_builder s)),
         (slurmScriptFilename, s_scriptContent s)],
      ServiceObject childMeta ''None'' [(''job-name'', jobName)]]"

definition slurm_finish ::
  "'q world \<Rightarrow> 'q slurm_builder \<Rightarrow> 'q job_template_spec \<Rightarrow> object_meta \<Rightarrow> 'q build_result" where
  "slurm_finish W s template objectMeta0 =
     (let b = s_builder s;
          objectMeta = objectMeta0\<lparr>meta_Annotations :=
            Some (mput ScriptAnnotation (b_script b) (deref (meta_Annotations objectMeta0) []))\<rparr>;
          jobName = meta_Name objectMeta;
          spec = jt_Spec template;
          pod = buildPodSpecVolumesAndEnv W b (pt_Spec (js_Template spec));
          pod = pod\<lparr>ps_Subdomain := jobName,
                    ps_Volumes := ps_Volumes pod @ slurm_volumes jobName,
                    ps_InitContainers := ps_InitContainers pod @ [slurm_init_container (b_initImage b)]\<rparr>
      in case (slurm_completion s, slurm_parallelism s) of
        (Some completions, Some par) \<Rightarrow>
        and_then (slurm_memory_of W b (length (ps_Containers pod))) (\<lambda>mem.
        and_then (replicate_containers (slurm_containers s) (slurm_containers_of W b mem (ps_Containers pod))) (\<lambda>cs.
        and_then (slurm_set_totals W
            ((replica_totals W b mem ^^ nat (slurm_containers s - 1)) (worker_totals W b mem (ps_Containers pod))) s) (\<lambda>s'.
        and_then (buildInitEntrypointScript W s' jobName) (\<lambda>initScript.
        and_then (buildChildObjectMeta b jobName) (\<lambda>childMeta.
          let job = JobObject objectMeta
                (spec\<lparr>js_Completions := Some completions, js_Parallelism := Some par,
                      js_CompletionMode := Some (IndexedCompletion (names W)),
                      js_Template := \<lparr>pt_Meta = buildPodObjectMeta b (pt_Meta (js_Template spec)),
                                      pt_Spec = pod\<lparr>ps_Containers := cs\<rparr>\<rparr>\<rparr>)
          in Inr (job, slurm_children s childMeta jobName initScript))))))
      | _ \<Rightarrow> Inl Panic)"

definition slurm_build :: "'q world \<Rightarrow> 'q builder \<Rightarrow> 'q build_result option" where
  "slurm_build W b =
     (if b_script b = [] then Some (Inl NoScriptSpecified)
      else map_option (\<lambda>r.
        and_then r (\<lambda>s.
        and_then (slurm_complete W s) (\<lambda>s.
        and_then (fetch_template (get_job_template W) (s_builder s)) (\<lambda>template.
        and_then (buildObjectMeta W (s_builder s) (jt_Meta template) True) (\<lambda>objectMeta.
          slurm_finish W s template objectMeta)))))
        (slurm_parse W (newSlurmBuilder b)))"

section \<open>Dispatch\<close>

text \<open>\<open>Builder.Do\<close>: the mode names the builder; the profile is fetched and checked before it runs.\<close>

definition mode_builder :: "'q world \<Rightarrow> string \<Rightarrow> ('q builder \<Rightarrow> 'q build_result option) option" where
  "mode_builder W modeName =
     (if modeName = mode_name JobMode then Some (\<lambda>b. Some (job_build W b))
      else if modeName = mode_name InteractiveMode then Some (\<lambda>b. Some (interactive_build W b))
      else if modeName = mode_name RayJobMode then Some (\<lambda>b. Some (ray_job_build W b))
      else if modeName = mode_name RayClusterMode then Some (\<lambda>b. Some (ray_cluster_build W b))
      else if modeName = mode_name SlurmMode then Some (slurm_build W)
      else None)"

definition Do :: "'q world \<Rightarrow> 'q builder \<Rightarrow> 'q build_result option" where
  "Do W b =
     (case and_then (setClients W) (\<lambda>_. validateGeneral W b) of
       Inl e \<Rightarrow> Some (Inl e)
     | Inr _ \<Rightarrow>
         (case mode_builder W (b_modeName b) of
           None \<Rightarrow> Some (Inl InvalidApplicationProfileMode)
         | Some build \<Rightarrow>
             (case and_then (complete W b) (\<lambda>b'. and_then (validateFlags b') (\<lambda>_. Inr b')) of
               Inl e \<Rightarrow> Some (Inl e)
             | Inr b' \<Rightarrow> build b')))"

section \<open>Frame: what parsing and completion leave alone\<close>

lemma getSbatchEnvs_frame:
  assumes "getSbatchEnvs W b = Inr b'"
  shows "b_profile b' = b_profile b" "b_mode b' = b_mode b" "b_script b' = b_script b"
    "b_nodes b' = b_nodes b" "b_nTasks b' = b_nTasks b" "b_nTasksPerNode b' = b_nTasksPerNode b"
    "b_volumeBundles b' = b_volumeBundles b" "b_modeName b' = b_modeName b"
  using assms by (auto simp: getSbatchEnvs_def Let_def)

lemma replaceScriptFlags_frame:
  assumes "replaceScriptFlags W script b = Inr b'"
  shows "b_profile b' = b_profile b" "b_mode b' = b_mode b" "b_script b' = b_script b"
    "b_nTasksPerNode b' = b_nTasksPerNode b" "b_volumeBundles b' = b_volumeBundles b" "b_modeName b' = b_modeName b"
  using assms by (auto simp: replaceScriptFlags_def)

lemma slurm_parse_Inr:
  assumes "slurm_parse W s = Some (Inr s')"
  obtains content b1 b2 where "read_file W (b_script (s_builder s)) = Inr content"
    and "getSbatchEnvs W (s_builder s) = Inr b1" and "replaceScriptFlags W content b1 = Inr b2"
    and "s_builder s' = b2" and "s_scriptContent s' = content"
    and "isArrayJob s' \<Longrightarrow> \<exists>ai. s_arrayIndexes s' = Some ai \<and> ParseArrayIndexes (b_array b2) = Some (Inr ai)"
proof -
  obtain r where r: "and_then (map_err ApiError (read_file W (b_script (s_builder s)))) (\<lambda>content.
           and_then (getSbatchEnvs W (s_builder s)) (\<lambda>b.
           and_then (replaceScriptFlags W content b) (\<lambda>b.
             Inr (s\<lparr>s_builder := b, s_scriptContent := content\<rparr>)))) = Inr r"
    and rest: "(if isArrayJob r
         then map_option (\<lambda>r'. and_then (map_err ArrayError r') (\<lambda>ai. Inr (r\<lparr>s_arrayIndexes := Some ai\<rparr>)))
                (ParseArrayIndexes (b_array (s_builder r)))
         else Some (Inr r)) = Some (Inr s')"
    using assms by (auto simp: slurm_parse_def split: sum.splits)
  from r obtain content b1 b2 where c: "read_file W (b_script (s_builder s)) = Inr content"
    "getSbatchEnvs W (s_builder s) = Inr b1" "replaceScriptFlags W content b1 = Inr b2"
    and "r = s\<lparr>s_builder := b2, s_scriptContent := content\<rparr>"
    by auto
  with rest show thesis
    by (intro that [OF c]) (auto simp: isArrayJob_def split: if_splits)
qed

lemma slurm_complete_Inr:
  assumes "slurm_complete W s = Inr s'"
  obtains b nodes nTasks content where "balance_tasks (s_builder s) = Inr (b, nodes, nTasks)"
    and "check_combinations nodes b = Inr ()"
    and "SlurmValidateAndReplaceScript (srun_parser_of W) (s_scriptContent s) nTasks = Inr content"
    and "s' = s\<lparr>s_builder := b, s_scriptContent := content\<rparr>"
proof -
  from assms obtain r where r: "balance_tasks (s_builder s) = Inr r"
    and rest: "(case r of (b, nodes, nTasks) \<Rightarrow>
      and_then (check_combinations nodes b) (\<lambda>_.
      and_then (map_err ScriptError
         (SlurmValidateAndReplaceScript (srun_parser_of W) (s_scriptContent s) nTasks)) (\<lambda>content.
       Inr (s\<lparr>s_builder := b, s_scriptContent := content\<rparr>)))) = Inr s'"
    unfolding slurm_complete_def and_then_Inr_iff by blast
  obtain b nodes nTasks where "r = (b, nodes, nTasks)" by (cases r)
  with r rest show thesis by (auto intro: that)
qed

lemma balance_tasks_frame:
  assumes "balance_tasks b = Inr (b', nodes, nTasks)"
  shows "b_profile b' = b_profile b \<and> b_mode b' = b_mode b \<and> b_script b' = b_script b \<and> b_array b' = b_array b"
  using assms unfolding balance_tasks_def Let_def
  by (simp only: sum.simps prod.simps split: if_splits prod.splits; elim conjE; hypsubst; simp)

lemma slurm_complete_frame:
  assumes "slurm_complete W s = Inr s'"
  shows "b_profile (s_builder s') = b_profile (s_builder s)" "b_mode (s_builder s') = b_mode (s_builder s)"
    "b_script (s_builder s') = b_script (s_builder s)" "b_array (s_builder s') = b_array (s_builder s)"
    "s_arrayIndexes s' = s_arrayIndexes s"
  using slurm_complete_Inr [OF assms] balance_tasks_frame by (metis slurm_builder.select_convs(1,3) slurm_builder.surjective slurm_builder.update_convs(1,2))+

section \<open>Nodes and tasks: lemmas\<close>

lemma float_div_exact:
  assumes "0 <s a" and "0 <s d" and "float_div a d = (n, False)"
  shows "n * d = a"
proof -
  have pos: "0 < sint a" "0 < sint d" using assms by (simp_all add: word_sless_alt)
  let ?q = "sint a div sint d"
  have q: "0 \<le> ?q" "?q \<le> sint a"
    using pos zdiv_mono2 [of "sint a" 1 "sint d"] by (simp_all add: pos_imp_zdiv_nonneg_iff)
  have n: "n = word_of_int ?q" and le: "sint a \<le> sint (word_of_int ?q :: int32) * sint d"
    using assms pos by (auto simp: float_div_def go_div_def Let_def split: if_splits)
  have "sint (word_of_int ?q :: int32) = ?q"
    using q sint_bounds32(2) [of a] by (simp add: sint_of_int32 fits32_def)
  with le have "sint a \<le> ?q * sint d" by simp
  moreover have "?q * sint d + sint a mod sint d = sint a" by simp
  moreover have "0 \<le> sint a mod sint d" using pos by simp
  ultimately have "?q * sint d = sint a" by linarith
  then have "(word_of_int (?q * sint d) :: int32) = word_of_int (sint a)" by simp
  then show ?thesis by (simp add: n)
qed

lemma script_needs_tasks: "SlurmValidateAndReplaceScript srun script n = Inr content \<Longrightarrow> 0 <s n"
  by (auto simp: SlurmValidateAndReplaceScript_def word_sless_alt split: if_splits)

lemma balance_tasks_product:
  assumes "balance_tasks b = Inr (b', nodes, nTasks)" and "0 <s nTasks"
    and "0 <s deref (b_nodes b) DefaultNodes" and "0 <s deref (b_nTasksPerNode b) DefaultNTasksPerNode"
  shows "nTasks = deref (b_nTasks b') DefaultNTasks \<and> nodes = deref (b_nodes b') DefaultNodes \<and>
    nTasks = nodes * deref (b_nTasksPerNode b') DefaultNTasksPerNode"
proof -
  define n t k where "n = deref (b_nodes b) DefaultNodes" and "t = deref (b_nTasks b) DefaultNTasks"
    and "k = deref (b_nTasksPerNode b) DefaultNTasksPerNode"
  note eq = assms(1) [unfolded balance_tasks_def Let_def, folded n_def t_def k_def]
  consider "n = 1" "t \<noteq> 1" "k \<noteq> 1" | "t \<noteq> 1" "k = 1" | "t = 1" "k \<noteq> 1" | "n \<noteq> 1" "t \<noteq> 1" "k \<noteq> 1" | "n \<noteq> 1" "t = 1" "k = 1"
    | "n = 1" "t = 1" "k = 1"
    by blast
  then show ?thesis
  proof cases
    case 1
    obtain m over where m: "float_div t k = (m, over)" by (cases "float_div t k")
    with eq 1 have "b' = b\<lparr>b_nodes := Some m\<rparr>" "nodes = m" "nTasks = t" "\<not> over"
      by (auto simp: default_defs split: if_splits)
    with assms(2,4) float_div_exact [of t k m] m show ?thesis by (simp add: t_def k_def)
  next
    case 2
    obtain m over where m: "float_div t n = (m, over)" by (cases "float_div t n")
    with eq 2 have "b' = b\<lparr>b_nTasksPerNode := Some m\<rparr>" "nodes = n" "nTasks = t" "\<not> over"
      by (auto simp: default_defs split: if_splits)
    with assms(2,3) float_div_exact [of t n m] m show ?thesis by (simp add: t_def n_def mult.commute)
  next
    case 3
    with eq show ?thesis by (auto simp: default_defs n_def k_def split: if_splits)
  next
    case 4
    with eq show ?thesis by (auto simp: default_defs n_def k_def t_def split: if_splits)
  next
    case 5
    with eq show ?thesis by (simp add: default_defs)
  next
    case 6
    with eq show ?thesis by (auto simp: default_defs n_def k_def t_def)
  qed
qed

section \<open>The contract of the Slurm builder\<close>

lemma slurm_build_Inr:
  assumes "slurm_build W b = Some (Inr (root, cs))"
  obtains s s' template objectMeta where "slurm_parse W (newSlurmBuilder b) = Some (Inr s)"
    and "slurm_complete W s = Inr s'"
    and "fetch_template (get_job_template W) (s_builder s') = Inr template"
    and "buildObjectMeta W (s_builder s') (jt_Meta template) True = Inr objectMeta"
    and "slurm_finish W s' template objectMeta = Inr (root, cs)"
  using assms by (auto simp: slurm_build_def split: if_splits)

lemma slurm_build_frame:
  assumes "slurm_parse W (newSlurmBuilder b) = Some (Inr s)" and "slurm_complete W s = Inr s'"
  shows "b_profile (s_builder s') = b_profile b" and "b_mode (s_builder s') = b_mode b"
  using slurm_parse_Inr [OF assms(1)] slurm_complete_frame [OF assms(2)] getSbatchEnvs_frame replaceScriptFlags_frame
  by (metis newSlurmBuilder_def slurm_builder.select_convs(1))+

lemma slurm_finish_Inr:
  assumes "slurm_finish W s template om = Inr (root, cs)"
  obtains completions par mem ctrs s' initScript childMeta spec om' pod where
    "slurm_completion s = Some completions" and "slurm_parallelism s = Some par"
    and "pod = buildPodSpecVolumesAndEnv W (s_builder s) (pt_Spec (js_Template (jt_Spec template)))"
    and "slurm_memory_of W (s_builder s) (length (ps_Containers pod)) = Inr mem"
    and "replicate_containers (slurm_containers s) (slurm_containers_of W (s_builder s) mem (ps_Containers pod)) = Inr ctrs"
    and "buildInitEntrypointScript W s' (meta_Name om) = Inr initScript"
    and "slurm_completion s' = slurm_completion s"
    and "buildChildObjectMeta (s_builder s) (meta_Name om) = Inr childMeta"
    and "om' = om\<lparr>meta_Annotations := Some (mput ScriptAnnotation (b_script (s_builder s)) (deref (meta_Annotations om) []))\<rparr>"
    and "root = JobObject om' spec"
    and "js_Completions spec = Some completions" and "js_Parallelism spec = Some par"
    and "js_CompletionMode spec = Some (IndexedCompletion (names W))"
    and "ps_Containers (pt_Spec (js_Template spec)) = ctrs"
    and "ps_Volumes (pt_Spec (js_Template spec)) = ps_Volumes pod @ slurm_volumes (meta_Name om)"
    and "ps_Subdomain (pt_Spec (js_Template spec)) = meta_Name om"
    and "cs = [ConfigMapObject childMeta
                [(slurmInitEntrypointFilename, initScript),
                 (slurmEntrypointFilename, buildEntrypointScript (s_builder s)),
                 (slurmScriptFilename, s_scriptContent s)],
              ServiceObject childMeta ''None'' [(''job-name'', meta_Name om)]]"
proof -
  obtain completions where c: "slurm_completion s = Some completions"
    using assms by (cases "slurm_completion s") (simp_all add: slurm_finish_def Let_def)
  obtain par where p: "slurm_parallelism s = Some par"
    using assms c by (cases "slurm_parallelism s") (simp_all add: slurm_finish_def Let_def)
  have totals: "slurm_completion s' = slurm_completion s" if "slurm_set_totals W t s = Inr s'" for t s'
    using that
    by (auto simp: slurm_set_totals_def Let_def slurm_completion_def isArrayJob_def split: option.splits if_splits)
  from assms c p totals show thesis
    by (auto simp: slurm_finish_def slurm_children_def Let_def intro!: that)
qed

interpretation sb: mode_builder_contract slurm_build "''Job''"
proof unfold_locales
  fix W :: "'q world" and b root cs p m
  assume build: "slurm_build W b = Some (Inr (root, cs))" and d: "labels_distinct (names W)"
    and p: "b_profile b = Some p" and m: "b_mode b = Some m"
  from build show "kjob_owned p m root"
  proof (rule slurm_build_Inr)
    fix s s' template om
    assume ps: "slurm_parse W (newSlurmBuilder b) = Some (Inr s)" and co: "slurm_complete W s = Inr s'"
      and om: "buildObjectMeta W (s_builder s') (jt_Meta template) True = Inr om"
      and fin: "slurm_finish W s' template om = Inr (root, cs)"
    note owner = slurm_build_frame [OF ps co]
    from fin obtain om' spec where "root = JobObject om' spec" and "meta_Labels om' = meta_Labels om"
      and "meta_Namespace om' = meta_Namespace om"
      by (rule slurm_finish_Inr) auto
    then show ?thesis
      using buildObjectMeta_spec(1,2) [OF om d] owner p m
      by (simp add: kjob_owned_def label_of_def label_defs)
  qed
next
  fix W :: "'q world" and b root cs p m c
  assume build: "slurm_build W b = Some (Inr (root, cs))" and p: "b_profile b = Some p" and m: "b_mode b = Some m"
    and c: "c \<in> set cs"
  from build show "kjob_owned p m c"
  proof (rule slurm_build_Inr)
    fix s s' template om
    assume ps: "slurm_parse W (newSlurmBuilder b) = Some (Inr s)" and co: "slurm_complete W s = Inr s'"
      and fin: "slurm_finish W s' template om = Inr (root, cs)"
    note owner = slurm_build_frame [OF ps co]
    from fin obtain childMeta where ch: "buildChildObjectMeta (s_builder s') (meta_Name om) = Inr childMeta"
      and "object_meta_of c = childMeta"
      by (rule slurm_finish_Inr) (use c in auto)
    with owner p m buildChildObjectMeta_spec(1,2) [OF ch] show ?thesis
      by (simp add: kjob_owned_def label_defs)
  qed
next
  fix W :: "'q world" and b root cs
  assume build: "slurm_build W b = Some (Inr (root, cs))"
  then show "object_kind root = ''Job''"
    by (rule slurm_build_Inr) (auto elim!: slurm_finish_Inr)
  from build show "b_profile b \<noteq> None \<and> b_mode b \<noteq> None"
    by (rule slurm_build_Inr) (auto simp: fetch_template_Inr slurm_build_frame)
qed

lemma Do_Inr:
  assumes "Do W b = Some (Inr (root, cs))"
  obtains b' build where "validateGeneral W b = Inr ()" and "mode_builder W (b_modeName b) = Some build"
    and "complete W b = Inr b'" and "validateFlags b' = Inr ()" and "build b' = Some (Inr (root, cs))"
  using assms by (auto simp: Do_def split: sum.splits option.splits)

lemma mode_builder_owned:
  assumes "mode_builder W name = Some build" and "build b = Some (Inr (root, cs))" and "labels_distinct (names W)"
  shows "\<exists>p m. b_profile b = Some p \<and> b_mode b = Some m \<and> (\<forall>obj \<in> set (root # cs). kjob_owned p m obj)"
  using assms ib.all_owned [of W b root cs] jb.all_owned [of W b root cs] rjb.all_owned [of W b root cs]
    rcb.all_owned [of W b root cs] sb.all_owned [of W b root cs]
  by (auto simp: mode_builder_def split: if_splits)

lemma mode_builder_kind:
  assumes "mode_builder W name = Some build" and "build b = Some (Inr (root, cs))"
  shows "(name, object_kind root) \<in> {(''Job'', ''Job''), (''Interactive'', ''Pod''), (''RayJob'', ''RayJob''),
    (''RayCluster'', ''RayCluster''), (''Slurm'', ''Job'')}"
  using assms ib.root_kind [of W b root cs] jb.root_kind [of W b root cs] rjb.root_kind [of W b root cs]
    rcb.root_kind [of W b root cs] sb.root_kind [of W b root cs]
  by (auto simp: mode_builder_def split: if_splits)

lemma complete_Inr:
  assumes "complete W b = Inr b'" and "b_mode b = None"
  shows "\<exists>p m. get_profile W (b_namespace b) (b_profileName b) = Inr p \<and> b_profile b' = Some p \<and>
    b_mode b' = Some m \<and> m \<in> set (ap_SupportedModes p) \<and> sm_Name m = b_modeName b"
  using assms find_mode_Some by (fastforce simp: complete_def Let_def split: if_splits)

section \<open>The pods of a build\<close>

text \<open>Parsing and completing the options keeps what names the task and brings the volumes.\<close>

abbreviation task_of :: "'q builder \<Rightarrow> string \<times> string \<times> string \<times> volume_bundle list" where
  "task_of b \<equiv> (b_namespace b, b_profileName b, b_buildTime b, b_volumeBundles b)"

lemma balance_tasks_task: "balance_tasks b = Inr (b', nodes, nTasks) \<Longrightarrow> task_of b' = task_of b"
  unfolding balance_tasks_def Let_def
  by (simp only: sum.simps prod.simps split: if_splits prod.splits; elim conjE; hypsubst; simp)

lemma getSbatchEnvs_task: "getSbatchEnvs W b = Inr b' \<Longrightarrow> task_of b' = task_of b"
  by (auto simp: getSbatchEnvs_def Let_def)

lemma replaceScriptFlags_task: "replaceScriptFlags W script b = Inr b' \<Longrightarrow> task_of b' = task_of b"
  by (auto simp: replaceScriptFlags_def)

lemma slurm_task:
  assumes "slurm_parse W (newSlurmBuilder b) = Some (Inr s)" and "slurm_complete W s = Inr s'"
  shows "task_of (s_builder s') = task_of b"
proof -
  have "task_of (s_builder s') = task_of (s_builder s)"
    using assms(2) by (rule slurm_complete_Inr) (use balance_tasks_task in auto)
  also have "\<dots> = task_of b"
    using assms(1) by (rule slurm_parse_Inr)
      (simp only: getSbatchEnvs_task replaceScriptFlags_task newSlurmBuilder_def slurm_builder.select_convs)
  finally show ?thesis .
qed

lemma equipped_task: "task_of b' = task_of b \<Longrightarrow> equipped W b' = equipped W b"
  by (rule ext) (simp add: equipped_def)

lemma pod_equipped_task: "task_of b' = task_of b \<Longrightarrow> pod_equipped W b' = pod_equipped W b"
  using equipped_task [of b' b W] by (intro ext) (simp add: pod_equipped_def)

text \<open>The containers of a Slurm job are copies of the equipped ones.\<close>

lemma slurm_container_equipped: "equipped W b c \<Longrightarrow> equipped W b (slurm_container W b' mem c)"
  by (erule equipped_mono) (simp_all add: slurm_container_def Let_def)

lemma slurm_containers_of_equipped:
  "\<forall>c \<in> set cs. equipped W b c \<Longrightarrow> \<forall>c \<in> set (slurm_containers_of W b' mem cs). equipped W b c"
  by (auto simp: slurm_containers_of_def intro: slurm_container_equipped)

lemma replicate_containers_equipped:
  assumes "replicate_containers n cs = Inr cs'" and all: "\<forall>c \<in> set cs. equipped W b c"
  shows "\<forall>c \<in> set cs'. equipped W b c"
proof -
  have copy: "equipped W b (c\<lparr>ctr_Name := x\<rparr>)" if "c \<in> set cs" for c x
    using bspec [OF all that] by (rule equipped_mono) simp_all
  with assms show ?thesis
    by (auto simp: replicate_containers_def split: if_splits list.splits)
qed

lemma slurm_build_equipped:
  assumes "slurm_build W b = Some (Inr (root, cs))" and "spec \<in> set (object_pods root)"
  shows "pod_equipped W b spec"
  using assms(1)
proof (rule slurm_build_Inr)
  fix s s' template om
  assume ps: "slurm_parse W (newSlurmBuilder b) = Some (Inr s)" and co: "slurm_complete W s = Inr s'"
    and fin: "slurm_finish W s' template om = Inr (root, cs)"
  from fin show ?thesis
  proof (rule slurm_finish_Inr)
    fix mem ctrs spec' om' pod
    assume pod: "pod = buildPodSpecVolumesAndEnv W (s_builder s') (pt_Spec (js_Template (jt_Spec template)))"
      and ctrs: "replicate_containers (slurm_containers s') (slurm_containers_of W (s_builder s') mem (ps_Containers pod)) = Inr ctrs"
      and root: "root = JobObject om' spec'" and cs: "ps_Containers (pt_Spec (js_Template spec')) = ctrs"
      and vols: "ps_Volumes (pt_Spec (js_Template spec')) = ps_Volumes pod @ slurm_volumes (meta_Name om)"
    have "pod_equipped W (s_builder s') pod" unfolding pod by (rule buildPodSpecVolumesAndEnv_equipped)
    then have "\<forall>c \<in> set ctrs. equipped W (s_builder s') c"
      and "\<forall>vb \<in> set (b_volumeBundles (s_builder s')). set (vb_Volumes vb) \<subseteq> set (ps_Volumes pod)"
      using replicate_containers_equipped [OF ctrs] slurm_containers_of_equipped
      unfolding pod_equipped_def by blast+
    then have "pod_equipped W (s_builder s') (pt_Spec (js_Template spec'))"
      by (auto simp: pod_equipped_def cs vols)
    moreover have "spec = pt_Spec (js_Template spec')" using assms(2) by (simp add: object_pods_def root)
    ultimately show ?thesis using pod_equipped_task [OF slurm_task [OF ps co], of W] by simp
  qed
qed

lemma mode_builder_equipped:
  assumes "mode_builder W name = Some build" and "build b = Some (Inr (root, cs))" and "spec \<in> set (object_pods root)"
  shows "pod_equipped W b spec" and "name \<noteq> ''Slurm'' \<Longrightarrow> c \<in> set (ps_InitContainers spec) \<Longrightarrow> equipped W b c"
proof -
  from assms(1,2) consider (slurm) "slurm_build W b = Some (Inr (root, cs))" "name = ''Slurm''"
    | (plain) "interactive_build W b = Inr (root, cs) \<or> job_build W b = Inr (root, cs) \<or>
      ray_job_build W b = Inr (root, cs) \<or> ray_cluster_build W b = Inr (root, cs)"
    by (auto simp: mode_builder_def split: if_splits)
  then have "pod_equipped W b spec \<and> (name \<noteq> ''Slurm'' \<longrightarrow> (\<forall>c \<in> set (ps_InitContainers spec). equipped W b c))"
  proof cases
    case slurm
    with slurm_build_equipped [OF slurm(1) assms(3)] show ?thesis by simp
  next
    case plain
    from plain_builders_equipped [OF plain assms(3)] show ?thesis by blast
  qed
  then show "pod_equipped W b spec" and "name \<noteq> ''Slurm'' \<Longrightarrow> c \<in> set (ps_InitContainers spec) \<Longrightarrow> equipped W b c"
    by blast+
qed

lemma buildInit_positive: "buildInitEntrypointScript W s j = Inr x \<Longrightarrow> \<exists>n. slurm_completion s = Some n \<and> 0 <s n"
  by (cases "slurm_completion s") (auto simp: buildInitEntrypointScript_def Let_def split: if_splits)

lemma buildInit_Inl: "buildInitEntrypointScript W s j = Inl e \<Longrightarrow> e = Panic"
  by (auto simp: buildInitEntrypointScript_def Let_def split: if_splits option.splits)

lemma build_steps_Inl:
  "slurm_memory_of W b n = Inl e \<Longrightarrow> e = Panic" "replicate_containers k cs = Inl e \<Longrightarrow> e = Panic"
  "slurm_set_totals W tot s = Inl e \<Longrightarrow> e = Panic" "buildChildObjectMeta b j = Inl e \<Longrightarrow> e = Panic"
  by (auto simp: slurm_memory_of_def replicate_containers_def slurm_set_totals_def buildChildObjectMeta_def Let_def
      split: option.splits if_splits list.splits)

lemma slurm_finish_Inl:
  assumes "slurm_finish W s t om = Inl e"
  shows "e = Panic"
proof (cases "slurm_completion s = None \<or> slurm_parallelism s = None")
  case True
  with assms show ?thesis by (auto simp: slurm_finish_def Let_def split: option.splits)
next
  case False
  then obtain c p where "slurm_completion s = Some c" "slurm_parallelism s = Some p" by auto
  with assms show ?thesis
    unfolding slurm_finish_def Let_def
    by (simp only: option.simps prod.simps and_then_Inl_iff) (elim disjE exE conjE; simp add: build_steps_Inl buildInit_Inl)
qed

text \<open>The first non-empty string of a list.\<close>

definition first_given :: "string list \<Rightarrow> string" where
  "first_given xs = (case dropWhile (\<lambda>x. x = []) xs of [] \<Rightarrow> [] | x # _ \<Rightarrow> x)"

text \<open>The value on the command line, else the parsed one of the environment, else the one of the script.\<close>

definition first_parsed ::
  "'v option \<Rightarrow> string option \<Rightarrow> (string \<Rightarrow> 'e + 'v) \<Rightarrow> 'v option \<Rightarrow> 'v option \<Rightarrow> bool" where
  "first_parsed cli env parse script result \<longleftrightarrow>
     (case (cli, env) of
       (Some v, _) \<Rightarrow> result = Some v
     | (None, Some e) \<Rightarrow> (\<exists>v. parse e = Inr v \<and> result = Some v)
     | (None, None) \<Rightarrow> result = script)"

lemma first_parsed_quantity:
  "env_quantity W name cli = Inr x \<Longrightarrow> first_parsed cli (lookup_env W name) (q_parse (quantities W)) y (or_option x y)"
  by (auto simp: env_quantity_def first_parsed_def or_option_def split: if_splits option.splits)

lemma first_parsed_gpus:
  "env_gpus W name cli = Inr x \<Longrightarrow> first_parsed cli (lookup_env W name) (GpusFlag (q_parse (quantities W))) y (or_option x y)"
  by (auto simp: env_gpus_def first_parsed_def or_option_def split: if_splits option.splits)

text \<open>The sample script and the option groups of the sample builder, evaluated.\<close>

lemma sample_trim: "trim_space ''sleep 1'' = ''sleep 1''"
  by (rule trim_space_plain) (simp_all add: plain_char_def go_simps)

lemma sample_lines: "split_on (CHR 0x0A) ''sleep 1'' = [''sleep 1'']"
  by code_simp

lemma sample_flags: "SlurmFlags pq ''sleep 1'' iu = Inr empty_slurm_flags"
proof -
  have "scan_lines ''sleep 1'' = [''sleep 1'']"
    unfolding scan_lines_def raw_lines_def Let_def sample_lines by (simp add: max_scan_token_size_def drop_cr_def)
  then show ?thesis by (simp add: SlurmFlags_def sample_trim slurmDirective_def has_prefix_def)
qed

lemma sample_script: "SlurmValidateAndReplaceScript srun ''sleep 1'' 1 = Inr ''sleep 1''"
proof -
  have "list_all (\<lambda>c. str_index ''sleep 1'' c = None) (srunCommand # notSupportedCommands)" by code_simp
  then have "plain_line ''sleep 1''" by (intro plain_lineI sample_trim) (simp add: has_suffix_def has_prefix_def)
  then show ?thesis
    unfolding SlurmValidateAndReplaceScript_def sample_lines by (simp add: script_line_plain word_sless_alt)
qed

lemma sample_exclusive:
  "ValidateMutuallyExclusiveFlags [(''nodes'', True), (''array'', False)] = Inr ()"
  "ValidateMutuallyExclusiveFlags [(''nodes'', False), (''array'', False)] = Inr ()"
  "ValidateMutuallyExclusiveFlags [(''mem'', False), (''mem-per-task'', False), (''mem-per-cpu'', False), (''mem-per-gpu'', False)] = Inr ()"
  by code_simp+

section \<open>Properties\<close>

text \<open>
  C8. When the completion of a Slurm job accepts positive numbers of nodes and of tasks per node, the
  number of tasks is their product, and it is positive.
\<close>

theorem slurm_complete_product:
  assumes "slurm_complete W s = Inr s'"
    and "0 <s deref (b_nodes (s_builder s)) DefaultNodes"
    and "0 <s deref (b_nTasksPerNode (s_builder s)) DefaultNTasksPerNode"
  shows "deref (b_nTasks (s_builder s')) DefaultNTasks =
      deref (b_nodes (s_builder s')) DefaultNodes * deref (b_nTasksPerNode (s_builder s')) DefaultNTasksPerNode \<and>
    0 <s deref (b_nTasks (s_builder s')) DefaultNTasks"
  using assms(1)
proof (rule slurm_complete_Inr)
  fix b nodes nTasks content
  assume bal: "balance_tasks (s_builder s) = Inr (b, nodes, nTasks)"
    and scr: "SlurmValidateAndReplaceScript (srun_parser_of W) (s_scriptContent s) nTasks = Inr content"
    and s': "s' = s\<lparr>s_builder := b, s_scriptContent := content\<rparr>"
  from balance_tasks_product [OF bal script_needs_tasks [OF scr] assms(2,3)] script_needs_tasks [OF scr] s'
  show ?thesis by (metis slurm_builder.select_convs(1) slurm_builder.surjective slurm_builder.update_convs(1,2))
qed

theorem slurm_complete_product_witness:
  "\<exists>s'. slurm_complete sample_world (newSlurmBuilder ((sample_completed SlurmMode)\<lparr>b_nodes := Some 2, b_nTasks := Some 6\<rparr>)) = Inr s' \<and>
    deref (b_nTasks (s_builder s')) 1 = deref (b_nodes (s_builder s')) 1 * deref (b_nTasksPerNode (s_builder s')) 1"
proof -
  let ?s = "newSlurmBuilder ((sample_completed SlurmMode)\<lparr>b_nodes := Some 2, b_nTasks := Some 6\<rparr>)"
  have "float_div 6 2 = (3, False)" by (simp add: float_div_def go_div_def word_sless_alt)
  then have "balance_tasks (s_builder ?s) = Inr ((s_builder ?s)\<lparr>b_nTasksPerNode := Some 3\<rparr>, 2, 6)"
    by (simp add: balance_tasks_def newSlurmBuilder_def sample_defs default_defs)
  moreover have "check_combinations 2 ((s_builder ?s)\<lparr>b_nTasksPerNode := Some 3\<rparr>) = Inr ()"
    by (simp add: check_combinations_def sample_exclusive newSlurmBuilder_def sample_defs default_defs)
  moreover have "SlurmValidateAndReplaceScript (srun_parser_of sample_world) [] 6 = Inr [CHR 0x0A]"
    by (simp add: SlurmValidateAndReplaceScript_def script_line_blank word_sless_alt)
  ultimately have "\<exists>s'. slurm_complete sample_world ?s = Inr s'"
    by (simp add: slurm_complete_def newSlurmBuilder_def)
  then obtain s' where s': "slurm_complete sample_world ?s = Inr s'" ..
  from slurm_complete_product [OF this] s' show ?thesis
    by (simp add: newSlurmBuilder_def sample_defs default_defs word_sless_alt)
qed

text \<open>
  C21. Precedence of the options of a Slurm job, option by option. The command line wins over the
  environment variable, which wins over the directive in the script, for the array, the output, error
  and input files, the job name, the partition and the time limit, and likewise for the GPUs per task
  and the memory per node and per GPU, whose variables are parsed. The memory per task is read from
  \<open>SBATCH_MEM_PER_CPU\<close> in the same way, and no variable reaches the memory per CPU. The numbers of nodes and
  tasks and the CPUs per task come from the command line or else the script; the tasks per node from the
  command line only.
\<close>

theorem slurm_parse_precedence:
  assumes "slurm_parse W (newSlurmBuilder b) = Some (Inr s)"
    and "read_file W (b_script b) = Inr content"
    and "SlurmFlags (q_parse (quantities W)) content (b_ignoreUnknown b) = Inr fl"
  shows "b_array (s_builder s) = first_given [b_array b, get_env W ''SBATCH_ARRAY_INX'', pf_Array fl] \<and>
    b_output (s_builder s) = first_given [b_output b, get_env W ''SBATCH_OUTPUT'', pf_Output fl] \<and>
    b_error (s_builder s) = first_given [b_error b, get_env W ''SBATCH_ERROR'', pf_Error fl] \<and>
    b_input (s_builder s) = first_given [b_input b, get_env W ''SBATCH_INPUT'', pf_Input fl] \<and>
    b_jobName (s_builder s) = first_given [b_jobName b, get_env W ''SBATCH_JOB_NAME'', pf_JobName fl] \<and>
    b_partition (s_builder s) = first_given [b_partition b, get_env W ''SBATCH_PARTITION'', pf_Partition fl] \<and>
    b_timeLimit (s_builder s) = first_given [b_timeLimit b, get_env W ''SBATCH_TIMELIMIT'', pf_TimeLimit fl] \<and>
    first_parsed (b_gpusPerTask b) (lookup_env W ''SBATCH_GPUS_PER_TASK'') (GpusFlag (q_parse (quantities W)))
      (pf_GpusPerTask fl) (b_gpusPerTask (s_builder s)) \<and>
    first_parsed (b_memPerNode b) (lookup_env W ''SBATCH_MEM_PER_NODE'') (q_parse (quantities W))
      (pf_MemPerNode fl) (b_memPerNode (s_builder s)) \<and>
    first_parsed (b_memPerGPU b) (lookup_env W ''SBATCH_MEM_PER_GPU'') (q_parse (quantities W))
      (pf_MemPerGPU fl) (b_memPerGPU (s_builder s)) \<and>
    first_parsed (b_memPerTask b) (lookup_env W ''SBATCH_MEM_PER_CPU'') (q_parse (quantities W))
      (pf_MemPerTask fl) (b_memPerTask (s_builder s)) \<and>
    b_memPerCPU (s_builder s) = (case b_memPerCPU b of Some q \<Rightarrow> Some q | None \<Rightarrow> pf_MemPerCPU fl) \<and>
    b_nodes (s_builder s) = (case b_nodes b of Some n \<Rightarrow> Some n | None \<Rightarrow> pf_Nodes fl) \<and>
    b_nTasks (s_builder s) = (case b_nTasks b of Some n \<Rightarrow> Some n | None \<Rightarrow> pf_NTasks fl) \<and>
    b_cpusPerTask (s_builder s) = (case b_cpusPerTask b of Some q \<Rightarrow> Some q | None \<Rightarrow> pf_CpusPerTask fl) \<and>
    b_nTasksPerNode (s_builder s) = b_nTasksPerNode b"
  using assms(1)
proof (rule slurm_parse_Inr)
  fix content' b1 b2
  assume "read_file W (b_script (s_builder (newSlurmBuilder b))) = Inr content'"
    and env: "getSbatchEnvs W (s_builder (newSlurmBuilder b)) = Inr b1"
    and scr: "replaceScriptFlags W content' b1 = Inr b2" and s: "s_builder s = b2"
  then have content: "content' = content" using assms(2) by (simp add: newSlurmBuilder_def)
  have b1: "b_ignoreUnknown b1 = b_ignoreUnknown b" "b_nodes b1 = b_nodes b" "b_nTasks b1 = b_nTasks b"
    "b_cpusPerTask b1 = b_cpusPerTask b" "b_memPerCPU b1 = b_memPerCPU b" "b_nTasksPerNode b1 = b_nTasksPerNode b"
    "b_array b1 = env_string W ''SBATCH_ARRAY_INX'' (b_array b)" "b_output b1 = env_string W ''SBATCH_OUTPUT'' (b_output b)"
    "b_error b1 = env_string W ''SBATCH_ERROR'' (b_error b)" "b_input b1 = env_string W ''SBATCH_INPUT'' (b_input b)"
    "b_jobName b1 = env_string W ''SBATCH_JOB_NAME'' (b_jobName b)"
    "b_partition b1 = env_string W ''SBATCH_PARTITION'' (b_partition b)"
    "b_timeLimit b1 = env_string W ''SBATCH_TIMELIMIT'' (b_timeLimit b)"
    and parsed: "env_gpus W ''SBATCH_GPUS_PER_TASK'' (b_gpusPerTask b) = Inr (b_gpusPerTask b1)"
    "env_quantity W ''SBATCH_MEM_PER_NODE'' (b_memPerNode b) = Inr (b_memPerNode b1)"
    "env_quantity W ''SBATCH_MEM_PER_CPU'' (b_memPerTask b) = Inr (b_memPerTask b1)"
    "env_quantity W ''SBATCH_MEM_PER_GPU'' (b_memPerGPU b) = Inr (b_memPerGPU b1)"
    using env by (auto simp: getSbatchEnvs_def newSlurmBuilder_def Let_def)
  have strings: "or_string (env_string W n x) y = first_given [x, get_env W n, y]" for n x y
    by (simp add: or_string_def env_string_def first_given_def)
  have options: "or_option x y = (case x of Some q \<Rightarrow> Some q | None \<Rightarrow> y)" for x y :: "'z option"
    by (simp add: or_option_def split: option.splits)
  note quantities = parsed(2-4) [THEN first_parsed_quantity] parsed(1) [THEN first_parsed_gpus]
  show ?thesis
    using scr quantities unfolding s content
    by (auto simp: replaceScriptFlags_def b1 assms(3) strings options)
qed

theorem slurm_parse_precedence_witness:
  "\<exists>s. slurm_parse sample_world (newSlurmBuilder ((sample_completed SlurmMode)\<lparr>b_output := ''out'', b_script := ''f''\<rparr>)) =
      Some (Inr s) \<and> b_output (s_builder s) = ''out''"
proof -
  let ?b = "(sample_completed SlurmMode)\<lparr>b_output := ''out'', b_script := ''f''\<rparr>"
  have "\<exists>s. slurm_parse sample_world (newSlurmBuilder ?b) = Some (Inr s)"
    by (simp add: slurm_parse_def newSlurmBuilder_def sample_defs getSbatchEnvs_def env_string_def env_gpus_def
        env_quantity_def get_env_def replaceScriptFlags_def sample_flags isArrayJob_def or_string_def empty_slurm_flags_def)
  then obtain s where s: "slurm_parse sample_world (newSlurmBuilder ?b) = Some (Inr s)" ..
  have "read_file sample_world (b_script ?b) = Inr ''sleep 1''" by (simp add: sample_defs)
  from slurm_parse_precedence [OF s this sample_flags] s show ?thesis by (simp add: first_given_def)
qed

text \<open>
  C7. The objects of a Slurm build: an indexed job, a config map and a headless service with the same
  name, which is also the subdomain of the pods and the selector of the service. An array job has
  one completion per index and the parallelism asked for, 1 by default; any other job has one
  completion per node and runs all of them at once. The number of completions is positive.
\<close>

theorem slurm_build_objects:
  assumes "slurm_build W b = Some (Inr (root, cs))"
  shows "\<exists>s0 s om spec cm data n par. slurm_parse W (newSlurmBuilder b) = Some (Inr s0) \<and>
    slurm_complete W s0 = Inr s \<and> slurm_completion s = Some n \<and> slurm_parallelism s = Some par \<and> 0 <s n \<and>
    root = JobObject om spec \<and> js_Completions spec = Some n \<and> js_Parallelism spec = Some par \<and>
    js_CompletionMode spec = Some (IndexedCompletion (names W)) \<and>
    (if isArrayJob s
     then \<exists>ai. ParseArrayIndexes (b_array (s_builder s)) = Some (Inr ai) \<and>
       n = word_of_nat (length (Indexes ai)) \<and> par = deref (Parallelism ai) 1
     else n = deref (b_nodes (s_builder s)) 1 \<and> par = n) \<and>
    ps_Subdomain (pt_Spec (js_Template spec)) = meta_Name om \<and>
    cs = [ConfigMapObject cm data, ServiceObject cm ''None'' [(''job-name'', meta_Name om)]] \<and>
    meta_Name cm = meta_Name om \<and> map fst data = [''init-entrypoint.sh'', ''entrypoint.sh'', ''script''] \<and>
    mget data ''script'' = Some (s_scriptContent s)"
  using assms
proof (rule slurm_build_Inr)
  fix s0 s template om
  assume ps: "slurm_parse W (newSlurmBuilder b) = Some (Inr s0)" and co: "slurm_complete W s0 = Inr s"
    and fin: "slurm_finish W s template om = Inr (root, cs)"
  have arr: "\<exists>ai. s_arrayIndexes s = Some ai \<and> ParseArrayIndexes (b_array (s_builder s)) = Some (Inr ai)" if "isArrayJob s"
    using ps that slurm_complete_frame [OF co] by (elim slurm_parse_Inr) (auto simp: isArrayJob_def)
  from fin show ?thesis
  proof (rule slurm_finish_Inr)
    fix completions par mem ctrs s' initScript childMeta spec om' pod
    assume cp: "slurm_completion s = Some completions" "slurm_parallelism s = Some par"
      and init: "buildInitEntrypointScript W s' (meta_Name om) = Inr initScript" "slurm_completion s' = slurm_completion s"
      and ch: "buildChildObjectMeta (s_builder s) (meta_Name om) = Inr childMeta"
      and om': "om' = om\<lparr>meta_Annotations := Some (mput ScriptAnnotation (b_script (s_builder s)) (deref (meta_Annotations om) []))\<rparr>"
      and root: "root = JobObject om' spec" "js_Completions spec = Some completions" "js_Parallelism spec = Some par"
        "js_CompletionMode spec = Some (IndexedCompletion (names W))" "ps_Subdomain (pt_Spec (js_Template spec)) = meta_Name om"
      and cs: "cs = [ConfigMapObject childMeta
                [(slurmInitEntrypointFilename, initScript),
                 (slurmEntrypointFilename, buildEntrypointScript (s_builder s)),
                 (slurmScriptFilename, s_scriptContent s)],
              ServiceObject childMeta ''None'' [(''job-name'', meta_Name om)]]"
    have "meta_Name childMeta = meta_Name om"
      using ch by (auto simp: buildChildObjectMeta_def withKjobLabels_def Let_def split: option.splits)
    moreover have "0 <s completions" using buildInit_positive [OF init(1)] init(2) cp(1) by simp
    moreover have "if isArrayJob s
       then \<exists>ai. ParseArrayIndexes (b_array (s_builder s)) = Some (Inr ai) \<and>
         completions = word_of_nat (length (Indexes ai)) \<and> par = deref (Parallelism ai) 1
       else completions = deref (b_nodes (s_builder s)) 1 \<and> par = completions"
      using cp arr by (auto simp: slurm_completion_def slurm_parallelism_def ArrayIndexes_Count_def default_defs)
    moreover have "meta_Name om' = meta_Name om" by (simp add: om')
    moreover define data where "data = [(slurmInitEntrypointFilename, initScript),
        (slurmEntrypointFilename, buildEntrypointScript (s_builder s)), (slurmScriptFilename, s_scriptContent s)]"
    moreover have "mget data ''script'' = Some (s_scriptContent s)"
      "map fst data = [''init-entrypoint.sh'', ''entrypoint.sh'', ''script'']"
      by (simp_all add: data_def mget_def slurmInitEntrypointFilename_def slurmEntrypointFilename_def slurmScriptFilename_def)
    moreover have "cs = [ConfigMapObject childMeta data, ServiceObject childMeta ''None'' [(''job-name'', meta_Name om')]]"
      "ps_Subdomain (pt_Spec (js_Template spec)) = meta_Name om'" "meta_Name childMeta = meta_Name om'"
      using cs root(5) \<open>meta_Name childMeta = meta_Name om\<close> by (simp_all add: om' data_def)
    ultimately show ?thesis
      using cp root(1-4) ps co by (intro exI conjI) assumption+
  qed
qed

theorem slurm_build_objects_witness:
  "\<exists>om spec cs. slurm_build sample_world ((sample_completed SlurmMode)\<lparr>b_script := ''f''\<rparr>) =
      Some (Inr (JobObject om spec, cs)) \<and> js_Completions spec = Some 1 \<and> length cs = 2"
proof -
  define b where "b = (sample_completed SlurmMode)\<lparr>b_script := ''f''\<rparr>"
  define s where "s = (newSlurmBuilder b)\<lparr>s_scriptContent := ''sleep 1''\<rparr>"
  have ps: "slurm_parse sample_world (newSlurmBuilder b) = Some (Inr s)"
    by (simp add: slurm_parse_def newSlurmBuilder_def sample_defs getSbatchEnvs_def env_string_def env_gpus_def
        env_quantity_def get_env_def replaceScriptFlags_def sample_flags isArrayJob_def or_string_def or_option_def
        empty_slurm_flags_def b_def s_def)
  have co: "slurm_complete sample_world s = Inr s"
    by (simp add: slurm_complete_def balance_tasks_def check_combinations_def sample_exclusive sample_script
        newSlurmBuilder_def sample_defs default_defs b_def s_def)
  have s: "s_builder s = b" by (simp add: s_def newSlurmBuilder_def)
  have b: "b_array b = []" "b_nodes b = None" "b_nTasksPerNode b = None" "b_memPerNode b = None" "b_script b \<noteq> []"
    "b_cpusPerTask b = None" "b_gpusPerTask b = None" "b_memPerTask b = None" "b_memPerCPU b = None" "b_memPerGPU b = None"
    "b_profile b = Some sample_profile" "b_mode b = Some (sample_mode SlurmMode)" "b_timeLimit b = []" "b_firstNodeIP b = False"
    by (simp_all add: b_def sample_defs)
  have q: "q_zero (quantities sample_world) = 0" "q_is_zero (quantities sample_world) 0"
    by (simp_all add: sample_world_def sample_quantities_def)
  obtain t where t: "fetch_template (get_job_template sample_world) b = Inr t"
    by (auto simp: fetch_template_def b sample_world_def)
  obtain om where om: "buildObjectMeta sample_world b (jt_Meta t) True = Inr om"
    by (auto simp: buildObjectMeta_def withKueueLabels_def b Let_def)
  have nodes: "slurm_completion s = Some 1" "slurm_parallelism s = Some 1" "slurm_containers s = 1"
    by (simp_all add: slurm_completion_def slurm_parallelism_def slurm_containers_def isArrayJob_def s b default_defs)
  let ?mem = "\<lparr>sm_totalGPUsPerTask = 0, sm_memPerCPU = 0, sm_memPerGPU = 0, sm_memPerContainer = 0\<rparr>"
  let ?zero = "\<lparr>tot_cpus = 0, tot_gpus = 0, tot_mem = 0\<rparr> :: int slurm_totals"
  have mem: "slurm_memory_of sample_world b n = Inr ?mem" for n
    by (simp add: slurm_memory_of_def b q)
  have "container_totals sample_world b ?mem ?zero = ?zero"
    by (simp add: container_totals_def b q add_some_def add_nonzero_def Let_def)
  then have workers: "worker_totals sample_world b ?mem cs = ?zero" for cs
    unfolding worker_totals_def q by (induction cs) simp_all
  have totals: "slurm_set_totals sample_world ?zero s =
      Inr (s\<lparr>s_cpusOnNode := None, s_totalGpus := None, s_totalMemPerNode := None\<rparr>)" (is "_ = Inr ?s'")
    by (simp add: slurm_set_totals_def nonzero_def q s b)
  have "slurm_completion ?s' = Some 1" "\<not> isArrayJob ?s'"
    using nodes(1) by (simp_all add: slurm_completion_def isArrayJob_def s b)
  then have "\<exists>x. buildInitEntrypointScript sample_world ?s' j = Inr x" for j
    by (simp add: buildInitEntrypointScript_def s word_sless_alt Let_def)
  moreover have "\<exists>x. buildChildObjectMeta b j = Inr x" for j by (simp add: buildChildObjectMeta_def b)
  ultimately have "\<exists>root cs. slurm_finish sample_world s t om = Inr (root, cs)"
    by (simp add: slurm_finish_def nodes s mem replicate_containers_def workers totals Let_def) (metis and_then.simps(2))
  then obtain root cs where "slurm_finish sample_world s t om = Inr (root, cs)" by blast
  with ps co t om have build: "slurm_build sample_world b = Some (Inr (root, cs))"
    by (simp add: slurm_build_def b s)
  from slurm_build_objects [OF this] build ps co nodes show ?thesis
    unfolding b_def [symmetric] by auto
qed

text \<open>
  A Slurm job that is not an array job and whose number of nodes is not positive panics instead
  of reporting an error, although the completion of its options accepts it.
\<close>

theorem slurm_nonpositive_nodes_panic:
  assumes "slurm_complete W s = Inr s'" and "\<not> isArrayJob s'"
    and "\<not> 0 <s deref (b_nodes (s_builder s')) DefaultNodes"
  shows "slurm_finish W s' template om = Inl Panic"
proof (cases "slurm_finish W s' template om")
  case (Inl e)
  then show ?thesis by (simp add: slurm_finish_Inl)
next
  case (Inr r)
  obtain root cs where "r = (root, cs)" by (cases r)
  with Inr have "slurm_finish W s' template om = Inr (root, cs)" by simp
  then have False
  proof (rule slurm_finish_Inr)
    fix s'' initScript
    assume init: "buildInitEntrypointScript W s'' (meta_Name om) = Inr initScript" "slurm_completion s'' = slurm_completion s'"
    from buildInit_positive [OF init(1)] init(2) assms show False by (simp add: slurm_completion_def)
  qed
  then show ?thesis ..
qed

theorem slurm_nonpositive_nodes_panic_witness:
  "\<exists>s'. slurm_complete sample_world (newSlurmBuilder ((sample_completed SlurmMode)\<lparr>b_nodes := Some (- 1), b_nTasks := Some 2\<rparr>)) = Inr s' \<and>
    (\<forall>template om. slurm_finish sample_world s' template om = Inl Panic)"
proof -
  let ?s = "newSlurmBuilder ((sample_completed SlurmMode)\<lparr>b_nodes := Some (- 1), b_nTasks := Some 2\<rparr>)"
  have "float_div 2 (- 1) = (- 2, False)" by (simp add: float_div_def go_div_def word_sless_alt)
  then have bal: "balance_tasks (s_builder ?s) = Inr ((s_builder ?s)\<lparr>b_nTasksPerNode := Some (- 2)\<rparr>, - 1, 2)"
    by (simp add: balance_tasks_def newSlurmBuilder_def sample_defs default_defs Let_def)
  have "check_combinations (- 1) ((s_builder ?s)\<lparr>b_nTasksPerNode := Some (- 2)\<rparr>) = Inr ()"
    by (simp add: check_combinations_def sample_exclusive newSlurmBuilder_def sample_defs default_defs)
  moreover have "SlurmValidateAndReplaceScript (srun_parser_of sample_world) [] 2 = Inr [CHR 0x0A]"
    by (simp add: SlurmValidateAndReplaceScript_def script_line_blank word_sless_alt)
  ultimately have s': "slurm_complete sample_world ?s =
      Inr (?s\<lparr>s_builder := (s_builder ?s)\<lparr>b_nTasksPerNode := Some (- 2)\<rparr>, s_scriptContent := [CHR 0x0A]\<rparr>)"
    using bal by (simp add: slurm_complete_def newSlurmBuilder_def)
  from slurm_nonpositive_nodes_panic [OF this] s' show ?thesis
    by (simp add: isArrayJob_def newSlurmBuilder_def sample_defs word_sless_alt)
qed

lemma sample_Do_spec:
  "\<exists>m. Do sample_world (sample_builder RayClusterMode) = Some (Inr (RayClusterObject m
     (buildRayClusterSpec sample_world (sample_completed RayClusterMode) sample_ray_cluster), []))"
proof -
  let ?b = "sample_builder RayClusterMode"
  have "\<exists>m. ray_cluster_build sample_world (sample_completed RayClusterMode) = Inr (RayClusterObject m
      (buildRayClusterSpec sample_world (sample_completed RayClusterMode) sample_ray_cluster), [])"
    by (simp add: ray_cluster_build_def fetch_template_def buildObjectMeta_def withKueueLabels_def sample_defs Let_def)
  moreover have "setClients sample_world = Inr ()" "validateGeneral sample_world ?b = Inr ()"
    "mode_builder sample_world (b_modeName ?b) = Some (\<lambda>b. Some (ray_cluster_build sample_world b))"
    "validateFlags (sample_completed RayClusterMode) = Inr ()"
    by (simp_all add: setClients_def validateGeneral_def mode_builder_def validateFlags_def check_flags_Inr sample_defs)
  ultimately show ?thesis by (auto simp: Do_def sample_complete)
qed

lemma sample_Do:
  "\<exists>m spec. Do sample_world (sample_builder RayClusterMode) = Some (Inr (RayClusterObject m spec, []))"
  using sample_Do_spec by blast

lemma Do_objects:
  assumes "Do W b = Some (Inr (root, cs))" and "labels_distinct (names W)"
    and "b_mode b = None" and "b_volumeBundles b = []"
  shows "\<exists>p m. get_profile W (b_namespace b) (b_profileName b) = Inr p \<and> sm_Name m = b_modeName b \<and>
    (\<forall>obj \<in> set (root # cs). kjob_owned p m obj) \<and>
    (b_modeName b, object_kind root) \<in> {(''Job'', ''Job''), (''Interactive'', ''Pod''), (''RayJob'', ''RayJob''),
      (''RayCluster'', ''RayCluster''), (''Slurm'', ''Job'')}"
  using assms(1)
proof (rule Do_Inr)
  fix b' build
  assume mb: "mode_builder W (b_modeName b) = Some build" and co: "complete W b = Inr b'"
    and build: "build b' = Some (Inr (root, cs))"
  from complete_Inr [OF co assms(3)] obtain p m where "get_profile W (b_namespace b) (b_profileName b) = Inr p"
    and "b_profile b' = Some p" and "b_mode b' = Some m" and "sm_Name m = b_modeName b"
    by auto
  with mode_builder_owned [OF mb build assms(2)] mode_builder_kind [OF mb build] show ?thesis by auto
qed

text \<open>
  C38. What runs in the containers, in every mode: each container of each pod that the root of a build
  describes, and each init container other than the one the Slurm mode adds, has the variables of the
  task with exactly these values, whatever the template and the volume bundles define for these names;
  it has the mounts and the variables of every volume bundle of the profile, and its pod has their
  volumes. Among the pods are the head and all worker groups of a Ray cluster, and the copies of the
  first container in a Slurm job.
\<close>

theorem Do_pods:
  assumes "Do W b = Some (Inr (root, cs))" and "spec \<in> set (object_pods root)"
    and "c \<in> set (ps_Containers spec) \<or> c \<in> set (ps_InitContainers spec) \<and> b_modeName b \<noteq> mode_name SlurmMode"
  shows "\<exists>p. get_profile W (b_namespace b) (b_profileName b) = Inr p \<and>
    (\<forall>n \<in> set (ap_VolumeBundles p). \<exists>vb. get_volume_bundle W (meta_Namespace (ap_Meta p)) n = Inr vb \<and>
      set (vb_Volumes vb) \<subseteq> set (ps_Volumes spec) \<and>
      set (vb_ContainerVolumeMounts vb) \<subseteq> set (ctr_VolumeMounts c) \<and> set (vb_EnvVars vb) \<subseteq> set (ctr_Env c)) \<and>
    env_value c ''USER_ID'' = Some (get_env W ''USER'') \<and>
    env_value c ''TASK_NAME'' = Some (b_namespace b @ ''_'' @ b_profileName b) \<and>
    env_value c ''TASK_ID'' =
      Some (get_env W ''USER'' @ ''_'' @ b_buildTime b @ ''_'' @ b_namespace b @ ''_'' @ b_profileName b) \<and>
    env_value c ''PROFILE'' = Some (b_namespace b @ ''_'' @ b_profileName b) \<and>
    env_value c ''TIMESTAMP'' = Some (b_buildTime b)"
  using assms(1)
proof (rule Do_Inr)
  fix b' build
  assume mb: "mode_builder W (b_modeName b) = Some build" and co: "complete W b = Inr b'"
    and build: "build b' = Some (Inr (root, cs))"
  from co obtain p bs where p: "get_profile W (b_namespace b) (b_profileName b) = Inr p"
    and bs: "fetch_bundles (get_volume_bundle W (meta_Namespace (ap_Meta p))) (ap_VolumeBundles p) (b_volumeBundles b) = Inr bs"
    and b': "b_volumeBundles b' = bs" "b_namespace b' = b_namespace b" "b_profileName b' = b_profileName b"
      "b_buildTime b' = b_buildTime b"
    by (auto simp: complete_def Let_def split: if_splits)
  have vb: "\<exists>vb \<in> set bs. get_volume_bundle W (meta_Namespace (ap_Meta p)) n = Inr vb" if "n \<in> set (ap_VolumeBundles p)" for n
    using bs that unfolding fetch_bundles_Inr by (fastforce simp: list_all2_conv_all_nth in_set_conv_nth)
  have pod: "pod_equipped W b' spec" by (rule mode_builder_equipped [OF mb build assms(2)])
  moreover have "equipped W b' c"
    using assms(3) pod mode_builder_equipped(2) [OF mb build assms(2)] by (auto simp: pod_equipped_def)
  ultimately have vols: "\<forall>vb \<in> set bs. set (vb_Volumes vb) \<subseteq> set (ps_Volumes spec) \<and>
      set (vb_ContainerVolumeMounts vb) \<subseteq> set (ctr_VolumeMounts c) \<and> set (vb_EnvVars vb) \<subseteq> set (ctr_Env c)"
    and eq: "equipped W b' c"
    by (auto simp: pod_equipped_def equipped_def b')
  from vols vb have "\<forall>n \<in> set (ap_VolumeBundles p). \<exists>vb. get_volume_bundle W (meta_Namespace (ap_Meta p)) n = Inr vb \<and>
      set (vb_Volumes vb) \<subseteq> set (ps_Volumes spec) \<and>
      set (vb_ContainerVolumeMounts vb) \<subseteq> set (ctr_VolumeMounts c) \<and> set (vb_EnvVars vb) \<subseteq> set (ctr_Env c)"
    by meson
  with p eq show ?thesis unfolding equipped_def b' by (intro exI [of _ p]) simp
qed

theorem Do_pods_witness:
  "\<exists>m spec c. Do sample_world (sample_builder RayClusterMode) = Some (Inr (RayClusterObject m spec, [])) \<and>
    c \<in> set (ps_Containers (pt_Spec (rc_HeadTemplate spec))) \<and>
    env_value c ''TASK_ID'' = Some ''me_now_ns_prof''"
proof -
  let ?b = "sample_builder RayClusterMode"
  obtain m where Do: "Do sample_world ?b =
      Some (Inr (RayClusterObject m (buildRayClusterSpec sample_world (sample_completed RayClusterMode) sample_ray_cluster), []))"
    (is "_ = Some (Inr (RayClusterObject m ?spec, []))")
    using sample_Do_spec by blast
  have "ps_Containers (pt_Spec (rc_HeadTemplate ?spec)) \<noteq> []"
    by (simp add: buildRayClusterSpec_def buildPodSpecVolumesAndEnv_def sample_ray_cluster_def sample_pod_def Let_def)
  then obtain c where c: "c \<in> set (ps_Containers (pt_Spec (rc_HeadTemplate ?spec)))"
    using hd_in_set by blast
  have "pt_Spec (rc_HeadTemplate ?spec) \<in> set (object_pods (RayClusterObject m ?spec))"
    by (simp add: object_pods_def ray_pods_def)
  from Do_pods [OF Do this disjI1 [OF c]]
  have "env_value c ''TASK_ID'' = Some ''me_now_ns_prof''" by (simp add: sample_defs get_env_def)
  with Do c show ?thesis by blast
qed

text \<open>
  C6. Every object a successful build returns, the root and its children, is in the namespace of the
  profile that was asked for and is labelled with its name and with the mode; the kind of the root
  is the one of the mode.
\<close>

theorem Do_owned:
  assumes "Do W b = Some (Inr (root, cs))" and "labels_distinct (names W)"
    and "b_mode b = None" and "b_volumeBundles b = []"
  shows "\<exists>p m. get_profile W (b_namespace b) (b_profileName b) = Inr p \<and> sm_Name m = b_modeName b \<and>
    (\<forall>obj \<in> set (root # cs). kjob_owned p m obj) \<and>
    (b_modeName b, object_kind root) \<in> {(''Job'', ''Job''), (''Interactive'', ''Pod''), (''RayJob'', ''RayJob''),
      (''RayCluster'', ''RayCluster''), (''Slurm'', ''Job'')}"
  using assms by (rule Do_objects)

theorem Do_owned_witness:
  "\<exists>root cs. Do sample_world (sample_builder RayClusterMode) = Some (Inr (root, cs)) \<and>
    object_kind root = ''RayCluster'' \<and> kjob_owned sample_profile (sample_mode RayClusterMode) root"
proof -
  let ?b = "sample_builder RayClusterMode"
  from sample_Do obtain m spec where Do: "Do sample_world ?b = Some (Inr (RayClusterObject m spec, []))" by blast
  have fresh: "b_mode ?b = None" "b_volumeBundles ?b = []" by (simp_all add: sample_defs)
  have "get_profile sample_world (b_namespace ?b) (b_profileName ?b) = Inr sample_profile" "b_modeName ?b = ''RayCluster''"
    by (simp_all add: sample_world_def sample_builder_def WithNamespace_def WithProfileName_def WithModeName_def)
  with Do Do_owned [OF Do sample_labels_distinct fresh] show ?thesis
    by (auto simp: kjob_owned_def sample_mode_def)
qed

end
