(* ===== verification/CmdHelpers.thy ===== *)
theory CmdHelpers
  imports ApiTypes
begin

text \<open>
  \<open>pkg/cmd/helpers\<close>: what the commands of \<open>kjobctl\<close> share. The dry-run strategies
  (\<open>dry_run.go\<close>), the access to string flags (\<open>helpers.go\<close>) and the construction of the
  clientsets (\<open>client_getter.go\<close>). The flags of a command that cobra has parsed are a map from
  their names to their values; the printers of \<open>cli-runtime\<close>, the loaders of the kube
  configuration and the clients are parameters.
\<close>

section \<open>Errors, printers and loops\<close>

text \<open>Errors of the API server: the code tells \<open>NotFound\<close> apart from all others.\<close>

datatype api_error = NotFoundError string | OtherError string

datatype cmd_error =
    InvalidDryRun string
  | InvalidCascade string
  | ApiFailure api_error
  | ConfigError string
  | PrintError string
  | FlagFatal string
  | NotEnoughArgs

text \<open>\<open>client.IgnoreNotFound\<close>: the error, unless it is \<open>NotFound\<close>.\<close>

fun IgnoreNotFound :: "api_error \<Rightarrow> api_error option" where
  "IgnoreNotFound (NotFoundError m) = None"
| "IgnoreNotFound (OtherError m) = Some (OtherError m)"

fun api_message :: "api_error \<Rightarrow> string" where
  "api_message (NotFoundError m) = m"
| "api_message (OtherError m) = m"

text \<open>A printer writes a text or fails.\<close>

type_synonym 'o printer = "'o \<Rightarrow> string + string"

text \<open>
  The print flags of \<open>cli-runtime\<close>: \<open>NewPrintFlags\<close> with the operation's name, \<open>Complete\<close> with a
  template for the success message, \<open>OutputFlagSpecified\<close> and \<open>ToPrinter\<close>.
\<close>

record ('p, 'o) print_api =
  NewPrintFlags :: "string \<Rightarrow> 'p"
  pf_Complete :: "'p \<Rightarrow> string \<Rightarrow> string + 'p"
  pf_OutputFlagSpecified :: "'p \<Rightarrow> bool"
  pf_ToPrinter :: "'p \<Rightarrow> string + 'o printer"

text \<open>
  A loop over a slice whose body may end the function with an error; \<open>continue\<close> and the end of
  the body are the result \<open>None\<close>.
\<close>

fun for_each :: "('a \<Rightarrow> 's \<Rightarrow> 's \<times> 'e option) \<Rightarrow> 'a list \<Rightarrow> 's \<Rightarrow> 's \<times> 'e option" where
  "for_each body [] s = (s, None)"
| "for_each body (x # xs) s =
     (case body x s of
       (s', Some e) \<Rightarrow> (s', Some e)
     | (s', None) \<Rightarrow> for_each body xs s')"

text \<open>What every round keeps, the loop keeps, whether it ends normally or with an error.\<close>

lemma for_each_invariant:
  assumes "I s" and "\<And>x s. x \<in> set xs \<Longrightarrow> I s \<Longrightarrow> I (fst (body x s))"
  shows "I (fst (for_each body xs s))"
  using assms
proof (induction xs arbitrary: s)
  case (Cons x xs)
  obtain s' r where b: "body x s = (s', r)" by fastforce
  with Cons.prems(1) Cons.prems(2) [of x s] have "I s'" by simp
  with Cons.IH Cons.prems(2) b show ?case by (cases r) simp_all
qed simp

text \<open>When no round fails, the loop visits every element.\<close>

lemma for_each_no_error:
  assumes "\<And>x s. x \<in> set xs \<Longrightarrow> snd (body x s) = None"
  shows "for_each body xs s = (fold (\<lambda>x s. fst (body x s)) xs s, None)"
  using assms
proof (induction xs arbitrary: s)
  case (Cons x xs)
  then have "body x s = (fst (body x s), None)" by (metis list.set_intros(1) prod.collapse)
  with Cons show ?case by (auto split: prod.splits option.splits)
qed simp

lemma for_each_append:
  "for_each body (xs @ ys) s =
     (case for_each body xs s of (s', Some e) \<Rightarrow> (s', Some e) | (s', None) \<Rightarrow> for_each body ys s')"
  by (induction xs arbitrary: s) (auto split: prod.splits option.splits)

section \<open>Flags\<close>

type_synonym cmd_flags = "(string, string) gomap"

text \<open>A flag the command does not have ends the process (\<open>klog.Fatalf\<close>).\<close>

definition FlagString :: "cmd_flags \<Rightarrow> string \<Rightarrow> cmd_error + string" where
  "FlagString cmd name = (case mget cmd name of None \<Rightarrow> Inl (FlagFatal name) | Some s \<Rightarrow> Inr s)"

section \<open>Dry runs\<close>

datatype DryRunStrategy = DryRunNone | DryRunClient | DryRunServer

definition AddDryRunFlag :: "cmd_flags \<Rightarrow> cmd_flags" where
  "AddDryRunFlag cmd = mput ''dry-run'' ''none'' cmd"

definition GetDryRunStrategy :: "cmd_flags \<Rightarrow> cmd_error + DryRunStrategy" where
  "GetDryRunStrategy cmd =
     and_then (FlagString cmd ''dry-run'') (\<lambda>dryRunFlag.
       if dryRunFlag = ''client'' then Inr DryRunClient
       else if dryRunFlag = ''server'' then Inr DryRunServer
       else if dryRunFlag = ''none'' then Inr DryRunNone
       else Inl (InvalidDryRun dryRunFlag))"

definition PrintFlagsWithDryRunStrategy ::
  "('p, 'o) print_api \<Rightarrow> 'p \<Rightarrow> DryRunStrategy \<Rightarrow> cmd_error + 'p" where
  "PrintFlagsWithDryRunStrategy P printFlags strategy =
     (case strategy of
       DryRunNone \<Rightarrow> Inr printFlags
     | DryRunClient \<Rightarrow> map_err PrintError (pf_Complete P printFlags ''%s (client dry run)'')
     | DryRunServer \<Rightarrow> map_err PrintError (pf_Complete P printFlags ''%s (server dry run)''))"

lemma GetDryRunStrategy_Inr:
  "GetDryRunStrategy cmd = Inr d \<longleftrightarrow>
   mget cmd ''dry-run'' = Some (case d of DryRunNone \<Rightarrow> ''none'' | DryRunClient \<Rightarrow> ''client'' | DryRunServer \<Rightarrow> ''server'')"
proof (cases "mget cmd ''dry-run''")
  case None
  then show ?thesis by (simp add: GetDryRunStrategy_def FlagString_def)
next
  case (Some f)
  then have "GetDryRunStrategy cmd =
    (if f = ''client'' then Inr DryRunClient else if f = ''server'' then Inr DryRunServer
     else if f = ''none'' then Inr DryRunNone else Inl (InvalidDryRun f))"
    by (simp add: GetDryRunStrategy_def FlagString_def)
  with Some show ?thesis by (cases d) simp_all
qed

section \<open>Clients\<close>

text \<open>
  The configuration of a REST client; the program sets its content type. A clientset is made by a
  constructor of its client library from the configuration.
\<close>

record rest_config =
  rest_Host :: string
  rest_ContentType :: string

definition ContentTypeProtobuf :: string where
  "ContentTypeProtobuf = ''application/vnd.kubernetes.protobuf''"

record ('k, 'u, 'j, 'r, 'd) client_libs =
  ToRESTConfig :: "string + rest_config"
  k8s_NewForConfig :: "rest_config \<Rightarrow> string + 'k"
  kueue_NewForConfig :: "rest_config \<Rightarrow> string + 'u"
  kjobctl_NewForConfig :: "rest_config \<Rightarrow> string + 'j"
  ray_NewForConfig :: "rest_config \<Rightarrow> string + 'r"
  dynamic_NewForConfig :: "rest_config \<Rightarrow> string + 'd"

definition K8sClientset :: "('k, 'u, 'j, 'r, 'd) client_libs \<Rightarrow> string + 'k" where
  "K8sClientset L =
     and_then (ToRESTConfig L) (\<lambda>config.
       k8s_NewForConfig L (config\<lparr>rest_ContentType := ContentTypeProtobuf\<rparr>))"

definition KueueClientset :: "('k, 'u, 'j, 'r, 'd) client_libs \<Rightarrow> string + 'u" where
  "KueueClientset L = and_then (ToRESTConfig L) (kueue_NewForConfig L)"

definition KjobctlClientset :: "('k, 'u, 'j, 'r, 'd) client_libs \<Rightarrow> string + 'j" where
  "KjobctlClientset L = and_then (ToRESTConfig L) (kjobctl_NewForConfig L)"

definition RayClientset :: "('k, 'u, 'j, 'r, 'd) client_libs \<Rightarrow> string + 'r" where
  "RayClientset L = and_then (ToRESTConfig L) (ray_NewForConfig L)"

definition DynamicClient :: "('k, 'u, 'j, 'r, 'd) client_libs \<Rightarrow> string + 'd" where
  "DynamicClient L = and_then (ToRESTConfig L) (dynamic_NewForConfig L)"

text \<open>The part of \<open>ClientGetter\<close> the commands call: the namespace of the configuration and the clientsets.\<close>

record ('k, 'r) client_getter =
  cg_Namespace :: "string + string"
  cg_K8sClientset :: "string + 'k"
  cg_RayClientset :: "string + 'r"

end
