(* ===== verification/DeleteCmd.thy ===== *)
theory DeleteCmd
  imports CmdHelpers ModeBuilders
begin

text \<open>
  The commands \<open>kjobctl delete interactive|job|rayjob|raycluster|slurm\<close> (\<open>pkg/cmd/delete\<close>). The
  objects of one kind on the API server are a state of type \<open>'s\<close> that a client reads with \<open>Get\<close>
  and changes with \<open>Delete\<close>; both are parameters. A run threads that state and the list of what it
  did: the lines on the error stream, the calls of \<open>Delete\<close>, the texts on the output stream. Other
  clients of the server are not part of the model: nothing changes the state between two calls.
\<close>

section \<open>Clients and options\<close>

text \<open>\<open>metav1.DeletionPropagation\<close> is a string type.\<close>

type_synonym DeletionPropagation = string

definition DeletePropagationOrphan :: DeletionPropagation where "DeletePropagationOrphan = ''Orphan''"
definition DeletePropagationBackground :: DeletionPropagation where "DeletePropagationBackground = ''Background''"
definition DeletePropagationForeground :: DeletionPropagation where "DeletePropagationForeground = ''Foreground''"

definition DryRunAll :: string where "DryRunAll = ''All''"

record delete_options =
  do_PropagationPolicy :: "DeletionPropagation option"
  do_DryRun :: "string list"

record ('s, 'o) resource_client =
  cl_Get :: "'s \<Rightarrow> string \<Rightarrow> string \<Rightarrow> api_error + 'o"
  cl_Delete :: "'s \<Rightarrow> string \<Rightarrow> string \<Rightarrow> delete_options \<Rightarrow> 's \<times> api_error option"

record ('s, 'o) k8s_clients =
  BatchV1_Jobs :: "('s, 'o) resource_client"
  CoreV1_Pods :: "('s, 'o) resource_client"

record ('s, 'o) ray_clients =
  RayV1_RayJobs :: "('s, 'o) resource_client"
  RayV1_RayClusters :: "('s, 'o) resource_client"

type_synonym ('s, 'o) delete_getter = "(('s, 'o) k8s_clients, ('s, 'o) ray_clients) client_getter"

text \<open>The options of a delete command after \<open>Complete\<close>; the five structs differ in the type of the client.\<close>

record ('p, 's, 'o) delete_command_options =
  dc_PrintFlags :: 'p
  dc_Names :: "string list"
  dc_Namespace :: string
  dc_CascadeStrategy :: DeletionPropagation
  dc_DryRunStrategy :: DryRunStrategy
  dc_Client :: "('s, 'o) resource_client"
  dc_PrintObj :: "'o printer"

section \<open>Flags\<close>

definition addCascadingFlag :: "cmd_flags \<Rightarrow> cmd_flags" where
  "addCascadingFlag cmd = mput ''cascade'' ''background'' cmd"

definition getCascadingStrategy :: "cmd_flags \<Rightarrow> cmd_error + DeletionPropagation" where
  "getCascadingStrategy cmd =
     and_then (FlagString cmd ''cascade'') (\<lambda>cascadingFlag.
       if cascadingFlag = ''orphan'' then Inr DeletePropagationOrphan
       else if cascadingFlag = ''foreground'' then Inr DeletePropagationForeground
       else if cascadingFlag = ''background'' then Inr DeletePropagationBackground
       else Inl (InvalidCascade cascadingFlag))"

section \<open>Completing the options\<close>

definition interactive_delete_Complete ::
  "('p, 'o) print_api \<Rightarrow> 'p \<Rightarrow> ('s, 'o) delete_getter \<Rightarrow> cmd_flags \<Rightarrow> string list \<Rightarrow>
   cmd_error + ('p, 's, 'o) delete_command_options" where
  "interactive_delete_Complete P printFlags clientGetter cmd args =
     and_then (map_err ConfigError (cg_Namespace clientGetter)) (\<lambda>namespace.
     and_then (GetDryRunStrategy cmd) (\<lambda>dryRunStrategy.
     and_then (PrintFlagsWithDryRunStrategy P printFlags dryRunStrategy) (\<lambda>printFlags.
     and_then (getCascadingStrategy cmd) (\<lambda>cascadeStrategy.
     and_then (map_err PrintError (pf_ToPrinter P printFlags)) (\<lambda>printObj.
     and_then (map_err ConfigError (cg_K8sClientset clientGetter)) (\<lambda>clientset.
       Inr \<lparr>dc_PrintFlags = printFlags, dc_Names = args, dc_Namespace = namespace,
            dc_CascadeStrategy = cascadeStrategy, dc_DryRunStrategy = dryRunStrategy,
            dc_Client = CoreV1_Pods clientset, dc_PrintObj = printObj\<rparr>))))))"

definition job_delete_Complete ::
  "('p, 'o) print_api \<Rightarrow> 'p \<Rightarrow> ('s, 'o) delete_getter \<Rightarrow> cmd_flags \<Rightarrow> string list \<Rightarrow>
   cmd_error + ('p, 's, 'o) delete_command_options" where
  "job_delete_Complete P printFlags clientGetter cmd args =
     and_then (map_err ConfigError (cg_Namespace clientGetter)) (\<lambda>namespace.
     and_then (GetDryRunStrategy cmd) (\<lambda>dryRunStrategy.
     and_then (PrintFlagsWithDryRunStrategy P printFlags dryRunStrategy) (\<lambda>printFlags.
     and_then (getCascadingStrategy cmd) (\<lambda>cascadeStrategy.
     and_then (map_err PrintError (pf_ToPrinter P printFlags)) (\<lambda>printObj.
     and_then (map_err ConfigError (cg_K8sClientset clientGetter)) (\<lambda>clientset.
       Inr \<lparr>dc_PrintFlags = printFlags, dc_Names = args, dc_Namespace = namespace,
            dc_CascadeStrategy = cascadeStrategy, dc_DryRunStrategy = dryRunStrategy,
            dc_Client = BatchV1_Jobs clientset, dc_PrintObj = printObj\<rparr>))))))"

definition ray_job_delete_Complete ::
  "('p, 'o) print_api \<Rightarrow> 'p \<Rightarrow> ('s, 'o) delete_getter \<Rightarrow> cmd_flags \<Rightarrow> string list \<Rightarrow>
   cmd_error + ('p, 's, 'o) delete_command_options" where
  "ray_job_delete_Complete P printFlags clientGetter cmd args =
     and_then (map_err ConfigError (cg_Namespace clientGetter)) (\<lambda>namespace.
     and_then (GetDryRunStrategy cmd) (\<lambda>dryRunStrategy.
     and_then (PrintFlagsWithDryRunStrategy P printFlags dryRunStrategy) (\<lambda>printFlags.
     and_then (getCascadingStrategy cmd) (\<lambda>cascadeStrategy.
     and_then (map_err PrintError (pf_ToPrinter P printFlags)) (\<lambda>printObj.
     and_then (map_err ConfigError (cg_RayClientset clientGetter)) (\<lambda>clientset.
       Inr \<lparr>dc_PrintFlags = printFlags, dc_Names = args, dc_Namespace = namespace,
            dc_CascadeStrategy = cascadeStrategy, dc_DryRunStrategy = dryRunStrategy,
            dc_Client = RayV1_RayJobs clientset, dc_PrintObj = printObj\<rparr>))))))"

definition ray_cluster_delete_Complete ::
  "('p, 'o) print_api \<Rightarrow> 'p \<Rightarrow> ('s, 'o) delete_getter \<Rightarrow> cmd_flags \<Rightarrow> string list \<Rightarrow>
   cmd_error + ('p, 's, 'o) delete_command_options" where
  "ray_cluster_delete_Complete P printFlags clientGetter cmd args =
     and_then (map_err ConfigError (cg_Namespace clientGetter)) (\<lambda>namespace.
     and_then (GetDryRunStrategy cmd) (\<lambda>dryRunStrategy.
     and_then (PrintFlagsWithDryRunStrategy P printFlags dryRunStrategy) (\<lambda>printFlags.
     and_then (getCascadingStrategy cmd) (\<lambda>cascadeStrategy.
     and_then (map_err PrintError (pf_ToPrinter P printFlags)) (\<lambda>printObj.
     and_then (map_err ConfigError (cg_RayClientset clientGetter)) (\<lambda>clientset.
       Inr \<lparr>dc_PrintFlags = printFlags, dc_Names = args, dc_Namespace = namespace,
            dc_CascadeStrategy = cascadeStrategy, dc_DryRunStrategy = dryRunStrategy,
            dc_Client = RayV1_RayClusters clientset, dc_PrintObj = printObj\<rparr>))))))"

definition slurm_delete_Complete ::
  "('p, 'o) print_api \<Rightarrow> 'p \<Rightarrow> ('s, 'o) delete_getter \<Rightarrow> cmd_flags \<Rightarrow> string list \<Rightarrow>
   cmd_error + ('p, 's, 'o) delete_command_options" where
  "slurm_delete_Complete P printFlags clientGetter cmd args =
     and_then (map_err ConfigError (cg_Namespace clientGetter)) (\<lambda>namespace.
     and_then (GetDryRunStrategy cmd) (\<lambda>dryRunStrategy.
     and_then (PrintFlagsWithDryRunStrategy P printFlags dryRunStrategy) (\<lambda>printFlags.
     and_then (getCascadingStrategy cmd) (\<lambda>cascadeStrategy.
     and_then (map_err PrintError (pf_ToPrinter P printFlags)) (\<lambda>printObj.
     and_then (map_err ConfigError (cg_K8sClientset clientGetter)) (\<lambda>clientset.
       Inr \<lparr>dc_PrintFlags = printFlags, dc_Names = args, dc_Namespace = namespace,
            dc_CascadeStrategy = cascadeStrategy, dc_DryRunStrategy = dryRunStrategy,
            dc_Client = BatchV1_Jobs clientset, dc_PrintObj = printObj\<rparr>))))))"

section \<open>Running\<close>

text \<open>What a run does besides changing the objects: standard error, calls of \<open>Delete\<close>, standard output.\<close>

datatype delete_event = ErrOut string | DeleteCall string string delete_options | Out string

record 's delete_state =
  ds_objects :: 's
  ds_events :: "delete_event list"

definition emit :: "delete_event \<Rightarrow> 's delete_state \<Rightarrow> 's delete_state" where
  "emit e st = st\<lparr>ds_events := ds_events st @ [e]\<rparr>"

text \<open>The end of a round: the deletion, unless the client only pretends, and the printing.\<close>

definition delete_opts_of :: "('p, 's, 'o) delete_command_options \<Rightarrow> delete_options" where
  "delete_opts_of opt =
     \<lparr>do_PropagationPolicy = Some (dc_CascadeStrategy opt),
      do_DryRun = (if dc_DryRunStrategy opt = DryRunServer then [DryRunAll] else [])\<rparr>"

definition delete_call ::
  "('p, 's, 'o) delete_command_options \<Rightarrow> string \<Rightarrow> 's delete_state \<Rightarrow> 's delete_state \<times> api_error option" where
  "delete_call opt name st =
     (if dc_DryRunStrategy opt \<noteq> DryRunClient
      then let (objects, err) =
                 cl_Delete (dc_Client opt) (ds_objects st) (dc_Namespace opt) name (delete_opts_of opt)
           in (emit (DeleteCall (dc_Namespace opt) name (delete_opts_of opt)) (st\<lparr>ds_objects := objects\<rparr>), err)
      else (st, None))"

definition print_object ::
  "('p, 's, 'o) delete_command_options \<Rightarrow> 'o \<Rightarrow> 's delete_state \<Rightarrow> 's delete_state \<times> cmd_error option" where
  "print_object opt obj st =
     (case dc_PrintObj opt obj of Inl e \<Rightarrow> (st, Some (PrintError e)) | Inr t \<Rightarrow> (emit (Out t) st, None))"

definition newline :: string where "newline = [CHR 0x0A]"

definition not_via_kjob :: "string \<Rightarrow> string \<Rightarrow> string" where
  "not_via_kjob resource name = resource @ '' \"'' @ name @ ''\" not created via kjob'' @ newline"

definition other_mode :: "string \<Rightarrow> string \<Rightarrow> string \<Rightarrow> string" where
  "other_mode resource name mode =
     resource @ '' \"'' @ name @ ''\" created in \"'' @ mode @ ''\" mode. Switch to the correct mode to delete it'' @ newline"

definition interactive_delete_step ::
  "('p, 's, 'q runtime_object) delete_command_options \<Rightarrow> string \<Rightarrow> 's delete_state \<Rightarrow>
   's delete_state \<times> cmd_error option" where
  "interactive_delete_step opt name st =
     (case cl_Get (dc_Client opt) (ds_objects st) (dc_Namespace opt) name of
       Inl err \<Rightarrow>
         if IgnoreNotFound err \<noteq> None then (st, Some (ApiFailure err))
         else (emit (ErrOut (api_message err @ newline)) st, None)
     | Inr pod \<Rightarrow>
         let meta = object_meta_of pod
         in if label_of meta ProfileLabel = None
            then (emit (ErrOut (not_via_kjob ''pods'' (meta_Name meta))) st, None)
            else case delete_call opt name st of
                (st', Some e) \<Rightarrow> (st', Some (ApiFailure e))
              | (st', None) \<Rightarrow> print_object opt pod st')"

definition interactive_delete_Run ::
  "('p, 's, 'q runtime_object) delete_command_options \<Rightarrow> 's delete_state \<Rightarrow> 's delete_state \<times> cmd_error option" where
  "interactive_delete_Run opt st = for_each (interactive_delete_step opt) (dc_Names opt) st"

definition job_delete_step ::
  "('p, 's, 'q runtime_object) delete_command_options \<Rightarrow> string \<Rightarrow> 's delete_state \<Rightarrow>
   's delete_state \<times> cmd_error option" where
  "job_delete_step opt name st =
     (case cl_Get (dc_Client opt) (ds_objects st) (dc_Namespace opt) name of
       Inl err \<Rightarrow>
         if IgnoreNotFound err \<noteq> None then (st, Some (ApiFailure err))
         else (emit (ErrOut (api_message err @ newline)) st, None)
     | Inr job \<Rightarrow>
         let meta = object_meta_of job
         in if label_of meta ProfileLabel = None
            then (emit (ErrOut (not_via_kjob ''jobs.batch'' (meta_Name meta))) st, None)
            else if deref (label_of meta ModeLabel) [] \<noteq> mode_name JobMode
            then (emit (ErrOut (other_mode ''jobs.batch'' (meta_Name meta) (deref (label_of meta ModeLabel) []))) st, None)
            else case delete_call opt name st of
                (st', Some e) \<Rightarrow> (st', Some (ApiFailure e))
              | (st', None) \<Rightarrow> print_object opt job st')"

definition job_delete_Run ::
  "('p, 's, 'q runtime_object) delete_command_options \<Rightarrow> 's delete_state \<Rightarrow> 's delete_state \<times> cmd_error option" where
  "job_delete_Run opt st = for_each (job_delete_step opt) (dc_Names opt) st"

definition ray_job_delete_step ::
  "('p, 's, 'q runtime_object) delete_command_options \<Rightarrow> string \<Rightarrow> 's delete_state \<Rightarrow>
   's delete_state \<times> cmd_error option" where
  "ray_job_delete_step opt name st =
     (case cl_Get (dc_Client opt) (ds_objects st) (dc_Namespace opt) name of
       Inl err \<Rightarrow>
         if IgnoreNotFound err \<noteq> None then (st, Some (ApiFailure err))
         else (emit (ErrOut (api_message err @ newline)) st, None)
     | Inr rayJob \<Rightarrow>
         let meta = object_meta_of rayJob
         in if label_of meta ProfileLabel = None
            then (emit (ErrOut (not_via_kjob ''rayjobs.ray.io'' (meta_Name meta))) st, None)
            else case delete_call opt name st of
                (st', Some e) \<Rightarrow> (st', Some (ApiFailure e))
              | (st', None) \<Rightarrow> print_object opt rayJob st')"

definition ray_job_delete_Run ::
  "('p, 's, 'q runtime_object) delete_command_options \<Rightarrow> 's delete_state \<Rightarrow> 's delete_state \<times> cmd_error option" where
  "ray_job_delete_Run opt st = for_each (ray_job_delete_step opt) (dc_Names opt) st"

definition ray_cluster_delete_step ::
  "('p, 's, 'q runtime_object) delete_command_options \<Rightarrow> string \<Rightarrow> 's delete_state \<Rightarrow>
   's delete_state \<times> cmd_error option" where
  "ray_cluster_delete_step opt name st =
     (case cl_Get (dc_Client opt) (ds_objects st) (dc_Namespace opt) name of
       Inl err \<Rightarrow>
         if IgnoreNotFound err \<noteq> None then (st, Some (ApiFailure err))
         else (emit (ErrOut (api_message err @ newline)) st, None)
     | Inr rayCluster \<Rightarrow>
         let meta = object_meta_of rayCluster
         in if label_of meta ProfileLabel = None
            then (emit (ErrOut (not_via_kjob ''rayclusters.ray.io'' (meta_Name meta))) st, None)
            else case delete_call opt name st of
                (st', Some e) \<Rightarrow> (st', Some (ApiFailure e))
              | (st', None) \<Rightarrow> print_object opt rayCluster st')"

definition ray_cluster_delete_Run ::
  "('p, 's, 'q runtime_object) delete_command_options \<Rightarrow> 's delete_state \<Rightarrow> 's delete_state \<times> cmd_error option" where
  "ray_cluster_delete_Run opt st = for_each (ray_cluster_delete_step opt) (dc_Names opt) st"

definition slurm_delete_step ::
  "('p, 's, 'q runtime_object) delete_command_options \<Rightarrow> string \<Rightarrow> 's delete_state \<Rightarrow>
   's delete_state \<times> cmd_error option" where
  "slurm_delete_step opt name st =
     (case cl_Get (dc_Client opt) (ds_objects st) (dc_Namespace opt) name of
       Inl err \<Rightarrow>
         if IgnoreNotFound err \<noteq> None then (st, Some (ApiFailure err))
         else (emit (ErrOut (api_message err @ newline)) st, None)
     | Inr job \<Rightarrow>
         let meta = object_meta_of job
         in if label_of meta ProfileLabel = None
            then (emit (ErrOut (not_via_kjob ''jobs.batch'' (meta_Name meta))) st, None)
            else if deref (label_of meta ModeLabel) [] \<noteq> mode_name SlurmMode
            then (emit (ErrOut (other_mode ''jobs.batch'' (meta_Name meta) (deref (label_of meta ModeLabel) []))) st, None)
            else case delete_call opt name st of
                (st', Some e) \<Rightarrow> (st', Some (ApiFailure e))
              | (st', None) \<Rightarrow> print_object opt job st')"

definition slurm_delete_Run ::
  "('p, 's, 'q runtime_object) delete_command_options \<Rightarrow> 's delete_state \<Rightarrow> 's delete_state \<times> cmd_error option" where
  "slurm_delete_Run opt st = for_each (slurm_delete_step opt) (dc_Names opt) st"

section \<open>The commands\<close>

text \<open>The function \<open>RunE\<close> of each command; cobra refuses a call without arguments before it.\<close>

definition interactive_delete_cmd ::
  "('p, 'q runtime_object) print_api \<Rightarrow> ('s, 'q runtime_object) delete_getter \<Rightarrow> cmd_flags \<Rightarrow> string list \<Rightarrow>
   's delete_state \<Rightarrow> 's delete_state \<times> cmd_error option" where
  "interactive_delete_cmd P clientGetter cmd args st =
     (if args = [] then (st, Some NotEnoughArgs)
      else case interactive_delete_Complete P (NewPrintFlags P ''deleted'') clientGetter cmd args of
        Inl err \<Rightarrow> (st, Some err)
      | Inr opt \<Rightarrow> interactive_delete_Run opt st)"

definition job_delete_cmd ::
  "('p, 'q runtime_object) print_api \<Rightarrow> ('s, 'q runtime_object) delete_getter \<Rightarrow> cmd_flags \<Rightarrow> string list \<Rightarrow>
   's delete_state \<Rightarrow> 's delete_state \<times> cmd_error option" where
  "job_delete_cmd P clientGetter cmd args st =
     (if args = [] then (st, Some NotEnoughArgs)
      else case job_delete_Complete P (NewPrintFlags P ''deleted'') clientGetter cmd args of
        Inl err \<Rightarrow> (st, Some err)
      | Inr opt \<Rightarrow> job_delete_Run opt st)"

definition ray_job_delete_cmd ::
  "('p, 'q runtime_object) print_api \<Rightarrow> ('s, 'q runtime_object) delete_getter \<Rightarrow> cmd_flags \<Rightarrow> string list \<Rightarrow>
   's delete_state \<Rightarrow> 's delete_state \<times> cmd_error option" where
  "ray_job_delete_cmd P clientGetter cmd args st =
     (if args = [] then (st, Some NotEnoughArgs)
      else case ray_job_delete_Complete P (NewPrintFlags P ''deleted'') clientGetter cmd args of
        Inl err \<Rightarrow> (st, Some err)
      | Inr opt \<Rightarrow> ray_job_delete_Run opt st)"

definition ray_cluster_delete_cmd ::
  "('p, 'q runtime_object) print_api \<Rightarrow> ('s, 'q runtime_object) delete_getter \<Rightarrow> cmd_flags \<Rightarrow> string list \<Rightarrow>
   's delete_state \<Rightarrow> 's delete_state \<times> cmd_error option" where
  "ray_cluster_delete_cmd P clientGetter cmd args st =
     (if args = [] then (st, Some NotEnoughArgs)
      else case ray_cluster_delete_Complete P (NewPrintFlags P ''deleted'') clientGetter cmd args of
        Inl err \<Rightarrow> (st, Some err)
      | Inr opt \<Rightarrow> ray_cluster_delete_Run opt st)"

definition slurm_delete_cmd ::
  "('p, 'q runtime_object) print_api \<Rightarrow> ('s, 'q runtime_object) delete_getter \<Rightarrow> cmd_flags \<Rightarrow> string list \<Rightarrow>
   's delete_state \<Rightarrow> 's delete_state \<times> cmd_error option" where
  "slurm_delete_cmd P clientGetter cmd args st =
     (if args = [] then (st, Some NotEnoughArgs)
      else case slurm_delete_Complete P (NewPrintFlags P ''deleted'') clientGetter cmd args of
        Inl err \<Rightarrow> (st, Some err)
      | Inr opt \<Rightarrow> slurm_delete_Run opt st)"

definition NewDeleteCmd ::
  "application_profile_mode \<Rightarrow> ('p, 'q runtime_object) print_api \<Rightarrow> ('s, 'q runtime_object) delete_getter \<Rightarrow>
   cmd_flags \<Rightarrow> string list \<Rightarrow> 's delete_state \<Rightarrow> 's delete_state \<times> cmd_error option" where
  "NewDeleteCmd mode =
     (case mode of
       InteractiveMode \<Rightarrow> interactive_delete_cmd
     | JobMode \<Rightarrow> job_delete_cmd
     | RayJobMode \<Rightarrow> ray_job_delete_cmd
     | RayClusterMode \<Rightarrow> ray_cluster_delete_cmd
     | SlurmMode \<Rightarrow> slurm_delete_cmd)"

definition delete_Run ::
  "application_profile_mode \<Rightarrow> ('p, 's, 'q runtime_object) delete_command_options \<Rightarrow>
   's delete_state \<Rightarrow> 's delete_state \<times> cmd_error option" where
  "delete_Run mode =
     (case mode of
       InteractiveMode \<Rightarrow> interactive_delete_Run
     | JobMode \<Rightarrow> job_delete_Run
     | RayJobMode \<Rightarrow> ray_job_delete_Run
     | RayClusterMode \<Rightarrow> ray_cluster_delete_Run
     | SlurmMode \<Rightarrow> slurm_delete_Run)"

section \<open>The contract of a delete command\<close>

text \<open>
  What the API server promises of a deletion: it concerns only the object it names, and with a
  dry run it changes nothing. Nothing is said of the named object itself: the server may remove it
  at once, or keep it readable while it is terminated gracefully, while a finalizer holds it, or
  while its dependents are deleted in the foreground.
\<close>

definition frame_client :: "('s, 'o) resource_client \<Rightarrow> bool" where
  "frame_client C \<longleftrightarrow>
     (\<forall>s ns n opts ns' n'. ns' \<noteq> ns \<or> n' \<noteq> n \<or> do_DryRun opts = [DryRunAll] \<longrightarrow>
        cl_Get C (fst (cl_Delete C s ns n opts)) ns' n' = cl_Get C s ns' n')"

text \<open>
  The abstract command: it looks up the names in one state of the server, selects those whose object
  it may delete (\<open>found\<close>), and sends one request for each of them, in that order (\<open>send_deletes\<close>);
  a client dry run sends none (\<open>sent\<close>).
\<close>

definition found ::
  "(object_meta \<Rightarrow> bool) \<Rightarrow> ('p, 's, 'q runtime_object) delete_command_options \<Rightarrow> string list \<Rightarrow> 's \<Rightarrow>
   (string \<times> 'q runtime_object) list" where
  "found may opt targets s =
     concat (map (\<lambda>n. case cl_Get (dc_Client opt) s (dc_Namespace opt) n of
       Inl e \<Rightarrow> []
     | Inr obj \<Rightarrow> if may (object_meta_of obj) then [(n, obj)] else []) targets)"

definition sent :: "('p, 's, 'o) delete_command_options \<Rightarrow> (string \<times> 'o) list \<Rightarrow> string list" where
  "sent opt ps = (if dc_DryRunStrategy opt = DryRunClient then [] else map fst ps)"

definition send_deletes :: "('p, 's, 'o) delete_command_options \<Rightarrow> string list \<Rightarrow> 's \<Rightarrow> 's" where
  "send_deletes opt targets s =
     foldl (\<lambda>s n. fst (cl_Delete (dc_Client opt) s (dc_Namespace opt) n (delete_opts_of opt))) s targets"

text \<open>The requests and the printed texts among the events of a run.\<close>

definition delete_calls :: "delete_event list \<Rightarrow> (string \<times> string \<times> delete_options) list" where
  "delete_calls evs = concat (map (\<lambda>e. case e of DeleteCall ns n d \<Rightarrow> [(ns, n, d)] | _ \<Rightarrow> []) evs)"

definition delete_outputs :: "delete_event list \<Rightarrow> string list" where
  "delete_outputs evs = concat (map (\<lambda>e. case e of Out t \<Rightarrow> [t] | _ \<Rightarrow> []) evs)"

lemma delete_calls_append [simp]: "delete_calls (xs @ ys) = delete_calls xs @ delete_calls ys"
  by (simp add: delete_calls_def)

lemma delete_outputs_append [simp]: "delete_outputs (xs @ ys) = delete_outputs xs @ delete_outputs ys"
  by (simp add: delete_outputs_def)

lemma found_append [simp]: "found may opt (xs @ ys) s = found may opt xs s @ found may opt ys s"
  by (simp add: found_def)

lemma found_Nil [simp]: "found may opt [] s = []"
  by (simp add: found_def)

lemma found_cong:
  "(\<And>n. n \<in> set xs \<Longrightarrow> cl_Get (dc_Client opt) s (dc_Namespace opt) n = cl_Get (dc_Client opt) s' (dc_Namespace opt) n) \<Longrightarrow>
   found may opt xs s = found may opt xs s'"
  unfolding found_def by (intro arg_cong [of _ _ concat] map_cong) simp_all

lemma found_mem:
  "(n, obj) \<in> set (found may opt xs s) \<longleftrightarrow>
   n \<in> set xs \<and> cl_Get (dc_Client opt) s (dc_Namespace opt) n = Inr obj \<and> may (object_meta_of obj)"
  by (auto simp: found_def split: sum.splits if_splits)

lemma sent_append [simp]: "sent opt (ps @ qs) = sent opt ps @ sent opt qs"
  by (simp add: sent_def)

lemma send_deletes_append [simp]:
  "send_deletes opt (xs @ ys) s = send_deletes opt ys (send_deletes opt xs s)"
  by (simp add: send_deletes_def)

text \<open>
  The round for one name, whatever the kind of the objects: another error than \<open>NotFound\<close> ends the
  command, a missing object and an object the command may not delete are reported and skipped, and
  any other object is deleted and printed.
\<close>

locale delete_command =
  fixes step :: "('p, 's, 'q runtime_object) delete_command_options \<Rightarrow> string \<Rightarrow> 's delete_state \<Rightarrow>
      's delete_state \<times> cmd_error option"
    and may :: "object_meta \<Rightarrow> bool"
  assumes get_fails:
      "cl_Get (dc_Client opt) (ds_objects st) (dc_Namespace opt) name = Inl (OtherError m) \<Longrightarrow>
       step opt name st = (st, Some (ApiFailure (OtherError m)))"
    and not_found:
      "cl_Get (dc_Client opt) (ds_objects st) (dc_Namespace opt) name = Inl (NotFoundError m) \<Longrightarrow>
       step opt name st = (emit (ErrOut (m @ newline)) st, None)"
    and refused:
      "\<lbrakk>cl_Get (dc_Client opt) (ds_objects st) (dc_Namespace opt) name = Inr obj; \<not> may (object_meta_of obj)\<rbrakk> \<Longrightarrow>
       \<exists>t. step opt name st = (emit (ErrOut t) st, None)"
    and accepted:
      "\<lbrakk>cl_Get (dc_Client opt) (ds_objects st) (dc_Namespace opt) name = Inr obj; may (object_meta_of obj)\<rbrakk> \<Longrightarrow>
       step opt name st =
         (case delete_call opt name st of
           (st', Some e) \<Rightarrow> (st', Some (ApiFailure e))
         | (st', None) \<Rightarrow> print_object opt obj st')"
begin

text \<open>A round either leaves the objects alone or is one call of \<open>Delete\<close> on an object it may delete.\<close>

lemma step_objects:
  obtains (same) "ds_objects (fst (step opt name st)) = ds_objects st"
  | (deleted) obj where "cl_Get (dc_Client opt) (ds_objects st) (dc_Namespace opt) name = Inr obj"
      and "may (object_meta_of obj)" and "dc_DryRunStrategy opt \<noteq> DryRunClient"
      and "ds_objects (fst (step opt name st)) =
        fst (cl_Delete (dc_Client opt) (ds_objects st) (dc_Namespace opt) name (delete_opts_of opt))"
proof (cases "cl_Get (dc_Client opt) (ds_objects st) (dc_Namespace opt) name")
  case (Inl err)
  then have "ds_objects (fst (step opt name st)) = ds_objects st"
    using get_fails not_found by (cases err) (simp_all add: emit_def)
  then show thesis by (rule same)
next
  case (Inr obj)
  show thesis
  proof (cases "may (object_meta_of obj)")
    case False
    with refused [OF Inr] have "ds_objects (fst (step opt name st)) = ds_objects st" by (auto simp: emit_def)
    then show thesis by (rule same)
  next
    case True
    have "ds_objects (fst (step opt name st)) = ds_objects (fst (delete_call opt name st))"
      using accepted [OF Inr True]
      by (auto simp: print_object_def emit_def split: prod.splits option.splits sum.splits)
    then show thesis
      using same deleted [OF Inr True]
      by (cases "dc_DryRunStrategy opt = DryRunClient") (auto simp: delete_call_def emit_def split: prod.splits)
  qed
qed

text \<open>The events of a round: calls of \<open>Delete\<close> carry the options of the command.\<close>

lemma step_events:
  "\<exists>evs. ds_events (fst (step opt name st)) = ds_events st @ evs \<and>
    (\<forall>ns n d. DeleteCall ns n d \<in> set evs \<longrightarrow>
      ns = dc_Namespace opt \<and> n = name \<and> d = delete_opts_of opt \<and> dc_DryRunStrategy opt \<noteq> DryRunClient)"
proof (cases "cl_Get (dc_Client opt) (ds_objects st) (dc_Namespace opt) name")
  case (Inl err)
  then show ?thesis using get_fails not_found by (cases err) (simp_all add: emit_def)
next
  case (Inr obj)
  show ?thesis
  proof (cases "may (object_meta_of obj)")
    case False
    with refused [OF Inr] show ?thesis by (auto simp: emit_def)
  next
    case True
    then show ?thesis
      using accepted [OF Inr True]
      by (auto simp: delete_call_def print_object_def emit_def split: prod.splits option.splits sum.splits)
  qed
qed

lemma run_client_dry_run:
  "dc_DryRunStrategy opt = DryRunClient \<Longrightarrow> ds_objects (fst (for_each (step opt) targets st)) = ds_objects st"
  by (rule for_each_invariant [where I = "\<lambda>s. ds_objects s = ds_objects st"]) (simp, metis step_objects)

lemma run_events:
  "\<exists>evs. ds_events (fst (for_each (step opt) targets st)) = ds_events st @ evs \<and>
    (\<forall>ns n d. DeleteCall ns n d \<in> set evs \<longrightarrow>
      ns = dc_Namespace opt \<and> n \<in> set targets \<and> d = delete_opts_of opt \<and> dc_DryRunStrategy opt \<noteq> DryRunClient)"
  (is "?I (fst (for_each (step opt) targets st))")
proof (rule for_each_invariant [where I = ?I])
  fix x and s :: "'s delete_state"
  assume x: "x \<in> set targets" and I: "?I s"
  from I obtain evs where e: "ds_events s = ds_events st @ evs"
    "\<forall>ns n d. DeleteCall ns n d \<in> set evs \<longrightarrow>
      ns = dc_Namespace opt \<and> n \<in> set targets \<and> d = delete_opts_of opt \<and> dc_DryRunStrategy opt \<noteq> DryRunClient"
    by blast
  from step_events [of opt x s] obtain evs' where e': "ds_events (fst (step opt x s)) = ds_events s @ evs'"
    "\<forall>ns n d. DeleteCall ns n d \<in> set evs' \<longrightarrow>
      ns = dc_Namespace opt \<and> n = x \<and> d = delete_opts_of opt \<and> dc_DryRunStrategy opt \<noteq> DryRunClient"
    by blast
  show "?I (fst (step opt x s))"
    by (rule exI [of _ "evs @ evs'"]) (use e e' x in auto)
qed simp

text \<open>
  What a run keeps, whatever fails on the way, when a deletion changes only the object it names and
  a dry run of the server changes nothing.
\<close>

lemma run_keeps:
  assumes client: "frame_client (dc_Client opt)" and obj: "cl_Get (dc_Client opt) (ds_objects st) ns n = Inr obj"
    and safe: "\<not> may (object_meta_of obj) \<or> n \<notin> set targets \<or> ns \<noteq> dc_Namespace opt \<or>
      dc_DryRunStrategy opt \<noteq> DryRunNone"
  shows "cl_Get (dc_Client opt) (ds_objects (fst (for_each (step opt) targets st))) ns n = Inr obj"
proof (rule for_each_invariant [where I = "\<lambda>s. cl_Get (dc_Client opt) (ds_objects s) ns n = Inr obj"])
  fix x and s :: "'s delete_state"
  assume x: "x \<in> set targets" and I: "cl_Get (dc_Client opt) (ds_objects s) ns n = Inr obj"
  show "cl_Get (dc_Client opt) (ds_objects (fst (step opt x s))) ns n = Inr obj"
  proof (cases rule: step_objects [where opt = opt and name = x and st = s])
    case same
    with I show ?thesis by simp
  next
    case (deleted obj')
    have "ns \<noteq> dc_Namespace opt \<or> n \<noteq> x \<or> do_DryRun (delete_opts_of opt) = [DryRunAll]"
      using safe x I deleted(1-3) by (cases "dc_DryRunStrategy opt") (auto simp: delete_opts_of_def)
    with deleted(4) I client show ?thesis by (simp add: frame_client_def)
  qed
qed (rule obj)

text \<open>
  One round sends the request and prints the object exactly when its name is found; it fails only
  when the server or the printer does.
\<close>

lemma step_found:
  assumes "step opt x st = (st1, r)"
  shows "\<exists>evs. ds_events st1 = ds_events st @ evs \<and>
    ds_objects st1 = send_deletes opt (sent opt (found may opt [x] (ds_objects st))) (ds_objects st) \<and>
    delete_calls evs =
      map (\<lambda>n. (dc_Namespace opt, n, delete_opts_of opt)) (sent opt (found may opt [x] (ds_objects st))) \<and>
    (r = None \<longrightarrow> map Inr (delete_outputs evs) = map (\<lambda>(n, obj). dc_PrintObj opt obj) (found may opt [x] (ds_objects st)))"
proof (cases "cl_Get (dc_Client opt) (ds_objects st) (dc_Namespace opt) x")
  case (Inl err)
  then show ?thesis using assms get_fails not_found
    by (cases err) (auto simp: emit_def found_def sent_def send_deletes_def delete_calls_def delete_outputs_def)
next
  case (Inr obj)
  show ?thesis
  proof (cases "may (object_meta_of obj)")
    case False
    with refused [OF Inr] assms Inr show ?thesis
      by (auto simp: emit_def found_def sent_def send_deletes_def delete_calls_def delete_outputs_def)
  next
    case True
    with accepted [OF Inr True] assms Inr show ?thesis
      by (auto simp: delete_call_def print_object_def emit_def found_def sent_def send_deletes_def
          delete_calls_def delete_outputs_def split: prod.splits option.splits sum.splits if_splits)
  qed
qed

lemma step_succeeds:
  assumes "\<And>m. cl_Get (dc_Client opt) (ds_objects st) (dc_Namespace opt) x \<noteq> Inl (OtherError m)"
    and "\<And>obj. (x, obj) \<in> set (found may opt [x] (ds_objects st)) \<Longrightarrow> is_ok (dc_PrintObj opt obj) \<and>
      snd (cl_Delete (dc_Client opt) (ds_objects st) (dc_Namespace opt) x (delete_opts_of opt)) = None"
  shows "snd (step opt x st) = None"
proof (cases "cl_Get (dc_Client opt) (ds_objects st) (dc_Namespace opt) x")
  case (Inl err)
  then show ?thesis using assms(1) not_found by (cases err) simp_all
next
  case (Inr obj)
  show ?thesis
  proof (cases "may (object_meta_of obj)")
    case False
    with refused [OF Inr] show ?thesis by auto
  next
    case True
    with Inr have "is_ok (dc_PrintObj opt obj)"
      "snd (cl_Delete (dc_Client opt) (ds_objects st) (dc_Namespace opt) x (delete_opts_of opt)) = None"
      using assms(2) [of obj] by (simp_all add: found_mem)
    with accepted [OF Inr True] show ?thesis
      by (auto simp: delete_call_def print_object_def is_ok_iff split: prod.splits)
  qed
qed

text \<open>A round leaves the other names as they were.\<close>

lemma step_get_other:
  assumes "frame_client (dc_Client opt)" and "n \<noteq> x"
  shows "cl_Get (dc_Client opt) (ds_objects (fst (step opt x st))) ns n = cl_Get (dc_Client opt) (ds_objects st) ns n"
  using assms by (cases rule: step_objects [where opt = opt and name = x and st = st]) (simp_all add: frame_client_def)

lemma step_found_other:
  assumes "frame_client (dc_Client opt)" and "x \<notin> set xs"
  shows "found may opt xs (ds_objects (fst (step opt x st))) = found may opt xs (ds_objects st)"
  using assms by (intro found_cong step_get_other) auto

text \<open>
  A run of distinct names is the abstract command on the state it starts in: it sends the requests of
  a prefix of the names found there, and when it returns no error all of them, each object printed.
\<close>

lemma run_found:
  assumes client: "frame_client (dc_Client opt)"
    and "distinct targets" and "for_each (step opt) targets st = (st', err)"
  shows "\<exists>evs ps. ds_events st' = ds_events st @ evs \<and> prefix ps (found may opt targets (ds_objects st)) \<and>
    ds_objects st' = send_deletes opt (sent opt ps) (ds_objects st) \<and>
    delete_calls evs = map (\<lambda>n. (dc_Namespace opt, n, delete_opts_of opt)) (sent opt ps) \<and>
    (err = None \<longrightarrow> ps = found may opt targets (ds_objects st) \<and>
      map Inr (delete_outputs evs) = map (\<lambda>(n, obj). dc_PrintObj opt obj) ps)"
  using assms(2,3)
proof (induction targets arbitrary: st)
  case Nil
  then show ?case by (auto simp: sent_def send_deletes_def delete_calls_def delete_outputs_def)
next
  case (Cons x xs)
  obtain st1 r where s1: "step opt x st = (st1, r)" by fastforce
  let ?f = "found may opt [x] (ds_objects st)"
  have all: "found may opt (x # xs) (ds_objects st) = ?f @ found may opt xs (ds_objects st)"
    using found_append [of may opt "[x]" xs] by simp
  from step_found [OF s1] obtain evs1 where e1: "ds_events st1 = ds_events st @ evs1"
      "ds_objects st1 = send_deletes opt (sent opt ?f) (ds_objects st)"
      "delete_calls evs1 = map (\<lambda>n. (dc_Namespace opt, n, delete_opts_of opt)) (sent opt ?f)"
      "r = None \<longrightarrow> map Inr (delete_outputs evs1) = map (\<lambda>(n, obj). dc_PrintObj opt obj) ?f" by blast
  show ?case
  proof (cases r)
    case (Some e)
    with Cons.prems(2) s1 have "st' = st1" "err = Some e" by simp_all
    with e1 show ?thesis by (intro exI [of _ evs1] exI [of _ ?f]) (simp add: all)
  next
    case None
    with Cons.prems(2) s1 have run: "for_each (step opt) xs st1 = (st', err)" by simp
    have rest: "found may opt xs (ds_objects st1) = found may opt xs (ds_objects st)"
      using step_found_other [OF client, of x xs st] Cons.prems(1) s1 by simp
    from Cons.IH [OF _ run] Cons.prems(1) obtain evs ps where
        "ds_events st' = ds_events st1 @ evs" "prefix ps (found may opt xs (ds_objects st))"
        "ds_objects st' = send_deletes opt (sent opt ps) (ds_objects st1)"
        "delete_calls evs = map (\<lambda>n. (dc_Namespace opt, n, delete_opts_of opt)) (sent opt ps)"
        "err = None \<longrightarrow> ps = found may opt xs (ds_objects st) \<and>
          map Inr (delete_outputs evs) = map (\<lambda>(n, obj). dc_PrintObj opt obj) ps"
      unfolding rest by auto
    with e1 None show ?thesis by (intro exI [of _ "evs1 @ evs"] exI [of _ "?f @ ps"]) (simp add: all)
  qed
qed

lemma run_succeeds:
  assumes client: "frame_client (dc_Client opt)" and "distinct targets"
    and "\<forall>n \<in> set targets. \<forall>m. cl_Get (dc_Client opt) (ds_objects st) (dc_Namespace opt) n \<noteq> Inl (OtherError m)"
    and "\<forall>(n, obj) \<in> set (found may opt targets (ds_objects st)). is_ok (dc_PrintObj opt obj) \<and>
      (\<forall>s. cl_Get (dc_Client opt) s (dc_Namespace opt) n = Inr obj \<longrightarrow>
        snd (cl_Delete (dc_Client opt) s (dc_Namespace opt) n (delete_opts_of opt)) = None)"
  shows "snd (for_each (step opt) targets st) = None"
  using assms(2-)
proof (induction targets arbitrary: st)
  case (Cons x xs)
  have "snd (step opt x st) = None"
  proof (rule step_succeeds)
    fix obj assume "(x, obj) \<in> set (found may opt [x] (ds_objects st))"
    then have "(x, obj) \<in> set (found may opt (x # xs) (ds_objects st))"
      and "cl_Get (dc_Client opt) (ds_objects st) (dc_Namespace opt) x = Inr obj" by (simp_all add: found_mem)
    with Cons.prems(3) show "is_ok (dc_PrintObj opt obj) \<and>
        snd (cl_Delete (dc_Client opt) (ds_objects st) (dc_Namespace opt) x (delete_opts_of opt)) = None" by blast
  qed (use Cons.prems(2) in simp)
  moreover have "snd (for_each (step opt) xs (fst (step opt x st))) = None"
  proof (rule Cons.IH)
    show "distinct xs" using Cons.prems(1) by simp
    have other: "cl_Get (dc_Client opt) (ds_objects (fst (step opt x st))) (dc_Namespace opt) n =
        cl_Get (dc_Client opt) (ds_objects st) (dc_Namespace opt) n" if "n \<in> set xs" for n
      using that Cons.prems(1) by (intro step_get_other [OF client]) auto
    with Cons.prems(2) show "\<forall>n \<in> set xs. \<forall>m.
        cl_Get (dc_Client opt) (ds_objects (fst (step opt x st))) (dc_Namespace opt) n \<noteq> Inl (OtherError m)" by simp
    have "found may opt xs (ds_objects (fst (step opt x st))) = found may opt xs (ds_objects st)"
      using Cons.prems(1) by (intro step_found_other [OF client]) simp
    moreover have "set (found may opt xs (ds_objects st)) \<subseteq> set (found may opt (x # xs) (ds_objects st))"
      by (auto simp: found_mem)
    ultimately show "\<forall>(n, obj) \<in> set (found may opt xs (ds_objects (fst (step opt x st)))). is_ok (dc_PrintObj opt obj) \<and>
        (\<forall>s. cl_Get (dc_Client opt) s (dc_Namespace opt) n = Inr obj \<longrightarrow>
          snd (cl_Delete (dc_Client opt) s (dc_Namespace opt) n (delete_opts_of opt)) = None)"
      using Cons.prems(3) by (simp only:) blast
  qed
  ultimately show ?case by (auto split: prod.splits option.splits)
qed simp

text \<open>
  A named object the command may delete is deleted, wherever its name stands: the request is sent
  while the server still holds the object as it was, is accepted, and is followed by its printing.
\<close>

lemma run_deletes:
  assumes client: "frame_client (dc_Client opt)" and obj: "cl_Get (dc_Client opt) (ds_objects st) (dc_Namespace opt) n = Inr obj"
    and may: "may (object_meta_of obj)" and "n \<in> set targets" and strategy: "dc_DryRunStrategy opt \<noteq> DryRunClient"
    and "for_each (step opt) targets st = (st', None)"
  shows "\<exists>s before t after. ds_events st' = ds_events st @ before @
      [DeleteCall (dc_Namespace opt) n (delete_opts_of opt), Out t] @ after \<and>
    cl_Get (dc_Client opt) s (dc_Namespace opt) n = Inr obj \<and>
    snd (cl_Delete (dc_Client opt) s (dc_Namespace opt) n (delete_opts_of opt)) = None \<and>
    dc_PrintObj opt obj = Inr t"
proof -
  from split_list_first [OF assms(4)] obtain xs ys where split: "targets = xs @ n # ys" "n \<notin> set xs" by blast
  obtain st1 r1 where run1: "for_each (step opt) xs st = (st1, r1)" by fastforce
  with assms(6) split(1) have r1: "r1 = None" by (cases r1) (simp_all add: for_each_append)
  obtain st2 r2 where step: "step opt n st1 = (st2, r2)" by fastforce
  with assms(6) split(1) run1 r1 have r2: "r2 = None" and run2: "for_each (step opt) ys st2 = (st', None)"
    by (cases r2, simp_all add: for_each_append)+
  have get: "cl_Get (dc_Client opt) (ds_objects st1) (dc_Namespace opt) n = Inr obj"
    using run_keeps [OF client obj, of xs] split(2) run1 by simp
  from step r2 accepted [OF get may] strategy obtain t where
      "ds_events st2 = ds_events st1 @ [DeleteCall (dc_Namespace opt) n (delete_opts_of opt), Out t]"
      "snd (cl_Delete (dc_Client opt) (ds_objects st1) (dc_Namespace opt) n (delete_opts_of opt)) = None"
      "dc_PrintObj opt obj = Inr t"
    by (auto simp: delete_call_def print_object_def emit_def split: prod.splits option.splits sum.splits)
  moreover from run_events [of opt xs st] run1 obtain before where "ds_events st1 = ds_events st @ before" by auto
  moreover from run_events [of opt ys st2] run2 obtain after where "ds_events st' = ds_events st2 @ after" by auto
  ultimately show ?thesis using get by (intro exI [of _ "ds_objects st1"] exI [of _ before] exI [of _ t] exI [of _ after]) simp
qed

end

text \<open>The objects each command may delete: the commands for jobs look at the mode as well.\<close>

definition via_kjob :: "object_meta \<Rightarrow> bool" where
  "via_kjob m \<longleftrightarrow> label_of m ProfileLabel \<noteq> None"

definition via_kjob_in :: "application_profile_mode \<Rightarrow> object_meta \<Rightarrow> bool" where
  "via_kjob_in mode m \<longleftrightarrow> label_of m ProfileLabel \<noteq> None \<and> label_of m ModeLabel = Some (mode_name mode)"

definition may_delete :: "application_profile_mode \<Rightarrow> object_meta \<Rightarrow> bool" where
  "may_delete mode = (if mode \<in> {JobMode, SlurmMode} then via_kjob_in mode else via_kjob)"

lemmas step_simps = via_kjob_def via_kjob_in_def deref_eq_case Let_def

interpretation di: delete_command interactive_delete_step via_kjob
  by unfold_locales (auto simp: interactive_delete_step_def step_simps)

interpretation dj: delete_command job_delete_step "via_kjob_in JobMode"
  by unfold_locales (auto simp: job_delete_step_def step_simps split: option.splits)

interpretation drj: delete_command ray_job_delete_step via_kjob
  by unfold_locales (auto simp: ray_job_delete_step_def step_simps)

interpretation drc: delete_command ray_cluster_delete_step via_kjob
  by unfold_locales (auto simp: ray_cluster_delete_step_def step_simps)

interpretation ds: delete_command slurm_delete_step "via_kjob_in SlurmMode"
  by unfold_locales (auto simp: slurm_delete_step_def step_simps split: option.splits)

text \<open>The five rounds as one, by the mode; the contract carries over.\<close>

definition delete_step ::
  "application_profile_mode \<Rightarrow> ('p, 's, 'q runtime_object) delete_command_options \<Rightarrow> string \<Rightarrow>
   's delete_state \<Rightarrow> 's delete_state \<times> cmd_error option" where
  "delete_step mode =
     (case mode of
       InteractiveMode \<Rightarrow> interactive_delete_step
     | JobMode \<Rightarrow> job_delete_step
     | RayJobMode \<Rightarrow> ray_job_delete_step
     | RayClusterMode \<Rightarrow> ray_cluster_delete_step
     | SlurmMode \<Rightarrow> slurm_delete_step)"

interpretation dr: delete_command "delete_step mode" "may_delete mode" for mode
  by (cases mode) (simp_all add: delete_step_def may_delete_def di.delete_command_axioms
      dj.delete_command_axioms drj.delete_command_axioms drc.delete_command_axioms ds.delete_command_axioms)

lemma delete_Run_steps: "delete_Run mode opt st = for_each (delete_step mode opt) (dc_Names opt) st"
  by (cases mode) (simp_all add: delete_Run_def delete_step_def interactive_delete_Run_def job_delete_Run_def
      ray_job_delete_Run_def ray_cluster_delete_Run_def slurm_delete_Run_def)

text \<open>What the builders make in a mode, the delete command of the mode accepts.\<close>

lemma kjob_owned_may_delete:
  assumes "kjob_owned p m obj" and "sm_Name m = mode_name mode"
    and "meta_Labels meta = meta_Labels (object_meta_of obj)"
  shows "may_delete mode meta"
  using assms by (simp add: kjob_owned_def may_delete_def via_kjob_def via_kjob_in_def label_of_def)

section \<open>A store\<close>

text \<open>A concrete server: the objects in an association list; it satisfies the promises.\<close>

type_synonym 'q store = "(string \<times> string, 'q runtime_object) gomap"

definition store_client :: "('q store, 'q runtime_object) resource_client" where
  "store_client =
     \<lparr>cl_Get = (\<lambda>s ns n. case mget s (ns, n) of None \<Rightarrow> Inl (NotFoundError (n @ '' not found'')) | Some obj \<Rightarrow> Inr obj),
      cl_Delete = (\<lambda>s ns n opts.
        if mget s (ns, n) = None then (s, Some (NotFoundError (n @ '' not found'')))
        else if do_DryRun opts = [DryRunAll] then (s, None) else (mdel (ns, n) s, None))\<rparr>"

lemma mget_mdel: "mget (mdel k m) k' = (if k' = k then None else mget m k')"
  by (induction m) (auto simp: mget_def mdel_def)

lemma store_client_frame: "frame_client (store_client :: ('q store, 'q runtime_object) resource_client)"
  by (auto simp: frame_client_def store_client_def mget_mdel split: option.splits)

text \<open>
  A server that terminates objects gracefully: an accepted deletion only notes that the object is to
  go, and the object stays readable.
\<close>

definition grace_client ::
  "('q store \<times> (string \<times> string) list, 'q runtime_object) resource_client" where
  "grace_client =
     \<lparr>cl_Get = (\<lambda>s ns n. case mget (fst s) (ns, n) of None \<Rightarrow> Inl (NotFoundError (n @ '' not found'')) | Some obj \<Rightarrow> Inr obj),
      cl_Delete = (\<lambda>s ns n opts.
        if mget (fst s) (ns, n) = None then (s, Some (NotFoundError (n @ '' not found'')))
        else if do_DryRun opts = [DryRunAll] then (s, None) else ((fst s, snd s @ [(ns, n)]), None))\<rparr>"

lemma grace_client_frame:
  "frame_client (grace_client :: ('q store \<times> (string \<times> string) list, 'q runtime_object) resource_client)"
  by (simp add: frame_client_def grace_client_def)

definition sample_owned :: "application_profile_mode \<Rightarrow> string \<Rightarrow> object_meta" where
  "sample_owned mode name = empty_meta\<lparr>meta_Name := name, meta_Namespace := ''ns'',
     meta_Labels := Some [(ProfileLabel, ''profile''), (ModeLabel, mode_name mode)]\<rparr>"

definition sample_store :: "int store" where
  "sample_store =
     [((''ns'', ''a''), ConfigMapObject (sample_owned JobMode ''a'') []),
      ((''ns'', ''b''), ConfigMapObject (sample_owned SlurmMode ''b'') []),
      ((''ns'', ''c''), ConfigMapObject empty_meta [])]"

definition sample_delete :: "string list \<Rightarrow> DryRunStrategy \<Rightarrow> (unit, int store, int runtime_object) delete_command_options" where
  "sample_delete targets strategy =
     \<lparr>dc_PrintFlags = (), dc_Names = targets, dc_Namespace = ''ns'',
      dc_CascadeStrategy = DeletePropagationBackground, dc_DryRunStrategy = strategy,
      dc_Client = store_client, dc_PrintObj = (\<lambda>obj. Inr (meta_Name (object_meta_of obj) @ '' deleted''))\<rparr>"

lemma sample_delete_sel [simp]:
  "dc_Names (sample_delete targets strategy) = targets" "dc_Namespace (sample_delete targets strategy) = ''ns''"
  "dc_Client (sample_delete targets strategy) = store_client" "dc_DryRunStrategy (sample_delete targets strategy) = strategy"
  by (simp_all add: sample_delete_def)

definition sample_grace_delete ::
  "string list \<Rightarrow> DryRunStrategy \<Rightarrow> (unit, int store \<times> (string \<times> string) list, int runtime_object) delete_command_options" where
  "sample_grace_delete targets strategy =
     \<lparr>dc_PrintFlags = (), dc_Names = targets, dc_Namespace = ''ns'',
      dc_CascadeStrategy = DeletePropagationForeground, dc_DryRunStrategy = strategy,
      dc_Client = grace_client, dc_PrintObj = (\<lambda>obj. Inr (meta_Name (object_meta_of obj) @ '' deleted''))\<rparr>"

lemma sample_grace_delete_sel [simp]:
  "dc_Names (sample_grace_delete targets strategy) = targets"
  "dc_Namespace (sample_grace_delete targets strategy) = ''ns''"
  "dc_Client (sample_grace_delete targets strategy) = grace_client"
  "dc_DryRunStrategy (sample_grace_delete targets strategy) = strategy"
  "dc_PrintObj (sample_grace_delete targets strategy) = (\<lambda>obj. Inr (meta_Name (object_meta_of obj) @ '' deleted''))"
  by (simp_all add: sample_grace_delete_def)

lemmas sample_delete_defs = sample_delete_def sample_store_def sample_owned_def store_client_def
  empty_meta_def label_of_def via_kjob_in_def label_defs mget_def

section \<open>Properties\<close>

text \<open>
  C4. What a delete command never touches, in any mode, whatever errors end it early: an object
  that does not carry the profile label (for the modes Job and Slurm also one of another mode), an
  object it was not given by name, an object of another namespace, and with a dry run every object
  are still there, unchanged, after the command.
\<close>

theorem delete_Run_keeps:
  assumes "frame_client (dc_Client opt)" and "cl_Get (dc_Client opt) (ds_objects st) ns n = Inr obj"
    and "\<not> may_delete mode (object_meta_of obj) \<or> n \<notin> set (dc_Names opt) \<or> ns \<noteq> dc_Namespace opt \<or>
      dc_DryRunStrategy opt \<noteq> DryRunNone"
  shows "cl_Get (dc_Client opt) (ds_objects (fst (delete_Run mode opt st))) ns n = Inr obj"
  using dr.run_keeps [OF assms] by (simp add: delete_Run_steps)

theorem delete_Run_keeps_witness:
  "cl_Get store_client (ds_objects (fst (delete_Run JobMode (sample_delete [''a'', ''b'', ''c''] DryRunNone)
      \<lparr>ds_objects = sample_store, ds_events = []\<rparr>))) ''ns'' ''b'' =
    Inr (ConfigMapObject (sample_owned SlurmMode ''b'') [])"
proof -
  have "cl_Get store_client sample_store ''ns'' ''b'' = Inr (ConfigMapObject (sample_owned SlurmMode ''b'') [])"
    "\<not> may_delete JobMode (sample_owned SlurmMode ''b'')"
    by (simp_all add: sample_delete_defs may_delete_def)
  moreover have "frame_client (store_client :: (int store, int runtime_object) resource_client)"
    by (rule store_client_frame)
  ultimately show ?thesis
    using delete_Run_keeps [of "sample_delete [''a'', ''b'', ''c''] DryRunNone" "\<lparr>ds_objects = sample_store, ds_events = []\<rparr>"
        "''ns''" "''b''" "ConfigMapObject (sample_owned SlurmMode ''b'') []" JobMode] by simp
qed

text \<open>
  Every call of \<open>Delete\<close> names an object of the command line in the namespace of the command, with
  the propagation policy of \<open>--cascade\<close>; a server dry run marks every call as one, a real run marks
  none, and a client dry run makes no call at all and leaves the objects as they are.
\<close>

theorem delete_Run_calls:
  "\<exists>evs. ds_events (fst (delete_Run mode opt st)) = ds_events st @ evs \<and>
    (\<forall>ns n d. DeleteCall ns n d \<in> set evs \<longrightarrow>
      ns = dc_Namespace opt \<and> n \<in> set (dc_Names opt) \<and>
      do_PropagationPolicy d = Some (dc_CascadeStrategy opt) \<and>
      (do_DryRun d = [DryRunAll] \<longleftrightarrow> dc_DryRunStrategy opt = DryRunServer) \<and>
      dc_DryRunStrategy opt \<noteq> DryRunClient) \<and>
    (dc_DryRunStrategy opt = DryRunClient \<longrightarrow> ds_objects (fst (delete_Run mode opt st)) = ds_objects st)"
proof -
  from dr.run_events [of mode opt "dc_Names opt" st] obtain evs
    where evs: "ds_events (fst (delete_Run mode opt st)) = ds_events st @ evs"
      and calls: "DeleteCall ns n d \<in> set evs \<Longrightarrow> ns = dc_Namespace opt \<and> n \<in> set (dc_Names opt) \<and>
        d = delete_opts_of opt \<and> dc_DryRunStrategy opt \<noteq> DryRunClient" for ns n d
    unfolding delete_Run_steps by blast
  have "do_PropagationPolicy (delete_opts_of opt) = Some (dc_CascadeStrategy opt)"
    "do_DryRun (delete_opts_of opt) = [DryRunAll] \<longleftrightarrow> dc_DryRunStrategy opt = DryRunServer"
    by (simp_all add: delete_opts_of_def)
  with calls dr.run_client_dry_run [of opt mode "dc_Names opt" st] show ?thesis
    by (intro exI [of _ evs] conjI allI impI evs) (blast | simp add: delete_Run_steps)+
qed

theorem delete_Run_calls_witness:
  "ds_objects (fst (delete_Run JobMode (sample_delete [''a''] DryRunClient) \<lparr>ds_objects = sample_store, ds_events = []\<rparr>)) =
   sample_store"
  using delete_Run_calls [of JobMode "sample_delete [''a''] DryRunClient" "\<lparr>ds_objects = sample_store, ds_events = []\<rparr>"]
  by (simp add: sample_delete_def)

text \<open>
  C9. Refinement: on distinct names a run implements the abstract command that selects, in the state
  of the server it starts with, the named objects the command may delete and sends one request for
  each of them in the order of the names. However the run ends, its requests are those of a prefix of
  the selected objects, with the options of the command, and the state of the server is the one after
  these requests; when it returns no error they are all sent and exactly the selected objects are
  printed. It returns no error when no look-up of a name fails otherwise than by not finding it, and
  the deletion and the printing of the selected objects are accepted: names without an object or with
  a foreign one never stop it. A client dry run sends nothing. What the server does with an accepted
  request is left open: it may remove the object at once or keep it while it terminates.
\<close>

theorem delete_Run_refines:
  assumes "frame_client (dc_Client opt)" and "distinct (dc_Names opt)" and "delete_Run mode opt st = (st', err)"
  shows "(\<exists>evs ps. ds_events st' = ds_events st @ evs \<and>
      prefix ps (found (may_delete mode) opt (dc_Names opt) (ds_objects st)) \<and>
      delete_calls evs = map (\<lambda>n. (dc_Namespace opt, n, delete_opts_of opt)) (sent opt ps) \<and>
      ds_objects st' = send_deletes opt (sent opt ps) (ds_objects st) \<and>
      (err = None \<longrightarrow> ps = found (may_delete mode) opt (dc_Names opt) (ds_objects st) \<and>
        map Inr (delete_outputs evs) = map (\<lambda>(n, obj). dc_PrintObj opt obj) ps)) \<and>
    ((\<forall>n \<in> set (dc_Names opt). \<forall>m. cl_Get (dc_Client opt) (ds_objects st) (dc_Namespace opt) n \<noteq> Inl (OtherError m)) \<and>
     (\<forall>(n, obj) \<in> set (found (may_delete mode) opt (dc_Names opt) (ds_objects st)). is_ok (dc_PrintObj opt obj) \<and>
       (\<forall>s. cl_Get (dc_Client opt) s (dc_Namespace opt) n = Inr obj \<longrightarrow>
         snd (cl_Delete (dc_Client opt) s (dc_Namespace opt) n (delete_opts_of opt)) = None)) \<longrightarrow> err = None)"
proof -
  from assms(3) have run: "for_each (delete_step mode opt) (dc_Names opt) st = (st', err)"
    by (simp only: delete_Run_steps)
  from dr.run_found [OF assms(1,2) run] dr.run_succeeds [OF assms(1,2), of st mode] run show ?thesis
    by (auto intro: conjI)
qed

text \<open>On a server that keeps the object while it terminates: one request, for the one job that may go.\<close>

theorem delete_Run_refines_witness:
  "\<exists>st'. delete_Run JobMode (sample_grace_delete [''x'', ''b'', ''a'', ''c''] DryRunNone)
        \<lparr>ds_objects = (sample_store, []), ds_events = []\<rparr> = (st', None) \<and>
    delete_calls (ds_events st') =
      [(''ns'', ''a'', \<lparr>do_PropagationPolicy = Some DeletePropagationForeground, do_DryRun = []\<rparr>)] \<and>
    delete_outputs (ds_events st') = [''a deleted''] \<and> ds_objects st' = (sample_store, [(''ns'', ''a'')])"
proof -
  let ?o = "sample_grace_delete [''x'', ''b'', ''a'', ''c''] DryRunNone"
    and ?st = "\<lparr>ds_objects = (sample_store, []), ds_events = []\<rparr>"
  have found: "found (may_delete JobMode) ?o (dc_Names ?o) (ds_objects ?st) = [(''a'', ConfigMapObject (sample_owned JobMode ''a'') [])]"
    by (simp add: found_def grace_client_def may_delete_def sample_delete_defs)
  have opts: "delete_opts_of ?o = \<lparr>do_PropagationPolicy = Some DeletePropagationForeground, do_DryRun = []\<rparr>"
    by (simp add: delete_opts_of_def sample_grace_delete_def)
  have state: "send_deletes ?o (sent ?o [(''a'', ConfigMapObject (sample_owned JobMode ''a'') [])]) (ds_objects ?st) =
      (sample_store, [(''ns'', ''a'')])"
    by (simp add: send_deletes_def sent_def opts grace_client_def DryRunAll_def sample_store_def mget_def)
  obtain st' err where run: "delete_Run JobMode ?o ?st = (st', err)" by fastforce
  have "frame_client (dc_Client ?o)" "distinct (dc_Names ?o)" by (simp_all add: grace_client_frame)
  note props = delete_Run_refines [OF this run, unfolded found]
  have "err = None"
    using props by (auto simp: grace_client_def split: option.splits)
  with props state opts show ?thesis
    using run by (auto simp: sent_def sample_owned_def empty_meta_def)
qed

end
