(* ===== verification/ListCmd.thy ===== *)
theory ListCmd
  imports CmdHelpers ModeBuilders
begin

text \<open>
  The commands \<open>kjobctl list interactive|job|rayjob|raycluster|slurm\<close> (\<open>pkg/cmd/list\<close>): the label
  selector, the loop over the pages of the server's answer, and the tables that are printed. The
  server's answer to a list request, the table printer of \<open>cli-runtime\<close>, the tab writer and the
  text of durations and dates are parameters. Times are nanoseconds since the epoch.
\<close>

section \<open>Listed objects and tables\<close>

record job_item =
  ji_Meta :: object_meta
  ji_CreationTimestamp :: int
  ji_StartTime :: "int option"
  ji_CompletionTime :: "int option"
  ji_Succeeded :: int32
  ji_Completions :: "int32 option"

record pod_item =
  pi_Meta :: object_meta
  pi_CreationTimestamp :: int
  pi_Phase :: string

record ray_job_item =
  rji_Meta :: object_meta
  rji_CreationTimestamp :: int
  rji_RayClusterName :: string
  rji_JobStatus :: string
  rji_JobDeploymentStatus :: string
  rji_StartTime :: "int option"
  rji_EndTime :: "int option"

record 'q ray_cluster_item =
  rci_Meta :: object_meta
  rci_CreationTimestamp :: int
  rci_DesiredWorkerReplicas :: int32
  rci_AvailableWorkerReplicas :: int32
  rci_DesiredCPU :: 'q
  rci_DesiredMemory :: 'q
  rci_DesiredGPU :: 'q
  rci_State :: string

text \<open>The answer to a list request: its items and the token of the next page, empty at the end.\<close>

datatype 'q list_object =
    PodList (pod_items: "pod_item list") (list_continue: string)
  | JobList (job_items: "job_item list") (list_continue: string)
  | RayJobList (ray_job_items: "ray_job_item list") (list_continue: string)
  | RayClusterList (ray_cluster_items: "'q ray_cluster_item list") (list_continue: string)

fun list_metas :: "'q list_object \<Rightarrow> object_meta list" where
  "list_metas (PodList is c) = map pi_Meta is"
| "list_metas (JobList is c) = map ji_Meta is"
| "list_metas (RayJobList is c) = map rji_Meta is"
| "list_metas (RayClusterList is c) = map rci_Meta is"

datatype cell = StringCell string | IntCell int32

record table_column =
  col_Name :: string
  col_Type :: string
  col_Format :: string

record table =
  tbl_ColumnDefinitions :: "table_column list"
  tbl_Rows :: "cell list list"

record table_options =
  po_NoHeaders :: bool
  po_WithNamespace :: bool

text \<open>What the list commands ask of the outside.\<close>

record 'q list_world =
  lw_getenv :: "string \<Rightarrow> string"
  lw_now :: int
  lw_human_duration :: "int \<Rightarrow> string"
  lw_datetime :: "int \<Rightarrow> string"
  lw_quantity :: "'q \<Rightarrow> string"
  lw_print_table :: "table_options \<Rightarrow> table \<Rightarrow> string + string"
  lw_flush :: "string + unit"
  lw_QueueLabel :: string

text \<open>\<open>Time.Sub\<close> saturates at the bounds of \<open>Duration\<close>.\<close>

definition time_sub :: "int \<Rightarrow> int \<Rightarrow> int" where
  "time_sub a b = max (- (2 ^ 63)) (min (2 ^ 63 - 1) (a - b))"

definition label_or_empty :: "object_meta \<Rightarrow> string \<Rightarrow> string" where
  "label_or_empty m k = deref (label_of m k) []"

definition string_column :: "string \<Rightarrow> table_column" where
  "string_column name = \<lparr>col_Name = name, col_Type = ''string'', col_Format = []\<rparr>"

definition name_column :: table_column where
  "name_column = \<lparr>col_Name = ''Name'', col_Type = ''string'', col_Format = ''name''\<rparr>"

section \<open>Table printers\<close>

text \<open>A table printer has the time of its clock and the print options.\<close>

record list_printer =
  lp_clock :: int
  lp_printOptions :: table_options

definition WithNamespace_printer :: "bool \<Rightarrow> list_printer \<Rightarrow> list_printer" where
  "WithNamespace_printer f p = p\<lparr>lp_printOptions := (lp_printOptions p)\<lparr>po_WithNamespace := f\<rparr>\<rparr>"

definition WithHeaders :: "bool \<Rightarrow> list_printer \<Rightarrow> list_printer" where
  "WithHeaders f p = p\<lparr>lp_printOptions := (lp_printOptions p)\<lparr>po_NoHeaders := \<not> f\<rparr>\<rparr>"

definition WithClock :: "int \<Rightarrow> list_printer \<Rightarrow> list_printer" where
  "WithClock c p = p\<lparr>lp_clock := c\<rparr>"

definition newJobTablePrinter :: "'q list_world \<Rightarrow> list_printer" where
  "newJobTablePrinter W =
     \<lparr>lp_clock = lw_now W, lp_printOptions = \<lparr>po_NoHeaders = False, po_WithNamespace = False\<rparr>\<rparr>"

definition newInteractiveTablePrinter :: "'q list_world \<Rightarrow> list_printer" where
  "newInteractiveTablePrinter W =
     \<lparr>lp_clock = lw_now W, lp_printOptions = \<lparr>po_NoHeaders = False, po_WithNamespace = False\<rparr>\<rparr>"

definition newRayJobTablePrinter :: "'q list_world \<Rightarrow> list_printer" where
  "newRayJobTablePrinter W =
     \<lparr>lp_clock = lw_now W, lp_printOptions = \<lparr>po_NoHeaders = False, po_WithNamespace = False\<rparr>\<rparr>"

definition newRayClusterTablePrinter :: "'q list_world \<Rightarrow> list_printer" where
  "newRayClusterTablePrinter W =
     \<lparr>lp_clock = lw_now W, lp_printOptions = \<lparr>po_NoHeaders = False, po_WithNamespace = False\<rparr>\<rparr>"

definition age :: "'q list_world \<Rightarrow> list_printer \<Rightarrow> int \<Rightarrow> cell" where
  "age W p created = StringCell (lw_human_duration W (time_sub (lp_clock p) created))"

text \<open>Jobs. The duration of a running job is measured with the system's clock.\<close>

definition printJob :: "'q list_world \<Rightarrow> list_printer \<Rightarrow> job_item \<Rightarrow> cell list" where
  "printJob W p job =
     (let durationStr =
            (case ji_StartTime job of
              None \<Rightarrow> []
            | Some start \<Rightarrow> lw_human_duration W (time_sub (deref (ji_CompletionTime job) (lw_now W)) start))
      in [StringCell (meta_Name (ji_Meta job)),
          StringCell (label_or_empty (ji_Meta job) ProfileLabel),
          StringCell (label_or_empty (ji_Meta job) (lw_QueueLabel W)),
          StringCell (format_int32 (ji_Succeeded job) @ ''/'' @ format_int32 (deref (ji_Completions job) 1)),
          StringCell durationStr,
          age W p (ji_CreationTimestamp job)])"

definition job_columns :: "table_column list" where
  "job_columns = name_column # map string_column [''Profile'', ''Local Queue'', ''Completions'', ''Duration'', ''Age'']"

definition job_PrintObj :: "'q list_world \<Rightarrow> list_printer \<Rightarrow> 'q list_object printer" where
  "job_PrintObj W p obj =
     (case obj of
       JobList items c \<Rightarrow>
         lw_print_table W (lp_printOptions p)
           \<lparr>tbl_ColumnDefinitions = job_columns, tbl_Rows = map (printJob W p) items\<rparr>
     | _ \<Rightarrow> Inl ''invalid object type'')"

text \<open>Pods of interactive sessions.\<close>

definition printPod :: "'q list_world \<Rightarrow> list_printer \<Rightarrow> pod_item \<Rightarrow> cell list" where
  "printPod W p pod =
     [StringCell (meta_Name (pi_Meta pod)),
      StringCell (label_or_empty (pi_Meta pod) ProfileLabel),
      StringCell (label_or_empty (pi_Meta pod) (lw_QueueLabel W)),
      StringCell (pi_Phase pod),
      age W p (pi_CreationTimestamp pod)]"

definition pod_columns :: "table_column list" where
  "pod_columns = name_column # map string_column [''Profile'', ''Local Queue'', ''Status'', ''Age'']"

definition interactive_PrintObj :: "'q list_world \<Rightarrow> list_printer \<Rightarrow> 'q list_object printer" where
  "interactive_PrintObj W p obj =
     (case obj of
       PodList items c \<Rightarrow>
         lw_print_table W (lp_printOptions p)
           \<lparr>tbl_ColumnDefinitions = pod_columns, tbl_Rows = map (printPod W p) items\<rparr>
     | _ \<Rightarrow> Inl ''invalid object type'')"

text \<open>Ray jobs.\<close>

definition printRayJob :: "'q list_world \<Rightarrow> list_printer \<Rightarrow> ray_job_item \<Rightarrow> cell list" where
  "printRayJob W p rayJob =
     (let time = (\<lambda>t. case t of None \<Rightarrow> [] | Some t \<Rightarrow> lw_datetime W t)
      in [StringCell (meta_Name (rji_Meta rayJob)),
          StringCell (label_or_empty (rji_Meta rayJob) ProfileLabel),
          StringCell (label_or_empty (rji_Meta rayJob) (lw_QueueLabel W)),
          StringCell (rji_RayClusterName rayJob),
          StringCell (rji_JobStatus rayJob),
          StringCell (rji_JobDeploymentStatus rayJob),
          StringCell (time (rji_StartTime rayJob)),
          StringCell (time (rji_EndTime rayJob)),
          age W p (rji_CreationTimestamp rayJob)])"

definition ray_job_columns :: "table_column list" where
  "ray_job_columns = name_column #
     map string_column [''Profile'', ''Local Queue'', ''Ray Cluster Name'', ''Job Status'', ''Deployment Status''] @
     [\<lparr>col_Name = ''Start Time'', col_Type = ''dateTime'', col_Format = []\<rparr>] @
     map string_column [''End Time'', ''Age'']"

definition ray_job_PrintObj :: "'q list_world \<Rightarrow> list_printer \<Rightarrow> 'q list_object printer" where
  "ray_job_PrintObj W p obj =
     (case obj of
       RayJobList items c \<Rightarrow>
         lw_print_table W (lp_printOptions p)
           \<lparr>tbl_ColumnDefinitions = ray_job_columns, tbl_Rows = map (printRayJob W p) items\<rparr>
     | _ \<Rightarrow> Inl ''invalid object type'')"

text \<open>Ray clusters.\<close>

definition printRayCluster :: "'q list_world \<Rightarrow> list_printer \<Rightarrow> 'q ray_cluster_item \<Rightarrow> cell list" where
  "printRayCluster W p rayCluster =
     [StringCell (meta_Name (rci_Meta rayCluster)),
      StringCell (label_or_empty (rci_Meta rayCluster) ProfileLabel),
      StringCell (label_or_empty (rci_Meta rayCluster) (lw_QueueLabel W)),
      IntCell (rci_DesiredWorkerReplicas rayCluster),
      IntCell (rci_AvailableWorkerReplicas rayCluster),
      StringCell (lw_quantity W (rci_DesiredCPU rayCluster)),
      StringCell (lw_quantity W (rci_DesiredMemory rayCluster)),
      StringCell (lw_quantity W (rci_DesiredGPU rayCluster)),
      StringCell (rci_State rayCluster),
      age W p (rci_CreationTimestamp rayCluster)]"

definition ray_cluster_columns :: "table_column list" where
  "ray_cluster_columns = name_column #
     map string_column [''Profile'', ''Local Queue'', ''Desired Workers'', ''Available Workers'', ''CPUs'',
       ''Memory'', ''GPUs'', ''Status'', ''Age'']"

definition ray_cluster_PrintObj :: "'q list_world \<Rightarrow> list_printer \<Rightarrow> 'q list_object printer" where
  "ray_cluster_PrintObj W p obj =
     (case obj of
       RayClusterList items c \<Rightarrow>
         lw_print_table W (lp_printOptions p)
           \<lparr>tbl_ColumnDefinitions = ray_cluster_columns, tbl_Rows = map (printRayCluster W p) items\<rparr>
     | _ \<Rightarrow> Inl ''invalid object type'')"

section \<open>Options\<close>

text \<open>\<open>metav1.ListOptions\<close>, as far as the commands set it, and a client for one kind of objects.\<close>

record list_options =
  lo_LabelSelector :: string
  lo_FieldSelector :: string
  lo_Limit :: int
  lo_Continue :: string

type_synonym 'q list_client = "string \<Rightarrow> list_options \<Rightarrow> api_error + 'q list_object"

record 'q k8s_list_clients =
  list_Jobs :: "'q list_client"
  list_Pods :: "'q list_client"

record 'q ray_list_clients =
  list_RayJobs :: "'q list_client"
  list_RayClusters :: "'q list_client"

type_synonym 'q list_getter = "('q k8s_list_clients, 'q ray_list_clients) client_getter"

text \<open>The options of a list command; the five structs differ in the type of the client.\<close>

record ('p, 'q) list_command_options =
  lc_Clock :: int
  lc_PrintFlags :: 'p
  lc_Limit :: int
  lc_AllNamespaces :: bool
  lc_Namespace :: string
  lc_ProfileFilter :: string
  lc_LocalQueueFilter :: string
  lc_FieldSelector :: string
  lc_LabelSelector :: string
  lc_Client :: "'q list_client"

datatype list_error = InvalidListRequestLimit | ListError cmd_error

definition defaultListRequestLimit :: int where "defaultListRequestLimit = 100"

definition KjobctlListRequestLimitEnvName :: string where
  "KjobctlListRequestLimitEnvName = ''KJOBCTL_LIST_REQUEST_LIMIT''"

definition listRequestLimit :: "'q list_world \<Rightarrow> list_error + int" where
  "listRequestLimit W =
     (let listRequestLimitEnv = lw_getenv W KjobctlListRequestLimitEnvName
      in if listRequestLimitEnv = [] then Inr defaultListRequestLimit
         else map_err (\<lambda>_. InvalidListRequestLimit) (parse_int 64 listRequestLimitEnv))"

definition interactive_list_Complete ::
  "'q list_world \<Rightarrow> 'q list_getter \<Rightarrow> ('p, 'q) list_command_options \<Rightarrow> list_error + ('p, 'q) list_command_options" where
  "interactive_list_Complete W clientGetter opt =
     and_then (listRequestLimit W) (\<lambda>limit.
     and_then (map_err (ListError \<circ> ConfigError) (cg_Namespace clientGetter)) (\<lambda>namespace.
     and_then (map_err (ListError \<circ> ConfigError) (cg_K8sClientset clientGetter)) (\<lambda>clientset.
       Inr (opt\<lparr>lc_Limit := limit, lc_Namespace := namespace, lc_Client := list_Pods clientset\<rparr>))))"

definition job_list_Complete ::
  "'q list_world \<Rightarrow> 'q list_getter \<Rightarrow> ('p, 'q) list_command_options \<Rightarrow> list_error + ('p, 'q) list_command_options" where
  "job_list_Complete W clientGetter opt =
     and_then (listRequestLimit W) (\<lambda>limit.
     and_then (map_err (ListError \<circ> ConfigError) (cg_Namespace clientGetter)) (\<lambda>namespace.
     and_then (map_err (ListError \<circ> ConfigError) (cg_K8sClientset clientGetter)) (\<lambda>clientset.
       Inr (opt\<lparr>lc_Limit := limit, lc_Namespace := namespace, lc_Client := list_Jobs clientset\<rparr>))))"

definition ray_job_list_Complete ::
  "'q list_world \<Rightarrow> 'q list_getter \<Rightarrow> ('p, 'q) list_command_options \<Rightarrow> list_error + ('p, 'q) list_command_options" where
  "ray_job_list_Complete W clientGetter opt =
     and_then (listRequestLimit W) (\<lambda>limit.
     and_then (map_err (ListError \<circ> ConfigError) (cg_Namespace clientGetter)) (\<lambda>namespace.
     and_then (map_err (ListError \<circ> ConfigError) (cg_RayClientset clientGetter)) (\<lambda>clientset.
       Inr (opt\<lparr>lc_Limit := limit, lc_Namespace := namespace, lc_Client := list_RayJobs clientset\<rparr>))))"

definition ray_cluster_list_Complete ::
  "'q list_world \<Rightarrow> 'q list_getter \<Rightarrow> ('p, 'q) list_command_options \<Rightarrow> list_error + ('p, 'q) list_command_options" where
  "ray_cluster_list_Complete W clientGetter opt =
     and_then (listRequestLimit W) (\<lambda>limit.
     and_then (map_err (ListError \<circ> ConfigError) (cg_Namespace clientGetter)) (\<lambda>namespace.
     and_then (map_err (ListError \<circ> ConfigError) (cg_RayClientset clientGetter)) (\<lambda>clientset.
       Inr (opt\<lparr>lc_Limit := limit, lc_Namespace := namespace, lc_Client := list_RayClusters clientset\<rparr>))))"

definition slurm_list_Complete ::
  "'q list_world \<Rightarrow> 'q list_getter \<Rightarrow> ('p, 'q) list_command_options \<Rightarrow> list_error + ('p, 'q) list_command_options" where
  "slurm_list_Complete W clientGetter opt =
     and_then (listRequestLimit W) (\<lambda>limit.
     and_then (map_err (ListError \<circ> ConfigError) (cg_Namespace clientGetter)) (\<lambda>namespace.
     and_then (map_err (ListError \<circ> ConfigError) (cg_K8sClientset clientGetter)) (\<lambda>clientset.
       Inr (opt\<lparr>lc_Limit := limit, lc_Namespace := namespace, lc_Client := list_Jobs clientset\<rparr>))))"

section \<open>Printers\<close>

text \<open>\<open>ToPrinter\<close>: the table, unless an output format was asked for.\<close>

definition interactive_ToPrinter ::
  "'q list_world \<Rightarrow> ('p, 'q list_object) print_api \<Rightarrow> ('p, 'q) list_command_options \<Rightarrow> bool \<Rightarrow>
   cmd_error + 'q list_object printer" where
  "interactive_ToPrinter W P opt headers =
     (if \<not> pf_OutputFlagSpecified P (lc_PrintFlags opt)
      then Inr (interactive_PrintObj W
        (WithClock (lc_Clock opt) (WithHeaders headers (WithNamespace_printer (lc_AllNamespaces opt) (newInteractiveTablePrinter W)))))
      else map_err PrintError (pf_ToPrinter P (lc_PrintFlags opt)))"

definition job_ToPrinter ::
  "'q list_world \<Rightarrow> ('p, 'q list_object) print_api \<Rightarrow> ('p, 'q) list_command_options \<Rightarrow> bool \<Rightarrow>
   cmd_error + 'q list_object printer" where
  "job_ToPrinter W P opt headers =
     (if \<not> pf_OutputFlagSpecified P (lc_PrintFlags opt)
      then Inr (job_PrintObj W
        (WithClock (lc_Clock opt) (WithHeaders headers (WithNamespace_printer (lc_AllNamespaces opt) (newJobTablePrinter W)))))
      else map_err PrintError (pf_ToPrinter P (lc_PrintFlags opt)))"

definition ray_job_ToPrinter ::
  "'q list_world \<Rightarrow> ('p, 'q list_object) print_api \<Rightarrow> ('p, 'q) list_command_options \<Rightarrow> bool \<Rightarrow>
   cmd_error + 'q list_object printer" where
  "ray_job_ToPrinter W P opt headers =
     (if \<not> pf_OutputFlagSpecified P (lc_PrintFlags opt)
      then Inr (ray_job_PrintObj W
        (WithClock (lc_Clock opt) (WithHeaders headers (WithNamespace_printer (lc_AllNamespaces opt) (newRayJobTablePrinter W)))))
      else map_err PrintError (pf_ToPrinter P (lc_PrintFlags opt)))"

definition ray_cluster_ToPrinter ::
  "'q list_world \<Rightarrow> ('p, 'q list_object) print_api \<Rightarrow> ('p, 'q) list_command_options \<Rightarrow> bool \<Rightarrow>
   cmd_error + 'q list_object printer" where
  "ray_cluster_ToPrinter W P opt headers =
     (if \<not> pf_OutputFlagSpecified P (lc_PrintFlags opt)
      then Inr (ray_cluster_PrintObj W
        (WithClock (lc_Clock opt) (WithHeaders headers (WithNamespace_printer (lc_AllNamespaces opt) (newRayClusterTablePrinter W)))))
      else map_err PrintError (pf_ToPrinter P (lc_PrintFlags opt)))"

definition slurm_ToPrinter ::
  "'q list_world \<Rightarrow> ('p, 'q list_object) print_api \<Rightarrow> ('p, 'q) list_command_options \<Rightarrow> bool \<Rightarrow>
   cmd_error + 'q list_object printer" where
  "slurm_ToPrinter W P opt headers =
     (if \<not> pf_OutputFlagSpecified P (lc_PrintFlags opt)
      then Inr (job_PrintObj W
        (WithClock (lc_Clock opt) (WithHeaders headers (WithNamespace_printer (lc_AllNamespaces opt) (newJobTablePrinter W)))))
      else map_err PrintError (pf_ToPrinter P (lc_PrintFlags opt)))"

section \<open>Running\<close>

text \<open>What a run does: texts for the tab writer, its flush, and lines on the error stream.\<close>

datatype list_event = TabWrite string | TabFlush | ErrLine string

text \<open>
  The end of a run, after the last page: a message when nothing was found, otherwise the tab writer
  is flushed.
\<close>

definition list_finish ::
  "'q list_world \<Rightarrow> ('p, 'q) list_command_options \<Rightarrow> nat \<Rightarrow> list_event list \<Rightarrow> list_event list \<times> cmd_error option" where
  "list_finish W opt totalCount evs =
     (if totalCount = 0
      then (evs @ [ErrLine (if \<not> lc_AllNamespaces opt
                            then ''No resources found in '' @ lc_Namespace opt @ '' namespace.'' @ [CHR 0x0A]
                            else ''No resources found'' @ [CHR 0x0A])], None)
      else case lw_flush W of
        Inl e \<Rightarrow> (evs, Some (PrintError e))
      | Inr _ \<Rightarrow> (evs @ [TabFlush], None))"

text \<open>The loop over the pages. The result is \<open>None\<close> when the server never sends a last page.\<close>

partial_function (option) list_loop ::
  "'q list_world \<Rightarrow> ('p, 'q) list_command_options \<Rightarrow> (bool \<Rightarrow> cmd_error + 'q list_object printer) \<Rightarrow> string \<Rightarrow>
   list_options \<Rightarrow> nat \<Rightarrow> list_event list \<Rightarrow> (list_event list \<times> cmd_error option) option" where
  "list_loop W opt ToPrinter namespace opts totalCount evs =
     (case lc_Client opt namespace opts of
       Inl err \<Rightarrow> Some (evs, Some (ApiFailure err))
     | Inr lst \<Rightarrow>
         (case ToPrinter (totalCount = 0) of
           Inl err \<Rightarrow> Some (evs, Some err)
         | Inr PrintObj \<Rightarrow>
             (case PrintObj lst of
               Inl err \<Rightarrow> Some (evs, Some (PrintError err))
             | Inr text \<Rightarrow>
                 if list_continue lst \<noteq> []
                 then list_loop W opt ToPrinter namespace (opts\<lparr>lo_Continue := list_continue lst\<rparr>)
                   (totalCount + length (list_metas lst)) (evs @ [TabWrite text])
                 else Some (list_finish W opt (totalCount + length (list_metas lst)) (evs @ [TabWrite text])))))"

declare list_loop.simps [code]

definition interactive_list_Run ::
  "'q list_world \<Rightarrow> ('p, 'q list_object) print_api \<Rightarrow> ('p, 'q) list_command_options \<Rightarrow>
   (list_event list \<times> cmd_error option) option" where
  "interactive_list_Run W P opt =
     (let namespace = (if lc_AllNamespaces opt then [] else lc_Namespace opt);
          labelSelector =
            (if lc_ProfileFilter opt \<noteq> [] then ProfileLabel @ ''='' @ lc_ProfileFilter opt else ProfileLabel);
          labelSelector =
            (if lc_LocalQueueFilter opt \<noteq> []
             then labelSelector @ '','' @ lw_QueueLabel W @ ''='' @ lc_LocalQueueFilter opt else labelSelector);
          labelSelector =
            (if lc_LabelSelector opt \<noteq> [] then labelSelector @ '','' @ lc_LabelSelector opt else labelSelector)
      in list_loop W opt (interactive_ToPrinter W P opt) namespace
           \<lparr>lo_LabelSelector = labelSelector, lo_FieldSelector = lc_FieldSelector opt,
            lo_Limit = lc_Limit opt, lo_Continue = []\<rparr> 0 [])"

definition job_list_Run ::
  "'q list_world \<Rightarrow> ('p, 'q list_object) print_api \<Rightarrow> ('p, 'q) list_command_options \<Rightarrow>
   (list_event list \<times> cmd_error option) option" where
  "job_list_Run W P opt =
     (let namespace = (if lc_AllNamespaces opt then [] else lc_Namespace opt);
          labelSelector =
            (if lc_ProfileFilter opt \<noteq> [] then ProfileLabel @ ''='' @ lc_ProfileFilter opt else ProfileLabel);
          labelSelector = labelSelector @ '','' @ ModeLabel @ ''='' @ mode_name JobMode;
          labelSelector =
            (if lc_LocalQueueFilter opt \<noteq> []
             then labelSelector @ '','' @ lw_QueueLabel W @ ''='' @ lc_LocalQueueFilter opt else labelSelector);
          labelSelector =
            (if lc_LabelSelector opt \<noteq> [] then labelSelector @ '','' @ lc_LabelSelector opt else labelSelector)
      in list_loop W opt (job_ToPrinter W P opt) namespace
           \<lparr>lo_LabelSelector = labelSelector, lo_FieldSelector = lc_FieldSelector opt,
            lo_Limit = lc_Limit opt, lo_Continue = []\<rparr> 0 [])"

definition ray_job_list_Run ::
  "'q list_world \<Rightarrow> ('p, 'q list_object) print_api \<Rightarrow> ('p, 'q) list_command_options \<Rightarrow>
   (list_event list \<times> cmd_error option) option" where
  "ray_job_list_Run W P opt =
     (let namespace = (if lc_AllNamespaces opt then [] else lc_Namespace opt);
          labelSelector =
            (if lc_ProfileFilter opt \<noteq> [] then ProfileLabel @ ''='' @ lc_ProfileFilter opt else ProfileLabel);
          labelSelector =
            (if lc_LocalQueueFilter opt \<noteq> []
             then labelSelector @ '','' @ lw_QueueLabel W @ ''='' @ lc_LocalQueueFilter opt else labelSelector);
          labelSelector =
            (if lc_LabelSelector opt \<noteq> [] then labelSelector @ '','' @ lc_LabelSelector opt else labelSelector)
      in list_loop W opt (ray_job_ToPrinter W P opt) namespace
           \<lparr>lo_LabelSelector = labelSelector, lo_FieldSelector = lc_FieldSelector opt,
            lo_Limit = lc_Limit opt, lo_Continue = []\<rparr> 0 [])"

definition ray_cluster_list_Run ::
  "'q list_world \<Rightarrow> ('p, 'q list_object) print_api \<Rightarrow> ('p, 'q) list_command_options \<Rightarrow>
   (list_event list \<times> cmd_error option) option" where
  "ray_cluster_list_Run W P opt =
     (let namespace = (if lc_AllNamespaces opt then [] else lc_Namespace opt);
          labelSelector =
            (if lc_ProfileFilter opt \<noteq> [] then ProfileLabel @ ''='' @ lc_ProfileFilter opt else ProfileLabel);
          labelSelector =
            (if lc_LocalQueueFilter opt \<noteq> []
             then labelSelector @ '','' @ lw_QueueLabel W @ ''='' @ lc_LocalQueueFilter opt else labelSelector);
          labelSelector =
            (if lc_LabelSelector opt \<noteq> [] then labelSelector @ '','' @ lc_LabelSelector opt else labelSelector)
      in list_loop W opt (ray_cluster_ToPrinter W P opt) namespace
           \<lparr>lo_LabelSelector = labelSelector, lo_FieldSelector = lc_FieldSelector opt,
            lo_Limit = lc_Limit opt, lo_Continue = []\<rparr> 0 [])"

definition slurm_list_Run ::
  "'q list_world \<Rightarrow> ('p, 'q list_object) print_api \<Rightarrow> ('p, 'q) list_command_options \<Rightarrow>
   (list_event list \<times> cmd_error option) option" where
  "slurm_list_Run W P opt =
     (let namespace = (if lc_AllNamespaces opt then [] else lc_Namespace opt);
          labelSelector =
            (if lc_ProfileFilter opt \<noteq> [] then ProfileLabel @ ''='' @ lc_ProfileFilter opt else ProfileLabel);
          labelSelector = labelSelector @ '','' @ ModeLabel @ ''='' @ mode_name SlurmMode;
          labelSelector =
            (if lc_LocalQueueFilter opt \<noteq> []
             then labelSelector @ '','' @ lw_QueueLabel W @ ''='' @ lc_LocalQueueFilter opt else labelSelector);
          labelSelector =
            (if lc_LabelSelector opt \<noteq> [] then labelSelector @ '','' @ lc_LabelSelector opt else labelSelector)
      in list_loop W opt (slurm_ToPrinter W P opt) namespace
           \<lparr>lo_LabelSelector = labelSelector, lo_FieldSelector = lc_FieldSelector opt,
            lo_Limit = lc_Limit opt, lo_Continue = []\<rparr> 0 [])"

text \<open>The subcommands of \<open>kjobctl list\<close>.\<close>

definition list_Run ::
  "application_profile_mode \<Rightarrow> 'q list_world \<Rightarrow> ('p, 'q list_object) print_api \<Rightarrow> ('p, 'q) list_command_options \<Rightarrow>
   (list_event list \<times> cmd_error option) option" where
  "list_Run mode =
     (case mode of
       InteractiveMode \<Rightarrow> interactive_list_Run
     | JobMode \<Rightarrow> job_list_Run
     | RayJobMode \<Rightarrow> ray_job_list_Run
     | RayClusterMode \<Rightarrow> ray_cluster_list_Run
     | SlurmMode \<Rightarrow> slurm_list_Run)"

definition list_ToPrinter ::
  "application_profile_mode \<Rightarrow> 'q list_world \<Rightarrow> ('p, 'q list_object) print_api \<Rightarrow> ('p, 'q) list_command_options \<Rightarrow>
   bool \<Rightarrow> cmd_error + 'q list_object printer" where
  "list_ToPrinter mode =
     (case mode of
       InteractiveMode \<Rightarrow> interactive_ToPrinter
     | JobMode \<Rightarrow> job_ToPrinter
     | RayJobMode \<Rightarrow> ray_job_ToPrinter
     | RayClusterMode \<Rightarrow> ray_cluster_ToPrinter
     | SlurmMode \<Rightarrow> slurm_ToPrinter)"

section \<open>The label selector\<close>

text \<open>
  A label selector is a list of requirements; its text joins them with commas. The requirements of
  a list command: the profile label, the mode for the commands on jobs, the queue when asked for.
\<close>

datatype requirement = LabelExists string | LabelEquals string string

fun requirement_text :: "requirement \<Rightarrow> string" where
  "requirement_text (LabelExists k) = k"
| "requirement_text (LabelEquals k v) = k @ ''='' @ v"

fun satisfies :: "object_meta \<Rightarrow> requirement \<Rightarrow> bool" where
  "satisfies m (LabelExists k) \<longleftrightarrow> label_of m k \<noteq> None"
| "satisfies m (LabelEquals k v) \<longleftrightarrow> label_of m k = Some v"

definition list_requirements ::
  "application_profile_mode \<Rightarrow> 'q list_world \<Rightarrow> ('p, 'q) list_command_options \<Rightarrow> requirement list" where
  "list_requirements mode W opt =
     (if lc_ProfileFilter opt \<noteq> [] then [LabelEquals ProfileLabel (lc_ProfileFilter opt)] else [LabelExists ProfileLabel]) @
     (if mode \<in> {JobMode, SlurmMode} then [LabelEquals ModeLabel (mode_name mode)] else []) @
     (if lc_LocalQueueFilter opt \<noteq> [] then [LabelEquals (lw_QueueLabel W) (lc_LocalQueueFilter opt)] else [])"

definition list_selector ::
  "application_profile_mode \<Rightarrow> 'q list_world \<Rightarrow> ('p, 'q) list_command_options \<Rightarrow> string" where
  "list_selector mode W opt =
     str_join '','' (map requirement_text (list_requirements mode W opt) @
       (if lc_LabelSelector opt \<noteq> [] then [lc_LabelSelector opt] else []))"

definition first_request ::
  "application_profile_mode \<Rightarrow> 'q list_world \<Rightarrow> ('p, 'q) list_command_options \<Rightarrow> list_options" where
  "first_request mode W opt =
     \<lparr>lo_LabelSelector = list_selector mode W opt, lo_FieldSelector = lc_FieldSelector opt,
      lo_Limit = lc_Limit opt, lo_Continue = []\<rparr>"

definition list_namespace :: "('p, 'q) list_command_options \<Rightarrow> string" where
  "list_namespace opt = (if lc_AllNamespaces opt then [] else lc_Namespace opt)"

lemmas list_Run_defs = list_Run_def interactive_list_Run_def job_list_Run_def ray_job_list_Run_def
  ray_cluster_list_Run_def slurm_list_Run_def

lemma list_Run_loop:
  "list_Run mode W P opt =
     list_loop W opt (list_ToPrinter mode W P opt) (list_namespace opt) (first_request mode W opt) 0 []"
  by (cases mode) (simp_all add: list_Run_defs list_ToPrinter_def list_namespace_def first_request_def
      list_selector_def list_requirements_def Let_def)

section \<open>Pages\<close>

text \<open>
  The chain of pages a client sends: each page is the answer to the request with the token of the
  page before, and only the last page has no token.
\<close>

fun page_chain :: "'q list_client \<Rightarrow> string \<Rightarrow> list_options \<Rightarrow> 'q list_object list \<Rightarrow> bool" where
  "page_chain C ns opts [] \<longleftrightarrow> False"
| "page_chain C ns opts (p # ps) \<longleftrightarrow> C ns opts = Inr p \<and>
     (if list_continue p = [] then ps = [] else page_chain C ns (opts\<lparr>lo_Continue := list_continue p\<rparr>) ps)"

text \<open>The texts of the pages; the headers are asked for as long as nothing was listed.\<close>

fun page_texts ::
  "(bool \<Rightarrow> cmd_error + 'q list_object printer) \<Rightarrow> nat \<Rightarrow> 'q list_object list \<Rightarrow> cmd_error + string list" where
  "page_texts TP n [] = Inr []"
| "page_texts TP n (p # ps) =
     and_then (TP (n = 0)) (\<lambda>pr. and_then (map_err PrintError (pr p)) (\<lambda>t.
       and_then (page_texts TP (n + length (list_metas p)) ps) (\<lambda>ts. Inr (t # ts))))"

definition listed :: "'q list_object list \<Rightarrow> object_meta list" where
  "listed pages = concat (map list_metas pages)"

lemma listed_simps [simp]: "listed [] = []" "listed (p # ps) = list_metas p @ listed ps"
  by (simp_all add: listed_def)

text \<open>A chain of pages that can all be printed drives the loop to its end.\<close>

lemma list_loop_chain:
  "page_chain (lc_Client opt) ns opts pages \<Longrightarrow> page_texts TP n pages = Inr ts \<Longrightarrow>
   list_loop W opt TP ns opts n evs =
     Some (list_finish W opt (n + length (listed pages)) (evs @ map TabWrite ts))"
proof (induction pages arbitrary: opts n evs ts)
  case (Cons p ps)
  then show ?case
    by (subst list_loop.simps) (auto simp: add.assoc split: if_splits)
qed simp

text \<open>Conversely, a loop that ends without an error has seen such a chain.\<close>

lemma list_loop_sound:
  assumes run: "list_loop W opt TP ns opts n evs = Some r" and ok: "snd r = None"
  shows "\<exists>pages ts. page_chain (lc_Client opt) ns opts pages \<and> page_texts TP n pages = Inr ts \<and>
    list_finish W opt (n + length (listed pages)) (evs @ map TabWrite ts) = r"
proof (rule list_loop.raw_induct [where P = "\<lambda>W opt TP ns opts n evs r. snd r = None \<longrightarrow>
    (\<exists>pages ts. page_chain (lc_Client opt) ns opts pages \<and> page_texts TP n pages = Inr ts \<and>
      list_finish W opt (n + length (listed pages)) (evs @ map TabWrite ts) = r)",
    THEN mp, OF _ run ok], rule impI, goal_cases)
  case (1 loop W opt TP ns opts n evs r)
  from 1(2,3) obtain p pr t where p: "lc_Client opt ns opts = Inr p" and pr: "TP (n = 0) = Inr pr" "pr p = Inr t"
    by (fastforce split: sum.splits)
  show ?case
  proof (cases "list_continue p = []")
    case True
    with 1(2) p pr have "list_finish W opt (n + length (list_metas p)) (evs @ [TabWrite t]) = r"
      by simp
    with True p pr show ?thesis
      by (intro exI [of _ "[p]"] exI [of _ "[t]"]) simp
  next
    case False
    with 1(2) p pr have "loop W opt TP ns (opts\<lparr>lo_Continue := list_continue p\<rparr>) (n + length (list_metas p))
        (evs @ [TabWrite t]) = Some r"
      by simp
    from 1(1) [OF this] 1(3) obtain ps ts
      where "page_chain (lc_Client opt) ns (opts\<lparr>lo_Continue := list_continue p\<rparr>) ps"
        and "page_texts TP (n + length (list_metas p)) ps = Inr ts"
        and "list_finish W opt (n + length (list_metas p) + length (listed ps))
          ((evs @ [TabWrite t]) @ map TabWrite ts) = r"
      by blast
    with False p pr show ?thesis
      by (intro exI [of _ "p # ps"] exI [of _ "t # ts"]) (simp add: add.assoc)
  qed
qed

section \<open>Well-formed tables\<close>

definition table_ok :: "table \<Rightarrow> bool" where
  "table_ok t \<longleftrightarrow> (\<forall>row \<in> set (tbl_Rows t). length row = length (tbl_ColumnDefinitions t))"

text \<open>The table of a list, by its kind, and the modes the kind belongs to.\<close>

definition list_table :: "'q list_world \<Rightarrow> list_printer \<Rightarrow> 'q list_object \<Rightarrow> table" where
  "list_table W p obj =
     (case obj of
       PodList items c \<Rightarrow> \<lparr>tbl_ColumnDefinitions = pod_columns, tbl_Rows = map (printPod W p) items\<rparr>
     | JobList items c \<Rightarrow> \<lparr>tbl_ColumnDefinitions = job_columns, tbl_Rows = map (printJob W p) items\<rparr>
     | RayJobList items c \<Rightarrow> \<lparr>tbl_ColumnDefinitions = ray_job_columns, tbl_Rows = map (printRayJob W p) items\<rparr>
     | RayClusterList items c \<Rightarrow>
         \<lparr>tbl_ColumnDefinitions = ray_cluster_columns, tbl_Rows = map (printRayCluster W p) items\<rparr>)"

fun list_of_mode :: "application_profile_mode \<Rightarrow> 'q list_object \<Rightarrow> bool" where
  "list_of_mode mode (PodList xs c) \<longleftrightarrow> mode = InteractiveMode"
| "list_of_mode mode (JobList xs c) \<longleftrightarrow> mode = JobMode \<or> mode = SlurmMode"
| "list_of_mode mode (RayJobList xs c) \<longleftrightarrow> mode = RayJobMode"
| "list_of_mode mode (RayClusterList xs c) \<longleftrightarrow> mode = RayClusterMode"

lemmas ToPrinter_defs = interactive_ToPrinter_def job_ToPrinter_def ray_job_ToPrinter_def
  ray_cluster_ToPrinter_def slurm_ToPrinter_def WithClock_def WithHeaders_def WithNamespace_printer_def
  newInteractiveTablePrinter_def newJobTablePrinter_def newRayJobTablePrinter_def newRayClusterTablePrinter_def

lemmas PrintObj_defs = interactive_PrintObj_def job_PrintObj_def ray_job_PrintObj_def ray_cluster_PrintObj_def

lemmas row_defs = printPod_def printJob_def printRayJob_def printRayCluster_def
  pod_columns_def job_columns_def ray_job_columns_def ray_cluster_columns_def

lemma list_table_ok:
  "table_ok (list_table W p obj)" "map hd (tbl_Rows (list_table W p obj)) = map (StringCell \<circ> meta_Name) (list_metas obj)"
  by (cases obj; simp add: list_table_def table_ok_def row_defs Let_def)+

lemma list_ToPrinter_table:
  assumes "\<not> pf_OutputFlagSpecified P (lc_PrintFlags opt)"
  shows "\<exists>pr. list_ToPrinter mode W P opt headers = Inr pr \<and>
    (\<forall>obj. list_of_mode mode obj \<longrightarrow>
      pr obj = lw_print_table W \<lparr>po_NoHeaders = \<not> headers, po_WithNamespace = lc_AllNamespaces opt\<rparr>
        (list_table W \<lparr>lp_clock = lc_Clock opt,
          lp_printOptions = \<lparr>po_NoHeaders = \<not> headers, po_WithNamespace = lc_AllNamespaces opt\<rparr>\<rparr> obj))"
proof -
  have obj: "list_of_mode mode obj \<Longrightarrow> pr obj = lw_print_table W (lp_printOptions q) (list_table W q obj)"
    if "pr = (case mode of InteractiveMode \<Rightarrow> interactive_PrintObj W q | RayJobMode \<Rightarrow> ray_job_PrintObj W q
      | RayClusterMode \<Rightarrow> ray_cluster_PrintObj W q | _ \<Rightarrow> job_PrintObj W q)" for pr q obj
    using that by (cases obj) (auto simp: list_table_def PrintObj_defs)
  show ?thesis
    using assms obj [OF refl] by (cases mode) (simp_all add: list_ToPrinter_def ToPrinter_defs)
qed

text \<open>
  A server that pages its answer: at every token it hands out, and at the empty one of the first
  request, it sends some of the objects that are left and the token for the others; the number of
  pages to come decreases. A page may be empty. Nothing is said of other tokens.
\<close>

definition pages_answer ::
  "application_profile_mode \<Rightarrow> 'q list_client \<Rightarrow> string \<Rightarrow> list_options \<Rightarrow> string set \<Rightarrow>
   (string \<Rightarrow> object_meta list) \<Rightarrow> (string \<Rightarrow> nat) \<Rightarrow> bool" where
  "pages_answer mode C ns opts tokens left rank \<longleftrightarrow> [] \<in> tokens \<and>
     (\<forall>t \<in> tokens. \<exists>p. C ns (opts\<lparr>lo_Continue := t\<rparr>) = Inr p \<and> list_of_mode mode p \<and>
        left t = list_metas p @ (if list_continue p = [] then [] else left (list_continue p)) \<and>
        (list_continue p \<noteq> [] \<longrightarrow> list_continue p \<in> tokens \<and> rank (list_continue p) < rank t))"

lemma pages_answer_chain:
  assumes "pages_answer mode C ns opts tokens left rank" and "t \<in> tokens"
  shows "\<exists>pages. page_chain C ns (opts\<lparr>lo_Continue := t\<rparr>) pages \<and> listed pages = left t \<and>
    list_all (list_of_mode mode) pages"
  using assms(2)
proof (induction "rank t" arbitrary: t rule: less_induct)
  case less
  from assms(1) less.prems obtain p where p: "C ns (opts\<lparr>lo_Continue := t\<rparr>) = Inr p" and m: "list_of_mode mode p"
    and left: "left t = list_metas p @ (if list_continue p = [] then [] else left (list_continue p))"
    and rank: "list_continue p \<noteq> [] \<Longrightarrow> list_continue p \<in> tokens \<and> rank (list_continue p) < rank t"
    unfolding pages_answer_def by blast
  show ?case
  proof (cases "list_continue p = []")
    case True
    with p m left show ?thesis by (intro exI [of _ "[p]"]) simp
  next
    case False
    from rank [OF False] less.hyps obtain ps
      where "page_chain C ns (opts\<lparr>lo_Continue := list_continue p\<rparr>) ps" and "listed ps = left (list_continue p)"
        and "list_all (list_of_mode mode) ps"
      by blast
    with False p m left show ?thesis by (intro exI [of _ "p # ps"]) simp
  qed
qed

lemma page_texts_ok:
  assumes "\<And>h. \<exists>pr. TP h = Inr pr \<and> (\<forall>p \<in> set pages. is_ok (pr p))"
  shows "\<exists>ts. page_texts TP n pages = Inr ts \<and> length ts = length pages"
  using assms
proof (induction pages arbitrary: n)
  case (Cons p ps)
  from Cons.prems [of "n = 0"] obtain pr t where "TP (n = 0) = Inr pr" "pr p = Inr t"
    by (auto simp: is_ok_iff)
  moreover have "\<exists>ts. page_texts TP (n + length (list_metas p)) ps = Inr ts \<and> length ts = length ps"
    by (rule Cons.IH) (use Cons.prems in auto)
  ultimately show ?case by auto
qed simp

section \<open>A sample server\<close>

text \<open>Two pages, the first of them empty.\<close>

definition sample_pod_item :: pod_item where
  "sample_pod_item = \<lparr>pi_Meta = empty_meta\<lparr>meta_Name := ''a''\<rparr>, pi_CreationTimestamp = 0, pi_Phase = ''Running''\<rparr>"

definition sample_list_client :: "unit list_client" where
  "sample_list_client ns opts =
     Inr (if lo_Continue opts = [] then PodList [] ''t''
          else PodList [sample_pod_item] [])"

definition sample_list_world :: "unit list_world" where
  "sample_list_world = \<lparr>lw_getenv = (\<lambda>_. []), lw_now = 0, lw_human_duration = (\<lambda>_. ''0s''),
     lw_datetime = (\<lambda>_. []), lw_quantity = (\<lambda>_. []),
     lw_print_table = (\<lambda>options tbl. Inr (if po_NoHeaders options then ''row'' else ''header row'')),
     lw_flush = Inr (), lw_QueueLabel = ''kueue.x-k8s.io/queue-name''\<rparr>"

definition sample_print_api :: "(unit, unit list_object) print_api" where
  "sample_print_api = \<lparr>NewPrintFlags = (\<lambda>_. ()), pf_Complete = (\<lambda>p t. Inr ()),
     pf_OutputFlagSpecified = (\<lambda>_. False), pf_ToPrinter = (\<lambda>_. Inr (\<lambda>_. Inr []))\<rparr>"

definition sample_list_options :: "application_profile_mode \<Rightarrow> (unit, unit) list_command_options" where
  "sample_list_options mode = \<lparr>lc_Clock = 0, lc_PrintFlags = (), lc_Limit = 1, lc_AllNamespaces = False,
     lc_Namespace = ''ns'', lc_ProfileFilter = [], lc_LocalQueueFilter = [], lc_FieldSelector = [],
     lc_LabelSelector = [], lc_Client = sample_list_client\<rparr>"

lemmas sample_list_defs = sample_pod_item_def sample_list_client_def sample_list_world_def
  sample_print_api_def sample_list_options_def

section \<open>Properties\<close>

text \<open>
  C11. A list command ends without an error exactly when the server sends a finite chain of pages, each
  the answer to the request with the selector of the command and the token of the page before, all
  of which can be printed; then it writes the text of each page once, in their order, and ends with
  a flush, or with a message when there was nothing to list.
\<close>

theorem list_Run_iff:
  "list_Run mode W P opt = Some (evs, None) \<longleftrightarrow>
   (\<exists>pages ts. page_chain (lc_Client opt) (list_namespace opt) (first_request mode W opt) pages \<and>
     page_texts (list_ToPrinter mode W P opt) 0 pages = Inr ts \<and>
     list_finish W opt (length (listed pages)) (map TabWrite ts) = (evs, None))"
proof
  assume "list_Run mode W P opt = Some (evs, None)"
  from list_loop_sound [OF this [unfolded list_Run_loop]]
  show "\<exists>pages ts. page_chain (lc_Client opt) (list_namespace opt) (first_request mode W opt) pages \<and>
     page_texts (list_ToPrinter mode W P opt) 0 pages = Inr ts \<and>
     list_finish W opt (length (listed pages)) (map TabWrite ts) = (evs, None)" by simp
next
  assume "\<exists>pages ts. page_chain (lc_Client opt) (list_namespace opt) (first_request mode W opt) pages \<and>
     page_texts (list_ToPrinter mode W P opt) 0 pages = Inr ts \<and>
     list_finish W opt (length (listed pages)) (map TabWrite ts) = (evs, None)"
  then show "list_Run mode W P opt = Some (evs, None)"
    using list_loop_chain [of opt "list_namespace opt" "first_request mode W opt" _ "list_ToPrinter mode W P opt" 0 _ W "[]"]
    by (auto simp: list_Run_loop)
qed

text \<open>
  C10. Against a server that pages its answer, a list command returns; what it has listed, page by
  page, are all objects the server has for the request, each once and in the server's order, also
  when some pages are empty.
\<close>

theorem list_Run_lists_all:
  assumes "pages_answer mode (lc_Client opt) (list_namespace opt) (first_request mode W opt) tokens left rank"
    and "\<And>h. \<exists>pr. list_ToPrinter mode W P opt h = Inr pr \<and> (\<forall>p. list_of_mode mode p \<longrightarrow> is_ok (pr p))" and "is_ok (lw_flush W)"
  shows "\<exists>pages ts e. listed pages = left [] \<and>
    page_chain (lc_Client opt) (list_namespace opt) (first_request mode W opt) pages \<and>
    page_texts (list_ToPrinter mode W P opt) 0 pages = Inr ts \<and> length ts = length pages \<and>
    list_Run mode W P opt = Some (map TabWrite ts @ [e], None) \<and> (e = TabFlush \<longleftrightarrow> left [] \<noteq> [])"
proof -
  have "(first_request mode W opt)\<lparr>lo_Continue := []\<rparr> = first_request mode W opt" by (simp add: first_request_def)
  moreover have "[] \<in> tokens" using assms(1) by (simp add: pages_answer_def)
  ultimately obtain pages
    where chain: "page_chain (lc_Client opt) (list_namespace opt) (first_request mode W opt) pages"
      and all: "listed pages = left []" and modes: "list_all (list_of_mode mode) pages"
    using pages_answer_chain [OF assms(1), of "[]"] by auto
  from page_texts_ok [of "list_ToPrinter mode W P opt" pages 0] assms(2) modes obtain ts
    where ts: "page_texts (list_ToPrinter mode W P opt) 0 pages = Inr ts" "length ts = length pages"
    by (metis list_all_iff)
  have "\<exists>e. list_finish W opt (length (listed pages)) (map TabWrite ts) = (map TabWrite ts @ [e], None) \<and>
      (e = TabFlush \<longleftrightarrow> left [] \<noteq> [])"
    using assms(3) all by (cases "left [] = []") (auto simp: list_finish_def is_ok_iff)
  then obtain e where "list_finish W opt (length (listed pages)) (map TabWrite ts) = (map TabWrite ts @ [e], None)"
    and "e = TabFlush \<longleftrightarrow> left [] \<noteq> []" by blast
  with list_loop_chain [OF chain ts(1), of W "[]"] chain all ts show ?thesis
    by (intro exI [of _ pages] exI [of _ ts] exI [of _ e]) (simp add: list_Run_loop)
qed

theorem list_Run_lists_all_witness:
  "\<exists>ts. list_Run InteractiveMode sample_list_world sample_print_api (sample_list_options InteractiveMode) =
    Some (map TabWrite ts @ [TabFlush], None)"
proof -
  let ?o = "sample_list_options InteractiveMode" and ?W = sample_list_world
  have pages: "pages_answer InteractiveMode (lc_Client ?o) (list_namespace ?o) (first_request InteractiveMode ?W ?o)
      {[], ''t''} (\<lambda>t. [pi_Meta sample_pod_item]) (\<lambda>t. if t = [] then 1 else 0)"
    by (auto simp: pages_answer_def sample_list_options_def sample_list_client_def)
  have printer: "\<exists>pr. list_ToPrinter InteractiveMode ?W sample_print_api ?o h = Inr pr \<and>
      (\<forall>p. list_of_mode InteractiveMode p \<longrightarrow> is_ok (pr p))" for h
    using list_ToPrinter_table [of sample_print_api ?o InteractiveMode ?W h] by (auto simp: sample_list_defs)
  have "is_ok (lw_flush ?W)" by (simp add: sample_list_world_def)
  from list_Run_lists_all [OF pages printer this] show ?thesis by auto
qed

text \<open>
  C37. The tables are well formed: the printer of a list command, unless an output format was asked
  for, makes a table with one row for each listed object, in their order, that starts with its
  name and has one cell for each column.
\<close>

theorem list_table_type:
  assumes "\<not> pf_OutputFlagSpecified P (lc_PrintFlags opt)" and "list_of_mode mode obj"
  shows "\<exists>pr. list_ToPrinter mode W P opt headers = Inr pr \<and>
    (let options = \<lparr>po_NoHeaders = \<not> headers, po_WithNamespace = lc_AllNamespaces opt\<rparr>;
         tbl = list_table W \<lparr>lp_clock = lc_Clock opt, lp_printOptions = options\<rparr> obj
     in pr obj = lw_print_table W options tbl \<and> table_ok tbl \<and>
        map hd (tbl_Rows tbl) = map (StringCell \<circ> meta_Name) (list_metas obj))"
  using list_ToPrinter_table [OF assms(1), of mode W headers] assms(2) by (auto simp: list_table_ok Let_def)

theorem list_table_type_witness:
  "\<exists>pr. list_ToPrinter InteractiveMode sample_list_world sample_print_api (sample_list_options InteractiveMode) True = Inr pr \<and>
    pr (PodList [sample_pod_item] []) = Inr ''header row''"
  using list_table_type [of sample_print_api "sample_list_options InteractiveMode" InteractiveMode
      "PodList [sample_pod_item] []" sample_list_world True]
  by (auto simp: sample_list_defs Let_def)

end
