(* ===== verification/CreateCmd.thy ===== *)
theory CreateCmd
  imports DeleteCmd SlurmBuilder
begin

text \<open>
  The commands \<open>kjobctl create ...\<close> (\<open>pkg/cmd/create\<close>): completion and checks of the options, the
  creation of the objects the builder returns (the root first, then its children with the root as
  their owner), the interactive session, and waiting for a Slurm job with its logs. What cobra and
  pflag have parsed, the API server, the converter to unstructured objects, the terminal and the
  watches are parameters; the state of the API server has the type \<open>'s\<close>.
\<close>

section \<open>Options\<close>

datatype create_error =
    UnknownCommand string string
  | MustSpecifyScript
  | MustSpecifyOnlyOneScript
  | WaitTimeoutFlag
  | StreamContainerFlag
  | FlagSetError string
  | QuantityError string
  | CannotParseFlag string string
  | CannotParseGpusFlag string gpu_error
  | PodRunningTimeoutNotPositive
  | NodesNotPositive
  | NTasksNotPositive
  | NTasksPerNodeNotPositive
  | CmdFailure cmd_error
  | BuildFailure builder_error
  | CreateFailure string
  | PodFailure string
  | TTYNotAllocated string
  | WaitFailure string
  | TimeoutDeadlineExceeded "string option"
  | CreatePanic

record ('p, 'q) create_options =
  co_PrintFlags :: 'p
  co_PrintObj :: "'q runtime_object printer"
  co_DryRunStrategy :: DryRunStrategy
  co_Namespace :: string
  co_ProfileName :: string
  co_ModeName :: string
  co_Script :: string
  co_InitImage :: string
  co_PodRunningTimeout :: int
  co_FirstNodeIPTimeout :: int
  co_WaitTimeout :: int
  co_FirstNodeIP :: bool
  co_RemoveObject :: bool
  co_ChangeDir :: string
  co_StreamContainers :: "string list"
  co_WorkerContainers :: "string list"
  co_Command :: "string list option"
  co_Parallelism :: "int32 option"
  co_Completions :: "int32 option"
  co_Replicas :: "(string, int) gomap option"
  co_MinReplicas :: "(string, int) gomap option"
  co_MaxReplicas :: "(string, int) gomap option"
  co_Requests :: "'q resource_list option"
  co_LocalQueue :: string
  co_RayCluster :: string
  co_Array :: string
  co_CpusPerTask :: "'q option"
  co_GpusPerTask :: "(string, 'q) gomap option"
  co_MemPerNode :: "'q option"
  co_MemPerTask :: "'q option"
  co_MemPerCPU :: "'q option"
  co_MemPerGPU :: "'q option"
  co_Nodes :: "int32 option"
  co_NTasks :: "int32 option"
  co_NTasksPerNode :: "int32 option"
  co_Output :: string
  co_Error :: string
  co_Input :: string
  co_JobName :: string
  co_Partition :: string
  co_Priority :: string
  co_TimeLimit :: string
  co_IgnoreUnknown :: bool
  co_Wait :: bool
  co_SkipLocalQueueValidation :: bool
  co_SkipPriorityValidation :: bool
  co_PodTemplateLabels :: "str_map option"
  co_PodTemplateAnnotations :: "str_map option"
  co_UserSpecifiedCommand :: string
  co_UserSpecifiedParallelism :: int32
  co_UserSpecifiedCompletions :: int32
  co_UserSpecifiedRequest :: str_map
  co_UserSpecifiedCpusPerTask :: string
  co_UserSpecifiedGpusPerTask :: string
  co_UserSpecifiedMemPerNode :: string
  co_UserSpecifiedMemPerTask :: string
  co_UserSpecifiedMemPerCPU :: string
  co_UserSpecifiedMemPerGPU :: string
  co_UserSpecifiedNodes :: int32
  co_UserSpecifiedNTasks :: int32
  co_UserSpecifiedNTasksPerNode :: int32

text \<open>
  What cobra knows of the command: its name and path, the number of arguments before \<open>--\<close> (or -1),
  the flags that were given, and the values of the string flags.
\<close>

record cobra_command =
  cc_Name :: string
  cc_CommandPath :: string
  cc_ArgsLenAtDash :: int
  cc_Changed :: "string list"
  cc_Flags :: cmd_flags

text \<open>
  The Slurm flag set parses the arguments after \<open>--\<close> into the options; it gives the remaining
  arguments and the flags that were given.
\<close>

type_synonym ('p, 'q) flag_set =
  "string list \<Rightarrow> ('p, 'q) create_options \<Rightarrow> string + ('p, 'q) create_options \<times> string list \<times> string list"

section \<open>Completing the options\<close>

definition createModeSubcommands :: "(string, application_profile_mode) gomap" where
  "createModeSubcommands =
     [(''job'', JobMode), (''interactive'', InteractiveMode), (''rayjob'', RayJobMode),
      (''raycluster'', RayClusterMode), (''slurm'', SlurmMode)]"

definition subcommand_mode :: "string \<Rightarrow> string" where
  "subcommand_mode name = (case mget createModeSubcommands name of None \<Rightarrow> [] | Some m \<Rightarrow> mode_name m)"

text \<open>The script is the one argument the flag set leaves.\<close>

definition complete_script ::
  "('p, 'q) flag_set \<Rightarrow> cobra_command \<Rightarrow> string list \<Rightarrow> ('p, 'q) create_options \<Rightarrow>
   create_error + ('p, 'q) create_options \<times> string list" where
  "complete_script parse cmd args opt =
     (if cc_ArgsLenAtDash cmd = -1 \<or> cc_ArgsLenAtDash cmd > 0
      then case args of [] \<Rightarrow> Inl CreatePanic | a # _ \<Rightarrow> Inl (UnknownCommand a (cc_CommandPath cmd))
      else and_then (map_err FlagSetError (parse (drop (nat (cc_ArgsLenAtDash cmd)) args) opt)) (\<lambda>(opt, slurmArgs, changed).
        case slurmArgs of
          [] \<Rightarrow> Inl MustSpecifyScript
        | script # others \<Rightarrow>
            if others \<noteq> [] then Inl MustSpecifyOnlyOneScript
            else if co_WaitTimeout opt \<noteq> 0 \<and> \<not> co_Wait opt then Inl WaitTimeoutFlag
            else if co_StreamContainers opt \<noteq> [] \<and> \<not> co_Wait opt then Inl StreamContainerFlag
            else Inr (opt\<lparr>co_Script := script\<rparr>, changed)))"

fun parse_requests :: "(string \<Rightarrow> string + 'q) \<Rightarrow> str_map \<Rightarrow> 'q resource_list \<Rightarrow> create_error + 'q resource_list" where
  "parse_requests parse [] acc = Inr acc"
| "parse_requests parse ((key, v) # rs) acc =
     and_then (map_err QuantityError (parse v)) (\<lambda>quantity. parse_requests parse rs (mput key quantity acc))"

text \<open>The options common to the modes: command, parallelism, completions, requests, time to wait for a pod.\<close>

definition complete_general ::
  "(string \<Rightarrow> string + 'q) \<Rightarrow> cobra_command \<Rightarrow> ('p, 'q) create_options \<Rightarrow> create_error + ('p, 'q) create_options" where
  "complete_general parse cmd opt =
     (let opt = (if co_UserSpecifiedCommand opt \<noteq> []
                 then opt\<lparr>co_Command := Some (str_fields (co_UserSpecifiedCommand opt))\<rparr> else opt);
          opt = (if flag_name ParallelismFlag \<in> set (cc_Changed cmd)
                 then opt\<lparr>co_Parallelism := Some (co_UserSpecifiedParallelism opt)\<rparr> else opt);
          opt = (if flag_name CompletionsFlag \<in> set (cc_Changed cmd)
                 then opt\<lparr>co_Completions := Some (co_UserSpecifiedCompletions opt)\<rparr> else opt)
      in and_then
          (if co_UserSpecifiedRequest opt \<noteq> []
           then and_then (parse_requests parse (co_UserSpecifiedRequest opt) []) (\<lambda>rs. Inr (opt\<lparr>co_Requests := Some rs\<rparr>))
           else Inr opt)
          (\<lambda>opt. if ''pod-running-timeout'' \<in> set (cc_Changed cmd) \<and> co_PodRunningTimeout opt \<le> 0
                 then Inl PodRunningTimeoutNotPositive else Inr opt))"

text \<open>A quantity flag of the Slurm flag set, when it was given.\<close>

definition changed_quantity ::
  "(string \<Rightarrow> string + 'q) \<Rightarrow> string list \<Rightarrow> flag \<Rightarrow> string \<Rightarrow> 'q option \<Rightarrow> create_error + 'q option" where
  "changed_quantity parse changed f v cur =
     (if flag_name f \<in> set changed
      then and_then (map_err (CannotParseFlag v) (parse v)) (\<lambda>quantity. Inr (Some quantity))
      else Inr cur)"

definition changed_count ::
  "string list \<Rightarrow> flag \<Rightarrow> create_error \<Rightarrow> int32 \<Rightarrow> int32 option \<Rightarrow> create_error + int32 option" where
  "changed_count changed f err v cur =
     (if flag_name f \<in> set changed then if sint v \<le> 0 then Inl err else Inr (Some v) else Inr cur)"

definition complete_slurm ::
  "(string \<Rightarrow> string + 'q) \<Rightarrow> string list \<Rightarrow> ('p, 'q) create_options \<Rightarrow> create_error + ('p, 'q) create_options" where
  "complete_slurm parse changed opt =
     and_then (changed_quantity parse changed CpusPerTaskFlag (co_UserSpecifiedCpusPerTask opt) (co_CpusPerTask opt)) (\<lambda>cpus.
     and_then
       (if flag_name GpusPerTaskFlag \<in> set changed
        then and_then (map_err (CannotParseGpusFlag (co_UserSpecifiedGpusPerTask opt))
          (GpusFlag parse (co_UserSpecifiedGpusPerTask opt))) (\<lambda>g. Inr (Some g))
        else Inr (co_GpusPerTask opt)) (\<lambda>gpus.
     and_then (changed_quantity parse changed MemPerNodeFlag (co_UserSpecifiedMemPerNode opt) (co_MemPerNode opt)) (\<lambda>memNode.
     and_then (changed_quantity parse changed MemPerTaskFlag (co_UserSpecifiedMemPerTask opt) (co_MemPerTask opt)) (\<lambda>memTask.
     and_then (changed_quantity parse changed MemPerCPUFlag (co_UserSpecifiedMemPerCPU opt) (co_MemPerCPU opt)) (\<lambda>memCPU.
     and_then (changed_quantity parse changed MemPerGPUFlag (co_UserSpecifiedMemPerGPU opt) (co_MemPerGPU opt)) (\<lambda>memGPU.
     and_then (changed_count changed NodesFlag NodesNotPositive (co_UserSpecifiedNodes opt) (co_Nodes opt)) (\<lambda>nodes.
     and_then (changed_count changed NTasksFlag NTasksNotPositive (co_UserSpecifiedNTasks opt) (co_NTasks opt)) (\<lambda>nTasks.
     and_then (changed_count changed NTasksPerNodeFlag NTasksPerNodeNotPositive
       (co_UserSpecifiedNTasksPerNode opt) (co_NTasksPerNode opt)) (\<lambda>perNode.
       Inr (opt\<lparr>co_CpusPerTask := cpus, co_GpusPerTask := gpus, co_MemPerNode := memNode, co_MemPerTask := memTask,
                co_MemPerCPU := memCPU, co_MemPerGPU := memGPU, co_Nodes := nodes, co_NTasks := nTasks,
                co_NTasksPerNode := perNode\<rparr>))))))))))"

text \<open>
  The configuration for the attach request: \<open>setKubernetesDefaults\<close> fills in group version, path
  and serializer; the rest is done by \<open>rest.SetKubernetesDefaults\<close>, a parameter.
\<close>

record attach_config =
  cfg_GroupVersion :: "(string \<times> string) option"
  cfg_APIPath :: string
  cfg_NegotiatedSerializer :: "string option"

definition setKubernetesDefaults ::
  "string \<Rightarrow> (attach_config \<Rightarrow> string + attach_config) \<Rightarrow> attach_config \<Rightarrow> string + attach_config" where
  "setKubernetesDefaults codecs rest_SetKubernetesDefaults config =
     (let config = config\<lparr>cfg_GroupVersion := Some ([], ''v1'')\<rparr>;
          config = (if cfg_APIPath config = [] then config\<lparr>cfg_APIPath := ''/api''\<rparr> else config);
          config = (if cfg_NegotiatedSerializer config = None
                    then config\<lparr>cfg_NegotiatedSerializer := Some codecs\<rparr> else config)
      in rest_SetKubernetesDefaults config)"

definition create_Complete ::
  "(string \<Rightarrow> string + 'q) \<Rightarrow> ('p, 'q runtime_object) print_api \<Rightarrow> ('p, 'q) flag_set \<Rightarrow> string + string \<Rightarrow> string + attach_config \<Rightarrow>
   (attach_config \<Rightarrow> string + attach_config) \<Rightarrow> cobra_command \<Rightarrow> string list \<Rightarrow> ('p, 'q) create_options \<Rightarrow>
   create_error + ('p, 'q) create_options \<times> attach_config" where
  "create_Complete parse P flagSet namespace restConfig defaults cmd args opt =
     (let opt = opt\<lparr>co_ModeName := subcommand_mode (cc_Name cmd)\<rparr>
      in and_then
        (if co_ModeName opt = mode_name SlurmMode then complete_script flagSet cmd args opt else Inr (opt, [])) (\<lambda>(opt, changed).
         and_then (map_err (CmdFailure \<circ> ConfigError) namespace) (\<lambda>ns.
         and_then (complete_general parse cmd (opt\<lparr>co_Namespace := ns\<rparr>)) (\<lambda>opt.
         and_then (complete_slurm parse changed opt) (\<lambda>opt.
         and_then (map_err CmdFailure (GetDryRunStrategy (cc_Flags cmd))) (\<lambda>strategy.
         and_then (map_err CmdFailure (PrintFlagsWithDryRunStrategy P (co_PrintFlags opt) strategy)) (\<lambda>printFlags.
         and_then (map_err (CmdFailure \<circ> PrintError) (pf_ToPrinter P printFlags)) (\<lambda>printObj.
         and_then (map_err (CmdFailure \<circ> ConfigError) restConfig) (\<lambda>config.
         and_then (map_err (CmdFailure \<circ> ConfigError) (setKubernetesDefaults ''kjob codecs'' defaults config)) (\<lambda>config.
           Inr (opt\<lparr>co_DryRunStrategy := strategy, co_PrintFlags := printFlags, co_PrintObj := printObj\<rparr>, config)))))))))))"

section \<open>The builder of the objects\<close>

definition builder_of :: "string \<Rightarrow> ('p, 'q) create_options \<Rightarrow> 'q builder" where
  "builder_of runTime opt =
     fold (\<lambda>with b. with b)
       [WithNamespace (co_Namespace opt), WithProfileName (co_ProfileName opt), WithModeName (co_ModeName opt),
        WithCommand (co_Command opt), WithParallelism (co_Parallelism opt), WithCompletions (co_Completions opt),
        WithReplicas (co_Replicas opt), WithMinReplicas (co_MinReplicas opt), WithMaxReplicas (co_MaxReplicas opt),
        WithRequests (co_Requests opt), WithLocalQueue (co_LocalQueue opt), WithRayCluster (co_RayCluster opt),
        WithScript (co_Script opt), WithArray (co_Array opt), WithCpusPerTask (co_CpusPerTask opt),
        WithGpusPerTask (co_GpusPerTask opt), WithMemPerNode (co_MemPerNode opt), WithMemPerTask (co_MemPerTask opt),
        WithMemPerCPU (co_MemPerCPU opt), WithMemPerGPU (co_MemPerGPU opt), WithNodes (co_Nodes opt),
        WithNTasks (co_NTasks opt), WithNTasksPerNode (co_NTasksPerNode opt), WithOutput (co_Output opt),
        WithError (co_Error opt), WithInput (co_Input opt), WithJobName (co_JobName opt),
        WithPartition (co_Partition opt), WithPriority (co_Priority opt), WithInitImage (co_InitImage opt),
        WithIgnoreUnknown (co_IgnoreUnknown opt), WithSkipLocalQueueValidation (co_SkipLocalQueueValidation opt),
        WithSkipPriorityValidation (co_SkipPriorityValidation opt), WithChangeDir (co_ChangeDir opt),
        WithFirstNodeIP (co_FirstNodeIP opt), WithFirstNodeIPTimeout (co_FirstNodeIPTimeout opt),
        WithTimeLimit (co_TimeLimit opt), WithPodTemplateLabels (co_PodTemplateLabels opt),
        WithPodTemplateAnnotations (co_PodTemplateAnnotations opt), WithWorkerContainers (co_WorkerContainers opt)]
       (NewBuilder runTime)"

section \<open>The world of the create command\<close>

text \<open>A pod as the API server sends it.\<close>

record 'q live_pod =
  pod_Meta :: object_meta
  pod_Phase :: string
  pod_Containers :: "'q container list"

record attach_request =
  at_Namespace :: string
  at_Name :: string
  at_Container :: string
  at_Stdin :: bool
  at_Stderr :: bool
  at_TTY :: bool

text \<open>Which channel of the \<open>select\<close> in \<open>watchJobAndStreamLogs\<close> is ready first, and what it carries.\<close>

datatype wait_event =
    SignalReceived string
  | WaitTimedOut
  | PodWatchEnded "string option"
  | JobWatchEnded "string option"

record ('s, 'q) create_world =
  cw_DynamicClient :: "string + unit"
  cw_ToRESTMapper :: "string + unit"
  cw_RESTMapping :: "string \<Rightarrow> string \<Rightarrow> string + string"
  cw_ToUnstructured :: "'q runtime_object \<Rightarrow> string + 'q runtime_object"
  cw_FromUnstructured :: "'q runtime_object \<Rightarrow> 'q runtime_object \<Rightarrow> string + 'q runtime_object"
  cw_Create :: "'s \<Rightarrow> string \<Rightarrow> string \<Rightarrow> 'q runtime_object \<Rightarrow> string list \<Rightarrow> 's \<times> (string + 'q runtime_object)"
  cw_K8sClientset :: "string + unit"
  cw_DeletePod :: "'s \<Rightarrow> string \<Rightarrow> string \<Rightarrow> 's \<times> string option"
  cw_DeleteJob :: "'s \<Rightarrow> string \<Rightarrow> string \<Rightarrow> delete_options \<Rightarrow> 's \<times> string option"
  cw_GetPod :: "'s \<Rightarrow> string \<Rightarrow> string \<Rightarrow> string + 'q live_pod"
  cw_Poll :: "int \<Rightarrow> int \<Rightarrow> bool \<Rightarrow> ('s \<Rightarrow> string + bool) \<Rightarrow> 's \<Rightarrow> 's \<times> string option"
  cw_tty_Raw :: bool
  cw_Attach :: "'s \<Rightarrow> attach_request \<Rightarrow> 's \<times> string option"
  cw_wait :: wait_event

text \<open>What a run does, and whether the error stream is still there (it is set to nil for a raw terminal).\<close>

datatype 'q create_event =
    CreateCall string string "'q runtime_object" "string list"
  | PrintOut string
  | PrintErr string
  | DeletePodCall string string
  | DeleteJobCall string string delete_options
  | AttachCall attach_request

record ('s, 'q) create_state =
  cs_server :: 's
  cs_events :: "'q create_event list"
  cs_ErrOut :: bool

definition log_event :: "'q create_event \<Rightarrow> ('s, 'q) create_state \<Rightarrow> ('s, 'q) create_state" where
  "log_event e st = st\<lparr>cs_events := cs_events st @ [e]\<rparr>"

section \<open>Creating objects\<close>

fun with_meta :: "(object_meta \<Rightarrow> object_meta) \<Rightarrow> 'q runtime_object \<Rightarrow> 'q runtime_object" where
  "with_meta f (PodObject m s) = PodObject (f m) s"
| "with_meta f (JobObject m s) = JobObject (f m) s"
| "with_meta f (RayJobObject m s) = RayJobObject (f m) s"
| "with_meta f (RayClusterObject m s) = RayClusterObject (f m) s"
| "with_meta f (ConfigMapObject m d) = ConfigMapObject (f m) d"
| "with_meta f (ServiceObject m c s) = ServiceObject (f m) c s"

definition owner_reference_of :: "'q runtime_object \<Rightarrow> owner_reference" where
  "owner_reference_of owner =
     \<lparr>own_APIVersion = object_api_version owner, own_Kind = object_kind owner,
      own_Name = meta_Name (object_meta_of owner), own_UID = meta_UID (object_meta_of owner)\<rparr>"

text \<open>The object to send and its resource.\<close>

definition prepare_object ::
  "('s, 'q) create_world \<Rightarrow> 'q runtime_object \<Rightarrow> 'q runtime_object option \<Rightarrow> string + string \<times> 'q runtime_object" where
  "prepare_object W obj owner =
     and_then (cw_DynamicClient W) (\<lambda>_.
     and_then (cw_ToRESTMapper W) (\<lambda>_.
     and_then (cw_RESTMapping W (object_kind obj) (object_api_version obj)) (\<lambda>gvr.
     and_then (cw_ToUnstructured W obj) (\<lambda>unstructuredObj.
       case owner of
         None \<Rightarrow> Inr (gvr, unstructuredObj)
       | Some owner \<Rightarrow>
           and_then (cw_ToUnstructured W owner) (\<lambda>unstructuredOwner.
             Inr (gvr, with_meta (\<lambda>m. m\<lparr>meta_OwnerReferences :=
               meta_OwnerReferences (object_meta_of unstructuredOwner) @ [owner_reference_of unstructuredOwner]\<rparr>)
               unstructuredObj))))))"

definition createObject ::
  "('s, 'q) create_world \<Rightarrow> ('p, 'q) create_options \<Rightarrow> 'q runtime_object \<Rightarrow> 'q runtime_object option \<Rightarrow>
   ('s, 'q) create_state \<Rightarrow> ('s, 'q) create_state \<times> (create_error + 'q runtime_object)" where
  "createObject W opt obj owner st =
     (let dryRun = (if co_DryRunStrategy opt = DryRunServer then [DryRunAll] else [])
      in case prepare_object W obj owner of
           Inl e \<Rightarrow> (st, Inl (CreateFailure e))
         | Inr (gvr, unstructuredObj) \<Rightarrow>
             (case cw_Create W (cs_server st) gvr (co_Namespace opt) unstructuredObj dryRun of
               (server, r) \<Rightarrow>
                 (log_event (CreateCall gvr (co_Namespace opt) unstructuredObj dryRun) (st\<lparr>cs_server := server\<rparr>),
                  map_err CreateFailure (and_then r (\<lambda>created. cw_FromUnstructured W created obj)))))"

definition print_created ::
  "('p, 'q) create_options \<Rightarrow> 'q runtime_object \<Rightarrow> ('s, 'q) create_state \<Rightarrow>
   ('s, 'q) create_state \<times> create_error option" where
  "print_created opt obj st =
     (case co_PrintObj opt obj of
       Inl e \<Rightarrow> (st, Some (CmdFailure (PrintError e)))
     | Inr t \<Rightarrow> (log_event (PrintOut t) st, None))"

text \<open>Creating, unless the client only pretends.\<close>

definition create_unless_client ::
  "('s, 'q) create_world \<Rightarrow> ('p, 'q) create_options \<Rightarrow> 'q runtime_object \<Rightarrow> 'q runtime_object option \<Rightarrow>
   ('s, 'q) create_state \<Rightarrow> ('s, 'q) create_state \<times> (create_error + 'q runtime_object)" where
  "create_unless_client W opt obj owner st =
     (if co_DryRunStrategy opt \<noteq> DryRunClient then createObject W opt obj owner st else (st, Inr obj))"

definition create_child ::
  "('s, 'q) create_world \<Rightarrow> ('p, 'q) create_options \<Rightarrow> 'q runtime_object \<Rightarrow> 'q runtime_object \<Rightarrow>
   ('s, 'q) create_state \<Rightarrow> ('s, 'q) create_state \<times> create_error option" where
  "create_child W opt root child st =
     (case create_unless_client W opt child (Some root) st of
       (st', Inl e) \<Rightarrow> (st', Some e)
     | (st', Inr created) \<Rightarrow> print_created opt created st')"

section \<open>Interactive pods\<close>

definition isPodRunning :: "('s, 'q) create_world \<Rightarrow> string \<Rightarrow> string \<Rightarrow> 's \<Rightarrow> string + bool" where
  "isPodRunning W podName namespace s =
     and_then (cw_GetPod W s namespace podName) (\<lambda>pod. Inr (pod_Phase pod = ''Running''))"

text \<open>\<open>waitForPodRunning\<close> polls every second, starting at once.\<close>

definition waitForPodRunning ::
  "('s, 'q) create_world \<Rightarrow> string \<Rightarrow> string \<Rightarrow> int \<Rightarrow> 's \<Rightarrow> 's \<times> string option" where
  "waitForPodRunning W namespace podName timeout s =
     cw_Poll W 1000000000 timeout True (isPodRunning W podName namespace) s"

definition attachTTY ::
  "('s, 'q) create_world \<Rightarrow> 'q live_pod \<Rightarrow> ('s, 'q) create_state \<Rightarrow> ('s, 'q) create_state \<times> create_error option" where
  "attachTTY W pod st =
     (case pod_Containers pod of
       [] \<Rightarrow> (st, Some CreatePanic)
     | containerToAttach # _ \<Rightarrow>
         if \<not> ctr_TTY containerToAttach then (st, Some (TTYNotAllocated (ctr_Name containerToAttach)))
         else
           let st = (if cw_tty_Raw W then st\<lparr>cs_ErrOut := False\<rparr> else st);
               req = \<lparr>at_Namespace = meta_Namespace (pod_Meta pod), at_Name = meta_Name (pod_Meta pod),
                      at_Container = ctr_Name containerToAttach, at_Stdin = True,
                      at_Stderr = cs_ErrOut st, at_TTY = True\<rparr>
           in case cw_Attach W (cs_server st) req of
                (server, err) \<Rightarrow> (log_event (AttachCall req) (st\<lparr>cs_server := server\<rparr>), map_option PodFailure err))"

definition interactive_session ::
  "('s, 'q) create_world \<Rightarrow> ('p, 'q) create_options \<Rightarrow> string \<Rightarrow> ('s, 'q) create_state \<Rightarrow>
   ('s, 'q) create_state \<times> create_error option" where
  "interactive_session W opt podName st =
     (let st = log_event (PrintOut (''waiting for pod \"'' @ podName @ ''\" to be running...'' @ newline)) st
      in case waitForPodRunning W (co_Namespace opt) podName (co_PodRunningTimeout opt) (cs_server st) of
           (server, Some e) \<Rightarrow> (st\<lparr>cs_server := server\<rparr>, Some (PodFailure e))
         | (server, None) \<Rightarrow>
             (case cw_GetPod W server (co_Namespace opt) podName of
               Inl e \<Rightarrow> (st\<lparr>cs_server := server\<rparr>, Some (PodFailure e))
             | Inr pod \<Rightarrow> attachTTY W pod (st\<lparr>cs_server := server\<rparr>)))"

text \<open>The deferred deletion of the pod: it reports an error and then, in any case, the deletion.\<close>

definition remove_pod ::
  "('s, 'q) create_world \<Rightarrow> ('p, 'q) create_options \<Rightarrow> string \<Rightarrow> ('s, 'q) create_state \<Rightarrow>
   ('s, 'q) create_state \<times> create_error option" where
  "remove_pod W opt podName st =
     (case cw_DeletePod W (cs_server st) (co_Namespace opt) podName of
       (server, err) \<Rightarrow>
         let st = log_event (DeletePodCall (co_Namespace opt) podName) (st\<lparr>cs_server := server\<rparr>);
             deleted = PrintOut (''pod \"'' @ podName @ ''\" deleted'' @ newline)
         in case err of
              None \<Rightarrow> (log_event deleted st, None)
            | Some e \<Rightarrow> if cs_ErrOut st then (log_event deleted (log_event (PrintErr (e @ newline)) st), None)
                        else (st, Some CreatePanic))"

definition RunInteractivePod ::
  "('s, 'q) create_world \<Rightarrow> ('p, 'q) create_options \<Rightarrow> string \<Rightarrow> ('s, 'q) create_state \<Rightarrow>
   ('s, 'q) create_state \<times> create_error option" where
  "RunInteractivePod W opt podName st =
     (case cw_K8sClientset W of
       Inl e \<Rightarrow> (st, Some (CmdFailure (ConfigError e)))
     | Inr _ \<Rightarrow>
         (case interactive_session W opt podName st of
           (st', r) \<Rightarrow>
             if co_RemoveObject opt
             then case remove_pod W opt podName st' of
                    (st'', Some e) \<Rightarrow> (st'', Some e)
                  | (st'', None) \<Rightarrow> (st'', r)
             else (st', r)))"

section \<open>Waiting for a Slurm job\<close>

definition removeObject ::
  "('s, 'q) create_world \<Rightarrow> ('p, 'q) create_options \<Rightarrow> string \<Rightarrow> ('s, 'q) create_state \<Rightarrow>
   ('s, 'q) create_state \<times> string option" where
  "removeObject W opt jobName st =
     (if co_RemoveObject opt
      then
        let st = log_event (PrintOut (''Stopping the job and cleaning up...'' @ newline)) st;
            options = \<lparr>do_PropagationPolicy = Some DeletePropagationBackground, do_DryRun = []\<rparr>
        in case cw_DeleteJob W (cs_server st) (co_Namespace opt) jobName options of
             (server, err) \<Rightarrow>
               (log_event (DeleteJobCall (co_Namespace opt) jobName options) (st\<lparr>cs_server := server\<rparr>), err)
      else (st, None))"

definition watchJobAndStreamLogs ::
  "('s, 'q) create_world \<Rightarrow> ('p, 'q) create_options \<Rightarrow> string \<Rightarrow> ('s, 'q) create_state \<Rightarrow>
   ('s, 'q) create_state \<times> create_error option" where
  "watchJobAndStreamLogs W opt jobName st =
     (case cw_K8sClientset W of
       Inl e \<Rightarrow> (st, Some (CmdFailure (ConfigError e)))
     | Inr _ \<Rightarrow>
         (case cw_wait W of
           SignalReceived sig \<Rightarrow>
             (case removeObject W opt jobName (log_event (PrintOut (''Received signal: '' @ sig @ newline)) st) of
               (st', err) \<Rightarrow> (st', map_option WaitFailure err))
         | WaitTimedOut \<Rightarrow>
             (case removeObject W opt jobName st of (st', err) \<Rightarrow> (st', Some (TimeoutDeadlineExceeded err)))
         | PodWatchEnded (Some e) \<Rightarrow> (st, Some (WaitFailure (''error watching job pods: '' @ e)))
         | PodWatchEnded None \<Rightarrow> (st, None)
         | JobWatchEnded (Some e) \<Rightarrow> (st, Some (WaitFailure (''checking job completion: '' @ e)))
         | JobWatchEnded None \<Rightarrow> (log_event (PrintOut (''Job logs streaming finished.'' @ newline)) st, None)))"

section \<open>Running\<close>

definition finish_create ::
  "('s, 'q) create_world \<Rightarrow> ('p, 'q) create_options \<Rightarrow> 'q runtime_object \<Rightarrow> ('s, 'q) create_state \<Rightarrow>
   ('s, 'q) create_state \<times> create_error option" where
  "finish_create W opt root st =
     (if co_DryRunStrategy opt = DryRunNone \<and> co_ModeName opt = mode_name InteractiveMode
      then case root of
             PodObject m s \<Rightarrow> RunInteractivePod W opt (meta_Name m) st
           | _ \<Rightarrow> (st, Some CreatePanic)
      else if co_ModeName opt = mode_name SlurmMode \<and> co_Wait opt
      then case root of
             JobObject m s \<Rightarrow> watchJobAndStreamLogs W opt (meta_Name m) st
           | _ \<Rightarrow> (st, Some CreatePanic)
      else (st, None))"

definition create_objects ::
  "('s, 'q) create_world \<Rightarrow> ('p, 'q) create_options \<Rightarrow> 'q runtime_object \<Rightarrow> 'q runtime_object list \<Rightarrow>
   ('s, 'q) create_state \<Rightarrow> ('s, 'q) create_state \<times> create_error option" where
  "create_objects W opt rootObj childObjs st =
     (case create_unless_client W opt rootObj None st of
       (st1, Inl e) \<Rightarrow> (st1, Some e)
     | (st1, Inr root) \<Rightarrow>
         (case print_created opt root st1 of
           (st2, Some e) \<Rightarrow> (st2, Some e)
         | (st2, None) \<Rightarrow>
             (case for_each (create_child W opt root) childObjs st2 of
               (st3, Some e) \<Rightarrow> (st3, Some e)
             | (st3, None) \<Rightarrow> finish_create W opt root st3)))"

definition create_Run ::
  "'q world \<Rightarrow> ('s, 'q) create_world \<Rightarrow> string \<Rightarrow> ('p, 'q) create_options \<Rightarrow> ('s, 'q) create_state \<Rightarrow>
   (('s, 'q) create_state \<times> create_error option) option" where
  "create_Run BW W runTime opt st =
     (case Do BW (builder_of runTime opt) of
       None \<Rightarrow> None
     | Some (Inl e) \<Rightarrow> Some (st, Some (BuildFailure e))
     | Some (Inr (rootObj, childObjs)) \<Rightarrow> Some (create_objects W opt rootObj childObjs st))"

section \<open>Log streams\<close>

datatype watch_type = WatchAdded | WatchModified | WatchDeleted | WatchBookmark | WatchError

text \<open>The containers whose logs are streamed.\<close>

definition stream_containers :: "('p, 'q) create_options \<Rightarrow> 'q live_pod \<Rightarrow> string list" where
  "stream_containers opt pod =
     filter (\<lambda>c. c \<noteq> SlurmInitContainerName \<and> \<not> (co_StreamContainers opt \<noteq> [] \<and> c \<notin> set (co_StreamContainers opt)))
       (map ctr_Name (pod_Containers pod))"

text \<open>
  \<open>streamLogsFromPod\<close>: \<open>LoadOrStore\<close> on the map of active streams, then one stream for each
  container. The state is the names in the map and the streams that were started.
\<close>

type_synonym streams = "string list \<times> (string \<times> string) list"

definition streamLogsFromPod :: "('p, 'q) create_options \<Rightarrow> 'q live_pod \<Rightarrow> streams \<Rightarrow> streams" where
  "streamLogsFromPod opt pod st =
     (case st of (active, started) \<Rightarrow>
       let name = meta_Name (pod_Meta pod)
       in if name \<in> set active then (active, started)
          else (active @ [name], started @ map (Pair name) (stream_containers opt pod)))"

text \<open>\<open>watchJobPods\<close>: an event of a pod that runs or has ended starts its streams; other objects are skipped.\<close>

definition pod_event :: "('p, 'q) create_options \<Rightarrow> watch_type \<times> 'q live_pod option \<Rightarrow> streams \<Rightarrow> streams" where
  "pod_event opt ev st =
     (case ev of
       (t, None) \<Rightarrow> st
     | (t, Some pod) \<Rightarrow>
         if t \<in> {WatchAdded, WatchModified} \<and> pod_Phase pod \<in> {''Running'', ''Succeeded'', ''Failed''}
         then streamLogsFromPod opt pod st else st)"

definition watchJobPods ::
  "string + unit \<Rightarrow> string + (watch_type \<times> 'q live_pod option) list \<Rightarrow> ('p, 'q) create_options \<Rightarrow> streams \<Rightarrow>
   streams \<times> string option" where
  "watchJobPods clientset watch opt st =
     (case and_then clientset (\<lambda>_. watch) of
       Inl e \<Rightarrow> (st, Some e)
     | Inr events \<Rightarrow> (fold (pod_event opt) events st, None))"

text \<open>
  \<open>verifyJobFinished\<close> on the events of the watch so far: \<open>None\<close> while it waits. A job comes with the
  type and status of its conditions.
\<close>

type_synonym job_event = "watch_type \<times> (string \<times> string) list option"

definition job_finished :: "(string \<times> string) list \<Rightarrow> bool" where
  "job_finished conditions \<longleftrightarrow>
     (\<exists>c \<in> set conditions. (fst c = ''Complete'' \<or> fst c = ''Failed'') \<and> snd c = ''True'')"

fun job_events_loop :: "job_event list \<Rightarrow> bool \<Rightarrow> string option option" where
  "job_events_loop [] closed = (if closed then Some None else None)"
| "job_events_loop ((t, None) # es) closed = job_events_loop es closed"
| "job_events_loop ((t, Some conditions) # es) closed =
     (case t of
       WatchModified \<Rightarrow> if job_finished conditions then Some None else job_events_loop es closed
     | WatchDeleted \<Rightarrow> Some None
     | _ \<Rightarrow> job_events_loop es closed)"

definition verifyJobFinished :: "string + job_event list \<Rightarrow> bool \<Rightarrow> string option option" where
  "verifyJobFinished watch closed =
     (case watch of Inl e \<Rightarrow> Some (Some e) | Inr events \<Rightarrow> job_events_loop events closed)"

section \<open>What each part adds to the events\<close>

fun is_create_call :: "'q create_event \<Rightarrow> bool" where
  "is_create_call (CreateCall g ns obj d) = True"
| "is_create_call e = False"

fun is_pod_delete :: "'q create_event \<Rightarrow> bool" where
  "is_pod_delete (DeletePodCall ns n) = True"
| "is_pod_delete e = False"

definition create_calls :: "('s, 'q) create_state \<Rightarrow> 'q create_event list" where
  "create_calls st = filter is_create_call (cs_events st)"

definition pod_deletes :: "('s, 'q) create_state \<Rightarrow> 'q create_event list" where
  "pod_deletes st = filter is_pod_delete (cs_events st)"

lemma log_event_calls [simp]:
  "create_calls (log_event e st) = create_calls st @ (if is_create_call e then [e] else [])"
  "pod_deletes (log_event e st) = pod_deletes st @ (if is_pod_delete e then [e] else [])"
  "cs_server (log_event e st) = cs_server st" "cs_ErrOut (log_event e st) = cs_ErrOut st"
  by (simp_all add: log_event_def create_calls_def pod_deletes_def)

lemma state_update_calls [simp]:
  "create_calls (st\<lparr>cs_server := s\<rparr>) = create_calls st" "create_calls (st\<lparr>cs_ErrOut := b\<rparr>) = create_calls st"
  "pod_deletes (st\<lparr>cs_server := s\<rparr>) = pod_deletes st" "pod_deletes (st\<lparr>cs_ErrOut := b\<rparr>) = pod_deletes st"
  by (simp_all add: create_calls_def pod_deletes_def)

lemma attachTTY_calls [simp]:
  "create_calls (fst (attachTTY W pod st)) = create_calls st" "pod_deletes (fst (attachTTY W pod st)) = pod_deletes st"
  by (simp_all add: attachTTY_def Let_def split: list.splits prod.splits)

lemma interactive_session_calls [simp]:
  "create_calls (fst (interactive_session W opt n st)) = create_calls st"
  "pod_deletes (fst (interactive_session W opt n st)) = pod_deletes st"
  by (simp_all add: interactive_session_def Let_def split: prod.splits option.splits sum.splits)

lemma remove_pod_calls [simp]:
  "create_calls (fst (remove_pod W opt n st)) = create_calls st"
  "pod_deletes (fst (remove_pod W opt n st)) = pod_deletes st @ [DeletePodCall (co_Namespace opt) n]"
  by (simp_all add: remove_pod_def Let_def split: prod.splits option.splits)

lemma RunInteractivePod_creates [simp]: "create_calls (fst (RunInteractivePod W opt n st)) = create_calls st"
proof (cases "cw_K8sClientset W")
  case (Inr u)
  obtain st1 r1 where s: "interactive_session W opt n st = (st1, r1)" by fastforce
  obtain st2 r2 where d: "remove_pod W opt n st1 = (st2, r2)" by fastforce
  have "create_calls st2 = create_calls st"
    using remove_pod_calls(1) [of W opt n st1] interactive_session_calls(1) [of W opt n st] s d by simp
  moreover have "create_calls st1 = create_calls st"
    using interactive_session_calls(1) [of W opt n st] s by simp
  ultimately show ?thesis using Inr s d by (simp add: RunInteractivePod_def split: option.splits)
qed (simp add: RunInteractivePod_def)

lemma removeObject_creates [simp]: "create_calls (fst (removeObject W opt n st)) = create_calls st"
  by (simp add: removeObject_def Let_def split: prod.splits)

lemma watchJob_creates [simp]: "create_calls (fst (watchJobAndStreamLogs W opt n st)) = create_calls st"
proof -
  have r: "create_calls st2 = create_calls st1" if "removeObject W opt n st1 = (st2, e)" for st1 st2 e
    using removeObject_creates [of W opt n st1] that by simp
  show ?thesis
    by (auto simp: watchJobAndStreamLogs_def dest!: r split: sum.splits wait_event.splits prod.splits option.splits)
qed

lemma finish_create_creates [simp]: "create_calls (fst (finish_create W opt root st)) = create_calls st"
  by (simp add: finish_create_def split: runtime_object.splits)

lemma print_created_creates [simp]: "create_calls (fst (print_created opt obj st)) = create_calls st"
  by (simp add: print_created_def split: sum.splits)

text \<open>The call that creates one object, when it succeeds.\<close>

definition sent_object :: "'q runtime_object option \<Rightarrow> 'q runtime_object \<Rightarrow> 'q runtime_object" where
  "sent_object owner obj =
     (case owner of
       None \<Rightarrow> obj
     | Some root \<Rightarrow> with_meta (\<lambda>m. m\<lparr>meta_OwnerReferences :=
         meta_OwnerReferences (object_meta_of root) @ [owner_reference_of root]\<rparr>) obj)"

definition dry_run_option :: "('p, 'q) create_options \<Rightarrow> string list" where
  "dry_run_option opt = (if co_DryRunStrategy opt = DryRunServer then [DryRunAll] else [])"

lemma create_unless_client_calls:
  assumes conv: "\<And>x. cw_ToUnstructured W x = Inr x" and real: "co_DryRunStrategy opt \<noteq> DryRunClient"
    and run: "create_unless_client W opt obj owner st = (st', Inr created)"
  obtains g u where "create_calls st' = create_calls st @ [CreateCall g (co_Namespace opt) (sent_object owner obj) (dry_run_option opt)]"
    and "cw_RESTMapping W (object_kind obj) (object_api_version obj) = Inr g"
    and "snd (cw_Create W (cs_server st) g (co_Namespace opt) (sent_object owner obj) (dry_run_option opt)) = Inr u"
    and "cw_FromUnstructured W u obj = Inr created"
proof -
  from run real have c: "createObject W opt obj owner st = (st', Inr created)" by (simp add: create_unless_client_def)
  then obtain g o' where p: "prepare_object W obj owner = Inr (g, o')"
    by (cases "prepare_object W obj owner") (auto simp: createObject_def)
  then have g: "cw_RESTMapping W (object_kind obj) (object_api_version obj) = Inr g" "o' = sent_object owner obj"
    by (auto simp: prepare_object_def conv sent_object_def split: option.splits)
  obtain s r where cr: "cw_Create W (cs_server st) g (co_Namespace opt) o' (dry_run_option opt) = (s, r)" by fastforce
  with c p obtain u where "r = Inr u" "cw_FromUnstructured W u obj = Inr created"
    and "st' = log_event (CreateCall g (co_Namespace opt) o' (dry_run_option opt)) (st\<lparr>cs_server := s\<rparr>)"
    by (auto simp: createObject_def dry_run_option_def Let_def)
  with g cr show thesis by (intro that [of g u]) simp_all
qed

lemma create_children_calls:
  assumes conv: "\<And>x. cw_ToUnstructured W x = Inr x" and real: "co_DryRunStrategy opt \<noteq> DryRunClient"
  shows "for_each (create_child W opt root) cs st = (st', None) \<Longrightarrow>
    \<exists>calls. create_calls st' = create_calls st @ calls \<and>
      list_all2 (\<lambda>child e. \<exists>g. e = CreateCall g (co_Namespace opt) (sent_object (Some root) child) (dry_run_option opt)) cs calls"
proof (induction cs arbitrary: st)
  case (Cons c cs)
  obtain st1 r where body: "create_child W opt root c st = (st1, r)" by fastforce
  with Cons.prems have r: "r = None" and rest: "for_each (create_child W opt root) cs st1 = (st', None)"
    by (auto split: option.splits)
  from body r obtain st0 created where c: "create_unless_client W opt c (Some root) st = (st0, Inr created)"
    and p: "print_created opt created st0 = (st1, None)"
    by (auto simp: create_child_def split: prod.splits sum.splits)
  from create_unless_client_calls [OF conv real c] obtain g where
    "create_calls st0 = create_calls st @ [CreateCall g (co_Namespace opt) (sent_object (Some root) c) (dry_run_option opt)]"
    by blast
  moreover have "create_calls st1 = create_calls st0" using print_created_creates [of opt created st0] p by simp
  moreover from Cons.IH [OF rest] obtain calls where "create_calls st' = create_calls st1 @ calls"
    and "list_all2 (\<lambda>child e. \<exists>g. e = CreateCall g (co_Namespace opt) (sent_object (Some root) child) (dry_run_option opt)) cs calls"
    by blast
  ultimately show ?case
    by (intro exI [of _ "CreateCall g (co_Namespace opt) (sent_object (Some root) c) (dry_run_option opt) # calls"]) auto
qed simp

section \<open>Client dry runs\<close>

text \<open>What only printing adds.\<close>

definition only_prints :: "('s, 'q) create_state \<Rightarrow> string list \<Rightarrow> ('s, 'q) create_state \<Rightarrow> bool" where
  "only_prints st ts st' \<longleftrightarrow> cs_server st' = cs_server st \<and> cs_events st' = cs_events st @ map PrintOut ts"

lemma print_created_only_prints:
  assumes "print_created opt obj st = (st', r)"
  shows "(\<exists>t. co_PrintObj opt obj = Inr t \<and> r = None \<and> only_prints st [t] st') \<or>
    (\<not> is_ok (co_PrintObj opt obj) \<and> r \<noteq> None \<and> only_prints st [] st')"
  using assms by (cases "co_PrintObj opt obj") (auto simp: print_created_def only_prints_def log_event_def)

lemma print_children:
  assumes "co_DryRunStrategy opt = DryRunClient" and "for_each (create_child W opt root) cs st = (st', r)"
  shows "\<exists>ts. only_prints st ts st' \<and> (r = None \<longrightarrow> list_all2 (\<lambda>obj t. co_PrintObj opt obj = Inr t) cs ts)"
  using assms(2)
proof (induction cs arbitrary: st)
  case (Cons c cs)
  obtain st1 r1 where body: "create_child W opt root c st = (st1, r1)" by fastforce
  then have "print_created opt c st = (st1, r1)"
    using assms(1) by (simp add: create_child_def create_unless_client_def)
  from print_created_only_prints [OF this] show ?case
  proof
    assume "\<exists>t. co_PrintObj opt c = Inr t \<and> r1 = None \<and> only_prints st [t] st1"
    then obtain t where t: "co_PrintObj opt c = Inr t" "r1 = None" "only_prints st [t] st1" by blast
    with Cons.prems body have "for_each (create_child W opt root) cs st1 = (st', r)" by simp
    from Cons.IH [OF this] obtain ts where "only_prints st1 ts st'"
      "r = None \<longrightarrow> list_all2 (\<lambda>obj t. co_PrintObj opt obj = Inr t) cs ts" by blast
    with t show ?thesis by (intro exI [of _ "t # ts"]) (simp add: only_prints_def)
  next
    assume "\<not> is_ok (co_PrintObj opt c) \<and> r1 \<noteq> None \<and> only_prints st [] st1"
    with Cons.prems body show ?thesis by (intro exI [of _ "[]"]) auto
  qed
qed (auto simp: only_prints_def)

lemma create_objects_client:
  assumes client: "co_DryRunStrategy opt = DryRunClient"
    and no_wait: "\<not> (co_ModeName opt = mode_name SlurmMode \<and> co_Wait opt)"
    and run: "create_objects W opt root cs st = (st', r)"
  shows "\<exists>ts. only_prints st ts st' \<and> (r = None \<longrightarrow> list_all2 (\<lambda>obj t. co_PrintObj opt obj = Inr t) (root # cs) ts)"
proof -
  obtain st1 r1 where p: "print_created opt root st = (st1, r1)" by fastforce
  from print_created_only_prints [OF p] show ?thesis
  proof
    assume "\<exists>t. co_PrintObj opt root = Inr t \<and> r1 = None \<and> only_prints st [t] st1"
    then obtain t where t: "co_PrintObj opt root = Inr t" "r1 = None" "only_prints st [t] st1" by blast
    obtain st2 r2 where c: "for_each (create_child W opt root) cs st1 = (st2, r2)" by fastforce
    have "finish_create W opt root s = (s, None)" for s
      using client no_wait by (auto simp: finish_create_def)
    with run p t c client have "st' = st2" "r = r2"
      by (auto simp: create_objects_def create_unless_client_def split: option.splits)
    moreover from print_children [OF client c] obtain ts where "only_prints st1 ts st2"
      "r2 = None \<longrightarrow> list_all2 (\<lambda>obj t. co_PrintObj opt obj = Inr t) cs ts" by blast
    ultimately show ?thesis using t by (intro exI [of _ "t # ts"]) (simp add: only_prints_def)
  next
    assume "\<not> is_ok (co_PrintObj opt root) \<and> r1 \<noteq> None \<and> only_prints st [] st1"
    with run p client show ?thesis
      by (intro exI [of _ "[]"]) (auto simp: create_objects_def create_unless_client_def)
  qed
qed

section \<open>Log streams: lemmas\<close>

text \<open>The pods of a list of events whose logs are to be streamed, and the state the watch keeps.\<close>

fun starting_pod :: "watch_type \<times> 'q live_pod option \<Rightarrow> 'q live_pod option" where
  "starting_pod (t, None) = None"
| "starting_pod (t, Some pod) =
     (if t \<in> {WatchAdded, WatchModified} \<and> pod_Phase pod \<in> {''Running'', ''Succeeded'', ''Failed''} then Some pod else None)"

definition starting_names :: "(watch_type \<times> 'q live_pod option) list \<Rightarrow> string list" where
  "starting_names evs = map (meta_Name \<circ> pod_Meta) (List.map_filter starting_pod evs)"

definition streams_ok :: "streams \<Rightarrow> bool" where
  "streams_ok st \<longleftrightarrow> distinct (fst st) \<and> list_all (\<lambda>s. fst s \<in> set (fst st)) (snd st)"

lemma pod_event_eq: "pod_event opt ev st = (case starting_pod ev of None \<Rightarrow> st | Some pod \<Rightarrow> streamLogsFromPod opt pod st)"
  by (cases ev rule: starting_pod.cases) (auto simp: pod_event_def)

lemma pod_event_ok: "streams_ok st \<Longrightarrow> streams_ok (pod_event opt ev st)"
  by (cases st) (auto simp: pod_event_eq streams_ok_def streamLogsFromPod_def Let_def list.pred_map o_def list.pred_True
      elim: list.pred_mono_strong split: option.splits)

lemma pod_events_ok: "streams_ok st \<Longrightarrow> streams_ok (fold (pod_event opt) evs st)"
  by (induction evs arbitrary: st) (simp_all add: pod_event_ok)

lemma pod_events_active:
  "set (fst (fold (pod_event opt) evs st)) = set (fst st) \<union> set (starting_names evs)"
proof (induction evs arbitrary: st)
  case (Cons ev evs)
  have "set (fst (pod_event opt ev st)) = set (fst st) \<union> set (starting_names [ev])"
    by (auto simp: pod_event_eq starting_names_def streamLogsFromPod_def Let_def List.map_filter_simps
        split: option.splits prod.splits)
  moreover have "set (starting_names (ev # evs)) = set (starting_names [ev]) \<union> set (starting_names evs)"
    by (auto simp: starting_names_def List.map_filter_simps split: option.splits)
  ultimately show ?case using Cons by (simp add: Un_assoc)
qed (simp add: starting_names_def List.map_filter_simps)

text \<open>The streams of one pod are started at once and only at its first event.\<close>

lemma pod_events_started:
  assumes "streams_ok st"
  shows "\<forall>n. filter (\<lambda>s. fst s = n) (snd (fold (pod_event opt) evs st)) =
    (if n \<in> set (fst st) then filter (\<lambda>s. fst s = n) (snd st)
     else case find (\<lambda>pod. meta_Name (pod_Meta pod) = n) (List.map_filter starting_pod evs) of
       None \<Rightarrow> [] | Some pod \<Rightarrow> map (Pair n) (stream_containers opt pod))"
  using assms
proof (induction evs arbitrary: st)
  case Nil
  then have "n \<notin> set (fst st) \<Longrightarrow> filter (\<lambda>s. fst s = n) (snd st) = []" for n
    by (auto simp: streams_ok_def filter_empty_conv list_all_iff)
  then show ?case by (simp add: List.map_filter_simps)
next
  case (Cons ev evs)
  show ?case
  proof (cases "starting_pod ev")
    case None
    then show ?thesis using Cons by (simp add: pod_event_eq List.map_filter_simps)
  next
    case (Some pod)
    have none: "n \<notin> set (fst st) \<Longrightarrow> filter (\<lambda>s. fst s = n) (snd st) = []" for n
      using Cons.prems by (auto simp: streams_ok_def filter_empty_conv list_all_iff)
    have pairs: "filter (\<lambda>s. fst s = n) (map (Pair m) xs) = (if m = n then map (Pair m) xs else [])"
      for m n :: string and xs :: "string list" by (induction xs) auto
    show ?thesis
      using Some Cons.IH [OF pod_event_ok [OF Cons.prems], of opt ev] none
      by (cases st) (auto simp: pod_event_eq streamLogsFromPod_def Let_def List.map_filter_simps pairs)
  qed
qed

text \<open>What the builder is told.\<close>

lemmas With_defs = WithNamespace_def WithProfileName_def WithModeName_def WithCommand_def
  WithParallelism_def WithCompletions_def WithReplicas_def WithMinReplicas_def WithMaxReplicas_def
  WithRequests_def WithLocalQueue_def WithRayCluster_def WithScript_def WithArray_def
  WithCpusPerTask_def WithError_def WithGpusPerTask_def WithInput_def WithJobName_def
  WithMemPerNode_def WithMemPerCPU_def WithMemPerGPU_def WithMemPerTask_def WithNodes_def
  WithNTasks_def WithNTasksPerNode_def WithOutput_def WithPartition_def WithPriority_def
  WithInitImage_def WithIgnoreUnknown_def WithChangeDir_def WithSkipLocalQueueValidation_def
  WithSkipPriorityValidation_def WithFirstNodeIP_def WithFirstNodeIPTimeout_def WithTimeLimit_def
  WithPodTemplateLabels_def WithPodTemplateAnnotations_def WithWorkerContainers_def

lemma builder_of_sel:
  "b_namespace (builder_of t opt) = co_Namespace opt" "b_profileName (builder_of t opt) = co_ProfileName opt"
  "b_modeName (builder_of t opt) = co_ModeName opt" "b_localQueue (builder_of t opt) = co_LocalQueue opt"
  "b_mode (builder_of t opt) = None" "b_volumeBundles (builder_of t opt) = []"
  by (simp_all add: builder_of_def NewBuilder_def With_defs)

section \<open>The end of the wait\<close>

text \<open>
  As long as the watch is open, \<open>verifyJobFinished\<close> returns exactly when an event says that the job
  was deleted or modified to have completed or failed; a job that is already finished in the first
  event, an addition, is not noticed. When the watch is closed it returns in any case.
\<close>

definition finishing_event :: "job_event \<Rightarrow> bool" where
  "finishing_event ev \<longleftrightarrow>
     (\<exists>conditions. snd ev = Some conditions \<and>
       (fst ev = WatchDeleted \<or> fst ev = WatchModified \<and> job_finished conditions))"

lemma verifyJobFinished_iff:
  "verifyJobFinished (Inr evs) closed = Some r \<longleftrightarrow> r = None \<and> (closed \<or> list_ex finishing_event evs)"
proof -
  have "job_events_loop evs closed = Some r \<longleftrightarrow> r = None \<and> (closed \<or> list_ex finishing_event evs)"
    by (induction evs closed rule: job_events_loop.induct)
      (auto simp: finishing_event_def split: watch_type.splits if_splits)
  then show ?thesis by (simp add: verifyJobFinished_def)
qed

text \<open>
  The channels of the \<open>select\<close>: which of them can be ready, given the events of the two watches so
  far and whether their channels are closed. The time-out is armed only when it is positive.
\<close>

inductive wait_ready ::
  "('p, 'q) create_options \<Rightarrow> string + unit \<Rightarrow> string + (watch_type \<times> 'q live_pod option) list \<Rightarrow> bool \<Rightarrow>
   string + job_event list \<Rightarrow> bool \<Rightarrow> wait_event \<Rightarrow> bool"
  for opt clientset pods podsClosed job jobClosed where
  signal: "wait_ready opt clientset pods podsClosed job jobClosed (SignalReceived sig)"
| timeout: "co_WaitTimeout opt > 0 \<Longrightarrow> wait_ready opt clientset pods podsClosed job jobClosed WaitTimedOut"
| pods: "podsClosed \<or> \<not> is_ok (and_then clientset (\<lambda>_. pods)) \<Longrightarrow>
    wait_ready opt clientset pods podsClosed job jobClosed
      (PodWatchEnded (snd (watchJobPods clientset pods opt ([], []))))"
| job: "verifyJobFinished job jobClosed = Some r \<Longrightarrow>
    wait_ready opt clientset pods podsClosed job jobClosed (JobWatchEnded r)"

inductive_cases wait_ready_timeoutE: "wait_ready opt clientset pods podsClosed job jobClosed WaitTimedOut"

lemma no_timeout_without_flag:
  "co_WaitTimeout opt \<le> 0 \<Longrightarrow> \<not> wait_ready opt clientset pods podsClosed job jobClosed WaitTimedOut"
  by (auto elim: wait_ready_timeoutE)

section \<open>A sample world\<close>

definition sample_create_world :: "(nat, int) create_world" where
  "sample_create_world =
     \<lparr>cw_DynamicClient = Inr (), cw_ToRESTMapper = Inr (), cw_RESTMapping = (\<lambda>k v. Inr k),
      cw_ToUnstructured = Inr, cw_FromUnstructured = (\<lambda>u obj. Inr u),
      cw_Create = (\<lambda>s g ns obj d. (Suc s, Inr (with_meta (\<lambda>m. m\<lparr>meta_UID := ''uid''\<rparr>) obj))),
      cw_K8sClientset = Inr (), cw_DeletePod = (\<lambda>s ns n. (s, None)), cw_DeleteJob = (\<lambda>s ns n d. (s, None)),
      cw_GetPod = (\<lambda>s ns n. Inl ''pod not found''), cw_Poll = (\<lambda>i t imm c s. (s, None)), cw_tty_Raw = False,
      cw_Attach = (\<lambda>s r. (s, None)), cw_wait = SignalReceived ''interrupt''\<rparr>"

definition sample_create_options :: "application_profile_mode \<Rightarrow> DryRunStrategy \<Rightarrow> (unit, int) create_options" where
  "sample_create_options mode strategy =
     \<lparr>co_PrintFlags = (), co_PrintObj = (\<lambda>obj. Inr ''created''), co_DryRunStrategy = strategy,
      co_Namespace = ''ns'', co_ProfileName = ''prof'', co_ModeName = mode_name mode, co_Script = [],
      co_InitImage = [], co_PodRunningTimeout = 0, co_FirstNodeIPTimeout = 0, co_WaitTimeout = 0,
      co_FirstNodeIP = False, co_RemoveObject = True, co_ChangeDir = [], co_StreamContainers = [],
      co_WorkerContainers = [], co_Command = None, co_Parallelism = None, co_Completions = None,
      co_Replicas = None, co_MinReplicas = None, co_MaxReplicas = None, co_Requests = None,
      co_LocalQueue = [], co_RayCluster = [], co_Array = [], co_CpusPerTask = None, co_GpusPerTask = None,
      co_MemPerNode = None, co_MemPerTask = None, co_MemPerCPU = None, co_MemPerGPU = None, co_Nodes = None,
      co_NTasks = None, co_NTasksPerNode = None, co_Output = [], co_Error = [], co_Input = [],
      co_JobName = [], co_Partition = [], co_Priority = [], co_TimeLimit = [], co_IgnoreUnknown = False,
      co_Wait = (mode = SlurmMode), co_SkipLocalQueueValidation = False, co_SkipPriorityValidation = False,
      co_PodTemplateLabels = None, co_PodTemplateAnnotations = None, co_UserSpecifiedCommand = [],
      co_UserSpecifiedParallelism = 0, co_UserSpecifiedCompletions = 0, co_UserSpecifiedRequest = [],
      co_UserSpecifiedCpusPerTask = [], co_UserSpecifiedGpusPerTask = [], co_UserSpecifiedMemPerNode = [],
      co_UserSpecifiedMemPerTask = [], co_UserSpecifiedMemPerCPU = [], co_UserSpecifiedMemPerGPU = [],
      co_UserSpecifiedNodes = 2, co_UserSpecifiedNTasks = 1, co_UserSpecifiedNTasksPerNode = 1\<rparr>"

definition sample_create_state :: "(nat, int) create_state" where
  "sample_create_state = \<lparr>cs_server = 0, cs_events = [], cs_ErrOut = True\<rparr>"

lemma sample_builder_of: "builder_of ''now'' (sample_create_options mode strategy) = sample_builder mode"
  by (simp add: builder_of_def sample_create_options_def sample_builder_def NewBuilder_def With_defs)

section \<open>Completion: lemmas\<close>

lemma changed_count_pos:
  "changed_count changed f e v None = Inr r \<Longrightarrow> n \<in> set_option r \<Longrightarrow> 0 < sint n"
  by (auto simp: changed_count_def split: if_splits)

lemma complete_script_frame:
  assumes "complete_script flagSet cmd args opt = Inr (opt', changed)"
  obtains opt1 r where "flagSet (drop (nat (cc_ArgsLenAtDash cmd)) args) opt = Inr (opt1, r, changed)"
    and "opt' = opt1\<lparr>co_Script := hd r\<rparr>"
proof -
  let ?args = "drop (nat (cc_ArgsLenAtDash cmd)) args"
  from assms have dash: "\<not> (cc_ArgsLenAtDash cmd = -1 \<or> cc_ArgsLenAtDash cmd > 0)"
    by (auto simp: complete_script_def split: list.splits)
  with assms obtain opt1 r c where p: "flagSet ?args opt = Inr (opt1, r, c)"
    by (cases "flagSet ?args opt") (auto simp: complete_script_def)
  with assms dash have "c = changed \<and> opt' = opt1\<lparr>co_Script := hd r\<rparr>"
    by (cases r) (simp_all add: complete_script_def split: if_splits)
  with p show thesis using that by simp
qed

lemma complete_general_frame:
  assumes "complete_general q cmd opt = Inr opt'"
  shows "co_Nodes opt' = co_Nodes opt" "co_NTasks opt' = co_NTasks opt" "co_NTasksPerNode opt' = co_NTasksPerNode opt"
    "co_ModeName opt' = co_ModeName opt"
  using assms by (auto simp: complete_general_def Let_def split: if_splits)

lemma complete_slurm_counts:
  assumes "complete_slurm q changed opt = Inr opt'"
  shows "changed_count changed NodesFlag NodesNotPositive (co_UserSpecifiedNodes opt) (co_Nodes opt) = Inr (co_Nodes opt')"
    "changed_count changed NTasksFlag NTasksNotPositive (co_UserSpecifiedNTasks opt) (co_NTasks opt) = Inr (co_NTasks opt')"
    "changed_count changed NTasksPerNodeFlag NTasksPerNodeNotPositive (co_UserSpecifiedNTasksPerNode opt) (co_NTasksPerNode opt) =
       Inr (co_NTasksPerNode opt')"
    "co_ModeName opt' = co_ModeName opt"
  using assms unfolding complete_slurm_def by (simp_all only: and_then_Inr_iff) auto

text \<open>A command line for the Slurm mode.\<close>

definition sample_quantity :: "string \<Rightarrow> string + int" where
  "sample_quantity s = Inr 1"

definition sample_create_printers :: "(unit, int runtime_object) print_api" where
  "sample_create_printers = \<lparr>NewPrintFlags = (\<lambda>_. ()), pf_Complete = (\<lambda>p t. Inr ()),
     pf_OutputFlagSpecified = (\<lambda>_. False), pf_ToPrinter = (\<lambda>_. Inr (\<lambda>_. Inr []))\<rparr>"

definition sample_flag_set :: "(unit, int) flag_set" where
  "sample_flag_set args opt = Inr (opt, [''s.sh''], [''nodes''])"

definition sample_config :: attach_config where
  "sample_config = \<lparr>cfg_GroupVersion = None, cfg_APIPath = [], cfg_NegotiatedSerializer = None\<rparr>"

definition sample_slurm_command :: cobra_command where
  "sample_slurm_command = \<lparr>cc_Name = ''slurm'', cc_CommandPath = ''kjobctl create slurm'', cc_ArgsLenAtDash = 0,
     cc_Changed = [], cc_Flags = [(''dry-run'', ''none'')]\<rparr>"

lemmas sample_complete_defs = sample_quantity_def sample_create_printers_def sample_flag_set_def
  sample_config_def sample_slurm_command_def

section \<open>Properties\<close>

text \<open>
  C5. The order of creation and ownership: a run that succeeds sends the root first, as the builder
  made it, and then every child in the builder's order, each with one more owner reference that
  names the root as the server returned it (kind, version, name and UID); all calls go to the
  namespace of the command and are marked as dry runs exactly for \<open>--dry-run=server\<close>.
\<close>

theorem create_Run_order:
  assumes conv: "\<And>x. cw_ToUnstructured W x = Inr x" and real: "co_DryRunStrategy opt \<noteq> DryRunClient"
    and run: "create_Run BW W t opt st = Some (st', None)"
  shows "\<exists>root cs g u created calls. Do BW (builder_of t opt) = Some (Inr (root, cs)) \<and>
    create_calls st' = create_calls st @ CreateCall g (co_Namespace opt) root (dry_run_option opt) # calls \<and>
    snd (cw_Create W (cs_server st) g (co_Namespace opt) root (dry_run_option opt)) = Inr u \<and>
    cw_FromUnstructured W u root = Inr created \<and>
    list_all2 (\<lambda>child e. \<exists>g. e = CreateCall g (co_Namespace opt) (sent_object (Some created) child) (dry_run_option opt)) cs calls"
proof -
  from run obtain root cs where Do: "Do BW (builder_of t opt) = Some (Inr (root, cs))"
    and objs: "create_objects W opt root cs st = (st', None)"
    by (auto simp: create_Run_def split: option.splits sum.splits prod.splits)
  from objs obtain st1 created st2 st3 where 1: "create_unless_client W opt root None st = (st1, Inr created)"
    and 2: "print_created opt created st1 = (st2, None)"
    and 3: "for_each (create_child W opt created) cs st2 = (st3, None)"
    and 4: "finish_create W opt created st3 = (st', None)"
    by (auto simp: create_objects_def split: prod.splits sum.splits option.splits)
  obtain g u where
    c1: "create_calls st1 = create_calls st @ [CreateCall g (co_Namespace opt) root (dry_run_option opt)]"
      "snd (cw_Create W (cs_server st) g (co_Namespace opt) root (dry_run_option opt)) = Inr u"
      "cw_FromUnstructured W u root = Inr created"
    using create_unless_client_calls [OF conv real 1, unfolded sent_object_def option.case] by blast
  from create_children_calls [OF conv real 3] obtain calls where
    c3: "create_calls st3 = create_calls st2 @ calls"
      "list_all2 (\<lambda>child e. \<exists>g. e = CreateCall g (co_Namespace opt) (sent_object (Some created) child) (dry_run_option opt)) cs calls"
    by blast
  have "create_calls st2 = create_calls st1" "create_calls st' = create_calls st3"
    using print_created_creates [of opt created st1] finish_create_creates [of W opt created st3] 2 4 by simp_all
  with c1 c3 have "create_calls st' = create_calls st @ CreateCall g (co_Namespace opt) root (dry_run_option opt) # calls"
    by simp
  with Do c1 c3 show ?thesis by (intro exI conjI) assumption+
qed

theorem create_Run_order_witness:
  "\<exists>st' g root. create_Run sample_world sample_create_world ''now'' (sample_create_options RayClusterMode DryRunServer)
      sample_create_state = Some (st', None) \<and>
    create_calls st' = [CreateCall g ''ns'' root [DryRunAll]]"
proof -
  let ?o = "sample_create_options RayClusterMode DryRunServer"
  from sample_Do obtain m spec where Do: "Do sample_world (builder_of ''now'' ?o) = Some (Inr (RayClusterObject m spec, []))"
    unfolding sample_builder_of by blast
  have conv: "\<And>x. cw_ToUnstructured sample_create_world x = Inr x" by (simp add: sample_create_world_def)
  have real: "co_DryRunStrategy ?o \<noteq> DryRunClient" by (simp add: sample_create_options_def)
  have "\<exists>st'. create_Run sample_world sample_create_world ''now'' ?o sample_create_state = Some (st', None)"
    using Do by (simp add: create_Run_def create_objects_def create_unless_client_def createObject_def prepare_object_def
        print_created_def finish_create_def sample_create_world_def sample_create_options_def Let_def)
  then obtain st' where run: "create_Run sample_world sample_create_world ''now'' ?o sample_create_state = Some (st', None)" by blast
  have "create_calls sample_create_state = []" "co_Namespace ?o = ''ns''" "dry_run_option ?o = [DryRunAll]"
    by (simp_all add: create_calls_def sample_create_state_def dry_run_option_def sample_create_options_def)
  with create_Run_order [OF conv real run] Do run show ?thesis by auto
qed

text \<open>
  C19. A client dry run sends nothing: unless it waits for a Slurm job, the state of the server is
  unchanged and the only output is the printed objects; when it succeeds, these are the root and
  all children of the builder, in their order.
\<close>

theorem create_Run_client_dry_run:
  assumes "co_DryRunStrategy opt = DryRunClient"
    and "\<not> (co_ModeName opt = mode_name SlurmMode \<and> co_Wait opt)"
    and "create_Run BW W t opt st = Some (st', r)"
  shows "\<exists>ts. cs_server st' = cs_server st \<and> cs_events st' = cs_events st @ map PrintOut ts \<and>
    (r = None \<longrightarrow> (\<exists>root cs. Do BW (builder_of t opt) = Some (Inr (root, cs)) \<and>
      list_all2 (\<lambda>obj txt. co_PrintObj opt obj = Inr txt) (root # cs) ts))"
proof (cases "Do BW (builder_of t opt)")
  case None
  with assms(3) show ?thesis by (simp add: create_Run_def)
next
  case (Some b)
  show ?thesis
  proof (cases b)
    case (Inl e)
    with assms(3) Some show ?thesis by (intro exI [of _ "[]"]) (auto simp: create_Run_def)
  next
    case (Inr rc)
    obtain root cs where rc: "rc = (root, cs)" by fastforce
    with assms(3) Some Inr have "create_objects W opt root cs st = (st', r)" by (simp add: create_Run_def)
    from create_objects_client [OF assms(1,2) this] obtain ts where "only_prints st ts st'"
      "r = None \<longrightarrow> list_all2 (\<lambda>obj txt. co_PrintObj opt obj = Inr txt) (root # cs) ts" by blast
    with Some Inr rc show ?thesis by (intro exI [of _ ts]) (simp add: only_prints_def)
  qed
qed

theorem create_Run_client_dry_run_witness:
  "\<exists>st'. create_Run sample_world sample_create_world ''now'' (sample_create_options RayClusterMode DryRunClient)
      sample_create_state = Some (st', None) \<and> cs_server st' = 0"
proof -
  let ?o = "sample_create_options RayClusterMode DryRunClient"
  from sample_Do obtain m spec where Do: "Do sample_world (builder_of ''now'' ?o) = Some (Inr (RayClusterObject m spec, []))"
    unfolding sample_builder_of by blast
  have hyps: "co_DryRunStrategy ?o = DryRunClient" "\<not> (co_ModeName ?o = mode_name SlurmMode \<and> co_Wait ?o)"
    by (simp_all add: sample_create_options_def)
  have "\<exists>st'. create_Run sample_world sample_create_world ''now'' ?o sample_create_state = Some (st', None)"
    using Do by (simp add: create_Run_def create_objects_def create_unless_client_def
        print_created_def finish_create_def sample_create_options_def)
  then obtain st' where run: "create_Run sample_world sample_create_world ''now'' ?o sample_create_state = Some (st', None)" by blast
  have "cs_server sample_create_state = 0" by (simp add: sample_create_state_def)
  with create_Run_client_dry_run [OF hyps run] run show ?thesis by auto
qed

text \<open>
  Waiting ignores the dry run: when a Slurm job is waited for with \<open>--rm\<close>, a signal makes the
  command send a real deletion of the job's name, whatever the dry-run strategy.
\<close>

theorem slurm_wait_deletes:
  assumes "cw_K8sClientset W = Inr u" and "co_ModeName opt = mode_name SlurmMode" and "co_Wait opt"
    and "co_RemoveObject opt" and "cw_wait W = SignalReceived sig"
  shows "DeleteJobCall (co_Namespace opt) (meta_Name m) \<lparr>do_PropagationPolicy = Some DeletePropagationBackground, do_DryRun = []\<rparr>
    \<in> set (cs_events (fst (finish_create W opt (JobObject m spec) st)))"
  using assms by (auto simp: finish_create_def watchJobAndStreamLogs_def removeObject_def log_event_def Let_def split: prod.splits)

theorem slurm_wait_deletes_witness:
  "\<exists>m spec. DeleteJobCall ''ns'' [] \<lparr>do_PropagationPolicy = Some DeletePropagationBackground, do_DryRun = []\<rparr> \<in>
    set (cs_events (fst (finish_create sample_create_world (sample_create_options SlurmMode DryRunClient)
      (JobObject m spec) sample_create_state)))"
proof -
  have "cw_K8sClientset sample_create_world = Inr ()" "cw_wait sample_create_world = SignalReceived ''interrupt''"
    "co_ModeName (sample_create_options SlurmMode DryRunClient) = mode_name SlurmMode"
    "co_Wait (sample_create_options SlurmMode DryRunClient)" "co_RemoveObject (sample_create_options SlurmMode DryRunClient)"
    "co_Namespace (sample_create_options SlurmMode DryRunClient) = ''ns''" "meta_Name empty_meta = []"
    by (simp_all add: sample_create_world_def sample_create_options_def empty_meta_def)
  with slurm_wait_deletes [of sample_create_world "()" "sample_create_options SlurmMode DryRunClient" "''interrupt''"
      empty_meta _ sample_create_state] show ?thesis by metis
qed

text \<open>
  C35. An interactive pod is removed with \<open>--rm\<close>: however the session ends (time-out, lost pod, error
  of the terminal or success), its deletion is asked for exactly once, and never without the flag.
\<close>

theorem RunInteractivePod_removes:
  assumes "cw_K8sClientset W = Inr u"
  shows "pod_deletes (fst (RunInteractivePod W opt podName st)) =
    pod_deletes st @ (if co_RemoveObject opt then [DeletePodCall (co_Namespace opt) podName] else [])"
proof -
  obtain st1 r1 where s: "interactive_session W opt podName st = (st1, r1)" by fastforce
  obtain st2 r2 where d: "remove_pod W opt podName st1 = (st2, r2)" by fastforce
  from interactive_session_calls(2) [of W opt podName st] remove_pod_calls(2) [of W opt podName st1] s d
  have "pod_deletes st1 = pod_deletes st" "pod_deletes st2 = pod_deletes st @ [DeletePodCall (co_Namespace opt) podName]"
    by simp_all
  with assms s d show ?thesis by (simp add: RunInteractivePod_def split: option.splits)
qed

theorem RunInteractivePod_removes_witness:
  "pod_deletes (fst (RunInteractivePod sample_create_world (sample_create_options InteractiveMode DryRunNone) ''p''
      sample_create_state)) = [DeletePodCall ''ns'' ''p'']"
proof -
  have "cw_K8sClientset sample_create_world = Inr ()" by (simp add: sample_create_world_def)
  from RunInteractivePod_removes [OF this, of "sample_create_options InteractiveMode DryRunNone" "''p''" sample_create_state]
  show ?thesis by (simp add: sample_create_options_def sample_create_state_def pod_deletes_def)
qed

text \<open>
  C32. Log streams: from the start of a watch, the streams of a pod are started once, at its first
  event that shows it running or ended, and exactly for its containers that are not the init
  container and, when \<open>--stream-container\<close> is given, are named there.
\<close>

theorem watchJobPods_streams:
  "\<exists>active started. watchJobPods (Inr ()) (Inr evs) opt ([], []) = ((active, started), None) \<and>
    distinct active \<and> set active = set (starting_names evs) \<and>
    (\<forall>n. filter (\<lambda>s. fst s = n) started =
      (case find (\<lambda>pod. meta_Name (pod_Meta pod) = n) (List.map_filter starting_pod evs) of
        None \<Rightarrow> [] | Some pod \<Rightarrow> map (Pair n) (stream_containers opt pod)))"
proof -
  have ok: "streams_ok ([], [])" by (simp add: streams_ok_def)
  obtain active started where f: "fold (pod_event opt) evs ([], []) = (active, started)" by fastforce
  show ?thesis
    using pod_events_ok [OF ok, of opt evs] pod_events_active [of opt evs "([], [])"]
      pod_events_started [OF ok, of opt evs] f
    by (intro exI [of _ active] exI [of _ started]) (simp add: watchJobPods_def streams_ok_def)
qed

text \<open>
  C36. A wait that ends well: when \<open>watchJobAndStreamLogs\<close> returns without an error and there was no
  signal, either an event of the job's watch said that the job was deleted, completed or failed, or
  one of the two watches had been closed; it does not end because of a time-out, and it has not
  asked for the deletion of the job.
\<close>

theorem wait_succeeds:
  assumes "wait_ready opt clientset pods podsClosed (Inr evs) jobClosed (cw_wait W)"
    and "watchJobAndStreamLogs W opt jobName st = (st', None)" and "\<And>sig. cw_wait W \<noteq> SignalReceived sig"
  shows "(podsClosed \<or> jobClosed \<or> list_ex finishing_event evs) \<and> cw_wait W \<noteq> WaitTimedOut \<and>
    cs_server st' = cs_server st"
  using assms(1)
proof cases
  case (signal sig)
  with assms(3) show ?thesis by blast
next
  case timeout
  with assms(2) show ?thesis by (auto simp: watchJobAndStreamLogs_def split: sum.splits prod.splits)
next
  case pods
  with assms(2) have "is_ok (and_then clientset (\<lambda>_. pods))" "st' = st"
    by (auto simp: watchJobAndStreamLogs_def watchJobPods_def is_ok_iff split: sum.splits option.splits)
  with pods show ?thesis by simp
next
  case (job r)
  then have "jobClosed \<or> list_ex finishing_event evs" by (simp add: verifyJobFinished_iff)
  with job assms(2) show ?thesis
    by (auto simp: watchJobAndStreamLogs_def split: sum.splits option.splits)
qed

theorem wait_succeeds_witness:
  "\<exists>st'. watchJobAndStreamLogs (sample_create_world\<lparr>cw_wait := JobWatchEnded None\<rparr>) (sample_create_options SlurmMode DryRunNone)
      ''j'' sample_create_state = (st', None) \<and> cs_server st' = 0"
proof -
  let ?W = "sample_create_world\<lparr>cw_wait := JobWatchEnded None\<rparr>" and ?o = "sample_create_options SlurmMode DryRunNone"
  have "verifyJobFinished (Inr [(WatchModified, Some [(''Complete'', ''True'')])]) False = Some None"
    by (simp add: verifyJobFinished_def job_finished_def)
  then have "wait_ready ?o (Inr ()) (Inr []) False (Inr [(WatchModified, Some [(''Complete'', ''True'')])]) False (JobWatchEnded None)"
    by (rule wait_ready.job)
  then have ready: "wait_ready ?o (Inr ()) (Inr []) False (Inr [(WatchModified, Some [(''Complete'', ''True'')])]) False (cw_wait ?W)"
    by simp
  have "\<exists>st'. watchJobAndStreamLogs ?W ?o ''j'' sample_create_state = (st', None)"
    by (simp add: watchJobAndStreamLogs_def sample_create_world_def)
  then obtain st' where run: "watchJobAndStreamLogs ?W ?o ''j'' sample_create_state = (st', None)" by blast
  have "cw_wait ?W \<noteq> SignalReceived sig" for sig by simp
  from wait_succeeds [OF ready run this] run show ?thesis by (auto simp: sample_create_state_def)
qed

text \<open>
  C31. Completion: when the options of a create command are accepted, the numbers of nodes, tasks and
  tasks per node are positive where they are given, the mode is the one of the subcommand and the
  dry-run strategy the one of the flag.
\<close>

theorem create_Complete_counts:
  assumes parse: "\<And>args opt opt' r c. flagSet args opt = Inr (opt', r, c) \<Longrightarrow>
      co_Nodes opt' = co_Nodes opt \<and> co_NTasks opt' = co_NTasks opt \<and>
      co_NTasksPerNode opt' = co_NTasksPerNode opt \<and> co_ModeName opt' = co_ModeName opt"
    and new: "co_Nodes opt = None" "co_NTasks opt = None" "co_NTasksPerNode opt = None"
    and run: "create_Complete q P flagSet namespace restConfig defaults cmd args opt = Inr (opt', config)"
  shows "(\<forall>n. n \<in> set_option (co_Nodes opt') \<union> set_option (co_NTasks opt') \<union> set_option (co_NTasksPerNode opt') \<longrightarrow> 0 < sint n) \<and>
    co_ModeName opt' = subcommand_mode (cc_Name cmd) \<and>
    GetDryRunStrategy (cc_Flags cmd) = Inr (co_DryRunStrategy opt')"
proof -
  let ?opt0 = "opt\<lparr>co_ModeName := subcommand_mode (cc_Name cmd)\<rparr>"
  from run obtain opt1 changed ns opt2 opt3 strategy pf po where
    1: "(if co_ModeName ?opt0 = mode_name SlurmMode then complete_script flagSet cmd args ?opt0 else Inr (?opt0, [])) = Inr (opt1, changed)"
    and 2: "complete_general q cmd (opt1\<lparr>co_Namespace := ns\<rparr>) = Inr opt2"
    and 3: "complete_slurm q changed opt2 = Inr opt3"
    and 4: "GetDryRunStrategy (cc_Flags cmd) = Inr strategy"
    and 5: "opt' = opt3\<lparr>co_DryRunStrategy := strategy, co_PrintFlags := pf, co_PrintObj := po\<rparr>"
    unfolding create_Complete_def Let_def and_then_Inr_iff split_paired_Ex prod.case map_err_Inr_iff by blast
  have "co_Nodes opt1 = None" "co_NTasks opt1 = None" "co_NTasksPerNode opt1 = None"
    "co_ModeName opt1 = subcommand_mode (cc_Name cmd)"
    using 1 new parse by (auto split: if_splits elim!: complete_script_frame)
  with complete_general_frame [OF 2] have "co_Nodes opt2 = None" "co_NTasks opt2 = None" "co_NTasksPerNode opt2 = None"
    "co_ModeName opt2 = subcommand_mode (cc_Name cmd)" by simp_all
  with complete_slurm_counts [OF 3] changed_count_pos 4 5 show ?thesis by auto
qed

theorem create_Complete_counts_witness:
  "\<exists>opt' config. create_Complete sample_quantity sample_create_printers sample_flag_set (Inr ''ns'') (Inr sample_config) Inr
      sample_slurm_command [''s.sh''] (sample_create_options SlurmMode DryRunNone) = Inr (opt', config) \<and>
    co_Nodes opt' = Some 2 \<and> 0 < sint (2 :: int32) \<and> co_ModeName opt' = ''Slurm''"
proof -
  let ?o = "sample_create_options SlurmMode DryRunNone"
  have parse: "co_Nodes opt' = co_Nodes opt \<and> co_NTasks opt' = co_NTasks opt \<and>
      co_NTasksPerNode opt' = co_NTasksPerNode opt \<and> co_ModeName opt' = co_ModeName opt"
    if "sample_flag_set args opt = Inr (opt', r, c)" for args opt opt' r c
    using that by (simp add: sample_flag_set_def)
  have new: "co_Nodes ?o = None" "co_NTasks ?o = None" "co_NTasksPerNode ?o = None"
    by (simp_all add: sample_create_options_def)
  have "\<exists>opt' config. create_Complete sample_quantity sample_create_printers sample_flag_set (Inr ''ns'') (Inr sample_config) Inr
      sample_slurm_command [''s.sh''] ?o = Inr (opt', config) \<and> co_Nodes opt' = Some 2"
    by (simp add: create_Complete_def complete_script_def complete_general_def complete_slurm_def changed_quantity_def
        changed_count_def setKubernetesDefaults_def GetDryRunStrategy_def FlagString_def PrintFlagsWithDryRunStrategy_def
        subcommand_mode_def createModeSubcommands_def mget_def sample_complete_defs sample_create_options_def Let_def)
  then obtain opt' config where run: "create_Complete sample_quantity sample_create_printers sample_flag_set (Inr ''ns'')
      (Inr sample_config) Inr sample_slurm_command [''s.sh''] ?o = Inr (opt', config)" and n: "co_Nodes opt' = Some 2"
    by blast
  have "subcommand_mode (cc_Name sample_slurm_command) = ''Slurm''"
    by (simp add: sample_slurm_command_def subcommand_mode_def createModeSubcommands_def mget_def)
  with create_Complete_counts [OF parse new run] run n show ?thesis by auto
qed

end
