(* ===== verification/Completion.thy ===== *)
theory Completion
  imports ListCmd DeleteCmd
begin

text \<open>
  Shell completion (\<open>pkg/cmd/completion\<close>): the functions that offer names for arguments and flags.
  The clientsets, the kube configuration and the answers of the server to list requests are
  parameters; of a listed object only its metadata is read.
\<close>

datatype shell_directive = ShellCompDirectiveError | ShellCompDirectiveNoFileComp

record raw_config =
  rawc_Contexts :: "string list"
  rawc_Clusters :: "string list"
  rawc_AuthInfos :: "string list"

type_synonym meta_lister = "string \<Rightarrow> list_options \<Rightarrow> string + object_meta list"

record completion_world =
  cpw_K8sClientset :: "string + unit"
  cpw_KjobctlClientset :: "string + unit"
  cpw_KueueClientset :: "string + unit"
  cpw_RayClientset :: "string + unit"
  cpw_Namespace :: "string + string"
  cpw_RawConfig :: "string + raw_config"
  cpw_Namespaces :: "list_options \<Rightarrow> string + object_meta list"
  cpw_ApplicationProfiles :: meta_lister
  cpw_LocalQueues :: meta_lister
  cpw_Jobs :: meta_lister
  cpw_RayJobs :: meta_lister
  cpw_RayClusters :: meta_lister
  cpw_Pods :: meta_lister

definition completionLimit :: int where "completionLimit = 100"

text \<open>The list options with a label selector; the loop that collects the names not yet given.\<close>

definition completion_options :: "string \<Rightarrow> list_options" where
  "completion_options selector =
     \<lparr>lo_LabelSelector = selector, lo_FieldSelector = [], lo_Limit = completionLimit, lo_Continue = []\<rparr>"

definition valid_args :: "string list \<Rightarrow> object_meta list \<Rightarrow> string list" where
  "valid_args args items = filter (\<lambda>n. n \<notin> set args) (map meta_Name items)"

definition NamespaceNameFunc :: "completion_world \<Rightarrow> string list \<Rightarrow> string \<Rightarrow> string list \<times> shell_directive" where
  "NamespaceNameFunc W args toComplete =
     (case cpw_K8sClientset W of
       Inl e \<Rightarrow> ([], ShellCompDirectiveError)
     | Inr _ \<Rightarrow>
         (case cpw_Namespaces W (completion_options []) of
           Inl e \<Rightarrow> ([], ShellCompDirectiveError)
         | Inr items \<Rightarrow> (map meta_Name items, ShellCompDirectiveNoFileComp)))"

definition ContextsFunc :: "completion_world \<Rightarrow> string list \<Rightarrow> string \<Rightarrow> string list \<times> shell_directive" where
  "ContextsFunc W args toComplete =
     (case cpw_RawConfig W of
       Inl e \<Rightarrow> ([], ShellCompDirectiveNoFileComp)
     | Inr config \<Rightarrow> (filter (\<lambda>name. has_prefix name toComplete) (rawc_Contexts config), ShellCompDirectiveNoFileComp))"

definition ClustersFunc :: "completion_world \<Rightarrow> string list \<Rightarrow> string \<Rightarrow> string list \<times> shell_directive" where
  "ClustersFunc W args toComplete =
     (case cpw_RawConfig W of
       Inl e \<Rightarrow> ([], ShellCompDirectiveNoFileComp)
     | Inr config \<Rightarrow> (filter (\<lambda>name. has_prefix name toComplete) (rawc_Clusters config), ShellCompDirectiveNoFileComp))"

definition UsersFunc :: "completion_world \<Rightarrow> string list \<Rightarrow> string \<Rightarrow> string list \<times> shell_directive" where
  "UsersFunc W args toComplete =
     (case cpw_RawConfig W of
       Inl e \<Rightarrow> ([], ShellCompDirectiveNoFileComp)
     | Inr config \<Rightarrow> (filter (\<lambda>name. has_prefix name toComplete) (rawc_AuthInfos config), ShellCompDirectiveNoFileComp))"

definition ApplicationProfileNameFunc ::
  "completion_world \<Rightarrow> string list \<Rightarrow> string \<Rightarrow> string list \<times> shell_directive" where
  "ApplicationProfileNameFunc W args toComplete =
     (case cpw_KjobctlClientset W of
       Inl e \<Rightarrow> ([], ShellCompDirectiveError)
     | Inr _ \<Rightarrow>
         (case cpw_Namespace W of
           Inl e \<Rightarrow> ([], ShellCompDirectiveError)
         | Inr namespace \<Rightarrow>
             (case cpw_ApplicationProfiles W namespace (completion_options []) of
               Inl e \<Rightarrow> ([], ShellCompDirectiveError)
             | Inr items \<Rightarrow> (valid_args args items, ShellCompDirectiveNoFileComp))))"

definition LocalQueueNameFunc ::
  "completion_world \<Rightarrow> string list \<Rightarrow> string \<Rightarrow> string list \<times> shell_directive" where
  "LocalQueueNameFunc W args toComplete =
     (case cpw_KueueClientset W of
       Inl e \<Rightarrow> ([], ShellCompDirectiveError)
     | Inr _ \<Rightarrow>
         (case cpw_Namespace W of
           Inl e \<Rightarrow> ([], ShellCompDirectiveError)
         | Inr namespace \<Rightarrow>
             (case cpw_LocalQueues W namespace (completion_options []) of
               Inl e \<Rightarrow> ([], ShellCompDirectiveError)
             | Inr items \<Rightarrow> (valid_args args items, ShellCompDirectiveNoFileComp))))"

definition JobNameFunc ::
  "completion_world \<Rightarrow> application_profile_mode \<Rightarrow> string list \<Rightarrow> string \<Rightarrow> string list \<times> shell_directive" where
  "JobNameFunc W mode args toComplete =
     (case cpw_K8sClientset W of
       Inl e \<Rightarrow> ([], ShellCompDirectiveError)
     | Inr _ \<Rightarrow>
         (case cpw_Namespace W of
           Inl e \<Rightarrow> ([], ShellCompDirectiveError)
         | Inr namespace \<Rightarrow>
             (case cpw_Jobs W namespace (completion_options (ProfileLabel @ '','' @ ModeLabel @ ''='' @ mode_name mode)) of
               Inl e \<Rightarrow> ([], ShellCompDirectiveError)
             | Inr items \<Rightarrow> (valid_args args items, ShellCompDirectiveNoFileComp))))"

definition RayJobNameFunc ::
  "completion_world \<Rightarrow> string list \<Rightarrow> string \<Rightarrow> string list \<times> shell_directive" where
  "RayJobNameFunc W args toComplete =
     (case cpw_RayClientset W of
       Inl e \<Rightarrow> ([], ShellCompDirectiveError)
     | Inr _ \<Rightarrow>
         (case cpw_Namespace W of
           Inl e \<Rightarrow> ([], ShellCompDirectiveError)
         | Inr namespace \<Rightarrow>
             (case cpw_RayJobs W namespace (completion_options ProfileLabel) of
               Inl e \<Rightarrow> ([], ShellCompDirectiveError)
             | Inr items \<Rightarrow> (valid_args args items, ShellCompDirectiveNoFileComp))))"

definition RayClusterNameFunc ::
  "completion_world \<Rightarrow> string list \<Rightarrow> string \<Rightarrow> string list \<times> shell_directive" where
  "RayClusterNameFunc W args toComplete =
     (case cpw_RayClientset W of
       Inl e \<Rightarrow> ([], ShellCompDirectiveError)
     | Inr _ \<Rightarrow>
         (case cpw_Namespace W of
           Inl e \<Rightarrow> ([], ShellCompDirectiveError)
         | Inr namespace \<Rightarrow>
             (case cpw_RayClusters W namespace (completion_options ProfileLabel) of
               Inl e \<Rightarrow> ([], ShellCompDirectiveError)
             | Inr items \<Rightarrow> (valid_args args items, ShellCompDirectiveNoFileComp))))"

definition PodNameFunc ::
  "completion_world \<Rightarrow> string list \<Rightarrow> string \<Rightarrow> string list \<times> shell_directive" where
  "PodNameFunc W args toComplete =
     (case cpw_K8sClientset W of
       Inl e \<Rightarrow> ([], ShellCompDirectiveError)
     | Inr _ \<Rightarrow>
         (case cpw_Namespace W of
           Inl e \<Rightarrow> ([], ShellCompDirectiveError)
         | Inr namespace \<Rightarrow>
             (case cpw_Pods W namespace (completion_options ProfileLabel) of
               Inl e \<Rightarrow> ([], ShellCompDirectiveError)
             | Inr items \<Rightarrow> (valid_args args items, ShellCompDirectiveNoFileComp))))"

section \<open>The contract of a completion of names\<close>

text \<open>
  What a completion of object names offers: names of objects the server listed for the request with
  the function's selector, none of them given already; after an error nothing is offered.
\<close>

locale name_completion =
  fixes complete_names :: "completion_world \<Rightarrow> string list \<Rightarrow> string \<Rightarrow> string list \<times> shell_directive"
    and lister :: "completion_world \<Rightarrow> meta_lister"
    and selector :: string
  assumes offered:
      "complete_names W args p = (ns, ShellCompDirectiveNoFileComp) \<Longrightarrow>
       \<exists>namespace items. cpw_Namespace W = Inr namespace \<and>
         lister W namespace (completion_options selector) = Inr items \<and> ns = valid_args args items"
    and failed: "complete_names W args p = (ns, ShellCompDirectiveError) \<Longrightarrow> ns = []"
begin

lemma offered_new:
  assumes "n \<in> set (fst (complete_names W args p))"
  shows "n \<notin> set args \<and> (\<exists>namespace items m. cpw_Namespace W = Inr namespace \<and>
    lister W namespace (completion_options selector) = Inr items \<and> m \<in> set items \<and> meta_Name m = n)"
proof -
  obtain ns d where r: "complete_names W args p = (ns, d)" by fastforce
  with assms failed [of W args p ns] have "d = ShellCompDirectiveNoFileComp" by (cases d) auto
  with offered [of W args p ns] r assms show ?thesis by (auto simp: valid_args_def)
qed

end

interpretation apc: name_completion ApplicationProfileNameFunc cpw_ApplicationProfiles "[]"
  by unfold_locales (auto simp: ApplicationProfileNameFunc_def split: sum.splits)

interpretation lqc: name_completion LocalQueueNameFunc cpw_LocalQueues "[]"
  by unfold_locales (auto simp: LocalQueueNameFunc_def split: sum.splits)

interpretation rjc: name_completion RayJobNameFunc cpw_RayJobs ProfileLabel
  by unfold_locales (auto simp: RayJobNameFunc_def split: sum.splits)

interpretation rcc: name_completion RayClusterNameFunc cpw_RayClusters ProfileLabel
  by unfold_locales (auto simp: RayClusterNameFunc_def split: sum.splits)

interpretation poc: name_completion PodNameFunc cpw_Pods ProfileLabel
  by unfold_locales (auto simp: PodNameFunc_def split: sum.splits)

interpretation jobc: name_completion "\<lambda>W. JobNameFunc W mode" cpw_Jobs
    "ProfileLabel @ '','' @ ModeLabel @ ''='' @ mode_name mode" for mode
  by unfold_locales (auto simp: JobNameFunc_def split: sum.splits)

section \<open>Completion of the delete commands\<close>

text \<open>The completion function each delete command registers, with the requirements of its selector.\<close>

definition delete_completion ::
  "application_profile_mode \<Rightarrow> completion_world \<Rightarrow> string list \<Rightarrow> string \<Rightarrow> string list \<times> shell_directive" where
  "delete_completion mode W =
     (case mode of
       InteractiveMode \<Rightarrow> PodNameFunc W
     | JobMode \<Rightarrow> JobNameFunc W JobMode
     | RayJobMode \<Rightarrow> RayJobNameFunc W
     | RayClusterMode \<Rightarrow> RayClusterNameFunc W
     | SlurmMode \<Rightarrow> JobNameFunc W SlurmMode)"

definition delete_lister :: "application_profile_mode \<Rightarrow> completion_world \<Rightarrow> meta_lister" where
  "delete_lister mode W =
     (case mode of
       InteractiveMode \<Rightarrow> cpw_Pods W
     | RayJobMode \<Rightarrow> cpw_RayJobs W
     | RayClusterMode \<Rightarrow> cpw_RayClusters W
     | _ \<Rightarrow> cpw_Jobs W)"

definition delete_requirements :: "application_profile_mode \<Rightarrow> requirement list" where
  "delete_requirements mode =
     LabelExists ProfileLabel #
     (if mode \<in> {JobMode, SlurmMode} then [LabelEquals ModeLabel (mode_name mode)] else [])"

definition delete_selector :: "application_profile_mode \<Rightarrow> string" where
  "delete_selector mode = str_join '','' (map requirement_text (delete_requirements mode))"

lemma delete_completion_contract:
  "name_completion (delete_completion mode) (delete_lister mode) (delete_selector mode)"
proof (cases mode)
  case JobMode
  then show ?thesis using jobc.name_completion_axioms [of JobMode]
    by (simp add: delete_completion_def [abs_def] delete_lister_def [abs_def] delete_selector_def delete_requirements_def)
next
  case SlurmMode
  then show ?thesis using jobc.name_completion_axioms [of SlurmMode]
    by (simp add: delete_completion_def [abs_def] delete_lister_def [abs_def] delete_selector_def delete_requirements_def)
qed (simp_all add: delete_completion_def [abs_def] delete_lister_def [abs_def] delete_selector_def delete_requirements_def
    poc.name_completion_axioms rjc.name_completion_axioms rcc.name_completion_axioms)

interpretation dc: name_completion "delete_completion mode" "delete_lister mode" "delete_selector mode" for mode
  by (rule delete_completion_contract)

lemma delete_requirements_may_delete:
  "list_all (satisfies m) (delete_requirements mode) \<longleftrightarrow> may_delete mode m"
  by (auto simp: delete_requirements_def may_delete_def via_kjob_def via_kjob_in_def)

section \<open>A sample world\<close>

definition sample_completion_world :: completion_world where
  "sample_completion_world =
     \<lparr>cpw_K8sClientset = Inr (), cpw_KjobctlClientset = Inr (), cpw_KueueClientset = Inr (),
      cpw_RayClientset = Inr (), cpw_Namespace = Inr ''ns'',
      cpw_RawConfig = Inr \<lparr>rawc_Contexts = [], rawc_Clusters = [], rawc_AuthInfos = []\<rparr>,
      cpw_Namespaces = (\<lambda>opts. Inr []), cpw_ApplicationProfiles = (\<lambda>ns opts. Inr []),
      cpw_LocalQueues = (\<lambda>ns opts. Inr []),
      cpw_Jobs = (\<lambda>ns opts. Inr [sample_owned JobMode ''a'', sample_owned JobMode ''b'']),
      cpw_RayJobs = (\<lambda>ns opts. Inr []), cpw_RayClusters = (\<lambda>ns opts. Inr []), cpw_Pods = (\<lambda>ns opts. Inr [])\<rparr>"

section \<open>Properties\<close>

text \<open>
  C33. Completion offers only what can be deleted: when the server answers a list request with objects
  that satisfy its label selector, every name the completion of a delete command offers is not yet
  on the command line and belongs to a listed object that this delete command may delete.
\<close>

theorem delete_completion_deletable:
  assumes "n \<in> set (fst (delete_completion mode W args toComplete))"
    and "\<And>ns items m. delete_lister mode W ns (completion_options (delete_selector mode)) = Inr items \<Longrightarrow>
      m \<in> set items \<Longrightarrow> list_all (satisfies m) (delete_requirements mode)"
  shows "n \<notin> set args \<and> (\<exists>ns items m. delete_lister mode W ns (completion_options (delete_selector mode)) = Inr items \<and>
    m \<in> set items \<and> meta_Name m = n \<and> may_delete mode m)"
  using dc.offered_new [OF assms(1)] assms(2) unfolding delete_requirements_may_delete by blast

theorem delete_completion_deletable_witness:
  "delete_completion JobMode sample_completion_world [''b''] [] = ([''a''], ShellCompDirectiveNoFileComp) \<and>
   ''a'' \<notin> set [''b''] \<and> (\<exists>m. meta_Name m = ''a'' \<and> may_delete JobMode m)"
proof -
  let ?W = sample_completion_world
  have c: "delete_completion JobMode ?W [''b''] [] = ([''a''], ShellCompDirectiveNoFileComp)"
    by (simp add: delete_completion_def JobNameFunc_def sample_completion_world_def valid_args_def sample_owned_def)
  have "''a'' \<in> set (fst (delete_completion JobMode ?W [''b''] []))" by (simp add: c)
  moreover have "list_all (satisfies m) (delete_requirements JobMode)"
    if "delete_lister JobMode ?W ns (completion_options (delete_selector JobMode)) = Inr items" "m \<in> set items" for ns items m
    using that by (auto simp: delete_lister_def sample_completion_world_def delete_requirements_def sample_owned_def
        label_of_def mget_def label_defs)
  ultimately have "''a'' \<notin> set [''b''] \<and> (\<exists>ns items m. delete_lister JobMode ?W ns (completion_options (delete_selector JobMode)) =
      Inr items \<and> m \<in> set items \<and> meta_Name m = ''a'' \<and> may_delete JobMode m)"
    by (rule delete_completion_deletable)
  with c show ?thesis by blast
qed

end
