(* ===== verification/DescribePrint.thy ===== *)
theory DescribePrint
  imports ListCmd Utils
begin

text \<open>
  The texts of \<open>kjobctl describe\<close> (\<open>pkg/cmd/describe/helpers.go\<close>): labels, containers, environment
  and mounts. The code writes to a prefix writer of kubectl on top of a tab
  writer; a text here is the list of the write operations in their order, and the two writers, which
  indent and align, are a parameter that turns the list into a string.
\<close>

section \<open>Write operations\<close>

text \<open>
  \<open>Write\<close> carries the text after formatting; \<open>WriteFormat\<close> a format string without arguments that is
  not a constant; \<open>Nested\<close> is what is written through a nested prefix writer.
\<close>

datatype wop = Write nat string | WriteFormat nat string | WriteLine string | Nested nat "wop list"

definition IndentLevelZero :: nat where "IndentLevelZero = 0"
definition IndentLevelOne :: nat where "IndentLevelOne = 1"
definition IndentLevelTwo :: nat where "IndentLevelTwo = 2"
definition IndentLevelThree :: nat where "IndentLevelThree = 3"

lemmas indent_defs = IndentLevelZero_def IndentLevelOne_def IndentLevelTwo_def IndentLevelThree_def

definition maxAnnotationLen :: nat where "maxAnnotationLen = 140"

definition tab :: string where "tab = [CHR 0x09]"
definition eol :: string where "eol = [CHR 0x0A]"

text \<open>A line with a key, a tabulator and a value, and its form inside the text of a volume.\<close>

definition key_line :: "string \<Rightarrow> string \<Rightarrow> string" where
  "key_line k v = k @ '':'' @ tab @ v @ eol"

definition sub_line :: "string \<Rightarrow> string \<Rightarrow> string" where
  "sub_line k v = ''    '' @ key_line k v"

definition bool_text :: "bool \<Rightarrow> string" where
  "bool_text b = (if b then ''true'' else ''false'')"

text \<open>The verb \<open>%v\<close> on a slice of strings and on a map, whose keys it sorts.\<close>

definition slice_text :: "string list \<Rightarrow> string" where
  "slice_text xs = ''['' @ str_join '' '' xs @ '']''"

definition map_text :: "str_map option \<Rightarrow> string" where
  "map_text m = ''map['' @ str_join '' '' (map (\<lambda>k. k @ '':'' @ deref (mget (deref m []) k) []) (SortedKeys m)) @ '']''"

section \<open>Described containers\<close>

record container_port =
  cp_ContainerPort :: int32
  cp_HostPort :: int32
  cp_Protocol :: string

record resource_field_ref =
  rf_Resource :: string
  rf_rest :: string

record key_ref =
  kr_Name :: string
  kr_Key :: string
  kr_Optional :: "bool option"

record env_var_source =
  ev_FieldRef :: "(string \<times> string) option"
  ev_ResourceFieldRef :: "resource_field_ref option"
  ev_SecretKeyRef :: "key_ref option"
  ev_ConfigMapKeyRef :: "key_ref option"

record described_env =
  de_Name :: string
  de_Value :: string
  de_ValueFrom :: "env_var_source option"

record env_from_source =
  ef_Prefix :: string
  ef_ConfigMapRef :: "(string \<times> bool option) option"
  ef_SecretRef :: "(string \<times> bool option) option"

record described_mount =
  mt_Name :: string
  mt_MountPath :: string
  mt_ReadOnly :: bool
  mt_SubPath :: string

record volume_device =
  vd_Name :: string
  vd_DevicePath :: string

text \<open>A probe is described by kubectl; the program passes it on.\<close>

record 'q described_container =
  dn_Name :: string
  dn_Ports :: "container_port list"
  dn_Command :: "string list"
  dn_Args :: "string list"
  dn_Limits :: "'q resource_list"
  dn_Requests :: "'q resource_list"
  dn_LivenessProbe :: "string option"
  dn_ReadinessProbe :: "string option"
  dn_StartupProbe :: "string option"
  dn_EnvFrom :: "env_from_source list"
  dn_Env :: "described_env list"
  dn_VolumeMounts :: "described_mount list"
  dn_VolumeDevices :: "volume_device list"

text \<open>
  What the descriptions ask of the outside: the clock, the texts of durations, dates and quantities,
  Go's quoting of a string and the text of a pointer, and functions of kubectl.
\<close>

record 'q describe_texts =
  dx_now :: int
  dx_human_duration :: "int \<Rightarrow> string"
  dx_rfc1123z :: "int \<Rightarrow> string"
  dx_quantity :: "'q \<Rightarrow> string"
  dx_zero :: 'q
  dx_positive :: "'q \<Rightarrow> bool"
  dx_quote :: "string \<Rightarrow> string"
  dx_pointer :: string
  dx_secret_ref :: "string option \<Rightarrow> string"
  dx_sort_mounts :: "described_mount list \<Rightarrow> described_mount list"
  dx_sort_devices :: "volume_device list \<Rightarrow> volume_device list"
  dx_resource_names :: "'q resource_list \<Rightarrow> string list"
  dx_probe :: "string \<Rightarrow> string"
  dx_resource_value :: "resource_field_ref \<Rightarrow> 'q described_container \<Rightarrow> string + string"
  dx_storage_class :: "str_map option \<Rightarrow> string option \<Rightarrow> string"
  dx_access_modes :: "string list \<Rightarrow> string"
  dx_ResourceStorage :: string
  dx_render :: "wop list \<Rightarrow> string"

text \<open>\<open>tabbedString\<close>: the functions that fill the writer never return an error.\<close>

definition tabbedString :: "'q describe_texts \<Rightarrow> wop list \<Rightarrow> string" where
  "tabbedString T ops = dx_render T ops"

section \<open>Labels\<close>

definition label_ops :: "string \<Rightarrow> string \<Rightarrow> str_map \<Rightarrow> string list \<Rightarrow> wop list" where
  "label_ops initialIndent innerIndent labels keys =
     concat (map (\<lambda>(i, key).
         (if i \<noteq> 0 then [Write IndentLevelZero initialIndent, Write IndentLevelZero innerIndent] else []) @
         [Write IndentLevelZero (key @ ''='' @ deref (mget labels key) [] @ eol)])
       (enumerate 0 keys))"

definition printLabelsMultilineWithIndent ::
  "string \<Rightarrow> string \<Rightarrow> string \<Rightarrow> str_map option \<Rightarrow> string list \<Rightarrow> wop list" where
  "printLabelsMultilineWithIndent initialIndent title innerIndent labels skip =
     Write IndentLevelZero (initialIndent @ title @ '':'' @ innerIndent) #
     (if deref labels [] = [] then [WriteLine ''<none>'']
      else
        let keys = filter (\<lambda>k. k \<notin> set skip) (map fst (deref labels []))
        in if keys = [] then [WriteLine ''<none>'']
           else label_ops initialIndent innerIndent (deref labels []) (sort keys))"

definition printLabelsMultiline :: "string \<Rightarrow> str_map option \<Rightarrow> wop list" where
  "printLabelsMultiline title labels = printLabelsMultilineWithIndent [] title tab labels []"

section \<open>Containers\<close>

definition stringOrDefaultValue :: "string \<Rightarrow> string \<Rightarrow> string" where
  "stringOrDefaultValue s d = (if s \<noteq> [] then s else d)"

definition stringOrNone :: "string \<Rightarrow> string" where
  "stringOrNone s = stringOrDefaultValue s ''<none>''"

definition describeContainersLabel :: "'q described_container list \<Rightarrow> string \<Rightarrow> string \<Rightarrow> wop list" where
  "describeContainersLabel containers label space =
     [Write IndentLevelZero (space @ label @ '':'' @ (if containers = [] then '' <none>'' else []) @ eol)]"

definition describeContainerPorts :: "container_port list \<Rightarrow> string" where
  "describeContainerPorts cPorts =
     str_join '', '' (map (\<lambda>p. format_int32 (cp_ContainerPort p) @ ''/'' @ cp_Protocol p) cPorts)"

definition describeContainerHostPorts :: "container_port list \<Rightarrow> string" where
  "describeContainerHostPorts cPorts =
     str_join '', '' (map (\<lambda>p. format_int32 (cp_HostPort p) @ ''/'' @ cp_Protocol p) cPorts)"

definition describeContainerBasicInfo :: "'q described_container \<Rightarrow> string \<Rightarrow> wop list" where
  "describeContainerBasicInfo container space =
     (let nameIndent = (if space \<noteq> [] then '' '' else []);
          portString = describeContainerPorts (dn_Ports container);
          hostPortString = describeContainerHostPorts (dn_Ports container)
      in [Write IndentLevelOne (nameIndent @ dn_Name container @ '':'' @ eol),
          (if str_contains portString '','' then Write IndentLevelTwo (key_line ''Ports'' portString)
           else Write IndentLevelTwo (key_line ''Port'' (stringOrNone portString))),
          (if str_contains hostPortString '','' then Write IndentLevelTwo (key_line ''Host Ports'' hostPortString)
           else Write IndentLevelTwo (key_line ''Host Port'' (stringOrNone hostPortString)))])"

text \<open>The lines of the words of a command.\<close>

definition word_lines :: "string list \<Rightarrow> wop list" where
  "word_lines ws = concat (map (\<lambda>w. map (\<lambda>s. Write IndentLevelThree (s @ eol)) (split_on (CHR 0x0A) w)) ws)"

definition describeContainerCommand :: "'q described_container \<Rightarrow> wop list" where
  "describeContainerCommand container =
     (if dn_Command container \<noteq> [] then Write IndentLevelTwo (''Command:'' @ eol) # word_lines (dn_Command container) else []) @
     (if dn_Args container \<noteq> [] then Write IndentLevelTwo (''Args:'' @ eol) # word_lines (dn_Args container) else [])"

definition resource_lines :: "'q describe_texts \<Rightarrow> string \<Rightarrow> 'q resource_list \<Rightarrow> wop list" where
  "resource_lines T title rs =
     (if rs \<noteq> [] then [Write IndentLevelTwo (title @ '':'' @ eol)] else []) @
     map (\<lambda>name. Write IndentLevelThree (key_line name (dx_quantity T (deref (mget rs name) (dx_zero T)))))
       (dx_resource_names T rs)"

definition describeContainerResource :: "'q describe_texts \<Rightarrow> 'q described_container \<Rightarrow> wop list" where
  "describeContainerResource T container =
     resource_lines T ''Limits'' (dn_Limits container) @ resource_lines T ''Requests'' (dn_Requests container)"

definition probe_line :: "'q describe_texts \<Rightarrow> string \<Rightarrow> string option \<Rightarrow> wop list" where
  "probe_line T title p = (case p of None \<Rightarrow> [] | Some probe \<Rightarrow> [Write IndentLevelTwo (key_line title (dx_probe T probe))])"

definition describeContainerProbe :: "'q describe_texts \<Rightarrow> 'q described_container \<Rightarrow> wop list" where
  "describeContainerProbe T container =
     probe_line T ''Liveness'' (dn_LivenessProbe container) @
     probe_line T ''Readiness'' (dn_ReadinessProbe container) @
     probe_line T ''Startup'' (dn_StartupProbe container)"

definition mount_flags :: "'q describe_texts \<Rightarrow> described_mount \<Rightarrow> string list" where
  "mount_flags T mount =
     [if mt_ReadOnly mount then ''ro'' else ''rw''] @
     (if mt_SubPath mount \<noteq> [] then [''path='' @ dx_quote T (mt_SubPath mount)] else [])"

definition describeContainerVolumes :: "'q describe_texts \<Rightarrow> 'q described_container \<Rightarrow> wop list" where
  "describeContainerVolumes T container =
     (let none = (if dn_VolumeMounts container = [] then tab @ ''<none>'' else [])
      in Write IndentLevelTwo (''Mounts:'' @ none @ eol) #
         map (\<lambda>mount. Write IndentLevelThree
             (mt_MountPath mount @ '' from '' @ mt_Name mount @ '' ('' @ str_join '','' (mount_flags T mount) @ '')'' @ eol))
           (dx_sort_mounts T (dn_VolumeMounts container)) @
         (if dn_VolumeDevices container \<noteq> []
          then Write IndentLevelTwo (''Devices:'' @ none @ eol) #
            map (\<lambda>device. Write IndentLevelThree (vd_DevicePath device @ '' from '' @ vd_Name device @ eol))
              (dx_sort_devices T (dn_VolumeDevices container))
          else []))"

text \<open>Environment variables: the lines of a value, or where the value comes from.\<close>

definition optional_text :: "bool option \<Rightarrow> string" where
  "optional_text opt = bool_text (opt = Some True)"

definition env_value_lines :: "string \<Rightarrow> string \<Rightarrow> wop list" where
  "env_value_lines name val =
     map (\<lambda>(i, s). if i = 0 then Write IndentLevelThree (key_line name s) else Write IndentLevelThree (tab @ s @ eol))
       (enumerate 0 (split_on (CHR 0x0A) val))"

definition env_source_lines ::
  "'q describe_texts \<Rightarrow> 'q described_container \<Rightarrow> string \<Rightarrow> env_var_source \<Rightarrow> wop list" where
  "env_source_lines T container name src =
     (case ev_FieldRef src of
       Some (apiVersion, fieldPath) \<Rightarrow>
         [Write IndentLevelThree (key_line name ('' ('' @ apiVersion @ '':'' @ fieldPath @ '')''))]
     | None \<Rightarrow>
     (case ev_ResourceFieldRef src of
       Some ref \<Rightarrow>
         (let valueFrom = (case dx_resource_value T ref container of Inl e \<Rightarrow> [] | Inr v \<Rightarrow> v);
              valueFrom =
                (if valueFrom = ''0'' \<and> (rf_Resource ref = ''limits.cpu'' \<or> rf_Resource ref = ''limits.memory'')
                 then ''node allocatable'' else valueFrom)
          in [Write IndentLevelThree (key_line name (valueFrom @ '' ('' @ rf_Resource ref @ '')''))])
     | None \<Rightarrow>
     (case ev_SecretKeyRef src of
       Some ref \<Rightarrow>
         [Write IndentLevelThree (name @ '':'' @ tab @ ''<set to the key '' @ [CHR 0x27] @ kr_Key ref @ [CHR 0x27] @ '' in secret '' @
            [CHR 0x27] @ kr_Name ref @ [CHR 0x27] @ ''>'' @ tab @ ''Optional: '' @ optional_text (kr_Optional ref) @ eol)]
     | None \<Rightarrow>
     (case ev_ConfigMapKeyRef src of
       Some ref \<Rightarrow>
         [Write IndentLevelThree (name @ '':'' @ tab @ ''<set to the key '' @ [CHR 0x27] @ kr_Key ref @ [CHR 0x27] @ '' of config map '' @
            [CHR 0x27] @ kr_Name ref @ [CHR 0x27] @ ''>'' @ tab @ ''Optional: '' @ optional_text (kr_Optional ref) @ eol)]
     | None \<Rightarrow> []))))"

definition describeContainerEnvVars :: "'q describe_texts \<Rightarrow> 'q described_container \<Rightarrow> wop list" where
  "describeContainerEnvVars T container =
     Write IndentLevelTwo (''Environment:'' @ (if dn_Env container = [] then tab @ ''<none>'' else []) @ eol) #
     concat (map (\<lambda>e. case de_ValueFrom e of
         None \<Rightarrow> env_value_lines (de_Name e) (de_Value e)
       | Some src \<Rightarrow> env_source_lines T container (de_Name e) src) (dn_Env container))"

definition env_from_line :: "env_from_source \<Rightarrow> wop" where
  "env_from_line e =
     (let (from, name, optional) =
            (case ef_ConfigMapRef e of
              Some (n, opt) \<Rightarrow> (''ConfigMap'', n, opt = Some True)
            | None \<Rightarrow>
                (case ef_SecretRef e of
                  Some (n, opt) \<Rightarrow> (''Secret'', n, opt = Some True)
                | None \<Rightarrow> ([], [], False)))
      in if ef_Prefix e = []
         then Write IndentLevelThree (name @ tab @ from @ tab @ ''Optional: '' @ bool_text optional @ eol)
         else Write IndentLevelThree (name @ tab @ from @ '' with prefix '' @ [CHR 0x27] @ ef_Prefix e @ [CHR 0x27] @ tab @
           ''Optional: '' @ bool_text optional @ eol))"

definition describeContainerEnvFrom :: "'q described_container \<Rightarrow> wop list" where
  "describeContainerEnvFrom container =
     Write IndentLevelTwo (''Environment Variables from:'' @ (if dn_EnvFrom container = [] then tab @ ''<none>'' else []) @ eol) #
     map env_from_line (dn_EnvFrom container)"

definition describe_container :: "'q describe_texts \<Rightarrow> string \<Rightarrow> 'q described_container \<Rightarrow> wop list" where
  "describe_container T space container =
     describeContainerBasicInfo container space @ describeContainerCommand container @
     describeContainerResource T container @ describeContainerProbe T container @
     (if dn_EnvFrom container \<noteq> [] then describeContainerEnvFrom container else []) @
     describeContainerEnvVars T container @ describeContainerVolumes T container"

definition describeContainers ::
  "'q describe_texts \<Rightarrow> string \<Rightarrow> 'q described_container list \<Rightarrow> string \<Rightarrow> wop list" where
  "describeContainers T label containers space =
     describeContainersLabel containers label space @ concat (map (describe_container T space) containers)"

end
