(* ===== verification/DescribeVolumes.thy ===== *)
theory DescribeVolumes
  imports DescribePrint
begin

text \<open>
  The second half of \<open>pkg/cmd/describe/helpers.go\<close>: the volumes of a pod, one printing function for
  each of the 29 kinds of source the switch of \<open>describeVolumes\<close> names, the attributes of a CSI volume,
  persistent volume claims and pod templates. A nil pointer the code dereferences makes the whole
  description \<open>None\<close>.
\<close>

section \<open>Sources of volumes\<close>

record data_source =
  dsrc_APIGroup :: "string option"
  dsrc_Kind :: string
  dsrc_Name :: string

text \<open>A claim template has metadata and a specification; a claim has a status besides.\<close>

record claim_template =
  pvc_Meta :: object_meta
  pvc_DeletionTimestamp :: "int option"
  pvc_Finalizers :: "string list"
  pvc_StorageClassName :: "string option"
  pvc_VolumeName :: string
  pvc_VolumeMode :: "string option"
  pvc_DataSource :: "data_source option"

record 'q claim = claim_template +
  pvc_Phase :: string
  pvc_AccessModes :: "string list"
  pvc_Capacity :: "'q resource_list"

record downward_item =
  dwi_Path :: string
  dwi_FieldPath :: "string option"
  dwi_Resource :: "string option"

text \<open>The sources of a projected volume, in the order the code looks at them.\<close>

record projected_source =
  pj_Secret :: "(string \<times> bool option) option"
  pj_DownwardAPI :: bool
  pj_ConfigMap :: "(string \<times> bool option) option"
  pj_ServiceAccountToken :: "int option option"

text \<open>
  The sources of a volume with the fields that are printed, in the order of the switch. A reference to
  a secret is the name of the secret; the pointers of an Azure disk may be nil.
\<close>

datatype (plugins only: size code) 'q volume_desc =
    HostPath string "string option"
  | EmptyDir string "'q option"
  | GCEPersistentDisk string string int32 bool
  | AWSElasticBlockStore string string int32 bool
  | GitRepo string string
  | Secret string "bool option"
  | ConfigMap string "bool option"
  | NFS string string bool
  | ISCSI string string int32 string string bool "string list" bool bool "string option" "string option"
  | Glusterfs string string bool
  | PersistentVolumeClaim string bool
  | Ephemeral "claim_template option"
  | RBD "string list" string string string string string "string option" bool
  | Quobyte string string bool
  | DownwardAPI "downward_item list"
  | AzureDisk string string "string option" "string option" "string option" "bool option"
  | VsphereVolume string string string
  | Cinder string string bool "string option"
  | PhotonPersistentDisk string string
  | PortworxVolume string
  | ScaleIO string string string string string string string bool
  | CephFS "string list" string string string "string option" bool
  | StorageOS string string string bool
  | FC "string list" "int32 option" string bool
  | AzureFile string string bool
  | FlexVolume string string "string option" bool "str_map option"
  | Flocker string string
  | Projected "projected_source list"
  | CSI string "string option" "bool option" "str_map option"

text \<open>A volume has a name and the sources that are set; a valid one has exactly one.\<close>

record 'q described_volume =
  dv_Name :: string
  dv_Sources :: "'q volume_desc list"

record 'q described_template =
  dt_InitContainers :: "'q described_container list"
  dt_Containers :: "'q described_container list"
  dt_Volumes :: "'q described_volume list"

section \<open>Printing functions\<close>

text \<open>The text of a source: its type and explanation, then a line for each field.\<close>

definition source_text :: "string \<Rightarrow> (string \<times> string) list \<Rightarrow> wop list" where
  "source_text title fs =
     [Write IndentLevelTwo (key_line ''Type'' title @ concat (map (\<lambda>(k, v). sub_line k v) fs))]"

definition apostrophe :: string where "apostrophe = [CHR 0x27]"

definition or_none :: "string option \<Rightarrow> string" where
  "or_none p = (case p of None \<Rightarrow> ''<none>'' | Some s \<Rightarrow> s)"

definition printHostPathVolumeSource :: "string \<Rightarrow> string option \<Rightarrow> wop list" where
  "printHostPathVolumeSource path ty =
     source_text ''HostPath (bare host directory volume)''
       [(''Path'', path),
        (''HostPathType'', or_none ty)]"

definition printEmptyDirVolumeSource :: "'q describe_texts \<Rightarrow> string \<Rightarrow> 'q option \<Rightarrow> wop list" where
  "printEmptyDirVolumeSource T medium limit =
     source_text (''EmptyDir (a temporary directory that shares a pod'' @ apostrophe @ ''s lifetime)'')
       [(''Medium'', medium),
        (''SizeLimit'', (case limit of Some x \<Rightarrow> if dx_positive T x then dx_quantity T x else ''<unset>'' | None \<Rightarrow> ''<unset>''))]"

definition printGCEPersistentDiskVolumeSource :: "string \<Rightarrow> string \<Rightarrow> int32 \<Rightarrow> bool \<Rightarrow> wop list" where
  "printGCEPersistentDiskVolumeSource pdName fsType partition_number readOnly =
     source_text ''GCEPersistentDisk (a Persistent Disk resource in Google Compute Engine)''
       [(''PDName'', pdName),
        (''FSType'', fsType),
        (''Partition'', format_int32 partition_number),
        (''ReadOnly'', bool_text readOnly)]"

definition printAWSElasticBlockStoreVolumeSource :: "string \<Rightarrow> string \<Rightarrow> int32 \<Rightarrow> bool \<Rightarrow> wop list" where
  "printAWSElasticBlockStoreVolumeSource volumeID fsType partition_number readOnly =
     source_text ''AWSElasticBlockStore (a Persistent Disk resource in AWS)''
       [(''VolumeID'', volumeID),
        (''FSType'', fsType),
        (''Partition'', format_int32 partition_number),
        (''ReadOnly'', bool_text readOnly)]"

definition printGitRepoVolumeSource :: "string \<Rightarrow> string \<Rightarrow> wop list" where
  "printGitRepoVolumeSource repository revision =
     source_text ''GitRepo (a volume that is pulled from git when the pod is created)''
       [(''Repository'', repository),
        (''Revision'', revision)]"

definition printSecretVolumeSource :: "string \<Rightarrow> bool option \<Rightarrow> wop list" where
  "printSecretVolumeSource secretName optional =
     source_text ''Secret (a volume populated by a Secret)''
       [(''SecretName'', secretName),
        (''Optional'', optional_text optional)]"

definition printConfigMapVolumeSource :: "string \<Rightarrow> bool option \<Rightarrow> wop list" where
  "printConfigMapVolumeSource name optional =
     source_text ''ConfigMap (a volume populated by a ConfigMap)''
       [(''Name'', name),
        (''Optional'', optional_text optional)]"

definition printNFSVolumeSource :: "string \<Rightarrow> string \<Rightarrow> bool \<Rightarrow> wop list" where
  "printNFSVolumeSource server path readOnly =
     source_text ''NFS (an NFS mount that lasts the lifetime of a pod)''
       [(''Server'', server),
        (''Path'', path),
        (''ReadOnly'', bool_text readOnly)]"

text \<open>The line of the interface has no colon.\<close>

definition printISCSIVolumeSource ::
  "'q describe_texts \<Rightarrow> string \<Rightarrow> string \<Rightarrow> int32 \<Rightarrow> string \<Rightarrow> string \<Rightarrow> bool \<Rightarrow> string list \<Rightarrow> bool \<Rightarrow> bool \<Rightarrow>
   string option \<Rightarrow> string option \<Rightarrow> wop list" where
  "printISCSIVolumeSource T targetPortal iqn lun iface fsType readOnly portals discovery session secretRef initiator =
     [Write IndentLevelTwo
       (key_line ''Type'' (''ISCSI (an ISCSI Disk resource that is attached to a kubelet'' @ apostrophe @
          ''s host machine and then exposed to the pod)'') @
        sub_line ''TargetPortal'' targetPortal @ sub_line ''IQN'' iqn @ sub_line ''Lun'' (format_int32 lun) @
        ''    ISCSIInterface'' @ tab @ iface @ eol @
        sub_line ''FSType'' fsType @ sub_line ''ReadOnly'' (bool_text readOnly) @ sub_line ''Portals'' (slice_text portals) @
        sub_line ''DiscoveryCHAPAuth'' (bool_text discovery) @ sub_line ''SessionCHAPAuth'' (bool_text session) @
        sub_line ''SecretRef'' (dx_secret_ref T secretRef) @ sub_line ''InitiatorName'' (or_none initiator))]"

definition printGlusterfsVolumeSource :: "string \<Rightarrow> string \<Rightarrow> bool \<Rightarrow> wop list" where
  "printGlusterfsVolumeSource endpointsName path readOnly =
     source_text (''Glusterfs (a Glusterfs mount on the host that shares a pod'' @ apostrophe @ ''s lifetime)'')
       [(''EndpointsName'', endpointsName),
        (''Path'', path),
        (''ReadOnly'', bool_text readOnly)]"

definition printPersistentVolumeClaimVolumeSource :: "string \<Rightarrow> bool \<Rightarrow> wop list" where
  "printPersistentVolumeClaimVolumeSource claimName readOnly =
     source_text ''PersistentVolumeClaim (a reference to a PersistentVolumeClaim in the same namespace)''
       [(''ClaimName'', claimName),
        (''ReadOnly'', bool_text readOnly)]"

text \<open>
  The time since a moment, which is unknown for Go's zero time (January 1 of the year 1); moments are
  nanoseconds since 1970.
\<close>

definition zero_time :: int where "zero_time = - 62135596800 * 1000000000"

definition translateTimestampSince :: "'q describe_texts \<Rightarrow> int \<Rightarrow> string" where
  "translateTimestampSince T timestamp =
     (if timestamp = zero_time then ''<unknown>'' else dx_human_duration T (time_sub (dx_now T) timestamp))"

definition data_source_lines :: "data_source option \<Rightarrow> wop list" where
  "data_source_lines ds = (case ds of None \<Rightarrow> [] | Some s \<Rightarrow>
     [Write IndentLevelZero (''DataSource:'' @ eol)] @
     (case dsrc_APIGroup s of None \<Rightarrow> [] | Some g \<Rightarrow> [Write IndentLevelOne (key_line ''APIGroup'' g)]) @
     [Write IndentLevelOne (key_line ''Kind'' (dsrc_Kind s)), Write IndentLevelOne (key_line ''Name'' (dsrc_Name s))])"

definition printPersistentVolumeClaim :: "'q describe_texts \<Rightarrow> 'q claim \<Rightarrow> bool \<Rightarrow> wop list" where
  "printPersistentVolumeClaim T pvc isFullPVC =
     (if isFullPVC
      then [Write IndentLevelZero (key_line ''Name'' (meta_Name (pvc_Meta pvc))),
            Write IndentLevelZero (key_line ''Namespace'' (meta_Namespace (pvc_Meta pvc)))]
      else []) @
     [Write IndentLevelZero
       (key_line ''StorageClass'' (dx_storage_class T (meta_Annotations (pvc_Meta pvc)) (pvc_StorageClassName pvc)))] @
     (if isFullPVC
      then [Write IndentLevelZero (key_line ''Status'' (case pvc_DeletionTimestamp pvc of
              Some t \<Rightarrow> ''Terminating (lasts '' @ translateTimestampSince T t @ '')''
            | None \<Rightarrow> pvc_Phase pvc))]
      else []) @
     [Write IndentLevelZero (key_line ''Volume'' (pvc_VolumeName pvc))] @
     printLabelsMultiline ''Labels'' (meta_Labels (pvc_Meta pvc)) @
     (if isFullPVC then [Write IndentLevelZero (key_line ''Finalizers'' (slice_text (pvc_Finalizers pvc)))] else []) @
     (let (capacity, accessModes) =
            (if pvc_VolumeName pvc \<noteq> []
             then (dx_quantity T (deref (mget (pvc_Capacity pvc) (dx_ResourceStorage T)) (dx_zero T)),
                   dx_access_modes T (pvc_AccessModes pvc))
             else ([], []))
      in [Write IndentLevelZero (key_line ''Capacity'' capacity),
          Write IndentLevelZero (key_line ''Access Modes'' accessModes)]) @
     (case pvc_VolumeMode pvc of None \<Rightarrow> [] | Some m \<Rightarrow> [Write IndentLevelZero (key_line ''VolumeMode'' m)]) @
     data_source_lines (pvc_DataSource pvc)"

text \<open>The claim made from a template has the zero value as its status.\<close>

definition claim_of_template :: "claim_template \<Rightarrow> 'q claim" where
  "claim_of_template t = claim_template.extend t (claim.fields [] [] [])"

definition printEphemeralVolumeSource :: "'q describe_texts \<Rightarrow> claim_template option \<Rightarrow> wop list" where
  "printEphemeralVolumeSource T template =
     source_text ''EphemeralVolume (an inline specification for a volume that gets created and deleted with the pod)'' [] @
     (case template of None \<Rightarrow> []
      | Some t \<Rightarrow> [Nested IndentLevelTwo (printPersistentVolumeClaim T (claim_of_template t) False)])"

definition printRBDVolumeSource :: "'q describe_texts \<Rightarrow> string list \<Rightarrow> string \<Rightarrow> string \<Rightarrow> string \<Rightarrow> string \<Rightarrow> string \<Rightarrow> string option \<Rightarrow> bool \<Rightarrow> wop list" where
  "printRBDVolumeSource T monitors rbdImage fsType pool user keyring secretRef readOnly =
     source_text (''RBD (a Rados Block Device mount on the host that shares a pod'' @ apostrophe @ ''s lifetime)'')
       [(''CephMonitors'', slice_text monitors),
        (''RBDImage'', rbdImage),
        (''FSType'', fsType),
        (''RBDPool'', pool),
        (''RadosUser'', user),
        (''Keyring'', keyring),
        (''SecretRef'', dx_secret_ref T secretRef),
        (''ReadOnly'', bool_text readOnly)]"

definition printQuobyteVolumeSource :: "string \<Rightarrow> string \<Rightarrow> bool \<Rightarrow> wop list" where
  "printQuobyteVolumeSource registry volume_name readOnly =
     source_text (''Quobyte (a Quobyte mount on the host that shares a pod'' @ apostrophe @ ''s lifetime)'')
       [(''Registry'', registry),
        (''Volume'', volume_name),
        (''ReadOnly'', bool_text readOnly)]"

definition downward_lines :: "downward_item \<Rightarrow> wop list" where
  "downward_lines mapping =
     (case dwi_FieldPath mapping of None \<Rightarrow> [] | Some f \<Rightarrow> [Write IndentLevelThree (f @ '' -> '' @ dwi_Path mapping @ eol)]) @
     (case dwi_Resource mapping of None \<Rightarrow> [] | Some r \<Rightarrow> [Write IndentLevelThree (r @ '' -> '' @ dwi_Path mapping @ eol)])"

definition printDownwardAPIVolumeSource :: "downward_item list \<Rightarrow> wop list" where
  "printDownwardAPIVolumeSource items =
     Write IndentLevelTwo (key_line ''Type'' ''DownwardAPI (a volume populated by information about the pod)'' @
       ''    Items:'' @ eol) # concat (map downward_lines items)"

text \<open>Four pointers of an Azure disk are dereferenced without a test.\<close>

definition printAzureDiskVolumeSource ::
  "string \<Rightarrow> string \<Rightarrow> string option \<Rightarrow> string option \<Rightarrow> string option \<Rightarrow> bool option \<Rightarrow> wop list option" where
  "printAzureDiskVolumeSource diskName dataDiskURI kind fsType cachingMode readOnly =
     (case (kind, fsType, cachingMode, readOnly) of
       (Some k, Some f, Some c, Some r) \<Rightarrow>
         Some [Write IndentLevelTwo
           (key_line ''Type'' ''AzureDisk (an Azure Data Disk mount on the host and bind mount to the pod)'' @
            sub_line ''DiskName'' diskName @ sub_line ''DiskURI'' dataDiskURI @ ''    Kind: '' @ tab @ k @ eol @
            sub_line ''FSType'' f @ sub_line ''CachingMode'' c @ sub_line ''ReadOnly'' (bool_text r))]
     | _ \<Rightarrow> None)"

definition printVsphereVolumeSource :: "string \<Rightarrow> string \<Rightarrow> string \<Rightarrow> wop list" where
  "printVsphereVolumeSource volumePath fsType storagePolicyName =
     source_text ''vSphereVolume (a Persistent Disk resource in vSphere)''
       [(''VolumePath'', volumePath),
        (''FSType'', fsType),
        (''StoragePolicyName'', storagePolicyName)]"

definition printCinderVolumeSource :: "'q describe_texts \<Rightarrow> string \<Rightarrow> string \<Rightarrow> bool \<Rightarrow> string option \<Rightarrow> wop list" where
  "printCinderVolumeSource T volumeID fsType readOnly secretRef =
     source_text ''Cinder (a Persistent Disk resource in OpenStack)''
       [(''VolumeID'', volumeID),
        (''FSType'', fsType),
        (''ReadOnly'', bool_text readOnly),
        (''SecretRef'', dx_secret_ref T secretRef)]"

definition printPhotonPersistentDiskVolumeSource :: "string \<Rightarrow> string \<Rightarrow> wop list" where
  "printPhotonPersistentDiskVolumeSource pdID fsType =
     source_text ''PhotonPersistentDisk (a Persistent Disk resource in photon platform)''
       [(''PdID'', pdID),
        (''FSType'', fsType)]"

definition printPortworxVolumeSource :: "string \<Rightarrow> wop list" where
  "printPortworxVolumeSource volumeID =
     source_text ''PortworxVolume (a Portworx Volume resource)''
       [(''VolumeID'', volumeID)]"

definition printScaleIOVolumeSource :: "string \<Rightarrow> string \<Rightarrow> string \<Rightarrow> string \<Rightarrow> string \<Rightarrow> string \<Rightarrow> string \<Rightarrow> bool \<Rightarrow> wop list" where
  "printScaleIOVolumeSource gateway sys protectionDomain storagePool storageMode volumeName fsType readOnly =
     source_text ''ScaleIO (a persistent volume backed by a block device in ScaleIO)''
       [(''Gateway'', gateway),
        (''System'', sys),
        (''Protection Domain'', protectionDomain),
        (''Storage Pool'', storagePool),
        (''Storage Mode'', storageMode),
        (''VolumeName'', volumeName),
        (''FSType'', fsType),
        (''ReadOnly'', bool_text readOnly)]"

definition printCephFSVolumeSource :: "'q describe_texts \<Rightarrow> string list \<Rightarrow> string \<Rightarrow> string \<Rightarrow> string \<Rightarrow> string option \<Rightarrow> bool \<Rightarrow> wop list" where
  "printCephFSVolumeSource T monitors path user secretFile secretRef readOnly =
     source_text (''CephFS (a CephFS mount on the host that shares a pod'' @ apostrophe @ ''s lifetime)'')
       [(''Monitors'', slice_text monitors),
        (''Path'', path),
        (''User'', user),
        (''SecretFile'', secretFile),
        (''SecretRef'', dx_secret_ref T secretRef),
        (''ReadOnly'', bool_text readOnly)]"

definition printStorageOSVolumeSource :: "string \<Rightarrow> string \<Rightarrow> string \<Rightarrow> bool \<Rightarrow> wop list" where
  "printStorageOSVolumeSource volumeName volumeNamespace fsType readOnly =
     source_text ''StorageOS (a StorageOS Persistent Disk resource)''
       [(''VolumeName'', volumeName),
        (''VolumeNamespace'', volumeNamespace),
        (''FSType'', fsType),
        (''ReadOnly'', bool_text readOnly)]"

definition printFCVolumeSource :: "string list \<Rightarrow> int32 option \<Rightarrow> string \<Rightarrow> bool \<Rightarrow> wop list" where
  "printFCVolumeSource targetWWNs lun fsType readOnly =
     source_text ''FC (a Fibre Channel disk)''
       [(''TargetWWNs'', str_join '', '' targetWWNs),
        (''LUN'', or_none (map_option format_int32 lun)),
        (''FSType'', fsType),
        (''ReadOnly'', bool_text readOnly)]"

definition printAzureFileVolumeSource :: "string \<Rightarrow> string \<Rightarrow> bool \<Rightarrow> wop list" where
  "printAzureFileVolumeSource secretName shareName readOnly =
     source_text ''AzureFile (an Azure File Service mount on the host and bind mount to the pod)''
       [(''SecretName'', secretName),
        (''ShareName'', shareName),
        (''ReadOnly'', bool_text readOnly)]"

definition printFlexVolumeSource :: "'q describe_texts \<Rightarrow> string \<Rightarrow> string \<Rightarrow> string option \<Rightarrow> bool \<Rightarrow> str_map option \<Rightarrow> wop list" where
  "printFlexVolumeSource T driver fsType secretRef readOnly options =
     source_text ''FlexVolume (a generic volume resource that is provisioned/attached using an exec based plugin)''
       [(''Driver'', driver),
        (''FSType'', fsType),
        (''SecretRef'', dx_secret_ref T secretRef),
        (''ReadOnly'', bool_text readOnly),
        (''Options'', map_text options)]"

definition printFlockerVolumeSource :: "string \<Rightarrow> string \<Rightarrow> wop list" where
  "printFlockerVolumeSource datasetName datasetUUID =
     source_text ''Flocker (a Flocker volume mounted by the Flocker agent)''
       [(''DatasetName'', datasetName),
        (''DatasetUUID'', datasetUUID)]"

text \<open>
  The optional flag of a projected secret or config map is a pointer and is printed as one; the
  expiration of a token is dereferenced without a test.
\<close>

definition pointer_text :: "'q describe_texts \<Rightarrow> bool option \<Rightarrow> string" where
  "pointer_text T p = (case p of None \<Rightarrow> ''<nil>'' | Some b \<Rightarrow> dx_pointer T)"

definition projected_lines :: "'q describe_texts \<Rightarrow> projected_source \<Rightarrow> wop list option" where
  "projected_lines T source =
     (case pj_Secret source of
       Some (name, optional) \<Rightarrow>
         Some [Write IndentLevelTwo (key_line ''SecretName'' name @ sub_line ''SecretOptionalName'' (pointer_text T optional))]
     | None \<Rightarrow>
       if pj_DownwardAPI source then Some [Write IndentLevelTwo (key_line ''DownwardAPI'' ''true'')]
       else (case pj_ConfigMap source of
         Some (name, optional) \<Rightarrow>
           Some [Write IndentLevelTwo (key_line ''ConfigMapName'' name @ sub_line ''ConfigMapOptional'' (pointer_text T optional))]
       | None \<Rightarrow>
         (case pj_ServiceAccountToken source of
           None \<Rightarrow> Some []
         | Some None \<Rightarrow> None
         | Some (Some seconds) \<Rightarrow> Some [Write IndentLevelTwo (key_line ''TokenExpirationSeconds'' (format_int seconds))])))"

text \<open>A loop whose rounds may dereference a nil pointer.\<close>

fun concat_opt :: "'a list option list \<Rightarrow> 'a list option" where
  "concat_opt [] = Some []"
| "concat_opt (None # rs) = None"
| "concat_opt (Some x # rs) = map_option ((@) x) (concat_opt rs)"

definition printProjectedVolumeSource :: "'q describe_texts \<Rightarrow> projected_source list \<Rightarrow> wop list option" where
  "printProjectedVolumeSource T sources =
     map_option ((@) (source_text ''Projected (a volume that contains injected data from multiple sources)'' []))
       (concat_opt (map (projected_lines T) sources))"

text \<open>
  The attributes of a CSI volume: a line longer than 140 bytes is cut. The indents are written as
  format strings.
\<close>

definition attribute_line :: "str_map \<Rightarrow> string \<Rightarrow> string" where
  "attribute_line attributes key =
     (let line = key @ ''='' @ deref (mget attributes key) []
      in if length line > maxAnnotationLen then take maxAnnotationLen line @ ''...'' @ eol else line @ eol)"

definition attribute_ops :: "string \<Rightarrow> string \<Rightarrow> str_map \<Rightarrow> string list \<Rightarrow> wop list" where
  "attribute_ops initialIndent innerIndent attributes keys =
     concat (map (\<lambda>(i, key).
         (if i \<noteq> 0 then [WriteFormat IndentLevelTwo initialIndent, WriteFormat IndentLevelTwo innerIndent] else []) @
         [Write IndentLevelTwo (attribute_line attributes key)])
       (enumerate 0 keys))"

definition printCSIPersistentVolumeAttributesMultilineIndent ::
  "string \<Rightarrow> string \<Rightarrow> string \<Rightarrow> str_map option \<Rightarrow> string list \<Rightarrow> wop list" where
  "printCSIPersistentVolumeAttributesMultilineIndent initialIndent title innerIndent attributes skip =
     Write IndentLevelTwo (initialIndent @ title @ '':'' @ innerIndent) #
     (if deref attributes [] = [] then [WriteLine ''<none>'']
      else
        let keys = filter (\<lambda>k. k \<notin> set skip) (map fst (deref attributes []))
        in if deref attributes [] = [] then [WriteLine ''<none>'']
           else attribute_ops initialIndent innerIndent (deref attributes []) (sort keys))"

definition printCSIPersistentVolumeAttributesMultiline :: "string \<Rightarrow> str_map option \<Rightarrow> wop list" where
  "printCSIPersistentVolumeAttributesMultiline title annotations =
     printCSIPersistentVolumeAttributesMultilineIndent [] title tab annotations []"

definition printCSIVolumeSource ::
  "string \<Rightarrow> string option \<Rightarrow> bool option \<Rightarrow> str_map option \<Rightarrow> wop list" where
  "printCSIVolumeSource driver fsType readOnly attributes =
     source_text ''CSI (a Container Storage Interface (CSI) volume source)''
       [(''Driver'', driver), (''FSType'', deref fsType []), (''ReadOnly'', bool_text (readOnly = Some True))] @
     printCSIPersistentVolumeAttributesMultiline ''VolumeAttributes'' attributes"

section \<open>Volumes and pod templates\<close>

text \<open>
  The switch looks at the sources in a fixed order and takes the first that is set: the rank of a
  source is its place in that order.
\<close>

primrec source_rank :: "'q volume_desc \<Rightarrow> nat" where
  "source_rank (HostPath a b) = 0"
| "source_rank (EmptyDir a b) = 1"
| "source_rank (GCEPersistentDisk a b c d) = 2"
| "source_rank (AWSElasticBlockStore a b c d) = 3"
| "source_rank (GitRepo a b) = 4"
| "source_rank (Secret a b) = 5"
| "source_rank (ConfigMap a b) = 6"
| "source_rank (NFS a b c) = 7"
| "source_rank (ISCSI a b c d e f g h i j k) = 8"
| "source_rank (Glusterfs a b c) = 9"
| "source_rank (PersistentVolumeClaim a b) = 10"
| "source_rank (Ephemeral a) = 11"
| "source_rank (RBD a b c d e f g h) = 12"
| "source_rank (Quobyte a b c) = 13"
| "source_rank (DownwardAPI a) = 14"
| "source_rank (AzureDisk a b c d e f) = 15"
| "source_rank (VsphereVolume a b c) = 16"
| "source_rank (Cinder a b c d) = 17"
| "source_rank (PhotonPersistentDisk a b) = 18"
| "source_rank (PortworxVolume a) = 19"
| "source_rank (ScaleIO a b c d e f g h) = 20"
| "source_rank (CephFS a b c d e f) = 21"
| "source_rank (StorageOS a b c d) = 22"
| "source_rank (FC a b c d) = 23"
| "source_rank (AzureFile a b c) = 24"
| "source_rank (FlexVolume a b c d e) = 25"
| "source_rank (Flocker a b) = 26"
| "source_rank (Projected a) = 27"
| "source_rank (CSI a b c d) = 28"

primrec print_source :: "'q describe_texts \<Rightarrow> 'q volume_desc \<Rightarrow> wop list option" where
  "print_source T (HostPath a b) = Some (printHostPathVolumeSource a b)"
| "print_source T (EmptyDir a b) = Some (printEmptyDirVolumeSource T a b)"
| "print_source T (GCEPersistentDisk a b c d) = Some (printGCEPersistentDiskVolumeSource a b c d)"
| "print_source T (AWSElasticBlockStore a b c d) = Some (printAWSElasticBlockStoreVolumeSource a b c d)"
| "print_source T (GitRepo a b) = Some (printGitRepoVolumeSource a b)"
| "print_source T (Secret a b) = Some (printSecretVolumeSource a b)"
| "print_source T (ConfigMap a b) = Some (printConfigMapVolumeSource a b)"
| "print_source T (NFS a b c) = Some (printNFSVolumeSource a b c)"
| "print_source T (ISCSI a b c d e f g h i j k) = Some (printISCSIVolumeSource T a b c d e f g h i j k)"
| "print_source T (Glusterfs a b c) = Some (printGlusterfsVolumeSource a b c)"
| "print_source T (PersistentVolumeClaim a b) = Some (printPersistentVolumeClaimVolumeSource a b)"
| "print_source T (Ephemeral a) = Some (printEphemeralVolumeSource T a)"
| "print_source T (RBD a b c d e f g h) = Some (printRBDVolumeSource T a b c d e f g h)"
| "print_source T (Quobyte a b c) = Some (printQuobyteVolumeSource a b c)"
| "print_source T (DownwardAPI a) = Some (printDownwardAPIVolumeSource a)"
| "print_source T (AzureDisk a b c d e f) = printAzureDiskVolumeSource a b c d e f"
| "print_source T (VsphereVolume a b c) = Some (printVsphereVolumeSource a b c)"
| "print_source T (Cinder a b c d) = Some (printCinderVolumeSource T a b c d)"
| "print_source T (PhotonPersistentDisk a b) = Some (printPhotonPersistentDiskVolumeSource a b)"
| "print_source T (PortworxVolume a) = Some (printPortworxVolumeSource a)"
| "print_source T (ScaleIO a b c d e f g h) = Some (printScaleIOVolumeSource a b c d e f g h)"
| "print_source T (CephFS a b c d e f) = Some (printCephFSVolumeSource T a b c d e f)"
| "print_source T (StorageOS a b c d) = Some (printStorageOSVolumeSource a b c d)"
| "print_source T (FC a b c d) = Some (printFCVolumeSource a b c d)"
| "print_source T (AzureFile a b c) = Some (printAzureFileVolumeSource a b c)"
| "print_source T (FlexVolume a b c d e) = Some (printFlexVolumeSource T a b c d e)"
| "print_source T (Flocker a b) = Some (printFlockerVolumeSource a b)"
| "print_source T (Projected a) = printProjectedVolumeSource T a"
| "print_source T (CSI a b c d) = Some (printCSIVolumeSource a b c d)"

fun first_source :: "'q volume_desc list \<Rightarrow> 'q volume_desc option" where
  "first_source [] = None"
| "first_source (s # ss) =
     (case first_source ss of
       None \<Rightarrow> Some s
     | Some t \<Rightarrow> if source_rank s \<le> source_rank t then Some s else Some t)"

definition describe_volume :: "'q describe_texts \<Rightarrow> string \<Rightarrow> 'q described_volume \<Rightarrow> wop list option" where
  "describe_volume T space volume =
     (let nameIndent = (if space \<noteq> [] then '' '' else [])
      in map_option ((#) (Write IndentLevelOne (nameIndent @ dv_Name volume @ '':'' @ eol)))
           (case first_source (dv_Sources volume) of
             None \<Rightarrow> Some [Write IndentLevelOne (''<unknown>'' @ eol)]
           | Some s \<Rightarrow> print_source T s))"

definition describeVolumes ::
  "'q describe_texts \<Rightarrow> 'q described_volume list \<Rightarrow> string \<Rightarrow> wop list option" where
  "describeVolumes T volumes space =
     (if volumes = [] then Some [Write IndentLevelZero (space @ key_line ''Volumes'' ''<none>'')]
      else map_option ((#) (Write IndentLevelZero (space @ ''Volumes:'' @ eol)))
             (concat_opt (map (describe_volume T space) volumes)))"

definition describePodTemplate :: "'q describe_texts \<Rightarrow> 'q described_template option \<Rightarrow> wop list option" where
  "describePodTemplate T template =
     map_option ((#) (Write IndentLevelZero (''Pod Template:'' @ eol)))
       (case template of
         None \<Rightarrow> Some [Write IndentLevelOne ''<unset>'']
       | Some t \<Rightarrow>
           map_option ((@)
               ((if dt_InitContainers t \<noteq> [] then describeContainers T ''Init Containers'' (dt_InitContainers t) ''  '' else []) @
                describeContainers T ''Containers'' (dt_Containers t) ''  ''))
             (describeVolumes T (dt_Volumes t) ''  ''))"

end
