(* ===== verification/DescribePrinter.thy ===== *)
theory DescribePrinter
  imports DescribeVolumes
begin

text \<open>
  The describers of \<open>kjobctl describe\<close> (\<open>pkg/cmd/describe/describe_printer.go\<close>): the descriptions of jobs,
  pods, Ray jobs, Ray clusters and config maps, and the choice of a describer for a kind. The
  conversion of an unstructured object to a typed one is a parameter. A description that dereferences
  a nil pointer is \<open>None\<close>.
\<close>

section \<open>Jobs\<close>

record 'q described_job =
  dj_Meta :: object_meta
  dj_Parallelism :: "int32 option"
  dj_Completions :: "int32 option"
  dj_StartTime :: "int option"
  dj_CompletionTime :: "int option"
  dj_Active :: int32
  dj_Ready :: "int32 option"
  dj_Succeeded :: int32
  dj_Failed :: int32
  dj_Template :: "'q described_template"

text \<open>A line at level zero, unconditionally and for an optional value.\<close>

definition line0 :: "string \<Rightarrow> string \<Rightarrow> wop" where
  "line0 k v = Write IndentLevelZero (key_line k v)"

definition opt_line0 :: "string \<Rightarrow> ('a \<Rightarrow> string) \<Rightarrow> 'a option \<Rightarrow> wop list" where
  "opt_line0 k f p = (case p of None \<Rightarrow> [] | Some x \<Rightarrow> [line0 k (f x)])"

definition text_line0 :: "string \<Rightarrow> string \<Rightarrow> wop list" where
  "text_line0 k s = (if s \<noteq> [] then [line0 k s] else [])"

definition head_lines :: "object_meta \<Rightarrow> wop list" where
  "head_lines m = [line0 ''Name'' (meta_Name m), line0 ''Namespace'' (meta_Namespace m)]"

definition pods_statuses :: "'q described_job \<Rightarrow> string" where
  "pods_statuses job =
     format_int32 (dj_Active job) @ '' Active'' @
     (case dj_Ready job of None \<Rightarrow> [] | Some r \<Rightarrow> '' ('' @ format_int32 r @ '' Ready)'') @
     '' / '' @ format_int32 (dj_Succeeded job) @ '' Succeeded / '' @ format_int32 (dj_Failed job) @ '' Failed''"

definition job_duration :: "'q describe_texts \<Rightarrow> 'q described_job \<Rightarrow> wop list" where
  "job_duration T job =
     (case (dj_StartTime job, dj_CompletionTime job) of
       (Some start, Some completion) \<Rightarrow> [line0 ''Duration'' (dx_human_duration T (time_sub completion start))]
     | _ \<Rightarrow> [])"

definition describeJob :: "'q describe_texts \<Rightarrow> 'q described_job \<Rightarrow> string option" where
  "describeJob T job =
     map_option (tabbedString T) (map_option ((@)
       (head_lines (dj_Meta job) @
        printLabelsMultiline ''Labels'' (meta_Labels (dj_Meta job)) @
        printLabelsMultiline ''Annotations'' (meta_Annotations (dj_Meta job)) @
        opt_line0 ''Parallelism'' format_int32 (dj_Parallelism job) @
        [line0 ''Completions'' (case dj_Completions job of Some n \<Rightarrow> format_int32 n | None \<Rightarrow> ''<unset>'')] @
        opt_line0 ''Start Time'' (dx_rfc1123z T) (dj_StartTime job) @
        opt_line0 ''Completed At'' (dx_rfc1123z T) (dj_CompletionTime job) @
        job_duration T job @
        [line0 ''Pods Statuses'' (pods_statuses job)]))
       (describePodTemplate T (Some (dj_Template job))))"

section \<open>Pods\<close>

record 'q described_pod =
  dp_Meta :: object_meta
  dp_DeletionTimestamp :: "int option"
  dp_DeletionGracePeriodSeconds :: "int option"
  dp_StartTime :: "int option"
  dp_Phase :: string
  dp_Reason :: string
  dp_Message :: string
  dp_InitContainers :: "'q described_container list"
  dp_Containers :: "'q described_container list"
  dp_EphemeralContainers :: "'q described_container list"
  dp_Volumes :: "'q described_volume list"

definition PodFailed :: string where "PodFailed = ''Failed''"
definition PodSucceeded :: string where "PodSucceeded = ''Succeeded''"

text \<open>The grace period of a terminating object is dereferenced without a test.\<close>

definition grace_period :: "int option \<Rightarrow> wop list option" where
  "grace_period p = map_option (\<lambda>n. [line0 ''Termination Grace Period'' (format_int n @ ''s'')]) p"

definition terminating :: "'q describe_texts \<Rightarrow> int \<Rightarrow> string" where
  "terminating T t = ''Terminating (lasts '' @ translateTimestampSince T t @ '')''"

definition pod_status_lines :: "'q describe_texts \<Rightarrow> 'q described_pod \<Rightarrow> wop list option" where
  "pod_status_lines T pod =
     (case dp_DeletionTimestamp pod of
       Some t \<Rightarrow>
         if dp_Phase pod \<noteq> PodFailed \<and> dp_Phase pod \<noteq> PodSucceeded
         then map_option ((#) (line0 ''Status'' (terminating T t))) (grace_period (dp_DeletionGracePeriodSeconds pod))
         else Some [line0 ''Status'' (dp_Phase pod)]
     | None \<Rightarrow> Some [line0 ''Status'' (dp_Phase pod)])"

definition describePod :: "'q describe_texts \<Rightarrow> 'q described_pod \<Rightarrow> string option" where
  "describePod T pod =
     map_option (tabbedString T) (concat_opt
       [Some (head_lines (dp_Meta pod) @ opt_line0 ''Start Time'' (dx_rfc1123z T) (dp_StartTime pod) @
          printLabelsMultiline ''Labels'' (meta_Labels (dp_Meta pod))),
        pod_status_lines T pod,
        Some (text_line0 ''Reason'' (dp_Reason pod) @ text_line0 ''Message'' (dp_Message pod) @
          (if dp_InitContainers pod \<noteq> [] then describeContainers T ''Init Containers'' (dp_InitContainers pod) [] else []) @
          describeContainers T ''Containers'' (dp_Containers pod) [] @
          (if dp_EphemeralContainers pod \<noteq> []
           then describeContainers T ''Ephemeral Containers'' (dp_EphemeralContainers pod) [] else [])),
        describeVolumes T (dp_Volumes pod) []])"

section \<open>Ray jobs\<close>

record 'q described_ray_job =
  dr_Meta :: object_meta
  dr_DeletionTimestamp :: "int option"
  dr_DeletionGracePeriodSeconds :: "int option"
  dr_StartTime :: "int option"
  dr_EndTime :: "int option"
  dr_JobDeploymentStatus :: string
  dr_JobStatus :: string
  dr_Reason :: string
  dr_Message :: string
  dr_RayClusterName :: string
  dr_DesiredCPU :: 'q
  dr_DesiredGPU :: 'q
  dr_DesiredMemory :: 'q
  dr_DesiredTPU :: 'q

definition ray_job_status_lines :: "'q describe_texts \<Rightarrow> 'q described_ray_job \<Rightarrow> wop list option" where
  "ray_job_status_lines T rayJob =
     (case dr_DeletionTimestamp rayJob of
       Some t \<Rightarrow>
         map_option ((@) [line0 ''Job Deployment Status'' (terminating T t), line0 ''Job Status'' (terminating T t)])
           (grace_period (dr_DeletionGracePeriodSeconds rayJob))
     | None \<Rightarrow>
         Some (text_line0 ''Job Deployment Status'' (dr_JobDeploymentStatus rayJob) @
               text_line0 ''Job Status'' (dr_JobStatus rayJob) @
               text_line0 ''Reason'' (dr_Reason rayJob) @
               text_line0 ''Message'' (dr_Message rayJob)))"

definition describeRayJob :: "'q describe_texts \<Rightarrow> 'q described_ray_job \<Rightarrow> string option" where
  "describeRayJob T rayJob =
     map_option (tabbedString T) (concat_opt
       [Some (head_lines (dr_Meta rayJob) @ opt_line0 ''Start Time'' (dx_rfc1123z T) (dr_StartTime rayJob) @
          opt_line0 ''End Time'' (dx_rfc1123z T) (dr_EndTime rayJob) @
          printLabelsMultiline ''Labels'' (meta_Labels (dr_Meta rayJob))),
        ray_job_status_lines T rayJob,
        Some (text_line0 ''Ray Cluster Name'' (dr_RayClusterName rayJob) @
          [Write IndentLevelZero (''Ray Cluster Status:'' @ eol),
           Write IndentLevelOne (key_line ''Desired CPU'' (dx_quantity T (dr_DesiredCPU rayJob))),
           Write IndentLevelOne (key_line ''Desired GPU'' (dx_quantity T (dr_DesiredGPU rayJob))),
           Write IndentLevelOne (key_line ''Desired Memory'' (dx_quantity T (dr_DesiredMemory rayJob))),
           Write IndentLevelOne (key_line ''Desired TPU'' (dx_quantity T (dr_DesiredTPU rayJob)))])])"

section \<open>Ray clusters\<close>

record 'q described_group =
  dg_GroupName :: string
  dg_Replicas :: "int32 option"
  dg_MinReplicas :: "int32 option"
  dg_MaxReplicas :: "int32 option"
  dg_RayStartParams :: "str_map option"
  dg_Template :: "'q described_template"

record 'q described_ray_cluster =
  drc_Meta :: object_meta
  drc_Suspend :: "bool option"
  drc_State :: string
  drc_Reason :: string
  drc_DesiredCPU :: 'q
  drc_DesiredGPU :: 'q
  drc_DesiredMemory :: 'q
  drc_DesiredTPU :: 'q
  drc_ReadyWorkerReplicas :: int32
  drc_AvailableWorkerReplicas :: int32
  drc_DesiredWorkerReplicas :: int32
  drc_MinWorkerReplicas :: int32
  drc_MaxWorkerReplicas :: int32
  drc_HeadStartParams :: "str_map option"
  drc_HeadTemplate :: "'q described_template"
  drc_WorkerGroupSpecs :: "'q described_group list"

definition head_group :: "'q describe_texts \<Rightarrow> 'q described_ray_cluster \<Rightarrow> wop list option" where
  "head_group T rayCluster =
     map_option (\<lambda>ops. [Nested 1 (printLabelsMultiline ''Start Params'' (drc_HeadStartParams rayCluster) @ ops)])
       (describePodTemplate T (Some (drc_HeadTemplate rayCluster)))"

text \<open>The name of a worker group is formatted into the format string of a write.\<close>

definition worker_group :: "'q describe_texts \<Rightarrow> 'q described_group \<Rightarrow> wop list option" where
  "worker_group T wg =
     map_option (\<lambda>ops.
         [WriteFormat IndentLevelOne (dg_GroupName wg @ '':'' @ eol),
          Nested 2 (opt_line0 ''Replicas'' format_int32 (dg_Replicas wg) @
            opt_line0 ''Min Replicas'' format_int32 (dg_MinReplicas wg) @
            opt_line0 ''Max Replicas'' format_int32 (dg_MaxReplicas wg) @
            printLabelsMultiline ''Start Params'' (dg_RayStartParams wg) @ ops)])
       (describePodTemplate T (Some (dg_Template wg)))"

definition describeRayCluster :: "'q describe_texts \<Rightarrow> 'q described_ray_cluster \<Rightarrow> string option" where
  "describeRayCluster T rayCluster =
     map_option (tabbedString T) (concat_opt
       [Some (head_lines (drc_Meta rayCluster) @
          printLabelsMultiline ''Labels'' (meta_Labels (drc_Meta rayCluster)) @
          [line0 ''Suspend'' (bool_text (deref (drc_Suspend rayCluster) False)),
           line0 ''State'' (drc_State rayCluster)] @
          text_line0 ''Reason'' (drc_Reason rayCluster) @
          [line0 ''Desired CPU'' (dx_quantity T (drc_DesiredCPU rayCluster)),
           line0 ''Desired GPU'' (dx_quantity T (drc_DesiredGPU rayCluster)),
           line0 ''Desired Memory'' (dx_quantity T (drc_DesiredMemory rayCluster)),
           line0 ''Desired TPU'' (dx_quantity T (drc_DesiredTPU rayCluster)),
           line0 ''Ready Worker Replicas'' (format_int32 (drc_ReadyWorkerReplicas rayCluster)),
           line0 ''Available Worker Replicas'' (format_int32 (drc_AvailableWorkerReplicas rayCluster)),
           line0 ''Desired Worker Replicas'' (format_int32 (drc_DesiredWorkerReplicas rayCluster)),
           line0 ''Min Worker Replicas'' (format_int32 (drc_MinWorkerReplicas rayCluster)),
           line0 ''Max Worker Replicas'' (format_int32 (drc_MaxWorkerReplicas rayCluster)),
           Write IndentLevelZero (''Head Group:'' @ eol)]),
        head_group T rayCluster,
        Some [Write IndentLevelZero (''Worker Groups:'' @ eol)],
        concat_opt (map (worker_group T) (drc_WorkerGroupSpecs rayCluster))])"

section \<open>Config maps\<close>

record described_config_map =
  dm_Meta :: object_meta
  dm_Data :: "str_map option"
  dm_BinaryData :: "str_map option"

definition data_lines :: "str_map option \<Rightarrow> wop list" where
  "data_lines d = concat (map (\<lambda>k.
     [Write IndentLevelZero (k @ '':'' @ eol @ ''----'' @ eol),
      Write IndentLevelZero (deref (mget (deref d []) k) [] @ eol),
      Write IndentLevelZero eol]) (SortedKeys d))"

definition binary_lines :: "str_map option \<Rightarrow> wop list" where
  "binary_lines d = map (\<lambda>k.
     Write IndentLevelZero (k @ '': '' @ format_nat (length (deref (mget (deref d []) k) [])) @ '' bytes'' @ eol)) (SortedKeys d)"

definition describeConfigMap :: "'q describe_texts \<Rightarrow> described_config_map \<Rightarrow> string option" where
  "describeConfigMap T configMap =
     Some (tabbedString T
       (head_lines (dm_Meta configMap) @ printLabelsMultiline ''Labels'' (meta_Labels (dm_Meta configMap)) @
        [Write IndentLevelZero (eol @ ''Data'' @ eol @ ''===='' @ eol)] @ data_lines (dm_Data configMap) @
        [Write IndentLevelZero (eol @ ''BinaryData'' @ eol @ ''===='' @ eol)] @ binary_lines (dm_BinaryData configMap) @
        [Write IndentLevelZero eol]))"

section \<open>The choice of a describer\<close>

record group_version_kind =
  gvk_Group :: string
  gvk_Version :: string
  gvk_Kind :: string

datatype resource_describer = JobDescriber | PodDescriber | RayJobDescriber | RayClusterDescriber | ConfigMapDescriber

definition DescriberFor :: "string \<times> string \<Rightarrow> resource_describer option" where
  "DescriberFor kind =
     mget [((''batch'', ''Job''), JobDescriber), (([], ''Pod''), PodDescriber), ((''ray.io'', ''RayJob''), RayJobDescriber),
           ((''ray.io'', ''RayCluster''), RayClusterDescriber), (([], ''ConfigMap''), ConfigMapDescriber)] kind"

definition NewResourceDescriber ::
  "(group_version_kind \<Rightarrow> string) \<Rightarrow> group_version_kind \<Rightarrow> string + resource_describer" where
  "NewResourceDescriber gvk_text mapping =
     (case DescriberFor (gvk_Group mapping, gvk_Kind mapping) of
       Some describer \<Rightarrow> Inr describer
     | None \<Rightarrow> Inl (''no description has been implemented for '' @ gvk_text mapping))"

text \<open>The conversions of unstructured objects to the five types.\<close>

record ('u, 'q) converters =
  FromUnstructured_job :: "'u \<Rightarrow> string + 'q described_job"
  FromUnstructured_pod :: "'u \<Rightarrow> string + 'q described_pod"
  FromUnstructured_rayJob :: "'u \<Rightarrow> string + 'q described_ray_job"
  FromUnstructured_rayCluster :: "'u \<Rightarrow> string + 'q described_ray_cluster"
  FromUnstructured_configMap :: "'u \<Rightarrow> string + described_config_map"

text \<open>
  The result of \<open>Describe\<close>: \<open>None\<close> when a nil pointer is dereferenced, else an error or a text.
\<close>

definition described :: "('o \<Rightarrow> string option) \<Rightarrow> string + 'o \<Rightarrow> (string + string) option" where
  "described describe converted =
     (case converted of Inl err \<Rightarrow> Some (Inl err) | Inr x \<Rightarrow> map_option Inr (describe x))"

definition JobDescriber_Describe ::
  "('u, 'q) converters \<Rightarrow> 'q describe_texts \<Rightarrow> 'u \<Rightarrow> (string + string) option" where
  "JobDescriber_Describe V T object = described (describeJob T) (FromUnstructured_job V object)"

definition PodDescriber_Describe ::
  "('u, 'q) converters \<Rightarrow> 'q describe_texts \<Rightarrow> 'u \<Rightarrow> (string + string) option" where
  "PodDescriber_Describe V T object = described (describePod T) (FromUnstructured_pod V object)"

definition RayJobDescriber_Describe ::
  "('u, 'q) converters \<Rightarrow> 'q describe_texts \<Rightarrow> 'u \<Rightarrow> (string + string) option" where
  "RayJobDescriber_Describe V T object = described (describeRayJob T) (FromUnstructured_rayJob V object)"

definition RayClusterDescriber_Describe ::
  "('u, 'q) converters \<Rightarrow> 'q describe_texts \<Rightarrow> 'u \<Rightarrow> (string + string) option" where
  "RayClusterDescriber_Describe V T object = described (describeRayCluster T) (FromUnstructured_rayCluster V object)"

definition ConfigMapDescriber_Describe ::
  "('u, 'q) converters \<Rightarrow> 'q describe_texts \<Rightarrow> 'u \<Rightarrow> (string + string) option" where
  "ConfigMapDescriber_Describe V T object = described (describeConfigMap T) (FromUnstructured_configMap V object)"

primrec Describe ::
  "resource_describer \<Rightarrow> ('u, 'q) converters \<Rightarrow> 'q describe_texts \<Rightarrow> 'u \<Rightarrow> (string + string) option" where
  "Describe JobDescriber = JobDescriber_Describe"
| "Describe PodDescriber = PodDescriber_Describe"
| "Describe RayJobDescriber = RayJobDescriber_Describe"
| "Describe RayClusterDescriber = RayClusterDescriber_Describe"
| "Describe ConfigMapDescriber = ConfigMapDescriber_Describe"

end
