(* ===== verification/DescribeTexts.thy ===== *)
theory DescribeTexts
  imports DescribeVolumes
begin

text \<open>
  What the texts of \<open>DescribePrint\<close> and \<open>DescribeVolumes\<close> say: maps are printed with every key once and
  in increasing order, the lines of an environment value make up the value, long attributes are cut,
  and describing volumes fails on exactly the nil pointers the code dereferences.
\<close>

section \<open>Written text\<close>

text \<open>
  The text of write operations without indentation and alignment. A format string without arguments
  stands for itself when it has no percent sign; the only ones \<open>DescribeVolumes\<close> writes are indents.
\<close>

fun wop_text :: "wop \<Rightarrow> string" where
  "wop_text (Write l s) = s"
| "wop_text (WriteFormat l s) = s"
| "wop_text (WriteLine s) = s @ eol"
| "wop_text (Nested l ops) = concat (map wop_text ops)"

definition ops_text :: "wop list \<Rightarrow> string" where
  "ops_text ops = concat (map wop_text ops)"

lemma ops_text_simps [simp]:
  "ops_text [] = []"
  "ops_text (w # ops) = wop_text w @ ops_text ops"
  "ops_text (xs @ ys) = ops_text xs @ ops_text ys"
  by (simp_all add: ops_text_def)

lemma str_join_Cons: "str_join sep (x # xs) = x @ concat (map ((@) sep) xs)"
  by (induction xs arbitrary: x) simp_all

text \<open>A loop that writes a separator before every round but the first.\<close>

lemma separated_text:
  assumes "\<And>k. ops_text (line_ops k) = line k" and "ops_text sep_ops = sep"
  shows "ops_text (concat (map (\<lambda>(i :: nat, k). (if i \<noteq> 0 then sep_ops else []) @ line_ops k) (enumerate 0 ks))) =
    str_join sep (map line ks)"
proof -
  have later: "ops_text (concat (map (\<lambda>(i, k). (if i \<noteq> 0 then sep_ops else []) @ line_ops k) (enumerate (Suc n) ks))) =
      concat (map ((@) sep) (map line ks))" for n ks
    by (induction ks arbitrary: n) (simp_all add: assms)
  show ?thesis
    using later [of 0 "tl ks"] by (cases ks) (simp_all add: assms str_join_Cons del: str_join.simps(3))
qed

section \<open>Printers of maps\<close>

text \<open>
  The interface of a printer of a map's entries: what it writes for a list of keys is the line of each
  key, with a separator between. Given the sorted keys, it writes every entry once, in increasing order.
\<close>

locale keyed_printer =
  fixes body :: "str_map \<Rightarrow> string list \<Rightarrow> wop list"
    and line :: "str_map \<Rightarrow> string \<Rightarrow> string"
    and sep :: string
  assumes body_text: "ops_text (body m ks) = str_join sep (map (line m) ks)"
begin

lemma sorted_entries:
  assumes "map_ok m"
  shows "\<exists>ks. sorted_wrt (<) ks \<and> set ks = set (map fst m) \<and>
    ops_text (body m (sort (map fst m))) = str_join sep (map (line m) ks)"
proof (intro exI conjI)
  show "sorted_wrt (<) (sort (map fst m))"
    using assms by (simp add: map_ok_def strict_sorted_iff)
qed (simp_all add: body_text)

end

definition label_line :: "str_map \<Rightarrow> string \<Rightarrow> string" where
  "label_line labels key = key @ ''='' @ deref (mget labels key) [] @ eol"

lemma label_ops_text: "ops_text (label_ops i n m ks) = str_join (i @ n) (map (label_line m) ks)"
  unfolding label_ops_def
  by (rule separated_text) (simp_all add: label_line_def)

lemma attribute_ops_text: "ops_text (attribute_ops i n m ks) = str_join (i @ n) (map (attribute_line m) ks)"
  unfolding attribute_ops_def
  by (rule separated_text) simp_all

interpretation labels: keyed_printer "label_ops i n" label_line "i @ n" for i n
  by unfold_locales (rule label_ops_text)

interpretation attributes: keyed_printer "attribute_ops i n" attribute_line "i @ n" for i n
  by unfold_locales (rule attribute_ops_text)

text \<open>
  The labels of an object: after the title comes one line for each label, with the keys in strictly
  increasing byte order, or \<open><none>\<close> when there is no label.
\<close>

theorem printLabelsMultiline_sorted:
  assumes "map_ok m"
  shows "\<exists>ks. sorted_wrt (<) ks \<and> set ks = set (map fst m) \<and>
    ops_text (printLabelsMultiline title (Some m)) =
      title @ '':'' @ tab @
      (if m = [] then ''<none>'' @ eol
       else str_join tab (map (\<lambda>k. k @ ''='' @ deref (mget m k) [] @ eol) ks))"
proof -
  from labels.sorted_entries [OF assms, of "[]" tab] obtain ks
    where "sorted_wrt (<) ks" "set ks = set (map fst m)"
      "ops_text (label_ops [] tab m (sort (map fst m))) = str_join tab (map (label_line m) ks)" by auto
  then show ?thesis
    by (intro exI [of _ ks]) (simp add: printLabelsMultiline_def printLabelsMultilineWithIndent_def label_line_def [abs_def])
qed

theorem printLabelsMultiline_sorted_witness:
  "\<exists>ks. sorted_wrt (<) ks \<and> set ks = {''b'', ''a''} \<and>
    ops_text (printLabelsMultiline ''Labels'' (Some [(''b'', ''2''), (''a'', ''1'')])) =
      ''Labels:'' @ tab @ str_join tab (map (\<lambda>k. k @ ''='' @ deref (mget [(''b'', ''2''), (''a'', ''1'')] k) [] @ eol) ks)"
  using printLabelsMultiline_sorted [of "[(''b'', ''2''), (''a'', ''1'')]" "''Labels''"]
  by (simp add: map_ok_def)

lemma attribute_line_length: "length (attribute_line m k) \<le> maxAnnotationLen + 4"
proof -
  define l where "l = k @ ''='' @ deref (mget m k) []"
  have "attribute_line m k = (if length l > maxAnnotationLen then take maxAnnotationLen l @ ''...'' @ eol else l @ eol)"
    unfolding attribute_line_def l_def Let_def ..
  then show ?thesis by (simp add: eol_def)
qed

lemma attribute_line_complete:
  "length (k @ ''='' @ deref (mget m k) []) \<le> maxAnnotationLen \<Longrightarrow>
   attribute_line m k = k @ ''='' @ deref (mget m k) [] @ eol"
  by (simp add: attribute_line_def)

lemma attribute_line_cut:
  "length (k @ ''='' @ deref (mget m k) []) > maxAnnotationLen \<Longrightarrow>
   attribute_line m k = take maxAnnotationLen (k @ ''='' @ deref (mget m k) []) @ ''...'' @ eol"
  by (simp add: attribute_line_def)

text \<open>
  C34. The attributes of a CSI volume: one line for each attribute in increasing order of the keys; a line
  of at most 140 bytes is complete, a longer one is cut after 140 bytes and ends in three dots, so that
  no line is longer than 144 bytes with its end of line.
\<close>

theorem printCSIPersistentVolumeAttributes_bounds:
  assumes "map_ok m" and "m \<noteq> []"
  shows "\<exists>ks. sorted_wrt (<) ks \<and> set ks = set (map fst m) \<and>
    ops_text (printCSIPersistentVolumeAttributesMultiline title (Some m)) =
      title @ '':'' @ tab @ str_join tab (map (attribute_line m) ks) \<and>
    (\<forall>k. length (attribute_line m k) \<le> 144) \<and>
    (\<forall>k. length (k @ ''='' @ deref (mget m k) []) \<le> 140 \<longrightarrow>
      attribute_line m k = k @ ''='' @ deref (mget m k) [] @ eol) \<and>
    (\<forall>k. length (k @ ''='' @ deref (mget m k) []) > 140 \<longrightarrow>
      attribute_line m k = take 140 (k @ ''='' @ deref (mget m k) []) @ ''...'' @ eol)"
proof -
  from attributes.sorted_entries [OF assms(1), of "[]" tab] obtain ks
    where "sorted_wrt (<) ks" "set ks = set (map fst m)"
      "ops_text (attribute_ops [] tab m (sort (map fst m))) = str_join tab (map (attribute_line m) ks)" by auto
  with assms(2) show ?thesis
    using attribute_line_length [of m] attribute_line_complete [of _ m] attribute_line_cut [of _ m]
    by (intro exI [of _ ks]) (simp add: printCSIPersistentVolumeAttributesMultiline_def
        printCSIPersistentVolumeAttributesMultilineIndent_def maxAnnotationLen_def del: take_append take_Cons_numeral)
qed

theorem printCSIPersistentVolumeAttributes_bounds_witness:
  "\<exists>ks. sorted_wrt (<) ks \<and> set ks = {''k''} \<and>
    ops_text (printCSIPersistentVolumeAttributesMultiline ''VolumeAttributes'' (Some [(''k'', ''v'')])) =
      ''VolumeAttributes:'' @ tab @ str_join tab (map (attribute_line [(''k'', ''v'')]) ks)"
  using printCSIPersistentVolumeAttributes_bounds [of "[(''k'', ''v'')]" "''VolumeAttributes''"]
  by (auto simp: map_ok_def)

section \<open>Environment values\<close>

lemma enumerate_later:
  "map (\<lambda>(i :: nat, s). if i = 0 then f s else g s) (enumerate (Suc n) ss) = map g ss"
  by (induction ss arbitrary: n) simp_all

text \<open>
  A value of an environment variable is printed without loss: the first line stands after the name, the
  others on lines of their own, and joined by newlines they are the value.
\<close>

theorem env_value_lines_lossless:
  "\<exists>l ls. env_value_lines name val =
      Write IndentLevelThree (key_line name l) # map (\<lambda>s. Write IndentLevelThree (tab @ s @ eol)) ls \<and>
    str_join eol (l # ls) = val \<and> list_all (\<lambda>s. CHR 0x0A \<notin> set s) (l # ls)"
proof -
  obtain l ls where split: "split_on (CHR 0x0A) val = l # ls" by (cases "split_on (CHR 0x0A) val") auto
  have "str_join eol (l # ls) = val" unfolding eol_def split [symmetric] by simp
  moreover have "list_all (\<lambda>s. CHR 0x0A \<notin> set s) (l # ls)"
    unfolding split [symmetric] list_all_iff by (blast dest: split_on_no_sep)
  ultimately show ?thesis
    by (intro exI [of _ l] exI [of _ ls] conjI) (simp_all add: env_value_lines_def split enumerate_later)
qed

section \<open>Volumes\<close>

text \<open>The nil pointers: four fields of an Azure disk, the expiration of a projected token.\<close>

definition nil_projection :: "projected_source \<Rightarrow> bool" where
  "nil_projection p \<longleftrightarrow> pj_Secret p = None \<and> \<not> pj_DownwardAPI p \<and> pj_ConfigMap p = None \<and>
     pj_ServiceAccountToken p = Some None"

definition nil_pointer :: "'q volume_desc \<Rightarrow> bool" where
  "nil_pointer s = (case s of
     AzureDisk diskName uri kind fsType cachingMode readOnly \<Rightarrow>
       kind = None \<or> fsType = None \<or> cachingMode = None \<or> readOnly = None
   | Projected ps \<Rightarrow> list_ex nil_projection ps
   | _ \<Rightarrow> False)"

lemma concat_opt_None: "concat_opt rs = None \<longleftrightarrow> None \<in> set rs"
  by (induction rs rule: concat_opt.induct) simp_all

lemma projected_lines_None: "projected_lines T p = None \<longleftrightarrow> nil_projection p"
  by (auto simp: projected_lines_def nil_projection_def split: option.splits)

lemma print_source_None: "print_source T s = None \<longleftrightarrow> nil_pointer s"
proof (cases s)
  case (AzureDisk a b k f c r)
  then show ?thesis
    by (cases k; cases f; cases c; cases r) (simp_all add: nil_pointer_def printAzureDiskVolumeSource_def)
next
  case (Projected ps)
  have "None \<in> projected_lines T ` set ps \<longleftrightarrow> (\<exists>p \<in> set ps. nil_projection p)"
    unfolding projected_lines_None [of T, symmetric] by (auto simp: image_iff dest: sym)
  with Projected show ?thesis
    by (simp add: nil_pointer_def printProjectedVolumeSource_def concat_opt_None list_ex_iff)
qed (simp_all add: nil_pointer_def)

lemma first_source_None: "first_source ss = None \<longleftrightarrow> ss = []"
  by (cases ss) (auto split: option.splits)

lemma first_source_least:
  "first_source ss = Some s \<Longrightarrow> s \<in> set ss \<and> (\<forall>t \<in> set ss. source_rank s \<le> source_rank t)"
proof (induction ss arbitrary: s)
  case (Cons a ss)
  show ?case
  proof (cases "first_source ss")
    case None
    with Cons.prems show ?thesis by (auto simp: first_source_None)
  next
    case (Some t)
    from Cons.IH [OF Some] Cons.prems Some show ?thesis by (auto split: if_splits)
  qed
qed simp

text \<open>
  C25. The description of volumes fails on exactly the nil pointers: some volume's first source in the
  order of the switch is an Azure disk without one of its four optional fields or a projected volume
  with a service account token without expiration.
\<close>

theorem describeVolumes_panics_iff:
  "describeVolumes T volumes space = None \<longleftrightarrow>
    (\<exists>v \<in> set volumes. \<exists>s \<in> set (dv_Sources v).
       first_source (dv_Sources v) = Some s \<and> nil_pointer s)"
proof -
  have one: "describe_volume T space v = None \<longleftrightarrow> (\<exists>s. first_source (dv_Sources v) = Some s \<and> nil_pointer s)" for v
    by (auto simp: describe_volume_def Let_def print_source_None split: option.splits)
  have "describeVolumes T volumes space = None \<longleftrightarrow> (\<exists>v \<in> set volumes. describe_volume T space v = None)"
    by (auto simp: describeVolumes_def concat_opt_None image_iff dest: sym)
  then show ?thesis unfolding one using first_source_least by blast
qed

end
