(* ===== verification/DescribeCmd.thy ===== *)
theory DescribeCmd
  imports DescribePrinter DescribeTexts CmdHelpers "HOL-Library.Multiset"
begin

text \<open>
  The describe command (\<open>pkg/cmd/describe/describe.go\<close> and the first functions of \<open>helpers.go\<close>): the
  forms of the arguments, the kind a mode is about, the query for the objects, the config maps of the
  Slurm mode, and the loop that prints the descriptions and collects the errors. The REST mapper, the
  resource builder of \<open>cli-runtime\<close> and the clientset are parameters; the query the code builds up is a
  record with one field for each call on the builder.
\<close>

section \<open>Modes, names and kinds\<close>

datatype describe_error =
    MoreThanOneSlash
  | NotModeNameForm
  | ArgsRange nat
  | MapperError string
  | DescribeConfigError string
  | QueryError string
  | DescribeApiError api_error
  | ConvertError string

definition parseAppProfileModeName :: "string \<Rightarrow> describe_error + string list" where
  "parseAppProfileModeName s =
     (let seg = split_on (CHR ''/'') s
      in if length seg \<noteq> 2
         then if length seg > 2 then Inl MoreThanOneSlash else Inl NotModeNameForm
         else Inr seg)"

definition resourceFor :: "string \<Rightarrow> string" where
  "resourceFor mode =
     (if equal_fold mode (mode_name InteractiveMode) then ''pod''
      else if equal_fold mode (mode_name SlurmMode) then ''job''
      else to_lower mode)"

text \<open>
  The REST mapper and the parser of resource arguments of \<open>apimachinery\<close>; a result and an error come
  together, as the code uses the result of one call without looking at its error.
\<close>

record ('v, 'g) rest_mapper =
  rm_ParseResourceArg :: "string \<Rightarrow> 'v option \<times> 'g"
  rm_EmptyResource :: 'v
  rm_Empty :: "'v \<Rightarrow> bool"
  rm_WithVersion :: "'g \<Rightarrow> string \<Rightarrow> 'v"
  rm_ResourceFor :: "'v \<Rightarrow> 'v \<times> string option"
  rm_KindFor :: "'v \<Rightarrow> group_version_kind \<times> string option"

definition gvkFor :: "('v, 'g) rest_mapper \<Rightarrow> string \<Rightarrow> describe_error + group_version_kind" where
  "gvkFor mapper resource =
     (let (fullySpecifiedGVR, groupResource) = rm_ParseResourceArg mapper (to_lower resource);
          gvr = (case fullySpecifiedGVR of
                   None \<Rightarrow> rm_EmptyResource mapper
                 | Some r \<Rightarrow> fst (rm_ResourceFor mapper r));
          kind_of = (\<lambda>r. case rm_KindFor mapper r of (gvk, None) \<Rightarrow> Inr gvk | (gvk, Some err) \<Rightarrow> Inl (MapperError err))
      in if rm_Empty mapper gvr
         then (case rm_ResourceFor mapper (rm_WithVersion mapper groupResource []) of
                (r, Some err) \<Rightarrow> Inl (MapperError err)
              | (r, None) \<Rightarrow> kind_of r)
         else kind_of gvr)"

section \<open>Options\<close>

datatype args_format = modeTaskArgsFormat | modeSlashTaskArgsFormat | modeArgsFormat

record describe_options =
  do_AllNamespaces :: bool
  do_Namespace :: string
  do_ProfileName :: string
  do_ModeName :: string
  do_TaskName :: string
  do_LabelSelector :: string
  do_argsFormat :: args_format
  do_ResourceGVK :: group_version_kind

definition NewDescribeOptions :: describe_options where
  "NewDescribeOptions =
     \<lparr>do_AllNamespaces = False, do_Namespace = [], do_ProfileName = [], do_ModeName = [], do_TaskName = [],
      do_LabelSelector = [], do_argsFormat = modeTaskArgsFormat,
      do_ResourceGVK = \<lparr>gvk_Group = [], gvk_Version = [], gvk_Kind = []\<rparr>\<rparr>"

text \<open>The command takes one or two arguments; with none, \<open>args[0]\<close> would not exist.\<close>

definition findArgsFormat :: "string list \<Rightarrow> describe_options \<Rightarrow> describe_options" where
  "findArgsFormat args opt =
     (if length args = 2 then opt\<lparr>do_argsFormat := modeTaskArgsFormat\<rparr>
      else if str_contains (args ! 0) ''/'' then opt\<lparr>do_argsFormat := modeSlashTaskArgsFormat\<rparr>
      else opt\<lparr>do_argsFormat := modeArgsFormat\<rparr>)"

definition parseArgs :: "string list \<Rightarrow> describe_options \<Rightarrow> describe_error + describe_options" where
  "parseArgs args opt =
     (case do_argsFormat opt of
       modeTaskArgsFormat \<Rightarrow> Inr (opt\<lparr>do_ModeName := args ! 0, do_TaskName := args ! 1\<rparr>)
     | modeSlashTaskArgsFormat \<Rightarrow>
         and_then (parseAppProfileModeName (args ! 0)) (\<lambda>parsedArg.
           Inr (opt\<lparr>do_ModeName := parsedArg ! 0, do_TaskName := parsedArg ! 1\<rparr>))
     | modeArgsFormat \<Rightarrow> Inr (opt\<lparr>do_ModeName := args ! 0\<rparr>))"

text \<open>What \<open>Complete\<close> asks of the client getter.\<close>

record ('v, 'g) describe_getter =
  gg_ToRESTMapper :: "string + ('v, 'g) rest_mapper"
  gg_Namespace :: "string + string"
  gg_K8sClientset :: "string + unit"

definition describe_Complete ::
  "('v, 'g) describe_getter \<Rightarrow> string list \<Rightarrow> describe_options \<Rightarrow> describe_error + describe_options" where
  "describe_Complete G args opt =
     and_then (parseArgs args (findArgsFormat args opt)) (\<lambda>opt.
     and_then (map_err DescribeConfigError (gg_ToRESTMapper G)) (\<lambda>mapper.
     and_then (gvkFor mapper (resourceFor (do_ModeName opt))) (\<lambda>gvk.
     and_then (map_err DescribeConfigError (gg_Namespace G)) (\<lambda>ns.
     and_then (map_err DescribeConfigError (gg_K8sClientset G)) (\<lambda>_.
       Inr (opt\<lparr>do_ResourceGVK := gvk, do_Namespace := ns\<rparr>))))))"

section \<open>The query\<close>

record builder_query =
  bq_Unstructured :: bool
  bq_Namespace :: string
  bq_DefaultNamespace :: bool
  bq_AllNamespaces :: bool
  bq_LabelSelector :: "string option"
  bq_Args :: "string list"
  bq_SingleResourceType :: bool
  bq_ContinueOnError :: bool
  bq_Flatten :: bool

definition new_query :: builder_query where
  "new_query =
     \<lparr>bq_Unstructured = False, bq_Namespace = [], bq_DefaultNamespace = False, bq_AllNamespaces = False,
      bq_LabelSelector = None, bq_Args = [], bq_SingleResourceType = False, bq_ContinueOnError = False,
      bq_Flatten = False\<rparr>"

definition describe_selector :: "describe_options \<Rightarrow> string" where
  "describe_selector opt =
     ProfileLabel @ (if do_ProfileName opt \<noteq> [] then ''='' @ do_ProfileName opt else []) @
     (if do_LabelSelector opt \<noteq> [] then '','' @ do_LabelSelector opt else [])"

definition customizeResourceBuilder :: "describe_options \<Rightarrow> builder_query" where
  "customizeResourceBuilder opt =
     (let builder = new_query\<lparr>bq_Unstructured := True, bq_Namespace := do_Namespace opt, bq_DefaultNamespace := True\<rparr>;
          builder =
            (if do_argsFormat opt \<in> {modeTaskArgsFormat, modeSlashTaskArgsFormat}
             then builder\<lparr>bq_Args := [gvk_Kind (do_ResourceGVK opt), do_TaskName opt], bq_SingleResourceType := True\<rparr>
             else builder\<lparr>bq_AllNamespaces := do_AllNamespaces opt, bq_LabelSelector := Some (describe_selector opt),
                    bq_Args := [gvk_Kind (do_ResourceGVK opt)], bq_ContinueOnError := True\<rparr>)
      in builder\<lparr>bq_Flatten := True\<rparr>)"

section \<open>Objects found\<close>

text \<open>An object that is not unstructured is known by the name of its type.\<close>

datatype 'u info_object = Unstructured 'u | Untyped string

record 'u info =
  inf_Mapping :: group_version_kind
  inf_Name :: string
  inf_Object :: "'u info_object"

text \<open>
  The world of the command: the answer of the query with the error of \<open>Do\<close>, the clientset's config maps,
  the accessors and conversions of unstructured objects, and \<open>slices.SortFunc\<close>, which sorts by any
  comparison it is given and need not be stable.
\<close>

record ('u, 'c, 'q) describe_world =
  dw_Do :: "builder_query \<Rightarrow> string option \<times> (string + 'u info list)"
  dw_get_config_map :: "string \<Rightarrow> string \<Rightarrow> api_error + 'c"
  dw_list_config_maps :: "string \<Rightarrow> string \<Rightarrow> api_error + 'c list"
  dw_ToUnstructured :: "'c \<Rightarrow> string + 'u"
  dw_GetName :: "'u \<Rightarrow> string"
  dw_GetLabels :: "'u \<Rightarrow> str_map option"
  dw_gvk_text :: "group_version_kind \<Rightarrow> string"
  dw_converters :: "('u, 'q) converters"
  dw_texts :: "'q describe_texts"
  dw_SortFunc :: "('u info \<Rightarrow> 'u info \<Rightarrow> int) \<Rightarrow> 'u info list \<Rightarrow> 'u info list"

definition configMapToInfo :: "('u, 'c, 'q) describe_world \<Rightarrow> 'c \<Rightarrow> describe_error + 'u info" where
  "configMapToInfo W cm =
     and_then (map_err ConvertError (dw_ToUnstructured W cm)) (\<lambda>obj.
       Inr \<lparr>inf_Mapping = \<lparr>gvk_Group = [], gvk_Version = ''v1'', gvk_Kind = ''ConfigMap''\<rparr>,
            inf_Name = dw_GetName W obj, inf_Object = Unstructured obj\<rparr>)"

fun config_map_infos :: "('u, 'c, 'q) describe_world \<Rightarrow> 'c list \<Rightarrow> describe_error + 'u info list" where
  "config_map_infos W [] = Inr []"
| "config_map_infos W (cm # cms) =
     and_then (configMapToInfo W cm) (\<lambda>info. and_then (config_map_infos W cms) (\<lambda>infos. Inr (info # infos)))"

definition config_map_selector :: string where
  "config_map_selector = ProfileLabel @ '','' @ ModeLabel @ ''='' @ mode_name SlurmMode"

definition getConfigMaps :: "('u, 'c, 'q) describe_world \<Rightarrow> describe_options \<Rightarrow> describe_error + 'u info list" where
  "getConfigMaps W opt =
     (if do_argsFormat opt = modeTaskArgsFormat \<or> do_argsFormat opt = modeSlashTaskArgsFormat
      then and_then (map_err DescribeApiError (dw_get_config_map W (do_Namespace opt) (do_TaskName opt))) (\<lambda>cm.
        and_then (configMapToInfo W cm) (\<lambda>info. Inr [info]))
      else and_then (map_err DescribeApiError (dw_list_config_maps W (do_Namespace opt) config_map_selector))
        (config_map_infos W))"

section \<open>The loop over the objects\<close>

text \<open>
  The state of the loop: what was printed, the errors with their messages, and whether nothing was
  printed yet. A round that dereferences a nil pointer ends the program.
\<close>

record describe_state =
  dst_Out :: string
  dst_allErrs :: "string list"
  dst_errs :: "string list"
  dst_first :: bool

definition start_state :: describe_state where
  "start_state = \<lparr>dst_Out = [], dst_allErrs = [], dst_errs = [], dst_first = True\<rparr>"

definition add_error :: "string \<Rightarrow> describe_state \<Rightarrow> describe_state" where
  "add_error err st =
     (if err \<in> set (dst_errs st) then st
      else st\<lparr>dst_allErrs := dst_allErrs st @ [err], dst_errs := err # dst_errs st\<rparr>)"

definition print_output :: "string \<Rightarrow> describe_state \<Rightarrow> describe_state" where
  "print_output output st =
     (if dst_first st then st\<lparr>dst_first := False, dst_Out := dst_Out st @ output\<rparr>
      else st\<lparr>dst_Out := dst_Out st @ eol @ eol @ output\<rparr>)"

definition describe_round ::
  "('u, 'c, 'q) describe_world \<Rightarrow> 'u info \<Rightarrow> describe_state \<Rightarrow> describe_state \<times> unit option" where
  "describe_round W info st =
     (case inf_Object info of
       Untyped ty \<Rightarrow> (add_error (''invalid object <nil>. Unexpected type '' @ ty) st, None)
     | Unstructured obj \<Rightarrow>
         if mget (deref (dw_GetLabels W obj) []) ProfileLabel = None then (st, None)
         else (case NewResourceDescriber (dw_gvk_text W) (inf_Mapping info) of
           Inl err \<Rightarrow> (add_error err st, None)
         | Inr describer \<Rightarrow>
             (case Describe describer (dw_converters W) (dw_texts W) obj of
               None \<Rightarrow> (st, Some ())
             | Some (Inl err) \<Rightarrow> (add_error err st, None)
             | Some (Inr output) \<Rightarrow> (print_output output st, None))))"

text \<open>How a run ends: with nil, with an error, with the aggregate of the errors, or with a panic.\<close>

datatype describe_end = Done | Failed describe_error | Aggregate "string list" | Panicked

definition NewAggregate :: "string list \<Rightarrow> describe_end" where
  "NewAggregate errs = (if errs = [] then Done else Aggregate errs)"

definition nothing_found :: "describe_options \<Rightarrow> string" where
  "nothing_found opt =
     (if do_AllNamespaces opt then ''No resources found'' @ eol
      else ''No resources found in '' @ do_Namespace opt @ '' namespace.'' @ eol)"

text \<open>The loop and what follows it: the texts on the two outputs and the end.\<close>

definition describe_infos ::
  "('u, 'c, 'q) describe_world \<Rightarrow> describe_options \<Rightarrow> 'u info list \<Rightarrow> string \<times> string \<times> describe_end" where
  "describe_infos W opt infos =
     (case for_each (describe_round W) infos start_state of
       (st, Some _) \<Rightarrow> (dst_Out st, [], Panicked)
     | (st, None) \<Rightarrow>
         (dst_Out st, if dst_first st \<and> dst_allErrs st = [] then nothing_found opt else [],
          NewAggregate (dst_allErrs st)))"

text \<open>\<open>strings.Compare\<close> on the order of byte strings, and the comparison by which the objects are sorted.\<close>

definition strings_Compare :: "string \<Rightarrow> string \<Rightarrow> int" where
  "strings_Compare a b = (if a = b then 0 else if a < b then -1 else 1)"

definition compare_infos :: "'u info \<Rightarrow> 'u info \<Rightarrow> int" where
  "compare_infos a b = strings_Compare (inf_Name a) (inf_Name b)"

definition describe_Run ::
  "('u, 'c, 'q) describe_world \<Rightarrow> describe_options \<Rightarrow> string \<times> string \<times> describe_end" where
  "describe_Run W opt =
     (case dw_Do W (customizeResourceBuilder opt) of
       (Some err, _) \<Rightarrow> ([], [], Failed (QueryError err))
     | (None, Inl err) \<Rightarrow> ([], [], Failed (QueryError err))
     | (None, Inr infos) \<Rightarrow>
         (case (if equal_fold (do_ModeName opt) (mode_name SlurmMode) then getConfigMaps W opt else Inr []) of
           Inl err \<Rightarrow> ([], [], Failed err)
         | Inr configMapsAsInfos \<Rightarrow> describe_infos W opt (dw_SortFunc W compare_infos (infos @ configMapsAsInfos))))"

text \<open>The command: cobra's check of the number of arguments, \<open>Complete\<close> and \<open>Run\<close>.\<close>

definition NewDescribeCmd ::
  "('v, 'g) describe_getter \<Rightarrow> ('u, 'c, 'q) describe_world \<Rightarrow> describe_options \<Rightarrow> string list \<Rightarrow>
   string \<times> string \<times> describe_end" where
  "NewDescribeCmd G W opt args =
     (if length args < 1 \<or> length args > 2 then ([], [], Failed (ArgsRange (length args)))
      else (case describe_Complete G args opt of
        Inl err \<Rightarrow> ([], [], Failed err)
      | Inr opt \<Rightarrow> describe_Run W opt))"

section \<open>What a run prints\<close>

text \<open>
  The reference: what becomes of one object, and the texts and errors of a list of objects. A message
  is reported where it occurs first.
\<close>

datatype describe_result = Skipped | Erred string | Printed string | NilPointer

definition describe_info :: "('u, 'c, 'q) describe_world \<Rightarrow> 'u info \<Rightarrow> describe_result" where
  "describe_info W info =
     (case inf_Object info of
       Untyped ty \<Rightarrow> Erred (''invalid object <nil>. Unexpected type '' @ ty)
     | Unstructured obj \<Rightarrow>
         if mget (deref (dw_GetLabels W obj) []) ProfileLabel = None then Skipped
         else (case DescriberFor (gvk_Group (inf_Mapping info), gvk_Kind (inf_Mapping info)) of
           None \<Rightarrow> Erred (''no description has been implemented for '' @ dw_gvk_text W (inf_Mapping info))
         | Some describer \<Rightarrow>
             (case Describe describer (dw_converters W) (dw_texts W) obj of
               None \<Rightarrow> NilPointer | Some (Inl err) \<Rightarrow> Erred err | Some (Inr output) \<Rightarrow> Printed output)))"

fun outputs :: "describe_result list \<Rightarrow> string list" where
  "outputs [] = []"
| "outputs (Printed t # rs) = t # outputs rs"
| "outputs (r # rs) = outputs rs"

fun messages :: "describe_result list \<Rightarrow> string list" where
  "messages [] = []"
| "messages (Erred e # rs) = e # messages rs"
| "messages (r # rs) = messages rs"

definition first_occurrences :: "'a list \<Rightarrow> 'a list" where
  "first_occurrences xs = rev (remdups (rev xs))"

lemma first_occurrences_snoc:
  "first_occurrences (xs @ [x]) = (if x \<in> set xs then first_occurrences xs else first_occurrences xs @ [x])"
  by (simp add: first_occurrences_def)

lemma set_first_occurrences [simp]: "set (first_occurrences xs) = set xs"
  by (simp add: first_occurrences_def)

lemma first_occurrences_Nil [simp]: "first_occurrences xs = [] \<longleftrightarrow> xs = []"
  by (simp add: first_occurrences_def)

lemma outputs_append [simp]: "outputs (rs @ rs') = outputs rs @ outputs rs'"
  by (induction rs rule: outputs.induct) simp_all

lemma messages_append [simp]: "messages (rs @ rs') = messages rs @ messages rs'"
  by (induction rs rule: messages.induct) simp_all

text \<open>The state of the loop is a function of the results so far.\<close>

definition state_of :: "describe_result list \<Rightarrow> describe_state" where
  "state_of rs =
     \<lparr>dst_Out = str_join (eol @ eol) (outputs rs), dst_allErrs = first_occurrences (messages rs),
      dst_errs = rev (first_occurrences (messages rs)), dst_first = (outputs rs = [])\<rparr>"

lemma str_join_snoc: "str_join sep (xs @ [x]) = (if xs = [] then x else str_join sep xs @ sep @ x)"
  by (cases xs) (simp_all add: str_join_Cons del: str_join.simps(3))

lemma print_output_state: "print_output t (state_of rs) = state_of (rs @ [Printed t])"
  by (simp add: print_output_def state_of_def str_join_snoc)

lemma add_error_state: "add_error e (state_of rs) = state_of (rs @ [Erred e])"
  by (simp add: add_error_def state_of_def first_occurrences_snoc)

lemma skipped_state: "state_of rs = state_of (rs @ [Skipped])"
  by (simp add: state_of_def)

lemma describe_round_result:
  "describe_round W info (state_of rs) =
     (if describe_info W info = NilPointer then (state_of rs, Some ()) else (state_of (rs @ [describe_info W info]), None))"
  by (simp add: describe_round_def describe_info_def NewResourceDescriber_def add_error_state print_output_state
      skipped_state [symmetric] split: info_object.split option.split sum.split)

lemma describe_loop:
  "for_each (describe_round W) infos (state_of rs) =
     (state_of (rs @ takeWhile (\<lambda>r. r \<noteq> NilPointer) (map (describe_info W) infos)),
      if NilPointer \<in> describe_info W ` set infos then Some () else None)"
proof (induction infos arbitrary: rs)
  case (Cons info infos)
  show ?case
    by (cases "describe_info W info = NilPointer") (simp_all add: describe_round_result Cons.IH)
qed simp

lemma start_state_of: "start_state = state_of []"
  by (simp add: start_state_def state_of_def first_occurrences_def)

text \<open>
  C12. The loop prints the descriptions of the objects it can describe, in order and with a blank line between,
  returns every distinct error message once, in the order of first occurrence, and says that nothing was
  found exactly when there was neither a description nor an error. Only a nil pointer ends it early.
\<close>

theorem describe_infos_reference:
  "describe_infos W opt infos =
    (let rs = map (describe_info W) infos; before = takeWhile (\<lambda>r. r \<noteq> NilPointer) rs
     in (str_join (eol @ eol) (outputs before),
         if NilPointer \<notin> set rs \<and> outputs rs = [] \<and> messages rs = [] then nothing_found opt else [],
         if NilPointer \<in> set rs then Panicked
         else NewAggregate (first_occurrences (messages rs))))"
proof (cases "NilPointer \<in> describe_info W ` set infos")
  case True
  then show ?thesis unfolding describe_infos_def start_state_of describe_loop by (simp add: state_of_def Let_def)
next
  case False
  then have all: "takeWhile (\<lambda>r. r \<noteq> NilPointer) (map (describe_info W) infos) = map (describe_info W) infos"
    by (simp add: takeWhile_eq_all_conv image_iff) metis
  from False show ?thesis
    unfolding describe_infos_def start_state_of describe_loop Let_def all by (simp add: state_of_def)
qed

definition foreign :: "('u, 'c, 'q) describe_world \<Rightarrow> 'u info \<Rightarrow> bool" where
  "foreign W info =
     (case inf_Object info of
       Untyped ty \<Rightarrow> False
     | Unstructured obj \<Rightarrow> ProfileLabel \<notin> set (map fst (deref (dw_GetLabels W obj) [])))"

lemma describe_round_foreign: "foreign W info \<Longrightarrow> describe_round W info st = (st, None)"
  by (simp add: foreign_def describe_round_def mget_def map_of_eq_None_iff split: info_object.splits)

text \<open>
  Objects without the profile label are ignored: the command behaves as if they had not been found.
\<close>

theorem describe_infos_ignores_foreign:
  "describe_infos W opt infos = describe_infos W opt (filter (\<lambda>info. \<not> foreign W info) infos)"
proof -
  have "for_each (describe_round W) infos st = for_each (describe_round W) (filter (\<lambda>info. \<not> foreign W info) infos) st" for st
    by (induction infos arbitrary: st) (auto simp: describe_round_foreign split: prod.split option.split)
  then show ?thesis by (simp add: describe_infos_def)
qed

section \<open>Jobs and their config maps\<close>

text \<open>
  What \<open>slices.SortFunc\<close> requires of a comparison: the numbers below zero are a strict weak ordering,
  those above zero its converse.
\<close>

locale weak_comparator =
  fixes cmp :: "'a \<Rightarrow> 'a \<Rightarrow> int"
  assumes converse: "cmp a b > 0 \<longleftrightarrow> cmp b a < 0"
    and irreflexive: "\<not> cmp a a < 0"
    and transitive: "cmp a b < 0 \<Longrightarrow> cmp b c < 0 \<Longrightarrow> cmp a c < 0"
    and incomparable: "cmp a b = 0 \<Longrightarrow> cmp b c = 0 \<Longrightarrow> cmp a c = 0"
begin

lemma upto_trans: "cmp a b \<le> 0 \<Longrightarrow> cmp b c \<le> 0 \<Longrightarrow> cmp a c \<le> 0"
proof (rule ccontr)
  assume ab: "cmp a b \<le> 0" and bc: "cmp b c \<le> 0" and "\<not> cmp a c \<le> 0"
  then have ca: "cmp c a < 0" using converse [of a c] by simp
  have "cmp a b \<noteq> 0 \<or> cmp b c \<noteq> 0" using incomparable [of a b c] \<open>\<not> cmp a c \<le> 0\<close> by auto
  then have "cmp a b < 0 \<or> cmp b c < 0" using ab bc by auto
  then have "cmp c b < 0 \<or> cmp b a < 0" using ca transitive by blast
  then show False using ab bc converse [of a b] converse [of b c] by auto
qed

lemma upto_total: "cmp a b \<le> 0 \<or> cmp b a \<le> 0"
  using converse [of a b] by linarith

end

text \<open>What it promises for such a comparison: the same objects, in ascending order.\<close>

definition sorts :: "('u, 'c, 'q) describe_world \<Rightarrow> bool" where
  "sorts W \<longleftrightarrow>
     (\<forall>cmp infos. weak_comparator cmp \<longrightarrow>
        mset (dw_SortFunc W cmp infos) = mset infos \<and> sorted_wrt (\<lambda>a b. cmp a b \<le> 0) (dw_SortFunc W cmp infos))"

interpretation by_name: weak_comparator compare_infos
  by unfold_locales (auto simp: compare_infos_def strings_Compare_def split: if_splits)

lemma compare_infos_upto: "compare_infos a b \<le> 0 \<longleftrightarrow> inf_Name a \<le> inf_Name b"
  by (auto simp: compare_infos_def strings_Compare_def)

lemma sorted_by_name:
  assumes "sorts W"
  shows "mset (dw_SortFunc W compare_infos infos) = mset infos"
    and "sorted (map inf_Name (dw_SortFunc W compare_infos infos))"
  using assms by_name.weak_comparator_axioms unfolding sorts_def sorted_map compare_infos_upto [symmetric] by blast+

lemma sorted_between:
  assumes "sorted (map f xs)" "i < j" "j < k" "k < length xs" "f (xs ! i) = f (xs ! k)"
  shows "f (xs ! j) = f (xs ! i)"
proof -
  have "f (xs ! i) \<le> f (xs ! j)" "f (xs ! j) \<le> f (xs ! k)"
    using sorted_nth_mono [OF assms(1), of i j] sorted_nth_mono [OF assms(1), of j k] assms(2-4) by simp_all
  with assms(5) show ?thesis by simp
qed

text \<open>
  C23. In the Slurm mode the jobs found and the config maps are described together, in the order of their
  names, and objects with the same name stand next to each other, so that a job and the config map
  of its script are not torn apart. Of the sort is only taken what \<open>slices.SortFunc\<close> documents: for a
  comparison that is a strict weak ordering, which the one of the command is shown to be, it permutes
  its elements into ascending order.
\<close>

theorem describe_Run_slurm_groups:
  assumes "sorts W"
    and "equal_fold (do_ModeName opt) (mode_name SlurmMode)"
    and "dw_Do W (customizeResourceBuilder opt) = (None, Inr jobs)"
    and "getConfigMaps W opt = Inr cms"
  shows "\<exists>infos. describe_Run W opt = describe_infos W opt infos \<and>
    mset infos = mset jobs + mset cms \<and> sorted (map inf_Name infos) \<and>
    (\<forall>i j k. i < j \<and> j < k \<and> k < length infos \<and> inf_Name (infos ! i) = inf_Name (infos ! k) \<longrightarrow>
      inf_Name (infos ! j) = inf_Name (infos ! i))"
proof (intro exI conjI allI impI)
  let ?infos = "dw_SortFunc W compare_infos (jobs @ cms)"
  show "describe_Run W opt = describe_infos W opt ?infos"
    using assms(2-4) by (simp add: describe_Run_def)
  show "mset ?infos = mset jobs + mset cms" and s: "sorted (map inf_Name ?infos)"
    using sorted_by_name [OF assms(1), of "jobs @ cms"] by simp_all
  show "inf_Name (?infos ! j) = inf_Name (?infos ! i)"
    if "i < j \<and> j < k \<and> k < length ?infos \<and> inf_Name (?infos ! i) = inf_Name (?infos ! k)" for i j k
    using sorted_between [OF s] that by blast
qed

section \<open>Forms of the arguments\<close>

lemma str_contains_slash: "str_contains (m @ ''/'' @ n) ''/''"
  using str_index_None [of "m @ ''/'' @ n" "''/''" m n] by (auto simp: str_contains_def)

lemma parse_mode_name:
  assumes "CHR ''/'' \<notin> set m" and "CHR ''/'' \<notin> set n"
  shows "parseAppProfileModeName (m @ ''/'' @ n) = Inr [m, n]"
  using assms by (simp add: parseAppProfileModeName_def split_on_append_sep split_on_free)

text \<open>The format of the arguments only matters through the question whether a name was given.\<close>

lemma describe_Run_format:
  assumes "do_argsFormat opt \<in> {modeTaskArgsFormat, modeSlashTaskArgsFormat}"
    and "f \<in> {modeTaskArgsFormat, modeSlashTaskArgsFormat}"
  shows "describe_Run W (opt\<lparr>do_argsFormat := f\<rparr>) = describe_Run W opt"
proof -
  have query: "customizeResourceBuilder (opt\<lparr>do_argsFormat := f\<rparr>) = customizeResourceBuilder opt"
    using assms by (auto simp: customizeResourceBuilder_def)
  have maps: "getConfigMaps W (opt\<lparr>do_argsFormat := f\<rparr>) = getConfigMaps W opt"
    using assms by (auto simp: getConfigMaps_def)
  have loop: "describe_infos W (opt\<lparr>do_argsFormat := f\<rparr>) = describe_infos W opt"
  proof -
    have found: "nothing_found (opt\<lparr>do_argsFormat := f\<rparr>) = nothing_found opt" by (simp add: nothing_found_def)
    show ?thesis unfolding describe_infos_def found ..
  qed
  show ?thesis unfolding describe_Run_def query maps loop by simp
qed

text \<open>
  C24. \<open>kjobctl describe mode/name\<close> does what \<open>kjobctl describe mode name\<close> does.
\<close>

theorem describe_slash_form:
  assumes "CHR ''/'' \<notin> set mode" and "CHR ''/'' \<notin> set name"
  shows "NewDescribeCmd G W opt [mode @ ''/'' @ name] = NewDescribeCmd G W opt [mode, name]"
proof -
  define base where "base = opt\<lparr>do_ModeName := mode, do_TaskName := name\<rparr>"
  have slash: "parseArgs [mode @ ''/'' @ name] (findArgsFormat [mode @ ''/'' @ name] opt) =
      Inr (base\<lparr>do_argsFormat := modeSlashTaskArgsFormat\<rparr>)"
    using str_contains_slash [of mode name] parse_mode_name [OF assms]
    by (simp add: findArgsFormat_def parseArgs_def base_def)
  have two: "parseArgs [mode, name] (findArgsFormat [mode, name] opt) = Inr (base\<lparr>do_argsFormat := modeTaskArgsFormat\<rparr>)"
    by (simp add: findArgsFormat_def parseArgs_def base_def)
  have run: "describe_Run W (base\<lparr>do_argsFormat := modeSlashTaskArgsFormat, do_ResourceGVK := gvk, do_Namespace := ns\<rparr>) =
      describe_Run W (base\<lparr>do_argsFormat := modeTaskArgsFormat, do_ResourceGVK := gvk, do_Namespace := ns\<rparr>)" for gvk ns
    using describe_Run_format [of "base\<lparr>do_argsFormat := modeTaskArgsFormat, do_ResourceGVK := gvk, do_Namespace := ns\<rparr>"
        modeSlashTaskArgsFormat W] by (cases base) simp
  show ?thesis
    unfolding NewDescribeCmd_def describe_Complete_def slash two
    by (cases "gg_ToRESTMapper G"; cases "gg_Namespace G"; cases "gg_K8sClientset G";
        cases "gvkFor (projr (gg_ToRESTMapper G)) (resourceFor mode)") (simp_all add: base_def run [unfolded base_def])
qed

section \<open>A concrete world\<close>

text \<open>
  Unstructured objects are their metadata; two jobs are found, the config maps of both jobs exist, and
  the sort is by insertion.
\<close>

fun insert_by :: "('a \<Rightarrow> 'a \<Rightarrow> int) \<Rightarrow> 'a \<Rightarrow> 'a list \<Rightarrow> 'a list" where
  "insert_by cmp x [] = [x]"
| "insert_by cmp x (y # ys) = (if cmp x y \<le> 0 then x # y # ys else y # insert_by cmp x ys)"

definition sort_by :: "('a \<Rightarrow> 'a \<Rightarrow> int) \<Rightarrow> 'a list \<Rightarrow> 'a list" where
  "sort_by cmp xs = foldr (insert_by cmp) xs []"

lemma mset_insert_by [simp]: "mset (insert_by cmp x ys) = add_mset x (mset ys)"
  by (induction ys) auto

lemma set_insert_by [simp]: "set (insert_by cmp x ys) = insert x (set ys)"
  by (induction ys) auto

context weak_comparator
begin

lemma sorted_insert_by:
  "sorted_wrt (\<lambda>a b. cmp a b \<le> 0) ys \<Longrightarrow> sorted_wrt (\<lambda>a b. cmp a b \<le> 0) (insert_by cmp x ys)"
proof (induction ys)
  case (Cons y ys)
  then show ?case using upto_trans [of x y] upto_total [of x y] by auto
qed simp

lemma sort_by_sorts:
  "mset (sort_by cmp xs) = mset xs" "sorted_wrt (\<lambda>a b. cmp a b \<le> 0) (sort_by cmp xs)"
  unfolding sort_by_def by (induction xs) (simp_all add: sorted_insert_by)

end

definition sample_texts :: "int describe_texts" where
  "sample_texts =
     \<lparr>dx_now = 0, dx_human_duration = (\<lambda>d. ''1s''), dx_rfc1123z = (\<lambda>t. ''now''), dx_quantity = format_int,
      dx_zero = 0, dx_positive = (\<lambda>q. q > 0), dx_quote = (\<lambda>s. s), dx_pointer = ''0xc0'',
      dx_secret_ref = (\<lambda>r. ''nil''), dx_sort_mounts = sort_key mt_MountPath, dx_sort_devices = sort_key vd_DevicePath,
      dx_resource_names = (\<lambda>rs. sort (map fst rs)), dx_probe = (\<lambda>p. p),
      dx_resource_value = (\<lambda>r c. Inl []), dx_storage_class = (\<lambda>a c. []), dx_access_modes = concat,
      dx_ResourceStorage = ''storage'', dx_render = ops_text\<rparr>"

definition sample_converters :: "(object_meta, int) converters" where
  "sample_converters =
     \<lparr>FromUnstructured_job = (\<lambda>u. Inr \<lparr>dj_Meta = u, dj_Parallelism = None, dj_Completions = Some 1, dj_StartTime = None,
        dj_CompletionTime = None, dj_Active = 1, dj_Ready = None, dj_Succeeded = 0, dj_Failed = 0,
        dj_Template = \<lparr>dt_InitContainers = [], dt_Containers = [], dt_Volumes = []\<rparr>\<rparr>),
      FromUnstructured_pod = (\<lambda>u. Inl ''pod''), FromUnstructured_rayJob = (\<lambda>u. Inl ''rayJob''),
      FromUnstructured_rayCluster = (\<lambda>u. Inl ''rayCluster''),
      FromUnstructured_configMap = (\<lambda>u. Inr \<lparr>dm_Meta = u, dm_Data = None, dm_BinaryData = None\<rparr>)\<rparr>"

definition sample_meta :: "string \<Rightarrow> object_meta" where
  "sample_meta n = empty_meta\<lparr>meta_Name := n, meta_Namespace := ''ns'', meta_Labels := Some [(ProfileLabel, ''p'')]\<rparr>"

definition sample_job :: "string \<Rightarrow> object_meta info" where
  "sample_job n = \<lparr>inf_Mapping = \<lparr>gvk_Group = ''batch'', gvk_Version = ''v1'', gvk_Kind = ''Job''\<rparr>, inf_Name = n,
     inf_Object = Unstructured (sample_meta n)\<rparr>"

definition sample_config_map :: "string \<Rightarrow> object_meta info" where
  "sample_config_map n = \<lparr>inf_Mapping = \<lparr>gvk_Group = [], gvk_Version = ''v1'', gvk_Kind = ''ConfigMap''\<rparr>, inf_Name = n,
     inf_Object = Unstructured (sample_meta n)\<rparr>"

definition sample_describe_world :: "(object_meta, object_meta, int) describe_world" where
  "sample_describe_world =
     \<lparr>dw_Do = (\<lambda>q. (None, Inr [sample_job ''b'', sample_job ''a''])),
      dw_get_config_map = (\<lambda>ns n. Inr (sample_meta n)),
      dw_list_config_maps = (\<lambda>ns sel. Inr [sample_meta ''b'', sample_meta ''a'']),
      dw_ToUnstructured = Inr, dw_GetName = meta_Name, dw_GetLabels = meta_Labels, dw_gvk_text = gvk_Kind,
      dw_converters = sample_converters, dw_texts = sample_texts, dw_SortFunc = sort_by\<rparr>"

definition sample_describe_options :: describe_options where
  "sample_describe_options = NewDescribeOptions\<lparr>do_ModeName := ''slurm'', do_argsFormat := modeArgsFormat\<rparr>"

lemma sample_sorts: "sorts sample_describe_world"
  by (simp add: sorts_def sample_describe_world_def weak_comparator.sort_by_sorts)

lemma sample_config_maps:
  "getConfigMaps sample_describe_world sample_describe_options = Inr [sample_config_map ''b'', sample_config_map ''a'']"
  by (simp add: getConfigMaps_def sample_describe_world_def sample_describe_options_def configMapToInfo_def
      sample_config_map_def sample_meta_def)

theorem describe_Run_slurm_groups_witness:
  "\<exists>infos. describe_Run sample_describe_world sample_describe_options =
      describe_infos sample_describe_world sample_describe_options infos \<and>
    mset infos = {#sample_job ''b'', sample_job ''a'', sample_config_map ''b'', sample_config_map ''a''#} \<and>
    sorted (map inf_Name infos)"
proof -
  have slurm: "equal_fold (do_ModeName sample_describe_options) (mode_name SlurmMode)"
    by (simp add: sample_describe_options_def) code_simp
  have jobs: "dw_Do sample_describe_world (customizeResourceBuilder sample_describe_options) =
      (None, Inr [sample_job ''b'', sample_job ''a''])"
    by (simp add: sample_describe_world_def)
  from describe_Run_slurm_groups [OF sample_sorts slurm jobs sample_config_maps] show ?thesis by auto
qed

definition sample_describe_getter :: "(string, string) describe_getter" where
  "sample_describe_getter =
     \<lparr>gg_ToRESTMapper = Inr \<lparr>rm_ParseResourceArg = (\<lambda>s. (None, s)), rm_EmptyResource = [], rm_Empty = (\<lambda>v. v = []),
        rm_WithVersion = (\<lambda>g v. g), rm_ResourceFor = (\<lambda>v. (v, None)),
        rm_KindFor = (\<lambda>v. (\<lparr>gvk_Group = ''batch'', gvk_Version = ''v1'', gvk_Kind = ''Job''\<rparr>, None))\<rparr>,
      gg_Namespace = Inr ''ns'', gg_K8sClientset = Inr ()\<rparr>"

theorem describe_slash_form_witness:
  "CHR ''/'' \<notin> set ''job'' \<and> CHR ''/'' \<notin> set ''a'' \<and>
   NewDescribeCmd sample_describe_getter sample_describe_world NewDescribeOptions [''job/a''] =
   NewDescribeCmd sample_describe_getter sample_describe_world NewDescribeOptions [''job'', ''a'']"
  using describe_slash_form [of "''job''" "''a''" sample_describe_getter sample_describe_world NewDescribeOptions] by simp

end
