(* ===== verification/CreateFlags.thy ===== *)
theory CreateFlags
  imports CreateCmd
begin

text \<open>
  The subcommands of \<open>kjobctl create\<close> and their flags (\<open>NewCreateCmd\<close>, \<open>createModeSubcommands\<close> and the
  constants of \<open>pkg/cmd/create/create.go\<close>): which flags each mode has, with shorthands and defaults, which
  exclude each other and which are required. Registering a flag twice, or marking one that does not
  exist, is a panic of pflag and cobra and is \<open>None\<close> here. Help texts are left out, and the flags that
  \<open>cli-runtime\<close> adds for the printers are a parameter.
\<close>

section \<open>Flag sets\<close>

text \<open>The type of a flag is the type of its default; durations are in nanoseconds.\<close>

datatype flag_value =
    StringValue string
  | BoolValue bool
  | Int32Value int32
  | DurationValue int
  | StringToStringValue "str_map option"
  | StringToIntValue "(string, int) gomap option"
  | StringArrayValue "string list option"

record flag_def =
  fd_Name :: string
  fd_Shorthand :: string
  fd_Default :: flag_value

abbreviation flag_of :: "string \<Rightarrow> string \<Rightarrow> flag_value \<Rightarrow> flag_def" where
  "flag_of n s v \<equiv> \<lparr>fd_Name = n, fd_Shorthand = s, fd_Default = v\<rparr>"

text \<open>\<open>AddFlag\<close> of pflag: a name or shorthand that is taken is a panic.\<close>

definition AddFlag :: "flag_def list \<Rightarrow> flag_def \<Rightarrow> flag_def list option" where
  "AddFlag fs f =
     (if fd_Name f \<in> set (map fd_Name fs) then None
      else if fd_Shorthand f \<noteq> [] \<and> fd_Shorthand f \<in> set (map fd_Shorthand fs) then None
      else Some (fs @ [f]))"

fun AddFlags :: "flag_def list \<Rightarrow> flag_def list \<Rightarrow> flag_def list option" where
  "AddFlags fs [] = Some fs"
| "AddFlags fs (f # new) = Option.bind (AddFlag fs f) (\<lambda>fs. AddFlags fs new)"

text \<open>Checks of the number of arguments; a command of a group that has none accepts any.\<close>

datatype positional_args = NoArgs | MinimumNArgs nat | RangeArgs nat nat | AnyArgs

record subcommand =
  sc_Name :: string
  sc_Mode :: application_profile_mode
  sc_Args :: positional_args
  sc_Flags :: "flag_def list"
  sc_PersistentFlags :: "flag_def list"
  sc_SlurmFlags :: "flag_def list"
  sc_Exclusive :: "string list list"
  sc_Required :: "string list"

definition with_flags :: "flag_def list \<Rightarrow> subcommand \<Rightarrow> subcommand option" where
  "with_flags new subcmd = map_option (\<lambda>fs. subcmd\<lparr>sc_Flags := fs\<rparr>) (AddFlags (sc_Flags subcmd) new)"

text \<open>\<open>MarkFlagsMutuallyExclusive\<close> of cobra: a name without a flag is a panic.\<close>

definition MarkFlagsMutuallyExclusive :: "string list \<Rightarrow> subcommand \<Rightarrow> subcommand option" where
  "MarkFlagsMutuallyExclusive flagNames subcmd =
     (if set flagNames \<subseteq> set (map fd_Name (sc_Flags subcmd)) then Some (subcmd\<lparr>sc_Exclusive := sc_Exclusive subcmd @ [flagNames]\<rparr>)
      else None)"

text \<open>\<open>MarkFlagRequired\<close> returns an error for an unknown flag, which the code ignores.\<close>

definition MarkFlagRequired :: "string \<Rightarrow> subcommand \<Rightarrow> subcommand" where
  "MarkFlagRequired name subcmd =
     (if name \<in> set (map fd_Name (sc_Flags subcmd)) then subcmd\<lparr>sc_Required := sc_Required subcmd @ [name]\<rparr> else subcmd)"

text \<open>\<open>RegisterFlagCompletionFunc\<close> fails for an unknown flag, and \<open>CheckErr\<close> then ends the program.\<close>

definition RegisterFlagCompletionFunc :: "string \<Rightarrow> flag_def list \<Rightarrow> flag_def list option" where
  "RegisterFlagCompletionFunc name fs = (if name \<in> set (map fd_Name fs) then Some fs else None)"

section \<open>Names of flags\<close>

definition profileFlagName :: string where "profileFlagName = ''profile''"
definition podRunningTimeoutFlagName :: string where "podRunningTimeoutFlagName = ''pod-running-timeout''"
definition removeFlagName :: string where "removeFlagName = ''rm''"
definition ignoreUnknownFlagName :: string where "ignoreUnknownFlagName = ''ignore-unknown-flags''"
definition initImageFlagName :: string where "initImageFlagName = ''init-image''"
definition streamContainersFlagName :: string where "streamContainersFlagName = ''stream-container''"
definition workerContainersFlagName :: string where "workerContainersFlagName = ''worker-container''"
definition skipLocalQueueValidationFlagName :: string where "skipLocalQueueValidationFlagName = ''skip-localqueue-validation''"
definition skipPriorityValidationFlagName :: string where "skipPriorityValidationFlagName = ''skip-priority-validation''"
definition changeDirFlagName :: string where "changeDirFlagName = ''chdir''"
definition firstNodeIPFlagName :: string where "firstNodeIPFlagName = ''first-node-ip''"
definition firstNodeIPTimeoutFlagName :: string where "firstNodeIPTimeoutFlagName = ''first-node-ip-timeout''"
definition waitFlagName :: string where "waitFlagName = ''wait''"
definition waitTimeoutFlagName :: string where "waitTimeoutFlagName = ''wait-timeout''"

lemmas flag_name_defs = profileFlagName_def podRunningTimeoutFlagName_def removeFlagName_def ignoreUnknownFlagName_def
  initImageFlagName_def streamContainersFlagName_def workerContainersFlagName_def skipLocalQueueValidationFlagName_def
  skipPriorityValidationFlagName_def changeDirFlagName_def firstNodeIPFlagName_def firstNodeIPTimeoutFlagName_def
  waitFlagName_def waitTimeoutFlagName_def

definition minute :: int where "minute = 60 * 1000000000"

definition podRunningTimeoutDefault :: int where "podRunningTimeoutDefault = 1 * minute"

section \<open>The flags of the modes\<close>

definition withTimeFlag :: flag_def where
  "withTimeFlag = flag_of (flag_name TimeFlag) ''t'' (StringValue [])"

definition job_Setup :: "subcommand \<Rightarrow> subcommand option" where
  "job_Setup =
     with_flags
       [flag_of (flag_name CmdFlag) [] (StringValue []),
        flag_of (flag_name RequestFlag) [] (StringToStringValue None),
        flag_of (flag_name ParallelismFlag) [] (Int32Value 0),
        flag_of (flag_name CompletionsFlag) [] (Int32Value 0),
        withTimeFlag]"

definition interactive_Setup :: "subcommand \<Rightarrow> subcommand option" where
  "interactive_Setup =
     with_flags
       [flag_of (flag_name CmdFlag) [] (StringValue []),
        flag_of (flag_name RequestFlag) [] (StringToStringValue None),
        flag_of podRunningTimeoutFlagName [] (DurationValue podRunningTimeoutDefault),
        flag_of removeFlagName [] (BoolValue False),
        withTimeFlag]"

definition ray_job_Setup :: "subcommand \<Rightarrow> subcommand option" where
  "ray_job_Setup subcmd =
     Option.bind (with_flags
       [flag_of (flag_name CmdFlag) [] (StringValue []),
        flag_of (flag_name ReplicasFlag) [] (StringToIntValue None),
        flag_of (flag_name MinReplicasFlag) [] (StringToIntValue None),
        flag_of (flag_name MaxReplicasFlag) [] (StringToIntValue None),
        flag_of (flag_name RayClusterFlag) [] (StringValue []),
        withTimeFlag] subcmd) (\<lambda>subcmd.
     Option.bind (MarkFlagsMutuallyExclusive [flag_name RayClusterFlag, flag_name ReplicasFlag] subcmd) (\<lambda>subcmd.
     Option.bind (MarkFlagsMutuallyExclusive [flag_name RayClusterFlag, flag_name MinReplicasFlag] subcmd) (\<lambda>subcmd.
     Option.bind (MarkFlagsMutuallyExclusive [flag_name RayClusterFlag, flag_name MaxReplicasFlag] subcmd)
       (MarkFlagsMutuallyExclusive [flag_name RayClusterFlag, flag_name LocalQueueFlag]))))"

definition ray_cluster_Setup :: "subcommand \<Rightarrow> subcommand option" where
  "ray_cluster_Setup =
     with_flags
       [flag_of (flag_name ReplicasFlag) [] (StringToIntValue None),
        flag_of (flag_name MinReplicasFlag) [] (StringToIntValue None),
        flag_of (flag_name MaxReplicasFlag) [] (StringToIntValue None),
        withTimeFlag]"

text \<open>The Slurm mode has a second flag set for the arguments after \<open>--\<close>.\<close>

definition slurm_command_flags :: "flag_def list" where
  "slurm_command_flags =
     [flag_of ignoreUnknownFlagName [] (BoolValue False),
      flag_of waitFlagName [] (BoolValue False),
      flag_of waitTimeoutFlagName [] (DurationValue 0),
      flag_of streamContainersFlagName [] (StringArrayValue None),
      flag_of workerContainersFlagName [] (StringArrayValue None),
      flag_of initImageFlagName [] (StringValue ''registry.k8s.io/busybox:1.27.2''),
      flag_of firstNodeIPFlagName [] (BoolValue False),
      flag_of firstNodeIPTimeoutFlagName [] (DurationValue minute),
      flag_of removeFlagName [] (BoolValue False)]"

definition SlurmFlagSet :: "flag_def list" where
  "SlurmFlagSet =
     [flag_of (flag_name ArrayFlag) ''a'' (StringValue []),
      flag_of (flag_name CpusPerTaskFlag) ''c'' (StringValue []),
      flag_of (flag_name GpusPerTaskFlag) [] (StringValue []),
      flag_of (flag_name MemPerNodeFlag) [] (StringValue []),
      flag_of (flag_name MemPerTaskFlag) [] (StringValue []),
      flag_of (flag_name MemPerCPUFlag) [] (StringValue []),
      flag_of (flag_name MemPerGPUFlag) [] (StringValue []),
      flag_of (flag_name NodesFlag) ''N'' (Int32Value DefaultNodes),
      flag_of (flag_name NTasksFlag) ''n'' (Int32Value DefaultNTasks),
      flag_of (flag_name NTasksPerNodeFlag) [] (Int32Value DefaultNTasksPerNode),
      flag_of (flag_name OutputFlag) ''o'' (StringValue []),
      flag_of (flag_name ErrorFlag) ''e'' (StringValue []),
      flag_of (flag_name InputFlag) [] (StringValue []),
      flag_of (flag_name JobNameFlag) ''J'' (StringValue []),
      flag_of (flag_name PartitionFlag) [] (StringValue []),
      flag_of changeDirFlagName ''D'' (StringValue []),
      withTimeFlag]"

definition slurm_Setup :: "subcommand \<Rightarrow> subcommand option" where
  "slurm_Setup subcmd =
     Option.bind (with_flags slurm_command_flags (subcmd\<lparr>sc_Args := MinimumNArgs 1\<rparr>)) (\<lambda>subcmd.
       map_option (\<lambda>fs. subcmd\<lparr>sc_SlurmFlags := fs\<rparr>) (AddFlags [] SlurmFlagSet))"

primrec mode_Setup :: "application_profile_mode \<Rightarrow> subcommand \<Rightarrow> subcommand option" where
  "mode_Setup JobMode = job_Setup"
| "mode_Setup InteractiveMode = interactive_Setup"
| "mode_Setup RayJobMode = ray_job_Setup"
| "mode_Setup RayClusterMode = ray_cluster_Setup"
| "mode_Setup SlurmMode = slurm_Setup"

section \<open>The subcommands\<close>

definition common_flags :: "flag_def list" where
  "common_flags =
     [flag_of profileFlagName ''p'' (StringValue []),
      flag_of (flag_name LocalQueueFlag) [] (StringValue []),
      flag_of skipLocalQueueValidationFlagName [] (BoolValue False),
      flag_of (flag_name PriorityFlag) [] (StringValue []),
      flag_of skipPriorityValidationFlagName [] (BoolValue False),
      flag_of (flag_name PodTemplateLabelFlag) [] (StringToStringValue (Some [])),
      flag_of (flag_name PodTemplateAnnotationFlag) [] (StringToStringValue (Some []))]"

text \<open>\<open>AddDryRunFlag\<close> of \<open>CmdHelpers\<close>, as a registration: the flag is a persistent one.\<close>

definition AddDryRunFlag_set :: "flag_def list \<Rightarrow> flag_def list option" where
  "AddDryRunFlag_set fs = AddFlag fs (flag_of ''dry-run'' [] (StringValue ''none''))"

definition AddDryRunFlag_to :: "subcommand \<Rightarrow> subcommand option" where
  "AddDryRunFlag_to subcmd =
     map_option (\<lambda>fs. subcmd\<lparr>sc_PersistentFlags := fs\<rparr>) (AddDryRunFlag_set (sc_PersistentFlags subcmd))"

definition create_subcommand ::
  "flag_def list \<Rightarrow> string \<times> application_profile_mode \<Rightarrow> subcommand option" where
  "create_subcommand print_flags entry =
     (case entry of (modeName, mode) \<Rightarrow>
        Option.bind (with_flags (print_flags @ common_flags)
          \<lparr>sc_Name = modeName, sc_Mode = mode, sc_Args = NoArgs, sc_Flags = [], sc_PersistentFlags = [], sc_SlurmFlags = [],
           sc_Exclusive = [], sc_Required = []\<rparr>) (\<lambda>subcmd.
        Option.bind (mode_Setup mode subcmd) (\<lambda>subcmd.
        Option.bind (AddDryRunFlag_to subcmd) (\<lambda>subcmd.
        let subcmd = MarkFlagRequired profileFlagName subcmd in
        Option.bind (RegisterFlagCompletionFunc profileFlagName (sc_Flags subcmd)) (\<lambda>_.
        Option.bind (RegisterFlagCompletionFunc (flag_name LocalQueueFlag) (sc_Flags subcmd)) (\<lambda>_.
          Some subcmd))))))"

text \<open>The loop over the map of subcommands; its order does not matter to a command line.\<close>

definition NewCreateCmd :: "flag_def list \<Rightarrow> subcommand list option" where
  "NewCreateCmd print_flags = those (map (create_subcommand print_flags) createModeSubcommands)"

section \<open>Registration\<close>

text \<open>A flag set without double names and shorthands, and that adding flags keeps it so.\<close>

definition flags_ok :: "flag_def list \<Rightarrow> bool" where
  "flags_ok fs \<longleftrightarrow> distinct (map fd_Name fs) \<and> distinct (filter (\<lambda>s. s \<noteq> []) (map fd_Shorthand fs))"

lemma AddFlag_ok: "flags_ok fs \<Longrightarrow> AddFlag fs f = (if flags_ok (fs @ [f]) then Some (fs @ [f]) else None)"
  by (auto simp: AddFlag_def flags_ok_def)

lemma flags_ok_append1: "flags_ok (fs @ gs) \<Longrightarrow> flags_ok fs"
  by (simp add: flags_ok_def)

lemma AddFlags_ok: "flags_ok fs \<Longrightarrow> AddFlags fs new = (if flags_ok (fs @ new) then Some (fs @ new) else None)"
proof (induction new arbitrary: fs)
  case (Cons f new)
  show ?case
  proof (cases "flags_ok (fs @ [f])")
    case True
    with Cons.IH [OF True] Cons.prems show ?thesis by (simp add: AddFlag_ok)
  next
    case False
    with Cons.prems flags_ok_append1 [of "fs @ [f]" new] show ?thesis by (auto simp: AddFlag_ok)
  qed
qed simp

lemma flags_ok_Nil [simp]: "flags_ok []"
  by (simp add: flags_ok_def)

text \<open>
  The flags of the printers are compatible with the command's own when their names and shorthands are
  distinct and none is a name or shorthand of the command.
\<close>

definition own_flag_names :: "string list" where
  "own_flag_names =
     map fd_Name common_flags @ map fd_Name slurm_command_flags @ [podRunningTimeoutFlagName] @
     map flag_name [CmdFlag, RequestFlag, ParallelismFlag, CompletionsFlag, ReplicasFlag, MinReplicasFlag, MaxReplicasFlag,
       RayClusterFlag, TimeFlag]"

definition compatible_flags :: "flag_def list \<Rightarrow> bool" where
  "compatible_flags pf \<longleftrightarrow> flags_ok pf \<and> set (map fd_Name pf) \<inter> set own_flag_names = {} \<and>
     set (map fd_Shorthand pf) \<inter> {''p'', ''t''} = {}"

text \<open>The flags the setup of a mode adds.\<close>

primrec mode_flags :: "application_profile_mode \<Rightarrow> flag_def list" where
  "mode_flags JobMode =
     [flag_of ''cmd'' [] (StringValue []), flag_of ''request'' [] (StringToStringValue None),
      flag_of ''parallelism'' [] (Int32Value 0), flag_of ''completions'' [] (Int32Value 0), withTimeFlag]"
| "mode_flags InteractiveMode =
     [flag_of ''cmd'' [] (StringValue []), flag_of ''request'' [] (StringToStringValue None),
      flag_of ''pod-running-timeout'' [] (DurationValue podRunningTimeoutDefault), flag_of ''rm'' [] (BoolValue False), withTimeFlag]"
| "mode_flags RayJobMode =
     [flag_of ''cmd'' [] (StringValue []), flag_of ''replicas'' [] (StringToIntValue None),
      flag_of ''min-replicas'' [] (StringToIntValue None), flag_of ''max-replicas'' [] (StringToIntValue None),
      flag_of ''raycluster'' [] (StringValue []), withTimeFlag]"
| "mode_flags RayClusterMode =
     [flag_of ''replicas'' [] (StringToIntValue None), flag_of ''min-replicas'' [] (StringToIntValue None),
      flag_of ''max-replicas'' [] (StringToIntValue None), withTimeFlag]"
| "mode_flags SlurmMode = slurm_command_flags"

lemmas flag_table_defs = common_flags_def slurm_command_flags_def withTimeFlag_def flag_name_defs

lemma own_flags:
  "flags_ok (common_flags @ mode_flags mode)"
  "list_all (\<lambda>f. fd_Name f \<in> set own_flag_names \<and> fd_Shorthand f \<in> {[], ''p'', ''t''}) (common_flags @ mode_flags mode)"
  by (cases mode; simp only:; code_simp)+

lemma flags_ok_append:
  assumes "flags_ok pf" and "flags_ok fs"
    and "\<And>f g. f \<in> set pf \<Longrightarrow> g \<in> set fs \<Longrightarrow>
      fd_Name f \<noteq> fd_Name g \<and> (fd_Shorthand f = fd_Shorthand g \<longrightarrow> fd_Shorthand g = [])"
  shows "flags_ok (pf @ fs)"
proof -
  from assms(3) have "set (map fd_Name pf) \<inter> set (map fd_Name fs) = {}" by fastforce
  moreover from assms(3) have "set (filter (\<lambda>s. s \<noteq> []) (map fd_Shorthand pf)) \<inter>
      set (filter (\<lambda>s. s \<noteq> []) (map fd_Shorthand fs)) = {}" by fastforce
  ultimately show ?thesis using assms(1,2) unfolding flags_ok_def map_append filter_append distinct_append by blast
qed

lemma compatible_ok:
  assumes "compatible_flags pf"
  shows "flags_ok (pf @ common_flags @ mode_flags mode)"
proof (rule flags_ok_append)
  fix f g
  assume f: "f \<in> set pf" and g: "g \<in> set (common_flags @ mode_flags mode)"
  from own_flags(2) [of mode] g have "fd_Name g \<in> set own_flag_names" "fd_Shorthand g \<in> {[], ''p'', ''t''}"
    unfolding list_all_iff by blast+
  moreover from f have "fd_Name f \<in> set (map fd_Name pf)" "fd_Shorthand f \<in> set (map fd_Shorthand pf)" by simp_all
  with assms have "fd_Name f \<notin> set own_flag_names" "fd_Shorthand f \<notin> {''p'', ''t''}"
    unfolding compatible_flags_def by blast+
  ultimately show "fd_Name f \<noteq> fd_Name g \<and> (fd_Shorthand f = fd_Shorthand g \<longrightarrow> fd_Shorthand g = [])"
    by auto
qed (use assms own_flags(1) in \<open>simp_all add: compatible_flags_def\<close>)

lemma compatible_common: "compatible_flags pf \<Longrightarrow> flags_ok (pf @ common_flags)"
  using compatible_ok [of pf JobMode] flags_ok_append1 [of "pf @ common_flags"] by simp

lemma with_flags_ok:
  "flags_ok (sc_Flags s @ new) \<Longrightarrow> with_flags new s = Some (s\<lparr>sc_Flags := sc_Flags s @ new\<rparr>)"
  using AddFlags_ok [of "sc_Flags s" new] flags_ok_append1 [of "sc_Flags s" new] by (simp add: with_flags_def)

lemma slurm_flags_ok: "AddFlags [] SlurmFlagSet = Some SlurmFlagSet"
proof -
  have "flags_ok SlurmFlagSet" by code_simp
  then show ?thesis using AddFlags_ok [of "[]" SlurmFlagSet] by simp
qed

definition exclusive_flags :: "application_profile_mode \<Rightarrow> string list list" where
  "exclusive_flags mode =
     (if mode = RayJobMode
      then map (\<lambda>f. [''raycluster'', f]) [''replicas'', ''min-replicas'', ''max-replicas'', ''localqueue''] else [])"

lemma mode_Setup_flags:
  assumes "compatible_flags pf" and flags: "sc_Flags s = pf @ common_flags"
    and "sc_SlurmFlags s = []" and "sc_Exclusive s = []" and "sc_Args s = NoArgs"
  shows "mode_Setup mode s = Some (s\<lparr>sc_Flags := pf @ common_flags @ mode_flags mode,
    sc_SlurmFlags := if mode = SlurmMode then SlurmFlagSet else [],
    sc_Exclusive := exclusive_flags mode, sc_Args := if mode = SlurmMode then MinimumNArgs 1 else NoArgs\<rparr>)"
proof -
  have set_up: "with_flags (mode_flags mode) s' = Some (s'\<lparr>sc_Flags := pf @ common_flags @ mode_flags mode\<rparr>)"
    if "sc_Flags s' = pf @ common_flags" for s' mode
    using with_flags_ok [of s' "mode_flags mode"] compatible_ok [OF assms(1), of mode] that by simp
  have "''localqueue'' \<in> fd_Name ` set common_flags" by (simp add: common_flags_def)
  then show ?thesis
    using set_up [OF flags, of mode] set_up [of "s\<lparr>sc_Args := MinimumNArgs 1\<rparr>" SlurmMode] assms
    by (cases mode; cases s)
      (simp_all add: job_Setup_def interactive_Setup_def ray_job_Setup_def ray_cluster_Setup_def slurm_Setup_def
        flag_name_defs slurm_flags_ok MarkFlagsMutuallyExclusive_def exclusive_flags_def)
qed

lemma create_subcommand_flags:
  assumes "compatible_flags pf"
  shows "create_subcommand pf (name, mode) = Some
    \<lparr>sc_Name = name, sc_Mode = mode, sc_Args = if mode = SlurmMode then MinimumNArgs 1 else NoArgs,
     sc_Flags = pf @ common_flags @ mode_flags mode,
     sc_PersistentFlags = [flag_of ''dry-run'' [] (StringValue ''none'')],
     sc_SlurmFlags = if mode = SlurmMode then SlurmFlagSet else [],
     sc_Exclusive = exclusive_flags mode, sc_Required = [''profile'']\<rparr>"
proof -
  define s where "s = \<lparr>sc_Name = name, sc_Mode = mode, sc_Args = NoArgs, sc_Flags = [], sc_PersistentFlags = [],
    sc_SlurmFlags = [], sc_Exclusive = [], sc_Required = []\<rparr>"
  let ?s1 = "s\<lparr>sc_Flags := pf @ common_flags\<rparr>"
  let ?s2 = "?s1\<lparr>sc_Flags := pf @ common_flags @ mode_flags mode,
    sc_SlurmFlags := if mode = SlurmMode then SlurmFlagSet else [],
    sc_Exclusive := exclusive_flags mode, sc_Args := if mode = SlurmMode then MinimumNArgs 1 else NoArgs\<rparr>"
  let ?s3 = "?s2\<lparr>sc_PersistentFlags := [flag_of ''dry-run'' [] (StringValue ''none'')]\<rparr>"
  have common: "with_flags (pf @ common_flags) s = Some ?s1"
    using with_flags_ok [of s "pf @ common_flags"] compatible_common [OF assms] by (simp add: s_def)
  have modes: "mode_Setup mode ?s1 = Some ?s2"
    by (rule mode_Setup_flags [OF assms]) (simp_all add: s_def)
  have dry_run: "AddDryRunFlag_to ?s2 = Some ?s3"
    by (simp add: AddDryRunFlag_to_def AddDryRunFlag_set_def AddFlag_def s_def)
  have named: "''profile'' \<in> fd_Name ` set common_flags" "''localqueue'' \<in> fd_Name ` set common_flags"
    by (simp_all add: common_flags_def profileFlagName_def)
  then have required: "MarkFlagRequired profileFlagName ?s3 = ?s3\<lparr>sc_Required := [''profile'']\<rparr>"
    by (simp add: MarkFlagRequired_def profileFlagName_def s_def image_Un)
  have "RegisterFlagCompletionFunc profileFlagName (sc_Flags ?s3) = Some (sc_Flags ?s3)"
    "RegisterFlagCompletionFunc (flag_name LocalQueueFlag) (sc_Flags ?s3) = Some (sc_Flags ?s3)"
    using named by (simp_all add: RegisterFlagCompletionFunc_def profileFlagName_def image_Un)
  then have "create_subcommand pf (name, mode) = Some (?s3\<lparr>sc_Required := [''profile'']\<rparr>)"
    unfolding create_subcommand_def prod.case s_def [symmetric] common bind.bind_lunit modes dry_run required Let_def
    by simp
  then show ?thesis by (simp add: s_def)
qed

lemma those_map_Some: "(\<And>x. x \<in> set xs \<Longrightarrow> g x = Some (h x)) \<Longrightarrow> those (map g xs) = Some (map h xs)"
  by (induction xs) simp_all

section \<open>Properties\<close>

text \<open>
  Building the create command does not panic, for printer flags that are compatible with its own:
  there is one subcommand for each mode, no flag name or shorthand is registered twice, the flags
  marked as mutually exclusive exist, and the profile is the required flag.
\<close>

theorem NewCreateCmd_registers:
  assumes "compatible_flags pf"
  shows "\<exists>cmds. NewCreateCmd pf = Some cmds \<and> map (\<lambda>c. (sc_Name c, sc_Mode c)) cmds = createModeSubcommands \<and>
    list_all (\<lambda>c. flags_ok (sc_Flags c) \<and> flags_ok (sc_SlurmFlags c) \<and> sc_Required c = [''profile''] \<and>
      list_all (\<lambda>g. set g \<subseteq> set (map fd_Name (sc_Flags c))) (sc_Exclusive c)) cmds"
proof -
  define cmd where "cmd entry = the (create_subcommand pf entry)" for entry
  have cmd: "create_subcommand pf entry = Some (cmd entry)" for entry
    using create_subcommand_flags [OF assms, of "fst entry" "snd entry"] by (simp add: cmd_def)
  have "flags_ok SlurmFlagSet" using slurm_flags_ok AddFlags_ok [of "[]" SlurmFlagSet] by (simp split: if_splits)
  moreover have "list_all (\<lambda>g. set g \<subseteq> set (map fd_Name (pf @ common_flags @ mode_flags mode))) (exclusive_flags mode)" for mode
    by (cases mode) (simp_all add: exclusive_flags_def common_flags_def)
  ultimately have each: "sc_Name (cmd e) = fst e \<and> sc_Mode (cmd e) = snd e \<and> flags_ok (sc_Flags (cmd e)) \<and>
      flags_ok (sc_SlurmFlags (cmd e)) \<and> sc_Required (cmd e) = [''profile''] \<and>
      list_all (\<lambda>g. set g \<subseteq> set (map fd_Name (sc_Flags (cmd e)))) (sc_Exclusive (cmd e))" for e
    using create_subcommand_flags [OF assms, of "fst e" "snd e"] compatible_ok [OF assms, of "snd e"]
    by (simp add: cmd_def del: mode_flags.simps)
  show ?thesis
  proof (intro exI conjI)
    show "NewCreateCmd pf = Some (map cmd createModeSubcommands)"
      unfolding NewCreateCmd_def by (rule those_map_Some) (rule cmd)
    show "map (\<lambda>c. (sc_Name c, sc_Mode c)) (map cmd createModeSubcommands) = createModeSubcommands"
      using each by (simp add: comp_def)
  qed (use each in \<open>simp add: list_all_iff\<close>)
qed

definition kubectl_print_flags :: "flag_def list" where
  "kubectl_print_flags =
     [flag_of ''output'' ''o'' (StringValue []), flag_of ''allow-missing-template-keys'' [] (BoolValue True),
      flag_of ''show-managed-fields'' [] (BoolValue False), flag_of ''template'' [] (StringValue [])]"

lemma kubectl_flags_compatible: "compatible_flags kubectl_print_flags"
  by code_simp

theorem NewCreateCmd_registers_witness:
  "compatible_flags kubectl_print_flags \<and> NewCreateCmd kubectl_print_flags \<noteq> None"
  using NewCreateCmd_registers [OF kubectl_flags_compatible] kubectl_flags_compatible by auto

text \<open>The flags a profile may require, by the validation rules, and those the command has.\<close>

definition admitted_modes :: "flag \<Rightarrow> application_profile_mode list" where
  "admitted_modes f =
     (if f \<in> {ReplicasFlag, MinReplicasFlag, MaxReplicasFlag} then [RayJobMode, RayClusterMode]
      else if f \<in> {RequestFlag, CmdFlag} then [JobMode, InteractiveMode, RayJobMode]
      else if f = RayClusterFlag then [RayJobMode]
      else if f \<in> {ParallelismFlag, CompletionsFlag} then [InteractiveMode, JobMode, RayJobMode, RayClusterMode]
      else if f \<in> set slurm_only_flags then [SlurmMode]
      else [InteractiveMode, JobMode, RayJobMode, RayClusterMode, SlurmMode])"

lemma valid_admitted:
  assumes "supported_mode_valid m" and "sm_Name m = mode_name mode" and "f \<in> set (sm_RequiredFlags m)"
  shows "mode \<in> set (admitted_modes f)"
  using assms unfolding supported_mode_valid_def admitted_modes_def Let_def
  by (cases mode) (auto simp: mode_name_inject image_iff)

definition own_names :: "application_profile_mode \<Rightarrow> string list" where
  "own_names mode =
     map fd_Name (common_flags @ mode_flags mode @ (if mode = SlurmMode then SlurmFlagSet else []))"

definition no_such_flag :: "application_profile_mode \<Rightarrow> flag \<Rightarrow> bool" where
  "no_such_flag mode f \<longleftrightarrow>
     f = RequestFlag \<and> mode = RayJobMode \<or> f \<in> {ParallelismFlag, CompletionsFlag} \<and> mode \<noteq> JobMode"

lemma own_names_table:
  "list_all (\<lambda>f. mode \<in> set (admitted_modes f) \<longrightarrow>
     (flag_name f \<in> set (own_names mode) \<longleftrightarrow> \<not> no_such_flag mode f) \<and>
     (no_such_flag mode f \<longrightarrow> flag_name f \<in> set own_flag_names)) all_flags"
  by (cases mode; simp only:; code_simp)

text \<open>
  C13. The validation rules of profiles and the flags of the command agree except in two places: a flag
  that a valid profile requires for a mode is a flag of that mode's subcommand, but for the request
  of a Ray job and for parallelism and completions outside the Job mode, which no subcommand has.
\<close>

theorem required_flags_settable:
  assumes "compatible_flags pf" and "create_subcommand pf (name, mode) = Some subcmd"
    and "supported_mode_valid m" and "sm_Name m = mode_name mode" and "f \<in> set (sm_RequiredFlags m)"
  shows "flag_name f \<in> set (map fd_Name (sc_Flags subcmd @ sc_SlurmFlags subcmd)) \<longleftrightarrow>
    \<not> (f = RequestFlag \<and> mode = RayJobMode \<or> f \<in> {ParallelismFlag, CompletionsFlag} \<and> mode \<noteq> JobMode)"
proof -
  have flags: "set (map fd_Name (sc_Flags subcmd @ sc_SlurmFlags subcmd)) = set (map fd_Name pf) \<union> set (own_names mode)"
    using assms(2) unfolding create_subcommand_flags [OF assms(1)] by (auto simp: own_names_def)
  have "(flag_name f \<in> set (own_names mode) \<longleftrightarrow> \<not> no_such_flag mode f) \<and>
      (no_such_flag mode f \<longrightarrow> flag_name f \<in> set own_flag_names)"
    using own_names_table [of mode] in_all_flags [of f] valid_admitted [OF assms(3-5)]
    unfolding list_all_iff by blast
  moreover have "set (map fd_Name pf) \<inter> set own_flag_names = {}"
    using assms(1) unfolding compatible_flags_def by blast
  ultimately have "flag_name f \<in> set (map fd_Name (sc_Flags subcmd @ sc_SlurmFlags subcmd)) \<longleftrightarrow> \<not> no_such_flag mode f"
    unfolding flags by blast
  then show ?thesis unfolding no_such_flag_def .
qed

theorem required_flags_settable_witness:
  "\<exists>subcmd. create_subcommand kubectl_print_flags (''rayjob'', RayJobMode) = Some subcmd \<and>
    supported_mode_valid \<lparr>sm_Name = ''RayJob'', sm_Template = ''tpl'', sm_RequiredFlags = [RequestFlag]\<rparr> \<and>
    ''request'' \<notin> set (map fd_Name (sc_Flags subcmd @ sc_SlurmFlags subcmd))"
proof -
  let ?m = "\<lparr>sm_Name = ''RayJob'', sm_Template = ''tpl'', sm_RequiredFlags = [RequestFlag]\<rparr>"
  obtain subcmd where subcmd: "create_subcommand kubectl_print_flags (''rayjob'', RayJobMode) = Some subcmd"
    using create_subcommand_flags [OF kubectl_flags_compatible, of "''rayjob''" RayJobMode] by blast
  have valid: "supported_mode_valid ?m" by (simp add: supported_mode_valid_def slurm_only_flags_def)
  have name: "sm_Name ?m = mode_name RayJobMode" and req: "RequestFlag \<in> set (sm_RequiredFlags ?m)" by simp_all
  from required_flags_settable [OF kubectl_flags_compatible subcmd valid name req]
  have "flag_name RequestFlag \<notin> set (map fd_Name (sc_Flags subcmd @ sc_SlurmFlags subcmd))" by simp
  with subcmd valid show ?thesis by auto
qed

end
