(* ===== verification/CommandTree.thy ===== *)
theory CommandTree
  imports CreateFlags DescribeCmd DeleteCmd ListCmd
begin

text \<open>
  The tree of commands (\<open>pkg/cmd/cmd.go\<close>, \<open>NewListCmd\<close>, \<open>NewDeleteCmd\<close> and the constructors of the commands
  below them, the flags of \<open>helpers/helpers.go\<close>, \<open>version\<close>): names, arguments and flags of every command. The
  flags of the kube configuration and of the printers, which \<open>cli-runtime\<close> adds, are parameters. A
  registration that panics or ends the program makes the tree \<open>None\<close>.
\<close>

section \<open>Shared flags\<close>

definition AddFieldSelectorFlagVar :: "flag_def list \<Rightarrow> flag_def list option" where
  "AddFieldSelectorFlagVar fs = AddFlag fs (flag_of ''field-selector'' [] (StringValue []))"

definition AddLabelSelectorFlagVar :: "flag_def list \<Rightarrow> flag_def list option" where
  "AddLabelSelectorFlagVar fs = AddFlag fs (flag_of ''selector'' ''l'' (StringValue []))"

definition AddAllNamespacesFlagVar :: "flag_def list \<Rightarrow> flag_def list option" where
  "AddAllNamespacesFlagVar fs = AddFlag fs (flag_of ''all-namespaces'' ''A'' (BoolValue False))"

definition AddProfileFlagVar :: "flag_def list \<Rightarrow> flag_def list option" where
  "AddProfileFlagVar fs = AddFlag fs (flag_of ''profile'' ''p'' (StringValue []))"

definition AddLocalQueueFlagVar :: "flag_def list \<Rightarrow> flag_def list option" where
  "AddLocalQueueFlagVar fs = AddFlag fs (flag_of ''localqueue'' ''q'' (StringValue []))"

lemmas add_flag_defs = AddFieldSelectorFlagVar_def AddLabelSelectorFlagVar_def AddAllNamespacesFlagVar_def
  AddProfileFlagVar_def AddLocalQueueFlagVar_def

definition addCascadingFlag_set :: "flag_def list \<Rightarrow> flag_def list option" where
  "addCascadingFlag_set fs = AddFlag fs (flag_of ''cascade'' [] (StringValue ''background''))"

section \<open>Commands\<close>

datatype command =
  Command (cmd_Name: string) (cmd_Args: positional_args) (cmd_Flags: "flag_def list")
    (cmd_Persistent: "flag_def list") (cmd_Subcommands: "command list")

text \<open>The commands of \<open>list\<close>: two of the five refuse arguments.\<close>

definition list_flags :: "flag_def list \<Rightarrow> flag_def list option" where
  "list_flags pf =
     Option.bind (AddFlags [] pf) (\<lambda>fs. Option.bind (AddAllNamespacesFlagVar fs) (\<lambda>fs.
     Option.bind (AddFieldSelectorFlagVar fs) (\<lambda>fs. Option.bind (AddLabelSelectorFlagVar fs) (\<lambda>fs.
     Option.bind (AddProfileFlagVar fs) (\<lambda>fs. Option.bind (AddLocalQueueFlagVar fs) (\<lambda>fs.
     Option.bind (RegisterFlagCompletionFunc ''profile'' fs) (RegisterFlagCompletionFunc ''localqueue'')))))))"

definition list_NewJobCmd :: "flag_def list \<Rightarrow> command option" where
  "list_NewJobCmd pf = map_option (\<lambda>fs. Command ''job'' AnyArgs fs [] []) (list_flags pf)"

definition list_NewInteractiveCmd :: "flag_def list \<Rightarrow> command option" where
  "list_NewInteractiveCmd pf = map_option (\<lambda>fs. Command ''interactive'' AnyArgs fs [] []) (list_flags pf)"

definition list_NewRayJobCmd :: "flag_def list \<Rightarrow> command option" where
  "list_NewRayJobCmd pf = map_option (\<lambda>fs. Command ''rayjob'' NoArgs fs [] []) (list_flags pf)"

definition list_NewRayClusterCmd :: "flag_def list \<Rightarrow> command option" where
  "list_NewRayClusterCmd pf = map_option (\<lambda>fs. Command ''raycluster'' NoArgs fs [] []) (list_flags pf)"

definition list_NewSlurmCmd :: "flag_def list \<Rightarrow> command option" where
  "list_NewSlurmCmd pf = map_option (\<lambda>fs. Command ''slurm'' AnyArgs fs [] []) (list_flags pf)"

definition list_command :: "flag_def list \<Rightarrow> command option" where
  "list_command pf = map_option (Command ''list'' AnyArgs [] [])
     (those [list_NewJobCmd pf, list_NewInteractiveCmd pf, list_NewRayJobCmd pf, list_NewRayClusterCmd pf, list_NewSlurmCmd pf])"

text \<open>The commands of \<open>delete\<close>: their own flags are persistent ones.\<close>

definition delete_persistent :: "flag_def list option" where
  "delete_persistent = Option.bind (addCascadingFlag_set []) AddDryRunFlag_set"

definition new_delete_cmd :: "string \<Rightarrow> flag_def list \<Rightarrow> command option" where
  "new_delete_cmd name pf =
     Option.bind delete_persistent (\<lambda>ps.
       map_option (\<lambda>fs. Command name (MinimumNArgs 1) fs ps []) (AddFlags [] pf))"

definition delete_NewInteractiveCmd :: "flag_def list \<Rightarrow> command option" where
  "delete_NewInteractiveCmd = new_delete_cmd ''interactive''"

definition delete_NewJobCmd :: "flag_def list \<Rightarrow> command option" where
  "delete_NewJobCmd = new_delete_cmd ''job''"

definition delete_NewRayJobCmd :: "flag_def list \<Rightarrow> command option" where
  "delete_NewRayJobCmd = new_delete_cmd ''rayjob''"

definition delete_NewRayClusterCmd :: "flag_def list \<Rightarrow> command option" where
  "delete_NewRayClusterCmd = new_delete_cmd ''raycluster''"

definition delete_NewSlurmCmd :: "flag_def list \<Rightarrow> command option" where
  "delete_NewSlurmCmd = new_delete_cmd ''slurm''"

definition delete_command_tree :: "flag_def list \<Rightarrow> command option" where
  "delete_command_tree pf = map_option (Command ''delete'' AnyArgs [] [])
     (those [delete_NewInteractiveCmd pf, delete_NewJobCmd pf, delete_NewRayJobCmd pf, delete_NewRayClusterCmd pf,
        delete_NewSlurmCmd pf])"

definition describe_command :: "command option" where
  "describe_command = map_option (\<lambda>fs. Command ''describe'' (RangeArgs 1 2) fs [] [])
     (Option.bind (AddAllNamespacesFlagVar []) (\<lambda>fs. Option.bind (AddLabelSelectorFlagVar fs) AddProfileFlagVar))"

definition command_of :: "subcommand \<Rightarrow> command" where
  "command_of c = Command (sc_Name c) (sc_Args c) (sc_Flags c) (sc_PersistentFlags c) []"

definition create_command :: "flag_def list \<Rightarrow> command option" where
  "create_command pf = map_option (\<lambda>cs. Command ''create'' AnyArgs [] [] (map command_of cs)) (NewCreateCmd pf)"

definition GitVersion :: string where "GitVersion = ''v0.0.0-main''"

definition version_Run :: string where
  "version_Run = ''Client Version: '' @ GitVersion @ eol"

definition NewVersionCmd :: command where
  "NewVersionCmd = Command ''version'' NoArgs [] [] []"

definition printcrds_NewCmd :: command where
  "printcrds_NewCmd = Command ''printcrds'' AnyArgs [] [] []"

text \<open>
  The body of \<open>printcrds\<close>. \<open>gzip.NewReader\<close> on the embedded file is a parameter: it fails, or reads give
  pieces and end with or without an error; \<open>io.Copy\<close> writes each piece before it reads the next.
\<close>

fun io_Copy :: "(string \<Rightarrow> 'w \<Rightarrow> 'w \<times> string option) \<Rightarrow> string list \<Rightarrow> string option \<Rightarrow> 'w \<Rightarrow> 'w \<times> string option" where
  "io_Copy write_bytes [] err w = (w, err)"
| "io_Copy write_bytes (b # bs) err w =
     (case write_bytes b w of (w, None) \<Rightarrow> io_Copy write_bytes bs err w | (w, Some e) \<Rightarrow> (w, Some e))"

definition printcrds_RunE ::
  "(string \<Rightarrow> string + string list \<times> string option) \<Rightarrow> (string \<Rightarrow> 'w \<Rightarrow> 'w \<times> string option) \<Rightarrow> string \<Rightarrow> 'w \<Rightarrow> 'w \<times> string option" where
  "printcrds_RunE gzip_NewReader write_bytes crds w =
     (case gzip_NewReader crds of Inl err \<Rightarrow> (w, Some err) | Inr (bytes, err) \<Rightarrow> io_Copy write_bytes bytes err w)"

text \<open>On an output that takes every write, all bytes that could be unpacked are printed.\<close>

lemma printcrds_RunE_prints:
  "gzip_NewReader crds = Inr (bytes, err) \<Longrightarrow>
     printcrds_RunE gzip_NewReader (\<lambda>b w. (w @ b, None)) crds w = (w @ concat bytes, err)"
proof -
  have "io_Copy (\<lambda>b w. (w @ b, None)) bytes err w = (w @ concat bytes, err)"
    by (induction bytes arbitrary: w) simp_all
  then show "gzip_NewReader crds = Inr (bytes, err) \<Longrightarrow> ?thesis" by (simp add: printcrds_RunE_def)
qed

text \<open>The root: the flags of the kube configuration are persistent, four of them have completions.\<close>

definition NewKjobctlCmd :: "flag_def list \<Rightarrow> flag_def list \<Rightarrow> command option" where
  "NewKjobctlCmd configFlags pf =
     Option.bind (AddFlags [] configFlags) (\<lambda>flags.
     Option.bind (RegisterFlagCompletionFunc ''namespace'' flags) (\<lambda>_.
     Option.bind (RegisterFlagCompletionFunc ''context'' flags) (\<lambda>_.
     Option.bind (RegisterFlagCompletionFunc ''cluster'' flags) (\<lambda>_.
     Option.bind (RegisterFlagCompletionFunc ''user'' flags) (\<lambda>_.
       map_option (Command ''kjobctl'' AnyArgs [] flags)
         (those [create_command pf, describe_command, list_command pf, delete_command_tree pf,
            Some printcrds_NewCmd, Some NewVersionCmd]))))))"

section \<open>Parsing a command line\<close>

text \<open>
  Before cobra parses a command line it merges the command's own flags with its persistent ones and
  those of its parents: a name that is taken is skipped, a shorthand that is taken is a panic.
\<close>

fun AddFlagSet :: "flag_def list \<Rightarrow> flag_def list \<Rightarrow> flag_def list option" where
  "AddFlagSet fs [] = Some fs"
| "AddFlagSet fs (f # new) =
     (if fd_Name f \<in> set (map fd_Name fs) then AddFlagSet fs new
      else Option.bind (AddFlag fs f) (\<lambda>fs. AddFlagSet fs new))"

definition mergePersistentFlags :: "flag_def list \<Rightarrow> command \<Rightarrow> flag_def list option" where
  "mergePersistentFlags parents c =
     Option.bind (AddFlagSet (cmd_Flags c) (cmd_Persistent c)) (\<lambda>fs. AddFlagSet fs parents)"

fun all_merges :: "flag_def list \<Rightarrow> command \<Rightarrow> flag_def list option list" where
  "all_merges parents (Command n a fs ps cs) =
     mergePersistentFlags parents (Command n a fs ps cs) # concat (map (all_merges (ps @ parents)) cs)"

text \<open>The subcommand with a name.\<close>

fun find_command :: "string list \<Rightarrow> command \<Rightarrow> command option" where
  "find_command [] c = Some c"
| "find_command (n # ns) c =
     (case filter (\<lambda>d. cmd_Name d = n) (cmd_Subcommands c) of [] \<Rightarrow> None | d # ds \<Rightarrow> find_command ns d)"

section \<open>Compatible flags\<close>

text \<open>
  What the command relies on of the flags of \<open>cli-runtime\<close>: names and shorthands are distinct and not
  those of the command, and the configuration has the four flags with completions.
\<close>

definition kjobctl_names :: "string list" where
  "kjobctl_names = own_flag_names @ [''all-namespaces'', ''field-selector'', ''selector'', ''cascade'', ''dry-run'']"

definition compatible_cli :: "flag_def list \<Rightarrow> flag_def list \<Rightarrow> bool" where
  "compatible_cli cf pf \<longleftrightarrow> flags_ok (pf @ cf) \<and> set (map fd_Name (pf @ cf)) \<inter> set kjobctl_names = {} \<and>
     set (map fd_Shorthand (pf @ cf)) \<inter> {''p'', ''t'', ''A'', ''l'', ''q''} = {} \<and>
     {''namespace'', ''context'', ''cluster'', ''user''} \<subseteq> set (map fd_Name cf)"

lemma flags_ok_append2: "flags_ok (fs @ gs) \<Longrightarrow> flags_ok gs"
  by (simp add: flags_ok_def)

lemma flags_ok_mset: "mset fs = mset gs \<Longrightarrow> flags_ok fs = flags_ok gs"
proof -
  assume m: "mset fs = mset gs"
  from m have "mset (map fd_Name fs) = mset (map fd_Name gs)" by simp
  moreover from m have "mset (filter (\<lambda>s. s \<noteq> []) (map fd_Shorthand fs)) = mset (filter (\<lambda>s. s \<noteq> []) (map fd_Shorthand gs))"
    by simp
  ultimately show ?thesis unfolding flags_ok_def by (metis mset_eq_imp_distinct_iff)
qed

lemma compatible_cli_flags: "compatible_cli cf pf \<Longrightarrow> compatible_flags pf"
  unfolding compatible_cli_def compatible_flags_def kjobctl_names_def
  by (auto dest: flags_ok_append1)

text \<open>A table of the command's own flags.\<close>

definition own_table :: "flag_def list \<Rightarrow> bool" where
  "own_table own \<longleftrightarrow> flags_ok own \<and>
     list_all (\<lambda>f. fd_Name f \<in> set kjobctl_names \<and> fd_Shorthand f \<in> {[], ''p'', ''t'', ''A'', ''l'', ''q''}) own"

lemma own_table_ok:
  assumes "compatible_cli cf pf" and "own_table own"
  shows "flags_ok (pf @ own @ cf)"
proof -
  have "flags_ok ((pf @ cf) @ own)"
  proof (rule flags_ok_append)
    fix f g
    assume f: "f \<in> set (pf @ cf)" and g: "g \<in> set own"
    from assms(2) g have "fd_Name g \<in> set kjobctl_names" "fd_Shorthand g \<in> {[], ''p'', ''t'', ''A'', ''l'', ''q''}"
      unfolding own_table_def list_all_iff by blast+
    moreover from f have "fd_Name f \<in> set (map fd_Name (pf @ cf))" "fd_Shorthand f \<in> set (map fd_Shorthand (pf @ cf))"
      unfolding set_map by blast+
    with assms(1) have "fd_Name f \<notin> set kjobctl_names" "fd_Shorthand f \<notin> {''p'', ''t'', ''A'', ''l'', ''q''}"
      unfolding compatible_cli_def by blast+
    ultimately show "fd_Name f \<noteq> fd_Name g \<and> (fd_Shorthand f = fd_Shorthand g \<longrightarrow> fd_Shorthand g = [])"
      by auto
  qed (use assms in \<open>simp_all add: compatible_cli_def own_table_def\<close>)
  then show ?thesis by (subst flags_ok_mset [of _ "(pf @ cf) @ own"]) simp_all
qed

lemma AddFlagSet_ok: "flags_ok (fs @ new) \<Longrightarrow> AddFlagSet fs new = Some (fs @ new)"
proof (induction new arbitrary: fs)
  case (Cons f new)
  then have "flags_ok (fs @ [f])" using flags_ok_append1 [of "fs @ [f]" new] by simp
  then have "AddFlag fs f = Some (fs @ [f])" "fd_Name f \<notin> set (map fd_Name fs)"
    using flags_ok_append1 [of fs "[f]"] by (auto simp: AddFlag_ok flags_ok_def)
  with Cons show ?case by simp
qed simp

lemma merge_ok:
  assumes "flags_ok (cmd_Flags c @ cmd_Persistent c @ parents)"
  shows "mergePersistentFlags parents c = Some (cmd_Flags c @ cmd_Persistent c @ parents)"
  using assms AddFlagSet_ok [of "cmd_Flags c" "cmd_Persistent c"] AddFlagSet_ok [of "cmd_Flags c @ cmd_Persistent c" parents]
    flags_ok_append1 [of "cmd_Flags c @ cmd_Persistent c" parents]
  by (simp add: mergePersistentFlags_def)

section \<open>The tree\<close>

definition list_own :: "flag_def list" where
  "list_own =
     [flag_of ''all-namespaces'' ''A'' (BoolValue False), flag_of ''field-selector'' [] (StringValue []),
      flag_of ''selector'' ''l'' (StringValue []), flag_of ''profile'' ''p'' (StringValue []),
      flag_of ''localqueue'' ''q'' (StringValue [])]"

definition dry_run_flag :: flag_def where
  "dry_run_flag = flag_of ''dry-run'' [] (StringValue ''none'')"

definition cascade_flag :: flag_def where
  "cascade_flag = flag_of ''cascade'' [] (StringValue ''background'')"

definition describe_own :: "flag_def list" where
  "describe_own =
     [flag_of ''all-namespaces'' ''A'' (BoolValue False), flag_of ''selector'' ''l'' (StringValue []),
      flag_of ''profile'' ''p'' (StringValue [])]"

lemma own_tables:
  "own_table []" "own_table list_own" "own_table [cascade_flag, dry_run_flag]" "own_table describe_own"
  by code_simp+

lemma own_table_create: "own_table (common_flags @ mode_flags mode @ [dry_run_flag])"
  by (cases mode; simp only:; code_simp)

lemma AddFlags_append: "AddFlags fs (xs @ ys) = Option.bind (AddFlags fs xs) (\<lambda>fs. AddFlags fs ys)"
proof (induction xs arbitrary: fs)
  case (Cons x xs)
  then show ?case by (cases "AddFlag fs x") simp_all
qed simp

lemma list_flags_ok:
  assumes "compatible_cli cf pf"
  shows "list_flags pf = Some (pf @ list_own)"
proof -
  have "flags_ok (pf @ list_own)"
    using own_table_ok [OF assms own_tables(2)] flags_ok_append1 [of "pf @ list_own" cf] by simp
  then have "AddFlags [] (pf @ list_own) = Some (pf @ list_own)" using AddFlags_ok [of "[]" "pf @ list_own"] by simp
  moreover note AddFlags_append [of "[]" pf list_own]
  moreover have "list_flags pf = Option.bind (Option.bind (AddFlags [] pf) (\<lambda>fs. AddFlags fs list_own))
      (\<lambda>fs. Option.bind (RegisterFlagCompletionFunc ''profile'' fs) (RegisterFlagCompletionFunc ''localqueue''))"
    by (simp add: list_flags_def add_flag_defs list_own_def)
  ultimately have "list_flags pf = Option.bind (Some (pf @ list_own))
      (\<lambda>fs. Option.bind (RegisterFlagCompletionFunc ''profile'' fs) (RegisterFlagCompletionFunc ''localqueue''))"
    by metis
  then show ?thesis by (simp add: RegisterFlagCompletionFunc_def list_own_def)
qed


text \<open>The whole tree, for compatible flags.\<close>

definition kjobctl_tree :: "flag_def list \<Rightarrow> flag_def list \<Rightarrow> command" where
  "kjobctl_tree cf pf =
     Command ''kjobctl'' AnyArgs [] cf
       [Command ''create'' AnyArgs [] []
          (map (\<lambda>(n, m). Command n (if m = SlurmMode then MinimumNArgs 1 else NoArgs) (pf @ common_flags @ mode_flags m)
             [dry_run_flag] []) createModeSubcommands),
        Command ''describe'' (RangeArgs 1 2) describe_own [] [],
        Command ''list'' AnyArgs [] []
          (map (\<lambda>(n, a). Command n a (pf @ list_own) [] [])
             [(''job'', AnyArgs), (''interactive'', AnyArgs), (''rayjob'', NoArgs), (''raycluster'', NoArgs), (''slurm'', AnyArgs)]),
        Command ''delete'' AnyArgs [] []
          (map (\<lambda>n. Command n (MinimumNArgs 1) pf [cascade_flag, dry_run_flag] [])
             [''interactive'', ''job'', ''rayjob'', ''raycluster'', ''slurm'']),
        printcrds_NewCmd, NewVersionCmd]"

lemma create_command_tree:
  assumes "compatible_flags pf"
  shows "create_command pf = Some (Command ''create'' AnyArgs [] []
    (map (\<lambda>(n, m). Command n (if m = SlurmMode then MinimumNArgs 1 else NoArgs) (pf @ common_flags @ mode_flags m)
       [dry_run_flag] []) createModeSubcommands))"
proof -
  have "NewCreateCmd pf = Some (map (\<lambda>e. the (create_subcommand pf e)) createModeSubcommands)"
    unfolding NewCreateCmd_def
    by (rule those_map_Some) (use create_subcommand_flags [OF assms] in \<open>auto split: prod.splits\<close>)
  then show ?thesis
    by (simp add: create_command_def command_of_def create_subcommand_flags [OF assms] dry_run_flag_def
        createModeSubcommands_def del: mode_flags.simps)
qed

lemma list_command_tree:
  "compatible_cli cf pf \<Longrightarrow> list_command pf = Some (Command ''list'' AnyArgs [] []
     (map (\<lambda>(n, a). Command n a (pf @ list_own) [] [])
       [(''job'', AnyArgs), (''interactive'', AnyArgs), (''rayjob'', NoArgs), (''raycluster'', NoArgs), (''slurm'', AnyArgs)]))"
  by (simp add: list_command_def list_NewJobCmd_def list_NewInteractiveCmd_def list_NewRayJobCmd_def
      list_NewRayClusterCmd_def list_NewSlurmCmd_def list_flags_ok)

lemma delete_tree:
  assumes "compatible_cli cf pf"
  shows "delete_command_tree pf = Some (Command ''delete'' AnyArgs [] []
     (map (\<lambda>n. Command n (MinimumNArgs 1) pf [cascade_flag, dry_run_flag] [])
       [''interactive'', ''job'', ''rayjob'', ''raycluster'', ''slurm'']))"
proof -
  have "flags_ok pf" using assms flags_ok_append1 [of pf cf] by (simp add: compatible_cli_def)
  then have flags: "AddFlags [] pf = Some pf" using AddFlags_ok [of "[]" pf] by simp
  have persistent: "delete_persistent = Some [cascade_flag, dry_run_flag]" by code_simp
  have "new_delete_cmd n pf = Some (Command n (MinimumNArgs 1) pf [cascade_flag, dry_run_flag] [])" for n
    unfolding new_delete_cmd_def persistent flags by simp
  then show ?thesis
    by (simp add: delete_command_tree_def delete_NewInteractiveCmd_def delete_NewJobCmd_def delete_NewRayJobCmd_def
        delete_NewRayClusterCmd_def delete_NewSlurmCmd_def)
qed

lemma describe_tree: "describe_command = Some (Command ''describe'' (RangeArgs 1 2) describe_own [] [])"
  by code_simp

lemma NewKjobctlCmd_tree:
  assumes "compatible_cli cf pf"
  shows "NewKjobctlCmd cf pf = Some (kjobctl_tree cf pf)"
proof -
  have "flags_ok cf" using assms flags_ok_append2 [of pf cf] by (simp add: compatible_cli_def)
  then have flags: "AddFlags [] cf = Some cf" using AddFlags_ok [of "[]" cf] by simp
  have "RegisterFlagCompletionFunc n cf = Some cf" if "n \<in> {''namespace'', ''context'', ''cluster'', ''user''}" for n
    using assms that unfolding RegisterFlagCompletionFunc_def compatible_cli_def by auto
  then show ?thesis
    by (simp add: NewKjobctlCmd_def flags describe_tree create_command_tree [OF compatible_cli_flags [OF assms]]
        list_command_tree [OF assms] delete_tree [OF assms] kjobctl_tree_def)
qed

text \<open>
  C14. The command line tool starts: with flags of \<open>cli-runtime\<close> that are compatible with its own, the tree
  of commands is built without a panic, merging the flags of any command with the persistent flags
  of its parents does not panic either, and \<open>create\<close>, \<open>list\<close> and \<open>delete\<close> each have a command for every mode.
\<close>

theorem kjobctl_commands_parse:
  assumes "compatible_cli cf pf"
  shows "\<exists>root. NewKjobctlCmd cf pf = Some root \<and> None \<notin> set (all_merges [] root) \<and>
    list_all (\<lambda>verb. find_command [verb, to_lower (mode_name mode)] root \<noteq> None) [''create'', ''list'', ''delete'']"
proof (intro exI conjI)
  show "NewKjobctlCmd cf pf = Some (kjobctl_tree cf pf)" by (rule NewKjobctlCmd_tree [OF assms])
  have pc: "flags_ok (pf @ own @ cf)" if "own_table own" for own by (rule own_table_ok [OF assms that])
  have c: "flags_ok (own @ cf)" if "own_table own" for own using flags_ok_append2 [OF pc [OF that]] .
  have merges: "mergePersistentFlags [] (Command n a [] cf cs) \<noteq> None"
    "mergePersistentFlags cf (Command n a [] [] cs) \<noteq> None"
    "mergePersistentFlags cf (Command n a describe_own [] cs) \<noteq> None"
    "mergePersistentFlags cf (Command n a (pf @ list_own) [] cs) \<noteq> None"
    "mergePersistentFlags cf (Command n a pf [cascade_flag, dry_run_flag] cs) \<noteq> None"
    "mergePersistentFlags cf (Command n a (pf @ common_flags @ mode_flags m) [dry_run_flag] cs) \<noteq> None" for n a cs m
    using c [OF own_tables(1)] c [OF own_tables(4)] pc [OF own_tables(2)] pc [OF own_tables(3)] pc [OF own_table_create [of m]]
    by (simp_all add: merge_ok del: mode_flags.simps)
  show "None \<notin> set (all_merges [] (kjobctl_tree cf pf))"
    using merges merges [symmetric] by (simp add: kjobctl_tree_def createModeSubcommands_def printcrds_NewCmd_def NewVersionCmd_def
        del: mode_flags.simps not_None_eq)
  have "to_lower (mode_name mode) \<in> {''interactive'', ''job'', ''rayjob'', ''raycluster'', ''slurm''}"
    by (cases mode; simp only:; code_simp)
  then show "list_all (\<lambda>verb. find_command [verb, to_lower (mode_name mode)] (kjobctl_tree cf pf) \<noteq> None)
      [''create'', ''list'', ''delete'']"
    by (auto simp: kjobctl_tree_def createModeSubcommands_def)
qed

definition kube_config_flags :: "flag_def list" where
  "kube_config_flags =
     [flag_of ''namespace'' ''n'' (StringValue []), flag_of ''context'' [] (StringValue []),
      flag_of ''cluster'' [] (StringValue []), flag_of ''user'' [] (StringValue []),
      flag_of ''server'' ''s'' (StringValue []), flag_of ''kubeconfig'' [] (StringValue [])]"

theorem kjobctl_commands_parse_witness:
  "compatible_cli kube_config_flags kubectl_print_flags \<and>
   (\<exists>root. NewKjobctlCmd kube_config_flags kubectl_print_flags = Some root \<and> None \<notin> set (all_merges [] root) \<and>
     find_command [''list'', ''rayjob''] root \<noteq> None)"
proof -
  have compatible: "compatible_cli kube_config_flags kubectl_print_flags" by code_simp
  have name: "to_lower (mode_name RayJobMode) = ''rayjob''" by code_simp
  from kjobctl_commands_parse [OF compatible, of RayJobMode] compatible show ?thesis
    unfolding name by (auto simp del: find_command.simps)
qed

end
