(* ===== verification/LogStream.thy ===== *)
theory LogStream
  imports CreateCmd
begin

text \<open>
  What a log stream of \<open>create slurm --wait\<close> writes (\<open>streamLogsFromPodContainer\<close> and the body of the goroutine
  in \<open>streamLogsFromPod\<close>), and the adapter of terminal sizes. The clientset, the stream of the logs with the
  bytes it gives before it ends, and Go's quoting are parameters.
\<close>

text \<open>An error with its message, and whether it wraps one of the two errors of an ended context.\<close>

record log_error =
  le_Message :: string
  le_Canceled :: bool
  le_DeadlineExceeded :: bool

record pod_log_options =
  plo_Container :: string
  plo_Follow :: bool

text \<open>\<open>GetLogs(...).Stream\<close> fails, or gives bytes until they end or reading them fails.\<close>

record log_world =
  lg_K8sClientset :: "log_error option"
  lg_Stream :: "string \<Rightarrow> string \<Rightarrow> pod_log_options \<Rightarrow> log_error + string \<times> log_error option"
  lg_quote :: "string \<Rightarrow> string"

text \<open>The name of a container, the line before its logs and the line that reports an error.\<close>

definition container_name :: "'q live_pod \<Rightarrow> nat \<Rightarrow> string" where
  "container_name pod i = ctr_Name (pod_Containers pod ! i)"

definition announcement :: "log_world \<Rightarrow> 'q live_pod \<Rightarrow> nat \<Rightarrow> string" where
  "announcement L pod i =
     ''Starting log streaming for pod '' @ lg_quote L (meta_Name (pod_Meta pod)) @ '' container '' @
     lg_quote L (container_name pod i) @ ''...'' @ newline"

definition error_report :: "log_world \<Rightarrow> 'q live_pod \<Rightarrow> nat \<Rightarrow> log_error \<Rightarrow> string" where
  "error_report L pod i err =
     ''Error streaming logs from pod '' @ lg_quote L (meta_Name (pod_Meta pod)) @ '' container '' @
     lg_quote L (container_name pod i) @ '': '' @ le_Message err @ newline"

definition log_options :: "'q live_pod \<Rightarrow> nat \<Rightarrow> pod_log_options" where
  "log_options pod i = \<lparr>plo_Container = container_name pod i, plo_Follow = (pod_Phase pod = ''Running'')\<rparr>"

definition streamLogsFromPodContainer ::
  "log_world \<Rightarrow> string \<Rightarrow> 'q live_pod \<Rightarrow> nat \<Rightarrow> string \<times> log_error option" where
  "streamLogsFromPodContainer L namespace pod containerIndex =
     (case lg_K8sClientset L of
       Some err \<Rightarrow> ([], Some err)
     | None \<Rightarrow>
         (case lg_Stream L namespace (meta_Name (pod_Meta pod)) (log_options pod containerIndex) of
           Inl err \<Rightarrow> (announcement L pod containerIndex, Some err)
         | Inr (bytes, err) \<Rightarrow> (announcement L pod containerIndex @ bytes, err)))"

definition stream_container :: "log_world \<Rightarrow> string \<Rightarrow> 'q live_pod \<Rightarrow> nat \<Rightarrow> string" where
  "stream_container L namespace pod index =
     (case streamLogsFromPodContainer L namespace pod index of
       (out, None) \<Rightarrow> out
     | (out, Some err) \<Rightarrow>
         if \<not> le_Canceled err \<and> \<not> le_DeadlineExceeded err then out @ error_report L pod index err else out)"

text \<open>The terminal sizes of \<open>term\<close>, handed on; a nil size stays nil.\<close>

record terminal_size =
  ts_Width :: "16 word"
  ts_Height :: "16 word"

definition terminalSizeQueueAdapter_Next :: "terminal_size option \<Rightarrow> terminal_size option" where
  "terminalSizeQueueAdapter_Next next_size =
     (case next_size of None \<Rightarrow> None | Some sz \<Rightarrow> Some \<lparr>ts_Width = ts_Width sz, ts_Height = ts_Height sz\<rparr>)"

lemma adapter_keeps_size: "terminalSizeQueueAdapter_Next = id"
  by (rule ext) (simp add: terminalSizeQueueAdapter_Next_def split: option.split)

text \<open>
  All bytes the server sent are written, after one line that names the pod and the container, and
  before the report of an error; a context that ended is not reported.
\<close>

lemma stream_container_bytes:
  assumes "lg_K8sClientset L = None"
    and "lg_Stream L namespace (meta_Name (pod_Meta pod)) (log_options pod i) = Inr (bytes, err)"
  shows "stream_container L namespace pod i = announcement L pod i @ bytes @
    (case err of Some e \<Rightarrow> if le_Canceled e \<or> le_DeadlineExceeded e then [] else error_report L pod i e | None \<Rightarrow> [])"
  using assms by (cases err) (simp_all add: stream_container_def streamLogsFromPodContainer_def)

end
