(* ===== verification/GoPath.thy ===== *)
theory GoPath
  imports GoStd
begin

text \<open>
  More of Go's standard library, for the documentation generator: \<open>path/filepath\<close> with \<open>Clean\<close> and
  \<open>Join\<close> on Unix paths, \<open>strings.ReplaceAll\<close>, \<open>TrimPrefix\<close> and \<open>TrimSuffix\<close>, and \<open>html.EscapeString\<close>.
\<close>

section \<open>Paths\<close>

text \<open>
  The elements of a path from left to right: empty ones and dots go, two dots take back the element
  before them, and at the start of a relative path they stay.
\<close>

fun clean_elems :: "bool \<Rightarrow> string list \<Rightarrow> string list \<Rightarrow> string list" where
  "clean_elems rooted done_rev [] = rev done_rev"
| "clean_elems rooted done_rev (e # es) =
     (if e = [] \<or> e = ''.'' then clean_elems rooted done_rev es
      else if e = ''..'' then
        (case done_rev of
           [] \<Rightarrow> clean_elems rooted (if rooted then [] else [e]) es
         | d # ds \<Rightarrow> clean_elems rooted (if d = ''..'' then e # done_rev else ds) es)
      else clean_elems rooted (e # done_rev) es)"

text \<open>A cleaned path: whether it starts at the root, and its elements.\<close>

type_synonym path_key = "bool \<times> string list"

definition path_rooted :: "string \<Rightarrow> bool" where
  "path_rooted p \<longleftrightarrow> p \<noteq> [] \<and> hd p = CHR ''/''"

definition resolve :: "string \<Rightarrow> path_key" where
  "resolve p = (path_rooted p, clean_elems (path_rooted p) [] (split_on (CHR ''/'') p))"

definition path_render :: "path_key \<Rightarrow> string" where
  "path_render k =
     (let s = (if fst k then ''/'' else []) @ str_join ''/'' (snd k) in if s = [] then ''.'' else s)"

definition path_clean :: "string \<Rightarrow> string" where
  "path_clean p = path_render (resolve p)"

definition path_join :: "string list \<Rightarrow> string" where
  "path_join es =
     (let es = dropWhile (\<lambda>e. e = []) es in if es = [] then [] else path_clean (str_join ''/'' es))"

definition parent_key :: "path_key \<Rightarrow> path_key" where
  "parent_key k = (fst k, butlast (snd k))"

definition below :: "path_key \<Rightarrow> string list \<Rightarrow> path_key" where
  "below k ns = (fst k, snd k @ ns)"

text \<open>A name of a directory entry.\<close>

definition entry_name :: "string \<Rightarrow> bool" where
  "entry_name n \<longleftrightarrow> n \<notin> {[], ''.'', ''..''} \<and> CHR ''/'' \<notin> set n"

lemma below_simps [simp]:
  "below k [] = k" "below (below k ns) ms = below k (ns @ ms)" "parent_key (below k (ns @ [n])) = below k ns"
  "below k ns = below k ms \<longleftrightarrow> ns = ms"
  by (simp_all add: below_def parent_key_def prod_eq_iff butlast_append)

lemma parent_below_one [simp]: "parent_key (below k [n]) = k" "parent_key (below k [m, n]) = below k [m]"
  using below_simps(3) [of k "[]" n] below_simps(3) [of k "[m]" n] by simp_all

lemma below_eq_self [simp]: "below k ns = k \<longleftrightarrow> ns = []" "k = below k ns \<longleftrightarrow> ns = []"
  by (auto simp: below_def prod_eq_iff)

text \<open>Cleaned elements: two dots only at the front, and only in a relative path.\<close>

definition clean_list :: "bool \<Rightarrow> string list \<Rightarrow> bool" where
  "clean_list rooted es \<longleftrightarrow>
     (\<exists>k ns. es = replicate k ''..'' @ ns \<and> (\<forall>n \<in> set ns. entry_name n) \<and> (rooted \<longrightarrow> k = 0))"

lemma clean_listI:
  "es = replicate k ''..'' @ ns \<Longrightarrow> \<forall>n \<in> set ns. entry_name n \<Longrightarrow> r \<longrightarrow> k = 0 \<Longrightarrow> clean_list r es"
  unfolding clean_list_def by blast

lemma clean_listE:
  assumes "clean_list r es"
  obtains k ns where "es = replicate k ''..'' @ ns" and "\<forall>n \<in> set ns. entry_name n" and "r \<longrightarrow> k = 0"
  using assms unfolding clean_list_def by blast

lemma clean_list_snoc: "clean_list r es \<Longrightarrow> entry_name n \<Longrightarrow> clean_list r (es @ [n])"
proof -
  assume "clean_list r es" and n: "entry_name n"
  then obtain k ns where "es = replicate k ''..'' @ ns" "\<forall>n \<in> set ns. entry_name n" "r \<longrightarrow> k = 0"
    by (elim clean_listE)
  with n show ?thesis by (intro clean_listI [of _ k "ns @ [n]"]) auto
qed

lemma clean_list_dots: "clean_list False (replicate k ''..'')"
  by (rule clean_listI [of _ k "[]"]) auto

lemma clean_list_rooted: "clean_list True es \<Longrightarrow> ''..'' \<notin> set es"
  by (elim clean_listE) (auto simp: entry_name_def)

lemma clean_list_butlast: "clean_list r es \<Longrightarrow> clean_list r (butlast es)"
proof -
  assume "clean_list r es"
  then obtain k ns where es: "es = replicate k ''..'' @ ns" "\<forall>n \<in> set ns. entry_name n" "r \<longrightarrow> k = 0"
    by (rule clean_listE)
  show ?thesis
  proof (cases "ns = []")
    case True
    with es have "butlast es = replicate (k - 1) ''..'' @ []" by (cases k) (simp_all add: replicate_append_same [symmetric])
    then show ?thesis by (rule clean_listI) (use es in auto)
  next
    case False
    with es have "butlast es = replicate k ''..'' @ butlast ns" by (simp add: butlast_append)
    then show ?thesis by (rule clean_listI) (use es in \<open>auto dest: in_set_butlastD\<close>)
  qed
qed

lemma clean_list_last_dots:
  assumes "clean_list r es" and "es \<noteq> []" and "last es = ''..''"
  shows "es = replicate (length es) ''..''"
proof -
  from assms obtain k ns where es: "es = replicate k ''..'' @ ns" "\<forall>n \<in> set ns. entry_name n"
    by (elim clean_listE)
  with assms(3) have "ns = []" by (metis entry_name_def insertCI last_appendR last_in_set)
  with es show ?thesis by simp
qed

lemma clean_elems_clean:
  assumes "clean_list r (rev ds)" and "\<forall>e \<in> set es. CHR ''/'' \<notin> set e"
  shows "clean_list r (clean_elems r ds es)"
  using assms
proof (induction r ds es rule: clean_elems.induct)
  case (2 rooted ds e es)
  consider "e = [] \<or> e = ''.''" | "e = ''..''" "ds = []" | d ds' where "e = ''..''" "ds = d # ds'" | "entry_name e"
    using 2 by (cases ds) (auto simp: entry_name_def)
  then show ?case
  proof cases
    case 2
    then show ?thesis
      using "2.IH" "2.prems" clean_list_dots [of 0] clean_list_dots [of 1] by (cases rooted) auto
  next
    case 3
    show ?thesis
    proof (cases "d = ''..''")
      case True
      have "rev ds = replicate (length ds) ''..''"
        using clean_list_last_dots [of rooted "rev ds"] "2.prems" True 3 by simp
      then have dots: "rev (e # ds) = replicate (Suc (length ds)) ''..''"
        using 3 by (simp add: replicate_append_same)
      have "\<not> rooted"
        using "2.prems"(1) True 3 clean_list_rooted [of "rev ds"] by (cases rooted) simp_all
      with dots "2.IH"(3) [of d ds'] "2.prems" True 3 clean_list_dots [of "Suc (length ds)"] show ?thesis by simp
    next
      case False
      with "2.IH"(3) [of d ds'] "2.prems" 3 clean_list_butlast [of rooted "rev ds"] show ?thesis by simp
    qed
  next
    case 4
    with "2.IH"(4) "2.prems" clean_list_snoc [of rooted "rev ds" e] show ?thesis by (simp add: entry_name_def)
  qed (use "2.IH"(1) "2.prems" in auto)
qed simp

lemma clean_elems_append:
  "clean_elems r ds (es @ fs) = clean_elems r (rev (clean_elems r ds es)) fs"
  by (induction r ds es rule: clean_elems.induct) (auto split: list.splits)

lemma clean_elems_names: "\<forall>n \<in> set ns. entry_name n \<Longrightarrow> clean_elems r ds ns = rev ds @ ns"
  by (induction ns arbitrary: ds) (auto simp: entry_name_def)

lemma clean_elems_dots: "clean_elems False (replicate j ''..'') (replicate k ''..'') = replicate (k + j) ''..''"
proof (induction k arbitrary: j)
  case (Suc k)
  have "clean_elems False (replicate j ''..'') (replicate (Suc k) ''..'') =
      clean_elems False (replicate (Suc j) ''..'') (replicate k ''..'')"
    by (cases j) simp_all
  with Suc [of "Suc j"] show ?case by simp
qed simp

lemma clean_elems_idem:
  assumes "clean_list r es"
  shows "clean_elems r [] es = es"
proof -
  from assms obtain k ns where es: "es = replicate k ''..'' @ ns" "\<forall>n \<in> set ns. entry_name n" "r \<longrightarrow> k = 0"
    by (rule clean_listE)
  then have "clean_elems r [] (replicate k ''..'') = replicate k ''..''"
    using clean_elems_dots [of 0 k] by (cases r) simp_all
  with es show ?thesis by (simp add: clean_elems_append clean_elems_names)
qed


lemma resolve_clean_list: "clean_list (fst (resolve p)) (snd (resolve p))"
  unfolding resolve_def fst_conv snd_conv
proof (rule clean_elems_clean)
  show "clean_list (path_rooted p) (rev [])" by (rule clean_listI [of _ 0 "[]"]) simp_all
qed (use split_on_no_sep in blast)

lemma clean_list_hd:
  assumes "clean_list r es" and "es \<noteq> []"
  shows "hd es \<noteq> []" and "CHR ''/'' \<notin> set (hd es)" and "\<forall>e \<in> set es. CHR ''/'' \<notin> set e"
proof -
  have "e \<noteq> [] \<and> CHR ''/'' \<notin> set e" if e: "e \<in> set es" for e
  proof -
    from assms(1) obtain k ns where "es = replicate k ''..'' @ ns" "\<forall>n \<in> set ns. entry_name n"
      by (elim clean_listE)
    with e have "e = ''..'' \<or> entry_name e" by (metis Un_iff in_set_replicate set_append)
    then show ?thesis by (elim disjE) (simp_all add: entry_name_def)
  qed
  with assms(2) show "hd es \<noteq> []" "CHR ''/'' \<notin> set (hd es)" "\<forall>e \<in> set es. CHR ''/'' \<notin> set e"
    by (meson hd_in_set, meson hd_in_set, blast)
qed

lemma str_join_hd: "hd es \<noteq> [] \<Longrightarrow> es \<noteq> [] \<Longrightarrow> str_join s es \<noteq> [] \<and> hd (str_join s es) = hd (hd es)"
  by (induction s es rule: str_join.induct) auto

text \<open>A cleaned path cleans to itself.\<close>

lemma resolve_render:
  assumes "clean_list r es"
  shows "resolve (path_render (r, es)) = (r, es)"
proof (cases "es = []")
  case True
  then show ?thesis by (cases r) (simp_all add: resolve_def path_render_def path_rooted_def)
next
  case False
  note h = clean_list_hd [OF assms False]
  have "split_on (CHR ''/'') (str_join ''/'' es) = es"
    using False h(3) by (intro split_join) auto
  moreover have "str_join ''/'' es \<noteq> []" "hd (str_join ''/'' es) \<noteq> CHR ''/''"
    using str_join_hd [OF h(1) False, of "''/''"] h(1,2) by (metis, metis hd_in_set)
  ultimately show ?thesis
    using clean_elems_idem [OF assms] by (cases r) (simp_all add: resolve_def path_render_def path_rooted_def)
qed

lemma resolve_clean [simp]: "resolve (path_clean p) = resolve p"
  using resolve_render [OF resolve_clean_list, of p] by (simp add: path_clean_def)

lemma path_clean_idem: "path_clean (path_clean p) = path_clean p"
  by (simp add: path_clean_def [of "path_clean p"] path_clean_def [of p, symmetric])

text \<open>The path of an entry below a directory.\<close>

lemma resolve_join_rel:
  assumes "d \<noteq> []" and "n \<noteq> []"
  shows "resolve (path_join [d, n]) =
    (fst (resolve d), clean_elems (fst (resolve d)) (rev (snd (resolve d))) (split_on (CHR ''/'') n))"
proof -
  have "resolve (path_join [d, n]) = resolve (d @ CHR ''/'' # n)"
    using assms by (simp add: path_join_def)
  also have "\<dots> = (path_rooted d, clean_elems (path_rooted d) [] (split_on (CHR ''/'') d @ split_on (CHR ''/'') n))"
    using assms by (simp add: resolve_def split_on_append path_rooted_def)
  finally show ?thesis by (simp add: clean_elems_append resolve_def [of d])
qed

lemma resolve_join_names:
  assumes "ns \<noteq> []" and "\<forall>n \<in> set ns. entry_name n"
  shows "resolve (path_join [d, str_join ''/'' ns]) = below (resolve d) ns"
proof -
  have hd: "hd ns \<noteq> []" "CHR ''/'' \<notin> set (hd ns)"
    using assms by (auto simp: entry_name_def)
  then have ne: "str_join ''/'' ns \<noteq> []" and "hd (str_join ''/'' ns) \<noteq> CHR ''/''"
    using str_join_hd [OF hd(1) assms(1), of "''/''"] by (blast, metis hd_in_set)
  have split: "split_on (CHR ''/'') (str_join ''/'' ns) = ns"
    using assms by (intro split_join) (auto simp: entry_name_def)
  show ?thesis
  proof (cases "d = []")
    case True
    with ne \<open>hd (str_join ''/'' ns) \<noteq> CHR ''/''\<close> show ?thesis
      by (simp add: path_join_def) (simp add: resolve_def path_rooted_def split clean_elems_names assms(2) below_def)
  next
    case False
    with ne show ?thesis
      by (simp add: resolve_join_rel split clean_elems_names assms(2) below_def)
  qed
qed

lemma resolve_join_name: "entry_name n \<Longrightarrow> resolve (path_join [d, n]) = below (resolve d) [n]"
  using resolve_join_names [of "[n]" d] by simp

lemma path_join_names:
  assumes "ns \<noteq> []" and "\<forall>n \<in> set ns. entry_name n"
  shows "path_join ns = str_join ''/'' ns"
proof -
  have hd: "hd ns \<noteq> []" "CHR ''/'' \<notin> set (hd ns)"
    using assms by (auto simp: entry_name_def)
  then have ne: "str_join ''/'' ns \<noteq> []" and "hd (str_join ''/'' ns) \<noteq> CHR ''/''"
    using str_join_hd [OF hd(1) assms(1), of "''/''"] by (blast, metis hd_in_set)
  moreover have "split_on (CHR ''/'') (str_join ''/'' ns) = ns"
    using assms by (intro split_join) (auto simp: entry_name_def)
  moreover have "dropWhile (\<lambda>e. e = []) ns = ns" using assms(1) hd by (cases ns) auto
  ultimately show ?thesis
    using assms by (simp add: path_join_def path_clean_def resolve_def path_rooted_def clean_elems_names path_render_def)
qed

section \<open>Replacing and trimming\<close>

text \<open>\<open>strings.ReplaceAll\<close> with a non-empty old string: the matches from the left that do not overlap.\<close>

fun replace_from :: "nat \<Rightarrow> string \<Rightarrow> string \<Rightarrow> string \<Rightarrow> string" where
  "replace_from k old new [] = []"
| "replace_from (Suc k) old new (c # cs) = replace_from k old new cs"
| "replace_from 0 old new (c # cs) =
     (if has_prefix (c # cs) old then new @ replace_from (length old - 1) old new cs
      else c # replace_from 0 old new cs)"

definition ReplaceAll :: "string \<Rightarrow> string \<Rightarrow> string \<Rightarrow> string" where
  "ReplaceAll s old new = replace_from 0 old new s"

definition TrimPrefix :: "string \<Rightarrow> string \<Rightarrow> string" where
  "TrimPrefix s p = (if has_prefix s p then drop (length p) s else s)"

definition TrimSuffix :: "string \<Rightarrow> string \<Rightarrow> string" where
  "TrimSuffix s p = (if has_suffix s p then take (length s - length p) s else s)"

lemma join_append_hd: "ps \<noteq> [] \<Longrightarrow> str_join sep ((x @ hd ps) # tl ps) = x @ str_join sep ps"
  by (cases ps; cases "tl ps") auto

lemma join_Nil_hd: "ps \<noteq> [] \<Longrightarrow> str_join sep ([] # ps) = sep @ str_join sep ps"
  by (cases ps) auto

text \<open>The result is the pieces between the matches, joined by the new string.\<close>

lemma replace_from_pieces:
  assumes "old \<noteq> []"
  shows "\<exists>ps. ps \<noteq> [] \<and> str_join old ps = drop k s \<and> replace_from k old new s = str_join new ps"
  using assms
proof (induction k old new s rule: replace_from.induct)
  case (1 k old new)
  show ?case by (rule exI [of _ "[[]]"]) simp
next
  case (3 old new c cs)
  show ?case
  proof (cases "has_prefix (c # cs) old")
    case True
    with 3 obtain ps where ps: "ps \<noteq> []" "str_join old ps = drop (length old - 1) cs"
      "replace_from (length old - 1) old new cs = str_join new ps" by blast
    have "c # cs = old @ drop (length old) (c # cs)"
      using True by (metis append_take_drop_id has_prefix_def)
    moreover have "drop (length old) (c # cs) = drop (length old - 1) cs"
      using 3(3) by (cases old) simp_all
    ultimately have "str_join old ([] # ps) = drop 0 (c # cs)"
      using ps join_Nil_hd [of ps old] by (metis drop_0)
    then show ?thesis
      using True ps by (intro exI [of _ "[] # ps"]) (simp add: join_Nil_hd)
  next
    case False
    with 3 obtain ps where ps: "ps \<noteq> []" "str_join old ps = cs" "replace_from 0 old new cs = str_join new ps"
      by auto
    with False show ?thesis
      using join_append_hd [of ps _ "[c]"] by (intro exI [of _ "([c] @ hd ps) # tl ps"]) auto
  qed
qed auto


lemma replace_one: "ReplaceAll s [c] new = str_join new (split_on c s)"
proof -
  have "replace_from 0 [c] new s = str_join new (split_on c s)"
  proof (induction s)
    case (Cons x xs)
    then show ?case
      using join_Nil_hd [of "split_on c xs" new] join_append_hd [of "split_on c xs" new "[x]"]
      by (auto simp: has_prefix_def)
  qed simp
  then show ?thesis by (simp add: ReplaceAll_def)
qed

lemma str_join_pieces: "p \<in> set ps \<Longrightarrow> set p \<subseteq> set (str_join sep ps)"
  by (induction sep ps rule: str_join.induct) auto

lemma set_TrimSuffix: "set (TrimSuffix s p) \<subseteq> set s"
  by (auto simp: TrimSuffix_def dest: in_set_takeD)

lemma TrimSuffix_append: "TrimSuffix (s @ p) p = s"
  by (auto simp: TrimSuffix_def has_suffix_iff_append)

lemma TrimPrefix_append: "TrimPrefix (p @ s) p = s"
  by (auto simp: TrimPrefix_def has_prefix_iff_append)

section \<open>Package html\<close>

text \<open>\<open>html.EscapeString\<close>: five characters become entities.\<close>

definition html_char :: "char \<Rightarrow> string" where
  "html_char c =
     (if c = CHR ''&'' then ''&amp;'' else if c = CHR 0x27 then ''&#39;'' else if c = CHR ''<'' then ''&lt;''
      else if c = CHR ''>'' then ''&gt;'' else if c = CHR 0x22 then ''&#34;'' else [c])"

definition EscapeString :: "string \<Rightarrow> string" where
  "EscapeString s = concat (map html_char s)"

text \<open>The characters that open a tag or end an attribute.\<close>

definition markup_chars :: "char set" where
  "markup_chars = {CHR ''<'', CHR ''>'', CHR 0x22, CHR 0x27}"

lemma html_char_markup: "set (html_char c) \<inter> markup_chars = {}"
  by (auto simp: html_char_def markup_chars_def)

lemma EscapeString_markup: "set (EscapeString s) \<inter> markup_chars = {}"
  using html_char_markup unfolding EscapeString_def set_concat set_map by blast

lemma EscapeString_free: "set s \<inter> insert (CHR ''&'') markup_chars = {} \<Longrightarrow> EscapeString s = s"
  by (induction s) (auto simp: EscapeString_def html_char_def markup_chars_def)

end
