(* ===== verification/DocGen.thy ===== *)
theory DocGen
  imports GoPath Utils
begin

text \<open>
  The documentation generator (\<open>cmd/kjobctl-docs/generators/doc.go\<close> and its \<open>main.go\<close>): the options and links
  of a page, the page of a command, and the walk over the tree of commands that makes the directories and
  writes the pages. What cobra reports of a command and its flags, the operations of the operating system
  and the templates are parameters; an error is its text.
\<close>

section \<open>Data\<close>

text \<open>What the generator reads of a \<open>pflag.Flag\<close>; the type and the text are those of its value.\<close>

record doc_flag =
  df_Name :: string
  df_Shorthand :: string
  df_Usage :: string
  df_Type :: string
  df_String :: string
  df_DefValue :: string
  df_NoOptDefVal :: string
  df_Deprecated :: string
  df_ShorthandDeprecated :: string
  df_Hidden :: bool

text \<open>
  What it reads of a \<open>cobra.Command\<close>; the flags are those cobra reports, in the order \<open>VisitAll\<close> gives them, after
  the default help flag has been added. The help command that cobra adds is not available and has no page.
\<close>

record doc_info =
  di_Name :: string
  di_CommandPath :: string
  di_Short :: string
  di_Long :: string
  di_Example :: string
  di_UseLine :: string
  di_Runnable :: bool
  di_IsAvailableCommand :: bool
  di_IsAdditionalHelpTopicCommand :: bool
  di_DisableAutoGenTag :: bool
  di_NonInheritedFlags :: "doc_flag list"
  di_InheritedFlags :: "doc_flag list"

datatype doc_command = DocCommand (dc_info: doc_info) (dc_Commands: "doc_command list")

record doc_option =
  do_Name :: string
  do_Shorthand :: string
  do_Usage :: string
  do_ValueType :: string
  do_DefVal :: string
  do_NoOptDefVal :: string

record doc_link =
  dl_Name :: string
  dl_Description :: string
  dl_Path :: string

record doc_reference =
  rf_NoList :: bool
  rf_Title :: string
  rf_Description :: string
  rf_ShowUseLine :: bool
  rf_UseLine :: string
  rf_ShowExample :: bool
  rf_Example :: string
  rf_Options :: "doc_option list"
  rf_InheritedOptions :: "doc_option list"
  rf_Links :: "doc_link list"

section \<open>Options\<close>

definition getValueType :: "doc_flag \<Rightarrow> string" where
  "getValueType flag =
     (let name = df_Type flag in
      if name = ''bool'' then []
      else if name \<in> {''float64'', ''float32''} then ''float''
      else if name \<in> {''int64'', ''int32'', ''int8''} then ''int''
      else if name \<in> {''uint64'', ''uint32'', ''uint8''} then ''uint''
      else if name \<in> {''stringSlice'', ''stringArray''} then ''strings''
      else if name \<in> {''float32Slice'', ''float64Slice''} then ''floats''
      else if name \<in> {''intSlice'', ''int32Slice'', ''int64Slice''} then ''ints''
      else if name = ''uintSlice'' then ''uints''
      else if name = ''boolSlice'' then ''bools''
      else if name = ''durationSlice'' then ''durations''
      else if name = ''stringToString'' then ''<comma-separated '' @ [CHR 0x27] @ ''key=value'' @ [CHR 0x27] @ '' pairs>''
      else if name = ''stringToInt'' then ''<comma-separated '' @ [CHR 0x27] @ ''key=int'' @ [CHR 0x27] @ '' pairs>''
      else name)"

definition getNoOptDefVal :: "doc_flag \<Rightarrow> string" where
  "getNoOptDefVal flag =
     (if df_NoOptDefVal flag = [] then []
      else if df_Type flag = ''string'' then ''[='' @ [CHR 0x22] @ df_NoOptDefVal flag @ [CHR 0x22] @ '']''
      else if df_Type flag = ''bool'' then
        (if df_NoOptDefVal flag \<noteq> ''true'' then ''[='' @ df_NoOptDefVal flag @ '']'' else [])
      else ''[='' @ df_NoOptDefVal flag @ '']'')"

definition defaultIsZeroValue :: "doc_flag \<Rightarrow> bool" where
  "defaultIsZeroValue f =
     (let t = df_Type f; d = df_DefValue f in
      if t = ''bool'' then d = ''false''
      else if t = ''duration'' then d = ''0'' \<or> d = ''0s''
      else if t \<in> {''int'', ''int8'', ''int32'', ''int64'', ''uint'', ''uint8'', ''uint16'', ''uint32'', ''count'', ''float32'',
        ''float64''} then d = ''0''
      else if t = ''string'' then d = []
      else if t \<in> {''ip'', ''ipMask'', ''ipNet''} then d = ''<nil>''
      else if t \<in> {''intSlice'', ''stringSlice'', ''stringArray''} then d = ''[]''
      else if t = ''namedCertKey'' then d = ''[]''
      else df_String f \<in> {''false'', ''<nil>'', [], ''0''})"

text \<open>The home directory of the current user, \<open>None\<close> where \<open>user.Current\<close> fails, is a parameter.\<close>

definition getDefaultVal :: "string option \<Rightarrow> doc_flag \<Rightarrow> string" where
  "getDefaultVal home flag =
     (if defaultIsZeroValue flag then []
      else
        let defaultVal = df_DefValue flag in
        if df_Type flag = ''string'' then
          let defaultVal = (if length defaultVal > 40 then ReplaceAll defaultVal '','' '',<br />'' else defaultVal);
              defaultVal =
                (if df_Name flag = ''cache-dir'' then
                   (case home of None \<Rightarrow> defaultVal | Some d \<Rightarrow> ''$HOME'' @ TrimPrefix defaultVal d)
                 else defaultVal)
          in [CHR 0x22] @ defaultVal @ [CHR 0x22]
        else if df_Type flag = ''stringSlice'' then
          [CHR 0x22] @ ReplaceAll (TrimSuffix (TrimPrefix defaultVal ''['') '']'') '' '' [] @ [CHR 0x22]
        else defaultVal)"

definition getOption :: "string option \<Rightarrow> doc_flag \<Rightarrow> doc_option" where
  "getOption home flag =
     \<lparr>do_Name = df_Name flag,
      do_Shorthand = (if df_ShorthandDeprecated flag = [] then df_Shorthand flag else []),
      do_Usage = df_Usage flag, do_ValueType = getValueType flag, do_DefVal = getDefaultVal home flag,
      do_NoOptDefVal = getNoOptDefVal flag\<rparr>"

definition getOptions :: "string option \<Rightarrow> doc_flag list \<Rightarrow> doc_option list" where
  "getOptions home f =
     map (getOption home) (filter (\<lambda>flag. \<not> (length (df_Deprecated flag) > 0 \<or> df_Hidden flag)) f)"

section \<open>Links and references\<close>

text \<open>\<open>template.HTML\<close> marks a string as markup.\<close>

definition htmlFuncMap :: "string \<Rightarrow> string" where
  "htmlFuncMap s = s"

definition backslash_n :: string where
  "backslash_n = [CHR 0x5C, CHR ''n'']"

definition usageFuncMap :: "string \<Rightarrow> string" where
  "usageFuncMap usage =
     (let usage = EscapeString usage;
          usage = TrimSuffix usage backslash_n;
          usage = ReplaceAll usage backslash_n ''<br/>''
      in htmlFuncMap usage)"

definition shown :: "doc_info \<Rightarrow> bool" where
  "shown i \<longleftrightarrow> \<not> (\<not> di_IsAvailableCommand i \<or> di_IsAdditionalHelpTopicCommand i)"

text \<open>
  The links of a command: to its parent, then to the commands below it by name. The parents come with the
  nearest first; the second result is \<open>DisableAutoGenTag\<close> of the command after the visit of the parents.
\<close>

definition parent_link :: "(string \<Rightarrow> string) \<Rightarrow> bool \<Rightarrow> doc_info \<Rightarrow> doc_link" where
  "parent_link linkHandler indexFile parent =
     (let commandPath = str_join ''_'' (split_on (CHR '' '') (di_CommandPath parent));
          path = (if indexFile then ''../'' @ commandPath @ ''.md'' else ''_index.md'')
      in \<lparr>dl_Name = commandPath, dl_Description = di_Short parent, dl_Path = linkHandler path\<rparr>)"

definition child_link :: "(string \<Rightarrow> string) \<Rightarrow> bool \<Rightarrow> doc_info \<Rightarrow> doc_info \<Rightarrow> doc_link" where
  "child_link linkHandler indexFile cmd child =
     (let cname = di_CommandPath cmd @ '' '' @ di_Name child;
          path = ReplaceAll cname '' '' ''_'' @ (if indexFile then ''.md'' else ''/_index.md'')
      in \<lparr>dl_Name = cname, dl_Description = di_Short child, dl_Path = linkHandler path\<rparr>)"

definition getLinks ::
  "doc_info list \<Rightarrow> doc_info \<Rightarrow> doc_command list \<Rightarrow> (string \<Rightarrow> string) \<Rightarrow> bool \<Rightarrow> doc_link list \<times> bool" where
  "getLinks parents cmd children linkHandler indexFile =
     ((case parents of [] \<Rightarrow> [] | parent # _ \<Rightarrow> [parent_link linkHandler indexFile parent]) @
      map (child_link linkHandler indexFile cmd)
        (filter shown (sort_key di_Name (map dc_info children))),
      fold (\<lambda>c tag. if di_DisableAutoGenTag c then di_DisableAutoGenTag c else tag) parents (di_DisableAutoGenTag cmd))"

definition getReference ::
  "string option \<Rightarrow> doc_info list \<Rightarrow> doc_info \<Rightarrow> doc_command list \<Rightarrow> (string \<Rightarrow> string) \<Rightarrow> bool \<Rightarrow> doc_reference" where
  "getReference home parents cmd children linkHandler indexFile =
     \<lparr>rf_NoList = indexFile, rf_Title = trim_space (di_CommandPath cmd),
      rf_Description = (if length (di_Long cmd) = 0 then di_Short cmd else di_Long cmd),
      rf_ShowUseLine = False, rf_UseLine = (if di_Runnable cmd then di_UseLine cmd else []),
      rf_ShowExample = False, rf_Example = di_Example cmd,
      rf_Options = getOptions home (di_NonInheritedFlags cmd),
      rf_InheritedOptions = getOptions home (di_InheritedFlags cmd),
      rf_Links = fst (getLinks parents cmd children linkHandler indexFile)\<rparr>"

section \<open>The walk over the tree\<close>

text \<open>
  The operations of package \<open>os\<close> on a state of the file system; a failing one returns the text of its
  error. The open file is named by its path; the deferred \<open>Close\<close>, whose error is not looked at, is left out.
\<close>

record 'f os_ops =
  os_IsNotExist :: "string \<Rightarrow> 'f \<Rightarrow> bool"
  os_Mkdir :: "string \<Rightarrow> 'f \<Rightarrow> 'f \<times> string option"
  os_Create :: "string \<Rightarrow> 'f \<Rightarrow> 'f \<times> string option"
  os_WriteString :: "string \<Rightarrow> string \<Rightarrow> 'f \<Rightarrow> 'f \<times> string option"

text \<open>
  The templates: \<open>ParseGlob\<close> of a pattern, and \<open>Execute\<close> as the pieces it writes and the error after them.
\<close>

record ('f, 't) doc_env =
  de_os :: "'f os_ops"
  de_ParseGlob :: "string \<Rightarrow> string + 't"
  de_Execute :: "'t \<Rightarrow> doc_reference \<Rightarrow> string list \<times> string option"
  de_HomeDir :: "string option"
  de_templatesDir :: string
  de_outputDir :: string
  de_filePrepender :: "string \<Rightarrow> string"
  de_linkHandler :: "string \<Rightarrow> string"

definition then_ok :: "'f \<times> string option \<Rightarrow> ('f \<Rightarrow> 'f \<times> string option) \<Rightarrow> 'f \<times> string option" where
  "then_ok r k = (case r of (f, None) \<Rightarrow> k f | (f, Some e) \<Rightarrow> (f, Some e))"

lemma then_ok_simps [simp]: "then_ok (f, None) k = k f" "then_ok (f, Some e) k = (f, Some e)"
  by (simp_all add: then_ok_def)

lemma then_ok_assoc: "then_ok (then_ok r k) l = then_ok r (\<lambda>f. then_ok (k f) l)"
  by (cases r; cases "snd r") auto

fun write_pieces :: "'f os_ops \<Rightarrow> string \<Rightarrow> string list \<Rightarrow> 'f \<Rightarrow> 'f \<times> string option" where
  "write_pieces os w [] f = (f, None)"
| "write_pieces os w (s # ss) f = then_ok (os_WriteString os w s f) (write_pieces os w ss)"

definition GenReference ::
  "('f, 't) doc_env \<Rightarrow> doc_info list \<Rightarrow> doc_info \<Rightarrow> doc_command list \<Rightarrow> string \<Rightarrow> bool \<Rightarrow> 'f \<Rightarrow> 'f \<times> string option" where
  "GenReference env parents cmd children w indexFile f =
     (let ref = getReference (de_HomeDir env) parents cmd children (de_linkHandler env) indexFile in
      case de_ParseGlob env (de_templatesDir env @ ''/*'') of
        Inl e \<Rightarrow> (f, Some e)
      | Inr tmpl \<Rightarrow>
          (case de_Execute env tmpl ref of
             (pieces, err) \<Rightarrow> then_ok (write_pieces (de_os env) w pieces f) (\<lambda>f. (f, err))))"

text \<open>The file of a command, below the output directory, and whether it is the index of a directory.\<close>

definition page_name :: "doc_info \<Rightarrow> string \<Rightarrow> string \<times> bool" where
  "page_name cmd subdir =
     (let fullname = ReplaceAll (di_CommandPath cmd) '' '' ''_'' @ ''.md'' in
      if length subdir > 0 then
        (let indexFile = (length (split_on (CHR '' '') (di_CommandPath cmd)) = 2);
             fullname = (if indexFile then ''_index.md'' else fullname)
         in (path_join [subdir, fullname], indexFile))
      else (fullname, False))"

definition gen_page ::
  "('f, 't) doc_env \<Rightarrow> doc_info list \<Rightarrow> doc_info \<Rightarrow> doc_command list \<Rightarrow> string \<Rightarrow> 'f \<Rightarrow> 'f \<times> string option" where
  "gen_page env parents cmd children subdir f =
     (let (fullname, indexFile) = page_name cmd subdir;
          filename = path_join [de_outputDir env, fullname]
      in then_ok (os_Create (de_os env) filename f) (\<lambda>f.
         then_ok (os_WriteString (de_os env) filename (de_filePrepender env filename) f) (\<lambda>f.
           GenReference env parents cmd children filename indexFile f)))"

definition child_subdir :: "doc_info \<Rightarrow> string" where
  "child_subdir c =
     (let parts = split_on (CHR '' '') (di_CommandPath c)
      in if length parts > 1 then parts ! 0 @ ''_'' @ parts ! 1 else [])"

definition make_subdir :: "('f, 't) doc_env \<Rightarrow> doc_info \<Rightarrow> 'f \<Rightarrow> 'f \<times> string option" where
  "make_subdir env c f =
     (if length (split_on (CHR '' '') (di_CommandPath c)) > 1 then
        (let fullPath = path_join [de_outputDir env, child_subdir c]
         in if os_IsNotExist (de_os env) fullPath f then os_Mkdir (de_os env) fullPath f else (f, None))
      else (f, None))"

fun GenMarkdownTreeCustom ::
  "('f, 't) doc_env \<Rightarrow> doc_info list \<Rightarrow> doc_command \<Rightarrow> string \<Rightarrow> 'f \<Rightarrow> 'f \<times> string option"
and gen_children ::
  "('f, 't) doc_env \<Rightarrow> doc_info list \<Rightarrow> doc_command list \<Rightarrow> 'f \<Rightarrow> 'f \<times> string option" where
  "GenMarkdownTreeCustom env parents (DocCommand i cs) subdir f =
     then_ok (gen_children env (i # parents) cs f) (gen_page env parents i cs subdir)"
| "gen_children env parents [] f = (f, None)"
| "gen_children env parents (c # cs) f =
     (if \<not> shown (dc_info c) then gen_children env parents cs f
      else then_ok (make_subdir env (dc_info c) f) (\<lambda>f.
           then_ok (GenMarkdownTreeCustom env parents c (child_subdir (dc_info c)) f) (gen_children env parents cs)))"

definition GenMarkdownTree :: "('f, 't) doc_env \<Rightarrow> doc_command \<Rightarrow> 'f \<Rightarrow> 'f \<times> string option" where
  "GenMarkdownTree env cmd =
     GenMarkdownTreeCustom (env\<lparr>de_filePrepender := (\<lambda>s. []), de_linkHandler := (\<lambda>s. s)\<rparr>) [] cmd []"

text \<open>
  The program: how it ends, and the file system after it. The flags that \<open>main\<close> adds to the command line of
  pflag reach the pages through the inherited flags that cobra reports.
\<close>

datatype main_end = Success | LogFatal string | Panic string

definition docs_main ::
  "('f, 't) doc_env \<Rightarrow> doc_command \<Rightarrow> string list \<Rightarrow> 'f \<Rightarrow> 'f \<times> main_end" where
  "docs_main env cmd Args f =
     (if length Args = 3 then
        (case GenMarkdownTree (env\<lparr>de_templatesDir := Args ! 1, de_outputDir := Args ! 2\<rparr>) cmd f of
           (f, None) \<Rightarrow> (f, Success)
         | (f, Some e) \<Rightarrow> (f, Panic e))
      else
        (case Args of
           [] \<Rightarrow> (f, Panic ''index out of range'')
         | arg # _ \<Rightarrow> (f, LogFatal (''usage: '' @ arg @ '' <templates-dir> <output-dir>''))))"


section \<open>Usage texts\<close>

text \<open>
  The markup of a usage text: it is the pieces of the escaped text between the two characters backslash and
  n, joined by line breaks, and no piece has a character that opens a tag or ends an attribute.
\<close>

theorem usage_markup:
  "\<exists>ps. ps \<noteq> [] \<and> usageFuncMap u = str_join ''<br/>'' ps \<and>
     str_join backslash_n ps = TrimSuffix (EscapeString u) backslash_n \<and> (\<Union>p \<in> set ps. set p) \<inter> markup_chars = {}"
proof -
  let ?s = "TrimSuffix (EscapeString u) backslash_n"
  obtain ps where ps: "ps \<noteq> []" "str_join backslash_n ps = ?s" "ReplaceAll ?s backslash_n ''<br/>'' = str_join ''<br/>'' ps"
    using replace_from_pieces [of backslash_n 0 ?s "''<br/>''"] by (auto simp: ReplaceAll_def backslash_n_def)
  have "(\<Union>p \<in> set ps. set p) \<subseteq> set ?s" using str_join_pieces [of _ ps backslash_n] unfolding ps(2) by blast
  also have "\<dots> \<subseteq> set (EscapeString u)" by (rule set_TrimSuffix)
  finally have "(\<Union>p \<in> set ps. set p) \<inter> markup_chars = {}" using EscapeString_markup [of u] by blast
  with ps show ?thesis by (intro exI [of _ ps]) (simp add: usageFuncMap_def htmlFuncMap_def)
qed

end
