(* ===== verification/DocSite.thy ===== *)
theory DocSite
  imports DocGen CommandTree
begin

text \<open>
  What the documentation generator produces: the walk as a plan of directories and pages, the contract of a
  file system under which the plan succeeds, the pages of a tree of commands, and which links between
  them lead to a page.
\<close>

section \<open>The plan of the walk\<close>

datatype doc_step = EnsureDir string | WritePage string "string list"

text \<open>The steps for templates that parse and execute: the page of a command comes after those below it.\<close>

definition page_step ::
  "('f, 't) doc_env \<Rightarrow> 't \<Rightarrow> doc_info list \<Rightarrow> doc_info \<Rightarrow> doc_command list \<Rightarrow> string \<Rightarrow> doc_step" where
  "page_step env t parents cmd children subdir =
     (let (fullname, indexFile) = page_name cmd subdir;
          filename = path_join [de_outputDir env, fullname]
      in WritePage filename (de_filePrepender env filename #
           fst (de_Execute env t (getReference (de_HomeDir env) parents cmd children (de_linkHandler env) indexFile))))"

definition dir_steps :: "('f, 't) doc_env \<Rightarrow> doc_info \<Rightarrow> doc_step list" where
  "dir_steps env c =
     (if length (split_on (CHR '' '') (di_CommandPath c)) > 1
      then [EnsureDir (path_join [de_outputDir env, child_subdir c])] else [])"

fun doc_steps :: "('f, 't) doc_env \<Rightarrow> 't \<Rightarrow> doc_info list \<Rightarrow> doc_command \<Rightarrow> string \<Rightarrow> doc_step list"
and children_steps :: "('f, 't) doc_env \<Rightarrow> 't \<Rightarrow> doc_info list \<Rightarrow> doc_command list \<Rightarrow> doc_step list" where
  "doc_steps env t parents (DocCommand i cs) subdir =
     children_steps env t (i # parents) cs @ [page_step env t parents i cs subdir]"
| "children_steps env t parents [] = []"
| "children_steps env t parents (c # cs) =
     (if \<not> shown (dc_info c) then children_steps env t parents cs
      else dir_steps env (dc_info c) @ doc_steps env t parents c (child_subdir (dc_info c)) @
           children_steps env t parents cs)"

fun run_step :: "'f os_ops \<Rightarrow> doc_step \<Rightarrow> 'f \<Rightarrow> 'f \<times> string option" where
  "run_step os (EnsureDir p) f = (if os_IsNotExist os p f then os_Mkdir os p f else (f, None))"
| "run_step os (WritePage p ss) f = then_ok (os_Create os p f) (write_pieces os p ss)"

fun run_steps :: "'f os_ops \<Rightarrow> doc_step list \<Rightarrow> 'f \<Rightarrow> 'f \<times> string option" where
  "run_steps os [] f = (f, None)"
| "run_steps os (s # ss) f = then_ok (run_step os s f) (run_steps os ss)"

definition templates_ok :: "('f, 't) doc_env \<Rightarrow> 't \<Rightarrow> bool" where
  "templates_ok env t \<longleftrightarrow>
     de_ParseGlob env (de_templatesDir env @ ''/*'') = Inr t \<and> (\<forall>r. snd (de_Execute env t r) = None)"

lemma then_ok_None: "then_ok r (\<lambda>f. (f, None)) = r"
  by (cases r; cases "snd r") auto

lemma run_steps_Nil: "run_steps os [] = (\<lambda>f. (f, None))"
  by auto

lemma run_steps_append: "run_steps os (xs @ ys) = (\<lambda>f. then_ok (run_steps os xs f) (run_steps os ys))"
proof (induction xs)
  case (Cons x xs)
  show ?case by (rule ext) (simp add: then_ok_assoc Cons)
qed (rule ext, simp)

lemma write_pieces_Cons: "write_pieces os w (s # ss) = (\<lambda>f. then_ok (os_WriteString os w s f) (write_pieces os w ss))"
  by (rule ext) simp

lemma gen_page_steps:
  assumes "templates_ok env t"
  shows "gen_page env parents cmd children subdir =
    run_steps (de_os env) [page_step env t parents cmd children subdir]"
proof (rule ext)
  fix f
  obtain n b where n: "page_name cmd subdir = (n, b)" by force
  obtain ps where "de_Execute env t (getReference (de_HomeDir env) parents cmd children (de_linkHandler env) b) = (ps, None)"
    using assms unfolding templates_ok_def by (metis prod.collapse)
  with assms n show "gen_page env parents cmd children subdir f =
      run_steps (de_os env) [page_step env t parents cmd children subdir] f"
    by (simp add: gen_page_def page_step_def GenReference_def templates_ok_def then_ok_None run_steps_Nil Let_def
        write_pieces_Cons del: write_pieces.simps)
qed

lemma make_subdir_steps: "make_subdir env c f = run_steps (de_os env) (dir_steps env c) f"
  by (simp add: make_subdir_def dir_steps_def Let_def then_ok_None run_steps_Nil)

text \<open>The walk runs its plan and stops at the first error.\<close>

lemma walk_steps:
  "templates_ok env t \<Longrightarrow>
     GenMarkdownTreeCustom env parents c subdir = run_steps (de_os env) (doc_steps env t parents c subdir)"
  "templates_ok env t \<Longrightarrow> gen_children env parents cs = run_steps (de_os env) (children_steps env t parents cs)"
proof (induction env t parents c subdir and env t parents cs rule: doc_steps_children_steps.induct)
  case (1 env t parents i cs subdir)
  then show ?case by (intro ext) (simp add: run_steps_append gen_page_steps)
next
  case (3 env t parents c cs)
  then show ?case by (intro ext) (simp add: run_steps_append make_subdir_steps then_ok_assoc)
qed (intro ext, simp)

section \<open>File systems\<close>

text \<open>
  The contract of a file system: which paths are directories, what the files hold, and what the four
  operations do where nothing is in the way.
\<close>

locale file_store =
  fixes os :: "'f os_ops" and is_dir :: "'f \<Rightarrow> path_key \<Rightarrow> bool" and content :: "'f \<Rightarrow> path_key \<Rightarrow> string option"
  assumes not_exist: "os_IsNotExist os p f \<longleftrightarrow> \<not> is_dir f (resolve p) \<and> content f (resolve p) = None"
    and mkdir: "os_IsNotExist os p f \<Longrightarrow> is_dir f (parent_key (resolve p)) \<Longrightarrow>
      \<exists>f'. os_Mkdir os p f = (f', None) \<and> is_dir f' = (is_dir f)(resolve p := True) \<and> content f' = content f"
    and create: "is_dir f (parent_key (resolve p)) \<Longrightarrow> \<not> is_dir f (resolve p) \<Longrightarrow>
      \<exists>f'. os_Create os p f = (f', None) \<and> is_dir f' = is_dir f \<and> content f' = (content f)(resolve p \<mapsto> [])"
    and write_string: "content f (resolve p) = Some t \<Longrightarrow>
      \<exists>f'. os_WriteString os p s f = (f', None) \<and> is_dir f' = is_dir f \<and> content f' = (content f)(resolve p \<mapsto> t @ s)"

text \<open>The directories and pages of a plan, and plans whose steps find their directory.\<close>

fun step_dirs :: "doc_step \<Rightarrow> path_key list" where
  "step_dirs (EnsureDir p) = [resolve p]"
| "step_dirs (WritePage p ss) = []"

fun step_pages :: "doc_step \<Rightarrow> (path_key \<times> string) list" where
  "step_pages (EnsureDir p) = []"
| "step_pages (WritePage p ss) = [(resolve p, concat ss)]"

definition plan_dirs :: "doc_step list \<Rightarrow> path_key list" where
  "plan_dirs ss = concat (map step_dirs ss)"

definition plan_pages :: "doc_step list \<Rightarrow> (path_key \<times> string) list" where
  "plan_pages ss = concat (map step_pages ss)"

fun plan_ok :: "path_key set \<Rightarrow> doc_step list \<Rightarrow> bool" where
  "plan_ok D [] \<longleftrightarrow> True"
| "plan_ok D (EnsureDir p # ss) \<longleftrightarrow> parent_key (resolve p) \<in> D \<and> plan_ok (insert (resolve p) D) ss"
| "plan_ok D (WritePage p xs # ss) \<longleftrightarrow> parent_key (resolve p) \<in> D \<and> plan_ok D ss"

lemma plan_simps [simp]:
  "plan_dirs [] = []" "plan_dirs (s # ss) = step_dirs s @ plan_dirs ss" "plan_dirs (xs @ ys) = plan_dirs xs @ plan_dirs ys"
  "plan_pages [] = []" "plan_pages (s # ss) = step_pages s @ plan_pages ss"
  "plan_pages (xs @ ys) = plan_pages xs @ plan_pages ys"
  by (simp_all add: plan_dirs_def plan_pages_def)

lemma plan_ok_append: "plan_ok D (xs @ ys) \<longleftrightarrow> plan_ok D xs \<and> plan_ok (D \<union> set (plan_dirs xs)) ys"
  by (induction D xs rule: plan_ok.induct) auto

lemma plan_ok_mono: "plan_ok D ss \<Longrightarrow> D \<subseteq> E \<Longrightarrow> plan_ok E ss"
proof (induction D ss arbitrary: E rule: plan_ok.induct)
  case (2 D p ss)
  from "2.prems" "2.IH" [of "insert (resolve p) E"] show ?case by auto
qed auto

context file_store
begin

lemma write_pieces_ok:
  "content f (resolve p) = Some t \<Longrightarrow>
     \<exists>f'. write_pieces os p ss f = (f', None) \<and> is_dir f' = is_dir f \<and> content f' = (content f)(resolve p \<mapsto> t @ concat ss)"
proof (induction ss arbitrary: f t)
  case Nil
  then show ?case by (simp add: fun_upd_idem)
next
  case (Cons s ss)
  from write_string [OF Cons.prems, of s] obtain g where g: "os_WriteString os p s f = (g, None)" "is_dir g = is_dir f"
    "content g = (content f)(resolve p \<mapsto> t @ s)" by blast
  then have "content g (resolve p) = Some (t @ s)" by simp
  from Cons.IH [OF this] obtain f' where f': "write_pieces os p ss g = (f', None)" "is_dir f' = is_dir g"
    "content f' = (content g)(resolve p \<mapsto> (t @ s) @ concat ss)" by blast
  from f'(3) have "content f' = (content f)(resolve p \<mapsto> t @ concat (s # ss))"
    unfolding g(3) fun_upd_upd by simp
  with g f' show ?case by (intro exI [of _ f']) simp
qed

lemma run_step_ok:
  assumes "plan_ok {k. is_dir f k} [s]" and "\<forall>k \<in> set (step_dirs s). content f k = None"
    and "\<forall>k \<in> fst ` set (step_pages s). \<not> is_dir f k"
  shows "\<exists>f'. run_step os s f = (f', None) \<and> is_dir f' = (\<lambda>k. is_dir f k \<or> k \<in> set (step_dirs s)) \<and>
    content f' = content f ++ map_of (step_pages s)"
proof (cases s)
  case (EnsureDir p)
  show ?thesis
  proof (cases "os_IsNotExist os p f")
    case True
    with mkdir [of p f] assms EnsureDir obtain f' where "os_Mkdir os p f = (f', None)"
      "is_dir f' = (is_dir f)(resolve p := True)" "content f' = content f" by auto
    with True EnsureDir show ?thesis by (auto simp: fun_eq_iff)
  next
    case False
    with not_exist [of p f] assms EnsureDir have "is_dir f (resolve p)" by simp
    with False EnsureDir show ?thesis by (auto simp: fun_eq_iff)
  qed
next
  case (WritePage p ss)
  with create [of f p] assms obtain g where g: "os_Create os p f = (g, None)" "is_dir g = is_dir f"
    "content g = (content f)(resolve p \<mapsto> [])" by auto
  with write_pieces_ok [of g p "[]" ss] WritePage show ?thesis by auto
qed

lemma run_steps_ok:
  assumes "plan_ok {k. is_dir f k} ss" and "\<forall>k \<in> set (plan_dirs ss). content f k = None"
    and "\<forall>k \<in> fst ` set (plan_pages ss). \<not> is_dir f k \<and> k \<notin> set (plan_dirs ss)"
  shows "\<exists>f'. run_steps os ss f = (f', None) \<and> is_dir f' = (\<lambda>k. is_dir f k \<or> k \<in> set (plan_dirs ss)) \<and>
    content f' = content f ++ map_of (rev (plan_pages ss))"
  using assms
proof (induction ss arbitrary: f)
  case (Cons s ss)
  have "plan_ok {k. is_dir f k} [s]" using Cons.prems(1) plan_ok_append [of _ "[s]" ss] by simp
  with run_step_ok [of f s] Cons.prems obtain g where g: "run_step os s f = (g, None)"
    "is_dir g = (\<lambda>k. is_dir f k \<or> k \<in> set (step_dirs s))" "content g = content f ++ map_of (step_pages s)"
    by auto
  have "plan_ok {k. is_dir g k} ss"
    using Cons.prems(1) plan_ok_append [of _ "[s]" ss] g(2) by (simp add: Un_def)
  moreover have "\<forall>k \<in> set (plan_dirs ss). content g k = None"
    using Cons.prems g(3) by (cases s) auto
  moreover have "\<forall>k \<in> fst ` set (plan_pages ss). \<not> is_dir g k \<and> k \<notin> set (plan_dirs ss)"
    using Cons.prems(3) g(2) by auto
  ultimately obtain f' where "run_steps os ss g = (f', None)" "is_dir f' = (\<lambda>k. is_dir g k \<or> k \<in> set (plan_dirs ss))"
    "content f' = content g ++ map_of (rev (plan_pages ss))" using Cons.IH by blast
  moreover have "map_of (rev (plan_pages (s # ss))) = map_of (step_pages s) ++ map_of (rev (plan_pages ss))"
    by (cases s) simp_all
  ultimately show ?case
    using g by (intro exI [of _ f']) (simp add: disj_assoc)
qed simp

end

text \<open>A file system in memory: a path is a directory or a file with its text.\<close>

datatype fs_node = Dir | File string

type_synonym mem_fs = "path_key \<Rightarrow> fs_node option"

definition mem_os :: "mem_fs os_ops" where
  "mem_os =
     \<lparr>os_IsNotExist = (\<lambda>p f. f (resolve p) = None),
      os_Mkdir = (\<lambda>p f. if f (resolve p) \<noteq> None then (f, Some (''mkdir '' @ p @ '': file exists''))
        else if f (parent_key (resolve p)) \<noteq> Some Dir then (f, Some (''mkdir '' @ p @ '': no such file or directory''))
        else (f(resolve p \<mapsto> Dir), None)),
      os_Create = (\<lambda>p f. if f (resolve p) = Some Dir then (f, Some (''open '' @ p @ '': is a directory''))
        else if f (parent_key (resolve p)) \<noteq> Some Dir then (f, Some (''open '' @ p @ '': no such file or directory''))
        else (f(resolve p \<mapsto> File []), None)),
      os_WriteString = (\<lambda>p s f. case f (resolve p) of Some (File t) \<Rightarrow> (f(resolve p \<mapsto> File (t @ s)), None)
        | _ \<Rightarrow> (f, Some (''write '' @ p @ '': bad file descriptor'')))\<rparr>"

definition mem_is_dir :: "mem_fs \<Rightarrow> path_key \<Rightarrow> bool" where
  "mem_is_dir f k \<longleftrightarrow> f k = Some Dir"

definition mem_content :: "mem_fs \<Rightarrow> path_key \<Rightarrow> string option" where
  "mem_content f k = (case f k of Some (File t) \<Rightarrow> Some t | _ \<Rightarrow> None)"

interpretation mem: file_store mem_os mem_is_dir mem_content
proof (unfold_locales, goal_cases)
  case (1 p f)
  then show ?case by (auto simp: mem_os_def mem_is_dir_def mem_content_def split: option.splits fs_node.splits)
next
  case (2 p f)
  then show ?case
    by (intro exI [of _ "f(resolve p \<mapsto> Dir)"]) (auto simp: mem_os_def mem_is_dir_def mem_content_def fun_eq_iff)
next
  case (3 f p)
  then show ?case
    by (intro exI [of _ "f(resolve p \<mapsto> File [])"]) (auto simp: mem_os_def mem_is_dir_def mem_content_def fun_eq_iff)
next
  case (4 f p t s)
  then have "f (resolve p) = Some (File t)" by (auto simp: mem_content_def split: option.splits fs_node.splits)
  then show ?case
    by (intro exI [of _ "f(resolve p \<mapsto> File (t @ s))"]) (auto simp: mem_os_def mem_is_dir_def mem_content_def fun_eq_iff)
qed


section \<open>The pages of a tree of commands\<close>

text \<open>
  The commands with a page, in the order they are written: the names from the root to the command, its
  parents, and the command.
\<close>

type_synonym site_command = "string list \<times> doc_info list \<times> doc_info \<times> doc_command list"

fun site_commands :: "string list \<Rightarrow> doc_info list \<Rightarrow> doc_command \<Rightarrow> site_command list"
and site_below :: "string list \<Rightarrow> doc_info list \<Rightarrow> doc_command list \<Rightarrow> site_command list" where
  "site_commands ns parents (DocCommand i cs) =
     site_below (ns @ [di_Name i]) (i # parents) cs @ [(ns @ [di_Name i], parents, i, cs)]"
| "site_below ns parents [] = []"
| "site_below ns parents (c # cs) =
     (if shown (dc_info c) then site_commands ns parents c else []) @ site_below ns parents cs"

definition site_paths :: "doc_command \<Rightarrow> string list list" where
  "site_paths c = map fst (site_commands [] [] c)"

text \<open>
  What the generator relies on of cobra: the path of a command is the names from the root to it, joined
  by blanks. Names are words, and those of the commands below one command are distinct.
\<close>

definition doc_name :: "string \<Rightarrow> bool" where
  "doc_name n \<longleftrightarrow> n \<noteq> [] \<and> set n \<inter> {CHR '' '', CHR ''/'', CHR ''_''} = {}"

fun cobra_tree :: "string list \<Rightarrow> doc_command \<Rightarrow> bool" where
  "cobra_tree ns (DocCommand i cs) \<longleftrightarrow>
     doc_name (di_Name i) \<and> di_CommandPath i = str_join '' '' (ns @ [di_Name i]) \<and>
     list_all (\<lambda>c. cobra_tree (ns @ [di_Name i]) c) cs \<and> distinct (map (\<lambda>c. di_Name (dc_info c)) cs)"

text \<open>The directory of a page below the output directory, and the page in it.\<close>

definition site_dir :: "string list \<Rightarrow> string" where
  "site_dir ns = (case ns of a # b # _ \<Rightarrow> a @ ''_'' @ b | _ \<Rightarrow> [])"

definition page_key :: "string list \<Rightarrow> string list" where
  "page_key ns =
     (if length ns \<le> 1 then [str_join ''_'' ns @ ''.md'']
      else [site_dir ns, if length ns = 2 then ''_index.md'' else str_join ''_'' ns @ ''.md''])"

definition page_text :: "('f, 't) doc_env \<Rightarrow> 't \<Rightarrow> site_command \<Rightarrow> string" where
  "page_text env t = (\<lambda>(ns, parents, i, cs).
     de_filePrepender env (path_join [de_outputDir env, str_join ''/'' (page_key ns)]) @
     concat (fst (de_Execute env t (getReference (de_HomeDir env) parents i cs (de_linkHandler env) (length ns = 2)))))"

subsection \<open>Names of pages\<close>

lemma split_names: "ns \<noteq> [] \<Longrightarrow> list_all doc_name ns \<Longrightarrow> split_on (CHR '' '') (str_join '' '' ns) = ns"
  by (rule split_join) (auto simp: list_all_iff doc_name_def)

lemma replace_names:
  "ns \<noteq> [] \<Longrightarrow> list_all doc_name ns \<Longrightarrow> ReplaceAll (str_join '' '' ns) '' '' ''_'' = str_join ''_'' ns"
  using replace_one [of _ "CHR '' ''" "''_''"] split_names by simp

lemma join_names_inj:
  assumes "str_join ''_'' ns = str_join ''_'' ms" and "list_all doc_name ns" "list_all doc_name ms" and "ns \<noteq> []" "ms \<noteq> []"
  shows "ns = ms"
proof -
  have "split_on (CHR ''_'') (str_join ''_'' ks) = ks" if "list_all doc_name ks" "ks \<noteq> []" for ks
    using that by (intro split_join) (auto simp: list_all_iff doc_name_def)
  with assms show ?thesis by metis
qed

lemma join_names_hd:
  assumes "list_all doc_name ns" and "ns \<noteq> []"
  shows "str_join ''_'' ns \<noteq> [] \<and> hd (str_join ''_'' ns) \<noteq> CHR ''_''"
proof -
  from assms have n: "doc_name (hd ns)" by (cases ns) auto
  then have "hd (hd ns) \<noteq> CHR ''_''" unfolding doc_name_def by (metis disjoint_iff hd_in_set insertCI)
  with str_join_hd [of ns "''_''"] n assms(2) show ?thesis by (simp add: doc_name_def)
qed

lemma join_names_slash: "list_all doc_name ns \<Longrightarrow> CHR ''/'' \<notin> set (str_join ''_'' ns)"
proof -
  assume "list_all doc_name ns"
  then have "CHR ''/'' \<notin> set n" if "n \<in> set ns" for n
    using that unfolding list_all_iff doc_name_def by blast
  then have "CHR ''/'' \<notin> set ''_'' \<union> (\<Union>n \<in> set ns. set n)" by simp
  with set_str_join [of "''_''" ns] show ?thesis by blast
qed

lemma entry_name_md: "CHR ''/'' \<notin> set s \<Longrightarrow> entry_name (s @ ''.md'')"
  by (auto simp: entry_name_def append_eq_Cons_conv)

lemma site_dir_simps [simp]: "site_dir (a # b # ns) = a @ ''_'' @ b" "site_dir [a] = []"
  by (simp_all add: site_dir_def)

lemma entry_name_dir: "list_all doc_name ns \<Longrightarrow> length ns > 1 \<Longrightarrow> entry_name (site_dir ns)"
  by (cases ns; cases "tl ns") (auto simp: entry_name_def doc_name_def append_eq_Cons_conv)

lemma page_key_entries: "list_all doc_name ns \<Longrightarrow> ns \<noteq> [] \<Longrightarrow> \<forall>n \<in> set (page_key ns). entry_name n"
  using entry_name_dir [of ns] entry_name_md [OF join_names_slash, of ns] by (auto simp: page_key_def entry_name_def)

lemma page_key_nonempty [simp]: "page_key ns \<noteq> []"
  by (simp add: page_key_def)

lemma page_key_inj:
  assumes "page_key ns = page_key ms" and "list_all doc_name ns" "list_all doc_name ms" and "ns \<noteq> []" "ms \<noteq> []"
  shows "ns = ms"
proof -
  note j = join_names_inj [OF _ assms(2-5)]
  have index: "str_join ''_'' ks @ ''.md'' \<noteq> ''_index.md''" if "list_all doc_name ks" "ks \<noteq> []" for ks
    using join_names_hd [OF that] by (cases "str_join ''_'' ks") auto
  show ?thesis
  proof (cases "length ns = 2 \<and> length ms = 2")
    case True
    then have "site_dir ns = str_join ''_'' ns" "site_dir ms = str_join ''_'' ms"
      by (auto simp: numeral_2_eq_2 length_Suc_conv)
    with True assms(1) j show ?thesis by (simp add: page_key_def)
  next
    case False
    with assms(1) j index [OF assms(2,4)] index [OF assms(3,5)] show ?thesis
      unfolding page_key_def by (auto split: if_splits)
  qed
qed

lemma cobra_tree_info:
  "cobra_tree ns c \<Longrightarrow> di_CommandPath (dc_info c) = str_join '' '' (ns @ [di_Name (dc_info c)]) \<and> doc_name (di_Name (dc_info c))"
  by (cases c) simp

lemma child_subdir_site:
  assumes "di_CommandPath i = str_join '' '' ns" and "ns \<noteq> []" and "list_all doc_name ns"
  shows "child_subdir i = site_dir ns"
    and "dir_steps env i = (if length ns > 1 then [EnsureDir (path_join [de_outputDir env, site_dir ns])] else [])"
proof -
  show "child_subdir i = site_dir ns"
    using assms by (auto simp: child_subdir_def split_names Let_def site_dir_def split: list.splits)
  then show "dir_steps env i = (if length ns > 1 then [EnsureDir (path_join [de_outputDir env, site_dir ns])] else [])"
    using assms by (simp add: dir_steps_def split_names)
qed

lemma page_name_site:
  assumes "di_CommandPath i = str_join '' '' ns" and "ns \<noteq> []" and "list_all doc_name ns"
  shows "page_name i (site_dir ns) = (str_join ''/'' (page_key ns), length ns = 2)"
proof (cases "length ns > 1")
  case True
  then have "site_dir ns \<noteq> []" using entry_name_dir [OF assms(3)] by (auto simp: entry_name_def)
  moreover have "path_join (page_key ns) = str_join ''/'' (page_key ns)"
    using page_key_entries [OF assms(3,2)] by (simp add: path_join_names)
  ultimately show ?thesis
    using True assms by (auto simp: page_name_def split_names replace_names page_key_def)
next
  case False
  with assms(2) obtain a where "ns = [a]" by (cases ns; cases "tl ns") auto
  with assms show ?thesis by (simp add: page_name_def replace_names [of "[a]", simplified] page_key_def)
qed

lemma page_step_site:
  assumes "di_CommandPath i = str_join '' '' ns" and "ns \<noteq> []" and "list_all doc_name ns"
  shows "step_pages (page_step env t parents i cs (site_dir ns)) =
      [(below (resolve (de_outputDir env)) (page_key ns), page_text env t (ns, parents, i, cs))]"
    and "step_dirs (page_step env t parents i cs (site_dir ns)) = []"
    and "plan_ok D [page_step env t parents i cs (site_dir ns)] \<longleftrightarrow>
      below (resolve (de_outputDir env)) (butlast (page_key ns)) \<in> D"
proof -
  note r = resolve_join_names [OF page_key_nonempty page_key_entries [OF assms(3,2)], of "de_outputDir env"]
  have "parent_key (below k (page_key ns)) = below k (butlast (page_key ns))" for k
    by (simp add: parent_key_def below_def butlast_append)
  with r page_name_site [OF assms] show "step_pages (page_step env t parents i cs (site_dir ns)) =
      [(below (resolve (de_outputDir env)) (page_key ns), page_text env t (ns, parents, i, cs))]"
    "step_dirs (page_step env t parents i cs (site_dir ns)) = []"
    "plan_ok D [page_step env t parents i cs (site_dir ns)] \<longleftrightarrow>
      below (resolve (de_outputDir env)) (butlast (page_key ns)) \<in> D"
    by (simp_all add: page_step_def page_text_def Let_def)
qed


subsection \<open>The plan of a tree\<close>

lemma plan_ok_Cons: "plan_ok D (s # ss) \<longleftrightarrow> plan_ok D [s] \<and> plan_ok (D \<union> set (step_dirs s)) ss"
  using plan_ok_append [of D "[s]" ss] by simp

lemma tree_plan:
  "cobra_tree ns c \<Longrightarrow> list_all doc_name ns \<Longrightarrow> k = resolve (de_outputDir env) \<Longrightarrow>
     ms = ns @ [di_Name (dc_info c)] \<Longrightarrow> subdir = site_dir ms \<Longrightarrow>
     plan_pages (doc_steps env t parents c subdir) =
       map (\<lambda>s. (below k (page_key (fst s)), page_text env t s)) (site_commands ns parents c) \<and>
     set (plan_dirs (doc_steps env t parents c subdir)) =
       (\<lambda>s. below k [site_dir (fst s)]) ` set (site_below ms (dc_info c # parents) (dc_Commands c)) \<and>
     (k \<in> D \<longrightarrow> below k (butlast (page_key ms)) \<in> D \<longrightarrow> plan_ok D (doc_steps env t parents c subdir))"
  "list_all (cobra_tree ns) cs \<Longrightarrow> ns \<noteq> [] \<Longrightarrow> list_all doc_name ns \<Longrightarrow> k = resolve (de_outputDir env) \<Longrightarrow>
     plan_pages (children_steps env t parents cs) =
       map (\<lambda>s. (below k (page_key (fst s)), page_text env t s)) (site_below ns parents cs) \<and>
     set (plan_dirs (children_steps env t parents cs)) =
       (\<lambda>s. below k [site_dir (fst s)]) ` set (site_below ns parents cs) \<and>
     (k \<in> D \<longrightarrow> plan_ok D (children_steps env t parents cs))"
proof (induction env t parents c subdir and env t parents cs arbitrary: ns ms D and ns D
    rule: doc_steps_children_steps.induct)
  case (1 env t parents i cs subdir)
  have info: "di_CommandPath i = str_join '' '' ms" "ms \<noteq> []" "list_all doc_name ms"
    using "1.prems" by simp_all
  have below: "list_all (cobra_tree ms) cs" using "1.prems" by simp
  note ih = "1.IH" [OF below info(2,3) "1.prems"(3), of D]
  note step = page_step_site [OF info, where env = env and t = t and parents = parents and cs = cs, folded "1.prems"(3,5)]
  have site: "site_commands ns parents (DocCommand i cs) = site_below ms (i # parents) cs @ [(ms, parents, i, cs)]"
    using "1.prems"(4) by simp
  show ?case
    unfolding site doc_steps.simps plan_simps plan_ok_append doc_command.sel
    using ih step by (simp add: plan_simps)
next
  case (3 env t parents c cs)
  define ms where "ms = ns @ [di_Name (dc_info c)]"
  have ms: "di_CommandPath (dc_info c) = str_join '' '' ms" "ms \<noteq> []" "list_all doc_name ms" "length ms > 1"
    using "3.prems" cobra_tree_info [of ns c] by (auto simp: ms_def)
  note sub = child_subdir_site [OF ms(1-3)]
  have key: "resolve (path_join [de_outputDir env, site_dir ms]) = below k [site_dir ms]"
    using entry_name_dir [OF ms(3,4)] resolve_join_name "3.prems"(4) by simp
  have butlast: "butlast (page_key ms) = [site_dir ms]" using ms(4) by (simp add: page_key_def)
  show ?case
  proof (cases "shown (dc_info c)")
    case False
    with "3.IH"(1) [of ns D] "3.prems" show ?thesis by simp
  next
    case True
    have c: "cobra_tree ns c" using "3.prems" by simp
    let ?D = "insert (below k [site_dir ms]) D"
    let ?E = "?D \<union> set (plan_dirs (doc_steps env t parents c (site_dir ms)))"
    from True have shown: "\<not> \<not> shown (dc_info c)" by simp
    note ih1 = "3.IH"(2) [OF shown c "3.prems"(3,4) ms_def sub(1), of ?D, unfolded sub(1)]
    note ih2 = "3.IH"(3) [OF shown _ "3.prems"(2-4), of ?E]
    have self: "site_commands ns parents c = site_below ms (dc_info c # parents) (dc_Commands c) @
        [(ms, parents, dc_info c, dc_Commands c)]"
      by (cases c) (simp add: ms_def)
    from ih1 ih2 True ms(4) "3.prems" show ?thesis
      by (simp add: sub key butlast plan_ok_append self Un_assoc image_Un)
  qed
qed simp_all

lemma site_commands_names:
  "cobra_tree ns c \<Longrightarrow> list_all doc_name ns \<Longrightarrow> s \<in> set (site_commands ns parents c) \<Longrightarrow>
     list_all doc_name (fst s) \<and> (\<exists>ks. fst s = ns @ di_Name (dc_info c) # ks)"
  "list_all (cobra_tree ns) cs \<Longrightarrow> list_all doc_name ns \<Longrightarrow> s \<in> set (site_below ns parents cs) \<Longrightarrow>
     list_all doc_name (fst s) \<and> (\<exists>c ks. c \<in> set cs \<and> fst s = ns @ di_Name (dc_info c) # ks)"
proof (induction ns parents c and ns parents cs rule: site_commands_site_below.induct)
  case (1 ns parents i cs)
  then show ?case by fastforce
next
  case (3 ns parents c cs)
  then show ?case by (auto split: if_splits)
qed simp_all

lemma site_commands_distinct:
  "cobra_tree ns c \<Longrightarrow> list_all doc_name ns \<Longrightarrow> distinct (map fst (site_commands ns parents c))"
  "list_all (cobra_tree ns) cs \<Longrightarrow> distinct (map (\<lambda>c. di_Name (dc_info c)) cs) \<Longrightarrow> list_all doc_name ns \<Longrightarrow>
     distinct (map fst (site_below ns parents cs))"
proof (induction ns parents c and ns parents cs rule: site_commands_site_below.induct)
  case (1 ns parents i cs)
  then have "ns @ [di_Name i] \<notin> fst ` set (site_below (ns @ [di_Name i]) (i # parents) cs)"
    using site_commands_names(2) [of "ns @ [di_Name i]" cs] by fastforce
  with 1 show ?case by auto
next
  case (3 ns parents c cs)
  have "fst s \<noteq> fst u" if "s \<in> set (site_commands ns parents c)" "u \<in> set (site_below ns parents cs)" for s u
  proof -
    from 3 that site_commands_names(1) [of ns c s parents] obtain ks where "fst s = ns @ di_Name (dc_info c) # ks" by auto
    moreover from 3 that site_commands_names(2) [of ns cs u parents] obtain d js
      where "d \<in> set cs" "fst u = ns @ di_Name (dc_info d) # js" by auto
    ultimately show ?thesis using "3.prems"(2) by auto
  qed
  with 3 show ?case by (auto simp: image_iff)
qed simp_all


section \<open>The site\<close>

text \<open>The node a path has after the walk over a tree that found nothing below the output directory.\<close>

lemma mem_node: "f k = (if mem_is_dir f k then Some Dir else map_option File (mem_content f k))"
  by (auto simp: mem_is_dir_def mem_content_def split: option.splits fs_node.splits)

lemma site_dir_not_page:
  assumes "s \<in> set (site_commands [] [] c)" and "u \<in> set (site_commands [] [] c)" and "cobra_tree [] c"
    and "length (fst u) > 1"
  shows "page_key (fst s) \<noteq> [site_dir (fst u)]"
proof
  assume eq: "page_key (fst s) = [site_dir (fst u)]"
  from site_commands_names(1) [OF assms(3) _ assms(1)] obtain ks where ks: "fst s = di_Name (dc_info c) # ks" by auto
  from site_commands_names(1) [OF assms(3) _ assms(2)] obtain js where js: "fst u = di_Name (dc_info c) # js" by auto
  from eq ks have "fst s = [di_Name (dc_info c)]" by (auto simp: page_key_def split: if_splits)
  moreover from js assms(4) obtain b bs where "fst u = di_Name (dc_info c) # b # bs" by (cases js) auto
  ultimately show False using eq by (simp add: page_key_def)
qed

lemma site_below_paths:
  assumes "cobra_tree [] c" and "s \<in> set (site_commands [] [] c)"
  shows "fst s = [di_Name (dc_info c)] \<or>
    (s \<in> set (site_below [di_Name (dc_info c)] [dc_info c] (dc_Commands c)) \<and> length (fst s) > 1)"
proof (cases c)
  case (DocCommand i cs)
  with assms site_commands_names(2) [of "[di_Name i]" cs s "[i]"] show ?thesis by auto
qed

lemma site_below_commands:
  "set (site_below [di_Name (dc_info c)] [dc_info c] (dc_Commands c)) \<subseteq> set (site_commands [] [] c)"
  by (cases c) auto

lemma site_below_long:
  assumes "cobra_tree [] c" and "s \<in> set (site_below [di_Name (dc_info c)] [dc_info c] (dc_Commands c))"
  shows "length (fst s) > 1"
  using assms site_commands_names(2) [of "[di_Name (dc_info c)]" "dc_Commands c" s "[dc_info c]"] by (cases c) auto

lemma site_names:
  assumes "cobra_tree [] c" and "s \<in> set (site_commands [] [] c)"
  shows "list_all doc_name (fst s)" and "fst s \<noteq> []"
  using site_commands_names(1) [OF assms(1) _ assms(2)] by (simp, metis append_Nil list.distinct(1) list.pred_inject(1))

text \<open>The plan of the whole tree.\<close>

lemma root_plan:
  fixes env :: "('f, 't) doc_env"
  assumes tree: "cobra_tree [] c" and k: "k = resolve (de_outputDir env)"
  shows "set (plan_dirs (doc_steps env t [] c [])) =
      (\<lambda>s. below k [site_dir (fst s)]) ` set (site_below [di_Name (dc_info c)] [dc_info c] (dc_Commands c))"
    and "plan_pages (doc_steps env t [] c []) =
      map (\<lambda>s. (below k (page_key (fst s)), page_text env t s)) (site_commands [] [] c)"
    and "k \<in> D \<Longrightarrow> plan_ok D (doc_steps env t [] c [])"
  using tree_plan(1) [OF tree _ k, of "[di_Name (dc_info c)]" "[]" t "[]" D] by (simp_all add: page_key_def)

lemma page_keys_distinct:
  assumes tree: "cobra_tree [] c"
  shows "distinct (map (\<lambda>s. below k (page_key (fst s))) (site_commands [] [] c))"
proof -
  let ?cs = "site_commands [] [] c"
  have "inj_on (\<lambda>ns. below k (page_key ns)) (set (map fst ?cs))"
  proof (intro inj_onI)
    fix ns ms assume ns: "ns \<in> set (map fst ?cs)" and ms: "ms \<in> set (map fst ?cs)"
      and eq: "below k (page_key ns) = below k (page_key ms)"
    have names: "list_all doc_name ks \<and> ks \<noteq> []" if "ks \<in> set (map fst ?cs)" for ks
    proof -
      from that obtain s where "s \<in> set ?cs" "ks = fst s" unfolding set_map by blast
      with site_names [OF tree, of s] show ?thesis by simp
    qed
    from eq have "page_key ns = page_key ms" by simp
    with names [OF ns] names [OF ms] page_key_inj show "ns = ms" by blast
  qed
  with site_commands_distinct(1) [OF tree] have "distinct (map (\<lambda>ns. below k (page_key ns)) (map fst ?cs))"
    by (simp only: distinct_map) simp
  then show ?thesis by (simp add: comp_def)
qed

lemma page_apart:
  assumes "cobra_tree [] c" and "s \<in> set (site_commands [] [] c)"
  shows "below k (page_key (fst s)) \<notin>
    (\<lambda>s. below k [site_dir (fst s)]) ` set (site_below [di_Name (dc_info c)] [dc_info c] (dc_Commands c))"
proof
  assume "below k (page_key (fst s)) \<in>
    (\<lambda>s. below k [site_dir (fst s)]) ` set (site_below [di_Name (dc_info c)] [dc_info c] (dc_Commands c))"
  then obtain u where u: "u \<in> set (site_below [di_Name (dc_info c)] [dc_info c] (dc_Commands c))"
    and "page_key (fst s) = [site_dir (fst u)]" by auto
  with site_dir_not_page [OF assms(2) _ assms(1), of u] site_below_commands [of c] site_below_long [OF assms(1) u]
  show False by blast
qed

lemma run_root_plan:
  fixes env :: "(mem_fs, 't) doc_env" and t :: 't
  assumes tree: "cobra_tree [] c" and k: "k = resolve (de_outputDir env)"
    and out: "fs k = Some Dir" and fresh: "\<forall>ns. ns \<noteq> [] \<longrightarrow> fs (below k ns) = None"
  defines "ss \<equiv> doc_steps env t [] c []"
  shows "\<exists>fs'. run_steps mem_os ss fs = (fs', None) \<and>
      mem_is_dir fs' = (\<lambda>k. mem_is_dir fs k \<or> k \<in> set (plan_dirs ss)) \<and>
      mem_content fs' = mem_content fs ++ map_of (rev (plan_pages ss))"
proof (rule mem.run_steps_ok)
  note plan = root_plan [OF tree k, where t = t, folded ss_def]
  show "plan_ok {p. mem_is_dir fs p} ss" using plan(3) out by (simp add: mem_is_dir_def)
  show "\<forall>p \<in> set (plan_dirs ss). mem_content fs p = None"
    using fresh by (auto simp: plan(1) mem_content_def)
  show "\<forall>p \<in> fst ` set (plan_pages ss). \<not> mem_is_dir fs p \<and> p \<notin> set (plan_dirs ss)"
    using page_apart [OF tree, of _ k] fresh unfolding plan(1,2) by (auto simp: mem_is_dir_def)
qed

lemma tree_walk:
  fixes env :: "(mem_fs, 't) doc_env"
  assumes tree: "cobra_tree [] c" and templates: "templates_ok env t" and os: "de_os env = mem_os"
    and k: "k = resolve (de_outputDir env)"
    and out: "fs k = Some Dir" and fresh: "\<forall>ns. ns \<noteq> [] \<longrightarrow> fs (below k ns) = None"
  shows "\<exists>fs'. GenMarkdownTreeCustom env [] c [] fs = (fs', None) \<and>
    (\<forall>s \<in> set (site_commands [] [] c). fs' (below k (page_key (fst s))) = Some (File (page_text env t s))) \<and>
    (\<forall>s \<in> set (site_commands [] [] c). length (fst s) > 1 \<longrightarrow> fs' (below k [site_dir (fst s)]) = Some Dir) \<and>
    (\<forall>p. (\<forall>s \<in> set (site_commands [] [] c). p \<noteq> below k (page_key (fst s)) \<and>
        (length (fst s) > 1 \<longrightarrow> p \<noteq> below k [site_dir (fst s)])) \<longrightarrow> fs' p = fs p)"
proof -
  let ?ss = "doc_steps env t [] c []" and ?cs = "site_commands [] [] c"
  note plan = root_plan [OF tree k, where t = t]
  from run_root_plan [OF tree k out fresh, of t] obtain fs' where run: "run_steps mem_os ?ss fs = (fs', None)"
    and d: "mem_is_dir fs' = (\<lambda>k. mem_is_dir fs k \<or> k \<in> set (plan_dirs ?ss))"
    and f: "mem_content fs' = mem_content fs ++ map_of (rev (plan_pages ?ss))" by blast
  have inj: "distinct (map fst (plan_pages ?ss))"
    using page_keys_distinct [OF tree, of k] by (simp add: plan(2) comp_def)
  show ?thesis
  proof (intro exI conjI ballI allI impI)
    show "GenMarkdownTreeCustom env [] c [] fs = (fs', None)"
      using run walk_steps(1) [OF templates] os by simp
  next
    fix s assume s: "s \<in> set ?cs"
    then have "(below k (page_key (fst s)), page_text env t s) \<in> set (plan_pages ?ss)" by (auto simp: plan(2))
    with inj have "map_of (rev (plan_pages ?ss)) (below k (page_key (fst s))) = Some (page_text env t s)"
      by (simp add: map_of_eq_Some_iff rev_map [symmetric])
    then show "fs' (below k (page_key (fst s))) = Some (File (page_text env t s))"
      using mem_node [of fs' "below k (page_key (fst s))"] d f page_apart [OF tree s, of k] fresh
      by (simp add: mem_is_dir_def plan(1))
  next
    fix s assume s: "s \<in> set ?cs" and "length (fst s) > 1"
    with site_below_paths [OF tree s] have "below k [site_dir (fst s)] \<in> set (plan_dirs ?ss)" by (auto simp: plan(1))
    with d show "fs' (below k [site_dir (fst s)]) = Some Dir" by (metis mem_is_dir_def)
  next
    fix p assume p: "\<forall>s \<in> set ?cs. p \<noteq> below k (page_key (fst s)) \<and> (length (fst s) > 1 \<longrightarrow> p \<noteq> below k [site_dir (fst s)])"
    then have "p \<notin> set (plan_dirs ?ss)"
      using site_below_commands [of c] site_below_long [OF tree] unfolding plan(1) by blast
    moreover have "map_of (rev (plan_pages ?ss)) p = None"
      using p by (auto simp: map_of_eq_None_iff plan(2))
    ultimately show "fs' p = fs p"
      using mem_node [of fs' p] mem_node [of fs p] d f by (simp add: map_add_def)
  qed
qed


section \<open>Links\<close>

text \<open>Where a link on the page of a command leads, below the output directory.\<close>

definition link_target :: "string list \<Rightarrow> doc_link \<Rightarrow> string list" where
  "link_target ns l = snd (resolve (path_join [site_dir ns, dl_Path l]))"

definition site_links :: "site_command \<Rightarrow> doc_link list" where
  "site_links = (\<lambda>(ns, parents, i, cs). fst (getLinks parents i cs (\<lambda>s. s) (length ns = 2)))"

text \<open>What the walk knows of the parents of a command with names \<open>ns\<close> above it.\<close>

definition parents_ok :: "string list \<Rightarrow> doc_info list \<Rightarrow> bool" where
  "parents_ok ns parents \<longleftrightarrow>
     (case parents of [] \<Rightarrow> ns = [] | p # _ \<Rightarrow> ns \<noteq> [] \<and> di_CommandPath p = str_join '' '' ns)"

definition site_ok :: "site_command \<Rightarrow> bool" where
  "site_ok = (\<lambda>(ns, parents, i, cs). ns \<noteq> [] \<and> list_all doc_name ns \<and> parents_ok (butlast ns) parents \<and>
     di_CommandPath i = str_join '' '' ns \<and> list_all (cobra_tree ns) cs)"

lemma site_commands_ok:
  "cobra_tree ns c \<Longrightarrow> list_all doc_name ns \<Longrightarrow> parents_ok ns parents \<Longrightarrow> s \<in> set (site_commands ns parents c) \<Longrightarrow> site_ok s"
  "list_all (cobra_tree ns) cs \<Longrightarrow> list_all doc_name ns \<Longrightarrow> parents_ok ns parents \<Longrightarrow> s \<in> set (site_below ns parents cs) \<Longrightarrow>
     site_ok s"
proof (induction ns parents c and ns parents cs rule: site_commands_site_below.induct)
  case (1 ns parents i cs)
  then have "parents_ok (ns @ [di_Name i]) (i # parents)" by (simp add: parents_ok_def)
  with 1 show ?case by (auto simp: site_ok_def)
next
  case (3 ns parents c cs)
  then show ?case by (auto split: if_splits)
qed simp_all

text \<open>Every command but the root stands below one with a page, and every shown one has a page.\<close>

definition child_path :: "site_command \<Rightarrow> string list \<Rightarrow> bool" where
  "child_path = (\<lambda>(ns, parents, i, cs) ms. \<exists>d \<in> set cs. shown (dc_info d) \<and> ms = ns @ [di_Name (dc_info d)])"

lemma child_path_Cons: "child_path (ns, parents, i, c # cs) ms \<longleftrightarrow>
    shown (dc_info c) \<and> ms = ns @ [di_Name (dc_info c)] \<or> child_path (ns, parents, i, cs) ms"
  by (auto simp: child_path_def)

lemma child_path_parents: "child_path (ns, parents, i, cs) ms = child_path (ns, parents', i', cs) ms"
  by (simp add: child_path_def)

lemma site_below_self:
  "d \<in> set cs \<Longrightarrow> shown (dc_info d) \<Longrightarrow> ns @ [di_Name (dc_info d)] \<in> fst ` set (site_below ns parents cs)"
proof (induction cs)
  case (Cons c cs)
  have "ns @ [di_Name (dc_info c)] \<in> fst ` set (site_commands ns parents c)" by (cases c) simp
  with Cons show ?case by (auto simp: image_Un)
qed simp

lemma site_commands_parent:
  "s \<in> set (site_commands ns parents c) \<Longrightarrow>
     fst s = ns @ [di_Name (dc_info c)] \<or> (\<exists>u \<in> set (site_commands ns parents c). child_path u (fst s))"
  "s \<in> set (site_below ns parents cs) \<Longrightarrow>
     child_path (ns, parents, i, cs) (fst s) \<or> (\<exists>u \<in> set (site_below ns parents cs). child_path u (fst s))"
proof (induction ns parents c and ns parents cs arbitrary: and i rule: site_commands_site_below.induct)
  case (1 ns parents i cs)
  then consider "s = (ns @ [di_Name i], parents, i, cs)" | "s \<in> set (site_below (ns @ [di_Name i]) (i # parents) cs)"
    by auto
  then show ?case
  proof cases
    case 2
    with "1.IH" [of i] show ?thesis
      using child_path_parents [of "ns @ [di_Name i]" "i # parents" i cs _ parents i] by auto
  qed simp
next
  case (3 ns parents c cs)
  show ?case
  proof (cases "s \<in> set (site_below ns parents cs)")
    case True
    with "3.IH"(2) [of i] show ?thesis unfolding child_path_Cons by auto
  next
    case False
    with 3 have c: "shown (dc_info c)" "s \<in> set (site_commands ns parents c)" by (auto split: if_splits)
    with "3.IH"(1) show ?thesis unfolding child_path_Cons by auto
  qed
qed simp_all

lemma site_commands_child:
  "u \<in> set (site_commands ns parents c) \<Longrightarrow> child_path u ms \<Longrightarrow> ms \<in> fst ` set (site_commands ns parents c)"
  "u \<in> set (site_below ns parents cs) \<Longrightarrow> child_path u ms \<Longrightarrow> ms \<in> fst ` set (site_below ns parents cs)"
proof (induction ns parents c and ns parents cs rule: site_commands_site_below.induct)
  case (1 ns parents i cs)
  then show ?case
    using site_below_self [of _ cs "ns @ [di_Name i]" "i # parents"] by (fastforce simp: child_path_def)
next
  case (3 ns parents c cs)
  then show ?case by (auto split: if_splits)
qed simp_all


text \<open>The targets of the links on a page.\<close>

lemma resolve_names: "ns \<noteq> [] \<Longrightarrow> \<forall>n \<in> set ns. entry_name n \<Longrightarrow> resolve (str_join ''/'' ns) = (False, ns)"
proof -
  assume ns: "ns \<noteq> []" "\<forall>n \<in> set ns. entry_name n"
  then have "clean_list False ns" by (intro clean_listI [of _ 0 ns]) simp_all
  then have "resolve (path_render (False, ns)) = (False, ns)" by (rule resolve_render)
  moreover have "str_join ''/'' ns \<noteq> []"
    using ns str_join_hd [of ns "''/''"] by (metis entry_name_def insertCI list.set_sel(1))
  ultimately show ?thesis by (simp add: path_render_def)
qed

lemma entry_name_join: "list_all doc_name ns \<Longrightarrow> length ns > 1 \<Longrightarrow> entry_name (str_join ''_'' ns)"
proof -
  assume ns: "list_all doc_name ns" "length ns > 1"
  then obtain a b ms where m: "ns = a # b # ms" by (cases ns; cases "tl ns") auto
  with ns have "a \<noteq> []" "CHR ''_'' \<in> set (str_join ''_'' ns)" by (auto simp: doc_name_def)
  with ns join_names_slash [OF ns(1)] show ?thesis by (auto simp: entry_name_def)
qed

lemma entry_name_index: "entry_name ''_index.md''"
  by (simp add: entry_name_def)

lemma child_link_target:
  assumes "di_CommandPath i = str_join '' '' ns" and "ns \<noteq> []" and "list_all doc_name (ns @ [di_Name d])"
  shows "link_target ns (child_link (\<lambda>s. s) (length ns = 2) i d) =
    (if length ns \<le> 2 then page_key (ns @ [di_Name d])
     else [site_dir ns, str_join ''_'' (ns @ [di_Name d]), ''_index.md''])"
proof -
  let ?ms = "ns @ [di_Name d]"
  have "str_join '' '' ns @ '' '' @ di_Name d = str_join '' '' ?ms"
    using assms(2) str_join_append [of ns "[di_Name d]" "'' ''"] by simp
  then have path: "dl_Path (child_link (\<lambda>s. s) (length ns = 2) i d) =
      str_join ''_'' ?ms @ (if length ns = 2 then ''.md'' else ''/_index.md'')"
    using assms replace_names [of ?ms] by (simp add: child_link_def)
  have j: "entry_name (str_join ''_'' ?ms)" using assms(2,3) by (intro entry_name_join) (cases ns, auto)
  have md: "entry_name (str_join ''_'' ?ms @ ''.md'')" using entry_name_md [OF join_names_slash [OF assms(3)]] .
  have two: "str_join ''/'' [str_join ''_'' ?ms, ''_index.md''] = str_join ''_'' ?ms @ ''/_index.md''" by simp
  consider (root) a where "ns = [a]" | (index) a b where "ns = [a, b]" | (page) a b c ms where "ns = a # b # c # ms"
    using assms(2) by (metis list.exhaust)
  then show ?thesis
  proof cases
    case root
    then have "site_dir ?ms = str_join ''_'' ?ms" "site_dir ns = []" by simp_all
    with root path two resolve_join_names [of "[str_join ''_'' ?ms, ''_index.md'']" "[]"] j entry_name_index show ?thesis
      by (simp add: link_target_def page_key_def) (simp add: below_def resolve_def path_rooted_def)
  next
    case index
    have dir: "entry_name (site_dir ns)" "site_dir ?ms = site_dir ns"
      using index assms(3) entry_name_dir [of ns] by simp_all
    show ?thesis
      using index path md dir resolve_join_name [of "str_join ''_'' ?ms @ ''.md''" "site_dir ns"]
        resolve_names [of "[site_dir ns]"]
      by (simp add: link_target_def page_key_def below_def)
  next
    case page
    have dir: "entry_name (site_dir ns)" using page assms(3) entry_name_dir [of ns] by simp
    show ?thesis
      using page path two dir j entry_name_index resolve_names [of "[site_dir ns]"]
        resolve_join_names [of "[str_join ''_'' ?ms, ''_index.md'']" "site_dir ns"]
      by (simp add: link_target_def below_def)
  qed
qed

lemma parent_link_target:
  assumes "parents_ok (butlast ns) (p # ps)" and "list_all doc_name ns"
  shows "link_target ns (parent_link (\<lambda>s. s) (length ns = 2) p) = page_key (take 2 (butlast ns))"
proof -
  from assms(1) have ne: "butlast ns \<noteq> []" and path: "di_CommandPath p = str_join '' '' (butlast ns)"
    by (simp_all add: parents_ok_def)
  then obtain a b ms where ns: "ns = a # b # ms" by (cases ns; cases "tl ns") auto
  have dir: "entry_name (site_dir ns)" using assms(2) ns entry_name_dir [of ns] by simp
  note key = resolve_names [of "[site_dir ns]", simplified, OF dir]
  show ?thesis
  proof (cases ms)
    case Nil
    with ns assms(2) have a: "doc_name a" "entry_name (a @ ''.md'')"
      using entry_name_md by (auto simp: doc_name_def)
    then have split: "split_on (CHR ''/'') (''../'' @ a @ ''.md'') = [''..'', a @ ''.md'']"
      using split_on_free [of "CHR ''/''" "a @ ''.md''"] by (auto simp: doc_name_def)
    from a have "split_on (CHR '' '') (di_CommandPath p) = [a]"
      using path ns Nil split_on_free [of "CHR '' ''" a] by (auto simp: doc_name_def)
    then have "dl_Path (parent_link (\<lambda>s. s) (length ns = 2) p) = ''../'' @ a @ ''.md''"
      using ns Nil by (simp add: parent_link_def)
    moreover have "site_dir ns \<noteq> []" using dir by (auto simp: entry_name_def)
    ultimately show ?thesis
      using resolve_join_rel [of "site_dir ns" "''../'' @ a @ ''.md''"] split key ns Nil dir a(2)
      by (simp add: link_target_def page_key_def entry_name_def del: split_on.simps)
  next
    case (Cons c cs)
    with ns have "dl_Path (parent_link (\<lambda>s. s) (length ns = 2) p) = ''_index.md''" by (simp add: parent_link_def)
    with ns Cons key resolve_join_name [OF entry_name_index, of "site_dir ns"] show ?thesis
      by (simp add: link_target_def page_key_def below_def numeral_2_eq_2)
  qed
qed


lemma site_links_targets:
  assumes "site_ok (ns, parents, i, cs)"
  shows "map (link_target ns) (site_links (ns, parents, i, cs)) =
    (if length ns = 1 then [] else [page_key (take 2 (butlast ns))]) @
    map (\<lambda>d. if length ns \<le> 2 then page_key (ns @ [di_Name d])
         else [site_dir ns, str_join ''_'' (ns @ [di_Name d]), ''_index.md''])
      (filter shown (sort_key di_Name (map dc_info cs)))"
proof -
  from assms have ok: "ns \<noteq> []" "list_all doc_name ns" "parents_ok (butlast ns) parents"
    "di_CommandPath i = str_join '' '' ns" "list_all (cobra_tree ns) cs" by (simp_all add: site_ok_def)
  have names: "list_all doc_name (ns @ [di_Name d])" if "d \<in> dc_info ` set cs" for d
    using that ok(2,5) cobra_tree_info [of ns] by (auto simp: list_all_iff)
  have children: "map (link_target ns) (map (child_link (\<lambda>s. s) (length ns = 2) i)
        (filter shown (sort_key di_Name (map dc_info cs)))) =
      map (\<lambda>d. if length ns \<le> 2 then page_key (ns @ [di_Name d])
         else [site_dir ns, str_join ''_'' (ns @ [di_Name d]), ''_index.md''])
      (filter shown (sort_key di_Name (map dc_info cs)))"
  proof (unfold map_map comp_def, rule map_cong [OF refl])
    fix d assume "d \<in> set (filter shown (sort_key di_Name (map dc_info cs)))"
    then have "d \<in> dc_info ` set cs" by simp
    from child_link_target [OF ok(4,1) names [OF this]]
    show "link_target ns (child_link (\<lambda>s. s) (length ns = 2) i d) = (if length ns \<le> 2 then page_key (ns @ [di_Name d])
         else [site_dir ns, str_join ''_'' (ns @ [di_Name d]), ''_index.md''])" .
  qed
  show ?thesis
  proof (cases parents)
    case Nil
    with ok(1,3) have "length ns = 1" by (cases ns) (auto simp: parents_ok_def split: if_splits)
    with Nil children show ?thesis by (simp add: site_links_def getLinks_def)
  next
    case (Cons p ps)
    with ok(1,3) have "length ns \<noteq> 1" by (cases ns) (auto simp: parents_ok_def)
    with Cons children parent_link_target [of ns p ps] ok(2,3) show ?thesis by (simp add: site_links_def getLinks_def)
  qed
qed

text \<open>The paths of the site are closed under parents.\<close>

lemma site_paths_parent:
  assumes "ns \<in> set (site_paths c)" and "length ns > 1"
  shows "\<exists>u \<in> set (site_commands [] [] c). fst u = butlast ns \<and> child_path u ns"
proof -
  from assms(1) obtain s where s: "s \<in> set (site_commands [] [] c)" "ns = fst s" by (auto simp: site_paths_def)
  with site_commands_parent(1) [OF s(1)] assms(2) obtain u where "u \<in> set (site_commands [] [] c)" "child_path u ns"
    by auto
  then show ?thesis by (intro bexI [of _ u]) (auto simp: child_path_def)
qed

lemma site_paths_take:
  assumes "ns \<in> set (site_paths c)" and "0 < k"
  shows "take k ns \<in> set (site_paths c)"
  using assms(1)
proof (induction "length ns" arbitrary: ns)
  case (Suc n)
  show ?case
  proof (cases "length ns \<le> k \<or> length ns = 1")
    case True
    with assms(2) Suc show ?thesis by (cases ns; cases k) auto
  next
    case False
    with Suc have "length ns > 1" by (cases "length ns") auto
    with site_paths_parent [OF Suc.prems] have "butlast ns \<in> set (site_paths c)"
      by (auto simp: site_paths_def) (metis fst_conv image_iff)
    with Suc.hyps(1) [of "butlast ns"] Suc.hyps(2) False show ?thesis by (simp add: take_butlast)
  qed
qed simp

lemma site_link_cases:
  assumes tree: "cobra_tree [] c" and s: "(ns, parents, i, cs) \<in> set (site_commands [] [] c)"
  shows "link_target ns ` set (site_links (ns, parents, i, cs)) =
    (if length ns = 1 then {} else {page_key (take 2 (butlast ns))}) \<union>
    (\<lambda>d. if length ns \<le> 2 then page_key (ns @ [di_Name d])
         else [site_dir ns, str_join ''_'' (ns @ [di_Name d]), ''_index.md'']) ` {d \<in> dc_info ` set cs. shown d}"
proof -
  have "site_ok (ns, parents, i, cs)"
    using site_commands_ok(1) [OF tree _ _ s] by (simp add: parents_ok_def)
  from arg_cong [OF site_links_targets [OF this], of set] show ?thesis
    by (simp add: image_Collect conj_commute split: if_splits)
qed

lemma child_in_paths:
  assumes "(ns, parents, i, cs) \<in> set (site_commands [] [] c)" and "d \<in> dc_info ` set cs" and "shown d"
  shows "ns @ [di_Name d] \<in> set (site_paths c)"
  using site_commands_child(1) [OF assms(1), of "ns @ [di_Name d]"] assms(2,3)
  by (auto simp: child_path_def site_paths_def)

text \<open>Links lead to pages down to the third level.\<close>

lemma site_link_page:
  assumes tree: "cobra_tree [] c" and depth: "\<forall>ns \<in> set (site_paths c). length ns \<le> 3"
    and s: "s \<in> set (site_commands [] [] c)" and l: "l \<in> set (site_links s)"
  shows "link_target (fst s) l \<in> page_key ` set (site_paths c)"
proof -
  obtain ns parents i cs where e: "s = (ns, parents, i, cs)" by (cases s) auto
  have ns: "ns \<in> set (site_paths c)" using s e by (force simp: site_paths_def)
  from l e have "link_target ns l \<in> link_target ns ` set (site_links (ns, parents, i, cs))" by simp
  then consider (parent) "length ns \<noteq> 1" "link_target ns l = page_key (take 2 (butlast ns))"
    | (child) d where "d \<in> dc_info ` set cs" "shown d" "link_target ns l = (if length ns \<le> 2 then page_key (ns @ [di_Name d])
         else [site_dir ns, str_join ''_'' (ns @ [di_Name d]), ''_index.md''])"
    unfolding site_link_cases [OF tree s [unfolded e]] by (auto split: if_splits)
  then show ?thesis
  proof cases
    case parent
    with site_names(2) [OF tree s] e have "length ns > 1" by (cases ns) auto
    then have "0 < min 2 (length ns - 1)" by simp
    with site_paths_take [OF ns] have "take 2 (butlast ns) \<in> set (site_paths c)"
      by (metis butlast_conv_take take_take)
    with parent e show ?thesis by simp
  next
    case child
    from child_in_paths [OF s [unfolded e] child(1,2)] have m: "ns @ [di_Name d] \<in> set (site_paths c)" .
    with depth have "length ns \<le> 2" by force
    with child e m show ?thesis by simp
  qed
qed

text \<open>
  C18. The links of the site: for a tree of commands as cobra reports it, every link on every page leads to a
  page of the site exactly when no command with a page stands four levels deep.
\<close>

theorem docs_links:
  assumes "cobra_tree [] c"
  shows "(\<forall>s \<in> set (site_commands [] [] c). \<forall>l \<in> set (site_links s). link_target (fst s) l \<in> page_key ` set (site_paths c)) \<longleftrightarrow>
    (\<forall>ns \<in> set (site_paths c). length ns \<le> 3)"
proof
  assume links: "\<forall>s \<in> set (site_commands [] [] c). \<forall>l \<in> set (site_links s). link_target (fst s) l \<in> page_key ` set (site_paths c)"
  show "\<forall>ns \<in> set (site_paths c). length ns \<le> 3"
  proof (rule ccontr)
    assume "\<not> (\<forall>ns \<in> set (site_paths c). length ns \<le> 3)"
    then obtain ns where "ns \<in> set (site_paths c)" "length ns > 3" by force
    then have "take 4 ns \<in> set (site_paths c)" "length (take 4 ns) = 4" using site_paths_take [of ns c 4] by auto
    with site_paths_parent [of "take 4 ns" c] obtain ms ps i cs
      where u: "(ms, ps, i, cs) \<in> set (site_commands [] [] c)" "length ms = 3" "child_path (ms, ps, i, cs) (take 4 ns)"
      by fastforce
    from u(3) obtain d where d: "d \<in> dc_info ` set cs" "shown d" by (auto simp: child_path_def)
    with site_link_cases [OF assms u(1)] u(2) obtain l where "l \<in> set (site_links (ms, ps, i, cs))"
      "length (link_target ms l) = 3" by (auto simp: set_eq_iff image_iff) (metis length_Cons list.size(3) numeral_3_eq_3)
    moreover from links u(1) have "\<forall>l \<in> set (site_links (ms, ps, i, cs)). link_target ms l \<in> page_key ` set (site_paths c)"
      by fastforce
    ultimately show False by (fastforce simp: page_key_def split: if_splits)
  qed
qed (use site_link_page [OF assms] in blast)


text \<open>A tree of documented commands from a tree of commands, all of them available.\<close>

definition plain_info :: "string list \<Rightarrow> string \<Rightarrow> doc_info" where
  "plain_info ns n =
     \<lparr>di_Name = n, di_CommandPath = str_join '' '' (ns @ [n]), di_Short = n, di_Long = [], di_Example = [], di_UseLine = [],
      di_Runnable = True, di_IsAvailableCommand = True, di_IsAdditionalHelpTopicCommand = False,
      di_DisableAutoGenTag = False, di_NonInheritedFlags = [], di_InheritedFlags = []\<rparr>"

fun doc_of :: "string list \<Rightarrow> command \<Rightarrow> doc_command" where
  "doc_of ns (Command n a fs ps cs) = DocCommand (plain_info ns n) (map (doc_of (ns @ [n])) cs)"

definition deep_doc :: doc_command where
  "deep_doc = doc_of [] (Command ''a'' AnyArgs [] [] [Command ''b'' AnyArgs [] [] [Command ''c'' AnyArgs [] []
     [Command ''d'' AnyArgs [] [] []]]])"

theorem docs_links_witness:
  "\<not> (\<forall>s \<in> set (site_commands [] [] deep_doc). \<forall>l \<in> set (site_links s). link_target (fst s) l \<in> page_key ` set (site_paths deep_doc))"
proof -
  have "cobra_tree [] deep_doc" by code_simp
  moreover have "\<not> (\<forall>ns \<in> set (site_paths deep_doc). length ns \<le> 3)" by code_simp
  ultimately show ?thesis using docs_links [of deep_doc] by blast
qed

section \<open>The site of kjobctl\<close>

lemma GenMarkdownTree_walk:
  fixes env :: "(mem_fs, 't) doc_env"
  assumes tree: "cobra_tree [] c" and templates: "templates_ok env t" and os: "de_os env = mem_os"
    and k: "k = resolve (de_outputDir env)"
    and out: "fs k = Some Dir" and fresh: "\<forall>ns. ns \<noteq> [] \<longrightarrow> fs (below k ns) = None"
  shows "\<exists>fs'. GenMarkdownTree env c fs = (fs', None) \<and>
    (\<forall>(ns, parents, i, cs) \<in> set (site_commands [] [] c). fs' (below k (page_key ns)) =
       Some (File (concat (fst (de_Execute env t (getReference (de_HomeDir env) parents i cs (\<lambda>s. s) (length ns = 2))))))) \<and>
    (\<forall>ns \<in> set (site_paths c). length ns > 1 \<longrightarrow> fs' (below k [site_dir ns]) = Some Dir) \<and>
    (\<forall>p. (\<forall>ns \<in> set (site_paths c). p \<noteq> below k (page_key ns) \<and> (length ns > 1 \<longrightarrow> p \<noteq> below k [site_dir ns])) \<longrightarrow> fs' p = fs p)"
proof -
  let ?env = "env\<lparr>de_filePrepender := (\<lambda>s. []), de_linkHandler := (\<lambda>s. s)\<rparr>"
  have "templates_ok ?env t" "de_os ?env = mem_os" "k = resolve (de_outputDir ?env)"
    using templates os k by (simp_all add: templates_ok_def)
  from tree_walk [OF tree this out fresh] obtain fs' where fs': "GenMarkdownTreeCustom ?env [] c [] fs = (fs', None)"
    "\<forall>s \<in> set (site_commands [] [] c). fs' (below k (page_key (fst s))) = Some (File (page_text ?env t s))"
    "\<forall>s \<in> set (site_commands [] [] c). length (fst s) > 1 \<longrightarrow> fs' (below k [site_dir (fst s)]) = Some Dir"
    "\<forall>p. (\<forall>s \<in> set (site_commands [] [] c). p \<noteq> below k (page_key (fst s)) \<and>
        (length (fst s) > 1 \<longrightarrow> p \<noteq> below k [site_dir (fst s)])) \<longrightarrow> fs' p = fs p" by blast
  show ?thesis
  proof (intro exI [of _ fs'] conjI)
    show "GenMarkdownTree env c fs = (fs', None)" using fs'(1) by (simp add: GenMarkdownTree_def)
    show "\<forall>(ns, parents, i, cs) \<in> set (site_commands [] [] c). fs' (below k (page_key ns)) =
       Some (File (concat (fst (de_Execute env t (getReference (de_HomeDir env) parents i cs (\<lambda>s. s) (length ns = 2))))))"
      using fs'(2) by (auto simp: page_text_def)
  qed (use fs'(3,4) in \<open>simp_all add: site_paths_def\<close>)
qed

text \<open>
  C17. The pages: in an empty output directory, with templates that parse and execute, the generator succeeds.
  Every command that is shown has its page, rendered from its reference, in the file of its path, the commands
  below the root have their directory, and nothing else of the file system changes.
\<close>

theorem docs_pages:
  fixes env :: "(mem_fs, 't) doc_env"
  assumes "cobra_tree [] c" and "templates_ok env t" and "de_os env = mem_os"
    and "k = resolve (de_outputDir env)" and "fs k = Some Dir" and "\<forall>ns. ns \<noteq> [] \<longrightarrow> fs (below k ns) = None"
  shows "\<exists>fs'. GenMarkdownTree env c fs = (fs', None) \<and>
    (\<forall>(ns, parents, i, cs) \<in> set (site_commands [] [] c). fs' (below k (page_key ns)) =
       Some (File (concat (fst (de_Execute env t (getReference (de_HomeDir env) parents i cs (\<lambda>s. s) (length ns = 2))))))) \<and>
    (\<forall>ns \<in> set (site_paths c). length ns > 1 \<longrightarrow> fs' (below k [site_dir ns]) = Some Dir) \<and>
    (\<forall>p. (\<forall>ns \<in> set (site_paths c). p \<noteq> below k (page_key ns) \<and> (length ns > 1 \<longrightarrow> p \<noteq> below k [site_dir ns])) \<longrightarrow> fs' p = fs p)"
  using assms by (rule GenMarkdownTree_walk)

definition title_env :: "(mem_fs, unit) doc_env" where
  "title_env =
     \<lparr>de_os = mem_os, de_ParseGlob = (\<lambda>g. if g = ''tpl/*'' then Inr () else Inl ''no match''),
      de_Execute = (\<lambda>t r. ([''# '', rf_Title r], None)), de_HomeDir = None, de_templatesDir = ''tpl'',
      de_outputDir = ''docs'', de_filePrepender = (\<lambda>s. []), de_linkHandler = (\<lambda>s. s)\<rparr>"

definition docs_fs :: mem_fs where
  "docs_fs = (\<lambda>k. if k = (False, [''docs'']) then Some Dir else None)"

lemma docs_fs_start:
  "docs_fs (resolve ''docs'') = Some Dir" "\<forall>ns. ns \<noteq> [] \<longrightarrow> docs_fs (below (resolve ''docs'') ns) = None"
proof -
  have "resolve ''docs'' = (False, [''docs''])" by code_simp
  then show "docs_fs (resolve ''docs'') = Some Dir" "\<forall>ns. ns \<noteq> [] \<longrightarrow> docs_fs (below (resolve ''docs'') ns) = None"
    by (simp_all add: docs_fs_def below_def)
qed

definition small_doc :: doc_command where
  "small_doc = doc_of [] (Command ''kjobctl'' AnyArgs [] [] [Command ''list'' AnyArgs [] [] [Command ''job'' AnyArgs [] [] []]])"

theorem docs_pages_witness:
  "\<exists>fs'. GenMarkdownTree title_env small_doc docs_fs = (fs', None) \<and>
     fs' (below (resolve ''docs'') [''kjobctl_list'', ''kjobctl_list_job.md'']) = Some (File ''# kjobctl list job'')"
proof -
  have "cobra_tree [] small_doc" by code_simp
  moreover have "templates_ok title_env ()" by (simp add: templates_ok_def title_env_def)
  moreover have "de_os title_env = mem_os" "de_outputDir title_env = ''docs''" by (simp_all add: title_env_def)
  ultimately obtain fs' where run: "GenMarkdownTree title_env small_doc docs_fs = (fs', None)"
    and pages: "\<forall>(ns, parents, i, cs) \<in> set (site_commands [] [] small_doc). fs' (below (resolve ''docs'') (page_key ns)) =
       Some (File (concat (fst (de_Execute title_env () (getReference (de_HomeDir title_env) parents i cs (\<lambda>s. s) (length ns = 2))))))"
    using docs_pages [of small_doc title_env "()" "resolve ''docs''" docs_fs] docs_fs_start by auto
  have "site_commands [] [] small_doc ! 0 \<in> set (site_commands [] [] small_doc)" by (rule nth_mem) code_simp
  moreover have "site_commands [] [] small_doc ! 0 =
      ([''kjobctl'', ''list'', ''job''], [plain_info [''kjobctl''] ''list'', plain_info [] ''kjobctl''],
       plain_info [''kjobctl'', ''list''] ''job'', [])" by code_simp
  moreover have "page_key [''kjobctl'', ''list'', ''job''] = [''kjobctl_list'', ''kjobctl_list_job.md'']" by code_simp
  moreover have "trim_space (di_CommandPath (plain_info [''kjobctl'', ''list''] ''job'')) = ''kjobctl list job''" by code_simp
  ultimately have "fs' (below (resolve ''docs'') [''kjobctl_list'', ''kjobctl_list_job.md'']) = Some (File ''# kjobctl list job'')"
    using pages by (auto simp: title_env_def getReference_def)
  with run show ?thesis by blast
qed


text \<open>The names from the root to every command of a tree.\<close>

fun command_paths :: "string list \<Rightarrow> command \<Rightarrow> string list list" where
  "command_paths ns (Command n a fs ps cs) = (ns @ [n]) # concat (map (command_paths (ns @ [n])) cs)"

lemma kjobctl_tree_depth: "list_all (\<lambda>ns. length ns \<le> 3) (command_paths [] (kjobctl_tree cf pf))"
  by (simp add: kjobctl_tree_def createModeSubcommands_def printcrds_NewCmd_def NewVersionCmd_def)

text \<open>
  C16. The documentation of kjobctl: for the tree of commands that the program registers, run with an empty output
  directory, the generator ends without an error and every link on every page leads to a file it has written.
\<close>

theorem kjobctl_docs:
  fixes env :: "(mem_fs, 't) doc_env"
  assumes cli: "compatible_cli cf pf" "NewKjobctlCmd cf pf = Some root"
    and tree: "cobra_tree [] c" and shown: "set (site_paths c) \<subseteq> set (command_paths [] root)"
    and templates: "templates_ok (env\<lparr>de_templatesDir := templatesDir\<rparr>) t" and os: "de_os env = mem_os"
    and out: "fs (resolve outputDir) = Some Dir" "\<forall>ns. ns \<noteq> [] \<longrightarrow> fs (below (resolve outputDir) ns) = None"
  shows "\<exists>fs'. docs_main env c [prog, templatesDir, outputDir] fs = (fs', Success) \<and>
    (\<forall>s \<in> set (site_commands [] [] c). \<forall>l \<in> set (site_links s).
       \<exists>text. fs' (below (resolve outputDir) (link_target (fst s) l)) = Some (File text))"
proof -
  let ?env = "env\<lparr>de_templatesDir := templatesDir, de_outputDir := outputDir\<rparr>"
  have "templates_ok ?env t" "de_os ?env = mem_os" "resolve outputDir = resolve (de_outputDir ?env)"
    using templates os by (simp_all add: templates_ok_def)
  from GenMarkdownTree_walk [OF tree this out] obtain fs' where run: "GenMarkdownTree ?env c fs = (fs', None)"
    and pages: "\<forall>(ns, parents, i, cs) \<in> set (site_commands [] [] c). fs' (below (resolve outputDir) (page_key ns)) =
       Some (File (concat (fst (de_Execute ?env t (getReference (de_HomeDir ?env) parents i cs (\<lambda>s. s) (length ns = 2))))))"
    by blast
  from cli NewKjobctlCmd_tree have "root = kjobctl_tree cf pf" by fastforce
  with shown kjobctl_tree_depth [of cf pf] have depth: "\<forall>ns \<in> set (site_paths c). length ns \<le> 3"
    by (auto simp: list_all_iff)
  show ?thesis
  proof (intro exI [of _ fs'] conjI ballI)
    show "docs_main env c [prog, templatesDir, outputDir] fs = (fs', Success)"
      using run by (simp add: docs_main_def)
    fix s l assume "s \<in> set (site_commands [] [] c)" "l \<in> set (site_links s)"
    from site_link_page [OF tree depth this] obtain u where u: "u \<in> set (site_commands [] [] c)"
      "link_target (fst s) l = page_key (fst u)" by (auto simp: site_paths_def)
    with pages show "\<exists>text. fs' (below (resolve outputDir) (link_target (fst s) l)) = Some (File text)"
      by (cases u) fastforce
  qed
qed

lemma set_site_below:
  "set (site_below ns parents cs) = (\<Union>c \<in> {c \<in> set cs. shown (dc_info c)}. set (site_commands ns parents c))"
  by (induction cs) auto

lemma doc_of_info: "di_Name (dc_info (doc_of ns c)) = cmd_Name c" "shown (dc_info (doc_of ns c))"
  by (cases c; simp add: plain_info_def shown_def)+

lemma doc_of_paths: "fst ` set (site_commands ns parents (doc_of ns c)) = set (command_paths ns c)"
proof (induction ns c arbitrary: parents rule: doc_of.induct)
  case (1 ns n a fs ps cs)
  have "{c \<in> set (map (doc_of (ns @ [n])) cs). shown (dc_info c)} = doc_of (ns @ [n]) ` set cs"
    by (auto simp: doc_of_info)
  then have "fst ` set (site_below (ns @ [n]) (plain_info ns n # parents) (map (doc_of (ns @ [n])) cs)) =
      (\<Union>c \<in> set cs. set (command_paths (ns @ [n]) c))"
    using 1 unfolding set_site_below by (simp add: image_UN)
  then show ?case by (simp add: plain_info_def [of ns n])
qed

theorem kjobctl_docs_witness:
  "\<exists>fs'. docs_main title_env (doc_of [] (kjobctl_tree kube_config_flags kubectl_print_flags)) [''kjobctl-docs'', ''tpl'', ''docs''] docs_fs =
      (fs', Success) \<and>
    (\<forall>s \<in> set (site_commands [] [] (doc_of [] (kjobctl_tree kube_config_flags kubectl_print_flags))). \<forall>l \<in> set (site_links s).
       \<exists>text. fs' (below (resolve ''docs'') (link_target (fst s) l)) = Some (File text))"
proof -
  let ?root = "kjobctl_tree kube_config_flags kubectl_print_flags"
  have cli: "compatible_cli kube_config_flags kubectl_print_flags" by code_simp
  have tree: "cobra_tree [] (doc_of [] ?root)" by code_simp
  have paths: "set (site_paths (doc_of [] ?root)) \<subseteq> set (command_paths [] ?root)"
    by (simp add: site_paths_def doc_of_paths)
  have "templates_ok (title_env\<lparr>de_templatesDir := ''tpl''\<rparr>) ()" "de_os title_env = mem_os"
    by (simp_all add: templates_ok_def title_env_def)
  from kjobctl_docs [OF cli NewKjobctlCmd_tree [OF cli] tree paths this docs_fs_start] show ?thesis .
qed

end
