(* ===== verification/GoHeap.thy ===== *)
theory GoHeap
  imports Prelude "HOL-Library.State_Monad" "HOL-Library.More_List"
begin

text \<open>
  Go's memory, as far as a copy of a value depends on it: arrays at addresses, slices and pointers into
  them, and \<open>make\<close>, \<open>new\<close>, reading and assigning an element as operations of a state monad. The locale
  \<open>copier\<close> is the contract of a function that makes a deep copy; slices, pointers and structs of copied
  parts fulfil it when their parts do.
\<close>

section \<open>Arrays, slices and pointers\<close>

record 'c heap =
  hp_next :: nat
  hp_array :: "nat \<Rightarrow> 'c list"

text \<open>A slice is nil or an array, an offset and a length; a pointer is nil or an element of an array.\<close>

datatype slice = NilSlice | SliceOf nat nat nat

type_synonym pointer = "(nat \<times> nat) option"

text \<open>How the elements of one Go type are kept in the cells of an array, with the zero value of the type.\<close>

record ('c, 'e) elem_type =
  et_get :: "'c \<Rightarrow> 'e"
  et_put :: "'e \<Rightarrow> 'c"
  et_zero :: 'e

text \<open>Indexes of a slice are in range; a cell outside reads as the zero value.\<close>

definition elem_at :: "('c, 'e) elem_type \<Rightarrow> 'c heap \<Rightarrow> nat \<Rightarrow> nat \<Rightarrow> 'e" where
  "elem_at T h a i = et_get T (nth_default (et_put T (et_zero T)) (hp_array h a) i)"

definition make_array :: "'c list \<Rightarrow> ('c heap, nat) state" where
  "make_array cs = do {
     h \<leftarrow> State_Monad.get;
     State_Monad.set (h\<lparr>hp_next := Suc (hp_next h), hp_array := (hp_array h)(hp_next h := cs)\<rparr>);
     State_Monad.return (hp_next h)
   }"

definition read_elem :: "('c, 'e) elem_type \<Rightarrow> nat \<Rightarrow> nat \<Rightarrow> ('c heap, 'e) state" where
  "read_elem T a i = do { h \<leftarrow> State_Monad.get; State_Monad.return (elem_at T h a i) }"

definition write_elem :: "('c, 'e) elem_type \<Rightarrow> nat \<Rightarrow> nat \<Rightarrow> 'e \<Rightarrow> ('c heap, unit) state" where
  "write_elem T a i e = do {
     h \<leftarrow> State_Monad.get;
     State_Monad.set (h\<lparr>hp_array := (hp_array h)(a := (hp_array h a)[i := et_put T e])\<rparr>)
   }"

section \<open>Copying slices and pointers\<close>

text \<open>\<open>for i := range *in { (*in)[i].DeepCopyInto(&(*out)[i]) }\<close>, from an index on.\<close>

fun copy_loop ::
  "('c, 'e) elem_type \<Rightarrow> ('e \<Rightarrow> ('c heap, 'e) state) \<Rightarrow> nat \<Rightarrow> nat \<Rightarrow> nat \<Rightarrow> nat \<Rightarrow> nat \<Rightarrow> ('c heap, unit) state" where
  "copy_loop T copy a off b i 0 = State_Monad.return ()"
| "copy_loop T copy a off b i (Suc n) = do {
     e \<leftarrow> read_elem T a (off + i);
     d \<leftarrow> copy e;
     write_elem T b i d;
     copy_loop T copy a off b (Suc i) n
   }"

definition copy_slice ::
  "('c, 'e) elem_type \<Rightarrow> ('e \<Rightarrow> ('c heap, 'e) state) \<Rightarrow> slice \<Rightarrow> ('c heap, slice) state" where
  "copy_slice T copy s =
     (case s of
        NilSlice \<Rightarrow> State_Monad.return NilSlice
      | SliceOf a off n \<Rightarrow> do {
          b \<leftarrow> make_array (replicate n (et_put T (et_zero T)));
          copy_loop T copy a off b 0 n;
          State_Monad.return (SliceOf b 0 n)
        })"

text \<open>\<open>DeepCopy\<close> of a type with \<open>DeepCopyInto\<close>: nil for nil, else a new value that is copied into.\<close>

definition copy_pointer ::
  "('c, 'e) elem_type \<Rightarrow> ('e \<Rightarrow> ('c heap, 'e) state) \<Rightarrow> pointer \<Rightarrow> ('c heap, pointer) state" where
  "copy_pointer T copy p =
     (case p of
        None \<Rightarrow> State_Monad.return None
      | Some (a, i) \<Rightarrow> do {
          b \<leftarrow> make_array [et_put T (et_zero T)];
          e \<leftarrow> read_elem T a i;
          d \<leftarrow> copy e;
          write_elem T b 0 d;
          State_Monad.return (Some (b, 0))
        })"

section \<open>What a value stands for\<close>

text \<open>The elements of a slice, what it stands for, and the arrays it is kept in.\<close>

definition slice_elems :: "('c, 'e) elem_type \<Rightarrow> 'c heap \<Rightarrow> slice \<Rightarrow> 'e list option" where
  "slice_elems T h s = (case s of NilSlice \<Rightarrow> None | SliceOf a off n \<Rightarrow> Some (map (\<lambda>i. elem_at T h a (off + i)) [0..<n]))"

definition slice_val :: "('c, 'e) elem_type \<Rightarrow> ('c heap \<Rightarrow> 'e \<Rightarrow> 'v) \<Rightarrow> 'c heap \<Rightarrow> slice \<Rightarrow> 'v list option" where
  "slice_val T val h s = map_option (map (val h)) (slice_elems T h s)"

definition slice_reach :: "('c, 'e) elem_type \<Rightarrow> ('c heap \<Rightarrow> 'e \<Rightarrow> nat set) \<Rightarrow> 'c heap \<Rightarrow> slice \<Rightarrow> nat set" where
  "slice_reach T reach h s =
     (case s of NilSlice \<Rightarrow> {} | SliceOf a off n \<Rightarrow> insert a (\<Union>i \<in> {..<n}. reach h (elem_at T h a (off + i))))"

definition pointer_val :: "('c, 'e) elem_type \<Rightarrow> ('c heap \<Rightarrow> 'e \<Rightarrow> 'v) \<Rightarrow> 'c heap \<Rightarrow> pointer \<Rightarrow> 'v option" where
  "pointer_val T val h p = map_option (\<lambda>(a, i). val h (elem_at T h a i)) p"

definition pointer_reach :: "('c, 'e) elem_type \<Rightarrow> ('c heap \<Rightarrow> 'e \<Rightarrow> nat set) \<Rightarrow> 'c heap \<Rightarrow> pointer \<Rightarrow> nat set" where
  "pointer_reach T reach h p = (case p of None \<Rightarrow> {} | Some (a, i) \<Rightarrow> insert a (reach h (elem_at T h a i)))"

section \<open>The contract of a deep copy\<close>

definition same_on :: "nat set \<Rightarrow> 'c heap \<Rightarrow> 'c heap \<Rightarrow> bool" where
  "same_on A h h' \<longleftrightarrow> (\<forall>a \<in> A. hp_array h' a = hp_array h a)"

definition extends :: "'c heap \<Rightarrow> 'c heap \<Rightarrow> bool" where
  "extends h h' \<longleftrightarrow> hp_next h \<le> hp_next h' \<and> same_on {..<hp_next h} h h'"

lemma extends_refl [simp]: "extends h h"
  by (simp add: extends_def same_on_def)

lemma extends_trans [trans]: "extends h h' \<Longrightarrow> extends h' h'' \<Longrightarrow> extends h h''"
  by (auto simp: extends_def same_on_def)

lemma same_on_mono: "same_on B h h' \<Longrightarrow> A \<subseteq> B \<Longrightarrow> same_on A h h'"
  by (auto simp: same_on_def)

lemma same_on_Un: "same_on (A \<union> B) h h' \<longleftrightarrow> same_on A h h' \<and> same_on B h h'"
  by (auto simp: same_on_def)

lemma extends_same_on: "extends h h' \<Longrightarrow> A \<subseteq> {..<hp_next h} \<Longrightarrow> same_on A h h'"
  by (auto simp: extends_def intro: same_on_mono)

lemma elem_at_same: "hp_array h' a = hp_array h a \<Longrightarrow> elem_at T h' a i = elem_at T h a i"
  by (simp add: elem_at_def)

text \<open>
  What a value stands for depends only on the arrays it is kept in, and a copy stands for the same, in
  arrays of its own, and leaves the arrays there were as they are.
\<close>

locale copier =
  fixes copy :: "'e \<Rightarrow> ('c heap, 'e) state" and val :: "'c heap \<Rightarrow> 'e \<Rightarrow> 'v" and reach :: "'c heap \<Rightarrow> 'e \<Rightarrow> nat set"
  assumes local_val: "same_on (reach h e) h h' \<Longrightarrow> val h' e = val h e"
    and local_reach: "same_on (reach h e) h h' \<Longrightarrow> reach h' e = reach h e"
    and copied: "reach h e \<subseteq> {..<hp_next h} \<Longrightarrow> run_state (copy e) h = (d, h') \<Longrightarrow>
      extends h h' \<and> val h' d = val h e \<and> reach h' d \<subseteq> {hp_next h..<hp_next h'}"
begin

lemma copied_extends:
  "reach h e \<subseteq> {..<hp_next h} \<Longrightarrow> run_state (copy e) h = (d, h') \<Longrightarrow> extends h h'"
  using copied by blast

lemma extends_val:
  "extends h h' \<Longrightarrow> reach h e \<subseteq> {..<hp_next h} \<Longrightarrow> val h' e = val h e \<and> reach h' e = reach h e"
  using local_val local_reach extends_same_on by metis

text \<open>A change of the copy does not show in the original, nor one of the original in the copy.\<close>

lemma original_unchanged:
  assumes "reach h e \<subseteq> {..<hp_next h}" and "run_state (copy e) h = (d, h')" and "same_on (- reach h' d) h' g"
  shows "val g e = val h e"
proof -
  from copied [OF assms(1,2)] have ext: "extends h h'" and fresh: "reach h' d \<subseteq> {hp_next h..<hp_next h'}" by auto
  have "reach h' e = reach h e" "val h' e = val h e" using extends_val [OF ext assms(1)] by auto
  moreover have "reach h e \<inter> reach h' d = {}" using assms(1) fresh by fastforce
  then have "same_on (reach h e) h' g" by (intro same_on_mono [OF assms(3)]) blast
  ultimately show ?thesis using local_val [of h' e g] by simp
qed

lemma copy_unchanged:
  assumes "reach h e \<subseteq> {..<hp_next h}" and "run_state (copy e) h = (d, h')" and "same_on (- reach h e) h' g"
  shows "val g d = val h e"
proof -
  from copied [OF assms(1,2)] have "val h' d = val h e" and fresh: "reach h' d \<subseteq> {hp_next h..<hp_next h'}" by auto
  moreover have "reach h e \<inter> reach h' d = {}" using assms(1) fresh by fastforce
  then have "same_on (reach h' d) h' g" by (intro same_on_mono [OF assms(3)]) blast
  ultimately show ?thesis using local_val [of h' d g] by simp
qed

end


section \<open>Slices and pointers of copied elements\<close>

definition elem_ok :: "('c, 'e) elem_type \<Rightarrow> bool" where
  "elem_ok T \<longleftrightarrow> (\<forall>e. et_get T (et_put T e) = e)"

lemma run_make_array [simp]: "run_state (make_array cs) h =
    (hp_next h, h\<lparr>hp_next := Suc (hp_next h), hp_array := (hp_array h)(hp_next h := cs)\<rparr>)"
  by (simp add: make_array_def)

lemma run_read_elem [simp]: "run_state (read_elem T a i) h = (elem_at T h a i, h)"
  by (simp add: read_elem_def)

lemma run_write_elem [simp]: "run_state (write_elem T a i e) h =
    ((), h\<lparr>hp_array := (hp_array h)(a := (hp_array h a)[i := et_put T e])\<rparr>)"
  by (simp add: write_elem_def)

lemma copier_return: "copier State_Monad.return (\<lambda>h e. e) (\<lambda>h e. {})"
  by unfold_locales auto

text \<open>
  The loop after the elements before an index: they stand for the ones of the source, in arrays that are
  newer than the array of the copy.
\<close>

context copier
begin

definition copied_upto :: "('c, 'e) elem_type \<Rightarrow> 'c heap \<Rightarrow> nat \<Rightarrow> nat \<Rightarrow> nat \<Rightarrow> 'c heap \<Rightarrow> nat \<Rightarrow> bool" where
  "copied_upto T h0 a off b h i \<longleftrightarrow> extends h0 h \<and> hp_next h0 \<le> b \<and> b < hp_next h \<and>
     (\<forall>j < i. reach h (elem_at T h b j) \<subseteq> {b<..<hp_next h} \<and> val h (elem_at T h b j) = val h0 (elem_at T h0 a (off + j)))"

lemma copied_upto_step:
  assumes T: "elem_ok T" and upto: "copied_upto T h0 a off b h i" and len: "i < length (hp_array h b)"
    and src: "a < hp_next h0" "reach h0 (elem_at T h0 a (off + i)) \<subseteq> {..<hp_next h0}"
    and run: "run_state (copy (elem_at T h a (off + i))) h = (d, h1)"
    and h2: "h2 = h1\<lparr>hp_array := (hp_array h1)(b := (hp_array h1 b)[i := et_put T d])\<rparr>"
  shows "copied_upto T h0 a off b h2 (Suc i) \<and> length (hp_array h2 b) = length (hp_array h b)"
proof -
  let ?e = "elem_at T h0 a (off + i)"
  from upto have ext: "extends h0 h" and b: "hp_next h0 \<le> b" "b < hp_next h" by (auto simp: copied_upto_def)
  have e: "elem_at T h a (off + i) = ?e"
    using ext src(1) by (intro elem_at_same) (auto simp: extends_def same_on_def)
  have reach: "reach h ?e \<subseteq> {..<hp_next h}" and val: "val h ?e = val h0 ?e"
    using extends_val [OF ext src(2)] src(2) ext by (auto simp: extends_def)
  from copied [OF reach run [unfolded e]] have ext1: "extends h h1" and d: "val h1 d = val h0 ?e"
    "reach h1 d \<subseteq> {hp_next h..<hp_next h1}" using val by auto
  then have b1: "hp_array h1 b = hp_array h b" "hp_next h \<le> hp_next h1" using b by (auto simp: extends_def same_on_def)
  have ext2: "extends h0 h2" using ext ext1 b by (auto simp: extends_def same_on_def h2)
  have keep: "val h2 x = val h1 x \<and> reach h2 x = reach h1 x" if "b \<notin> reach h1 x" for x
    using that local_val [of h1 x h2] local_reach [of h1 x h2] by (auto simp: same_on_def h2)
  have at: "elem_at T h2 b j = (if j = i then d else elem_at T h b j)" for j
    using T len b1(1) by (simp add: elem_at_def h2 nth_default_def elem_ok_def)
  have "reach h2 (elem_at T h2 b j) \<subseteq> {b<..<hp_next h2} \<and> val h2 (elem_at T h2 b j) = val h0 (elem_at T h0 a (off + j))"
    if j: "j < Suc i" for j
  proof (cases "j = i")
    case True
    have "{hp_next h..<hp_next h1} \<subseteq> {b<..<hp_next h2}" using b(2) by (auto simp: h2)
    with d(2) have "reach h1 d \<subseteq> {b<..<hp_next h2}" by blast
    moreover from this have "b \<notin> reach h1 d" by auto
    ultimately show ?thesis using keep [of d] d(1) True by (simp add: at)
  next
    case False
    let ?x = "elem_at T h b j"
    from False j upto have x: "reach h ?x \<subseteq> {b<..<hp_next h}" "val h ?x = val h0 (elem_at T h0 a (off + j))"
      by (auto simp: copied_upto_def)
    then have "val h1 ?x = val h ?x \<and> reach h1 ?x = reach h ?x" by (intro extends_val [OF ext1]) auto
    moreover from this x(1) have "b \<notin> reach h1 ?x" by auto
    moreover have "{b<..<hp_next h} \<subseteq> {b<..<hp_next h2}" using b1(2) by (auto simp: h2)
    ultimately show ?thesis using keep [of ?x] x False by (simp add: at)
  qed
  with ext2 b b1 show ?thesis by (auto simp: copied_upto_def h2)
qed

lemma copy_loop_copied:
  assumes "elem_ok T" and "copied_upto T h0 a off b h i" and "length (hp_array h b) = i + n" and "a < hp_next h0"
    and "\<forall>j < i + n. reach h0 (elem_at T h0 a (off + j)) \<subseteq> {..<hp_next h0}"
    and "run_state (copy_loop T copy a off b i n) h = (u, h')"
  shows "copied_upto T h0 a off b h' (i + n)"
  using assms
proof (induction n arbitrary: h i)
  case (Suc n)
  obtain d h1 where run: "run_state (copy (elem_at T h a (off + i))) h = (d, h1)" by force
  define h2 where "h2 = h1\<lparr>hp_array := (hp_array h1)(b := (hp_array h1 b)[i := et_put T d])\<rparr>"
  have "copied_upto T h0 a off b h2 (Suc i) \<and> length (hp_array h2 b) = length (hp_array h b)"
    by (rule copied_upto_step [OF Suc.prems(1,2) _ Suc.prems(4) _ run h2_def]) (use Suc.prems in auto)
  moreover have "run_state (copy_loop T copy a off b (Suc i) n) h2 = (u, h')"
    using Suc.prems(6) run by (simp add: h2_def)
  ultimately show ?case using Suc.IH [of h2 "Suc i"] Suc.prems by simp
qed simp

lemma slice_local:
  assumes "same_on (slice_reach T reach h s) h h'"
  shows "slice_val T val h' s = slice_val T val h s" and "slice_reach T reach h' s = slice_reach T reach h s"
proof -
  have "slice_val T val h' s = slice_val T val h s \<and> slice_reach T reach h' s = slice_reach T reach h s"
  proof (cases s)
    case (SliceOf a off n)
    then have at: "elem_at T h' a i = elem_at T h a i" for i
      using assms by (intro elem_at_same) (auto simp: slice_reach_def same_on_def)
    have "same_on (reach h (elem_at T h a (off + i))) h h'" if "i < n" for i
      using that SliceOf by (intro same_on_mono [OF assms]) (auto simp: slice_reach_def)
    then have "val h' (elem_at T h a (off + i)) = val h (elem_at T h a (off + i))"
      "reach h' (elem_at T h a (off + i)) = reach h (elem_at T h a (off + i))" if "i < n" for i
      using that local_val local_reach by blast+
    with SliceOf show ?thesis by (simp add: slice_val_def slice_elems_def slice_reach_def at)
  qed (simp add: slice_val_def slice_elems_def slice_reach_def)
  then show "slice_val T val h' s = slice_val T val h s" "slice_reach T reach h' s = slice_reach T reach h s" by auto
qed

lemma slice_copied:
  assumes T: "elem_ok T" and src: "slice_reach T reach h s \<subseteq> {..<hp_next h}"
    and run: "run_state (copy_slice T copy s) h = (s', h')"
  shows "extends h h' \<and> slice_val T val h' s' = slice_val T val h s \<and> slice_reach T reach h' s' \<subseteq> {hp_next h..<hp_next h'}"
proof (cases s)
  case NilSlice
  with run show ?thesis by (simp add: copy_slice_def slice_val_def slice_elems_def slice_reach_def)
next
  case (SliceOf a off n)
  let ?b = "hp_next h"
  define h1 where "h1 = h\<lparr>hp_next := Suc ?b, hp_array := (hp_array h)(?b := replicate n (et_put T (et_zero T)))\<rparr>"
  obtain u g where loop: "run_state (copy_loop T copy a off ?b 0 n) h1 = (u, g)" by (meson surj_pair)
  then have res: "s' = SliceOf ?b 0 n" "h' = g" using run SliceOf by (simp_all add: copy_slice_def h1_def)
  have start: "copied_upto T h a off ?b h1 0"
    by (auto simp: copied_upto_def h1_def extends_def same_on_def)
  have "copied_upto T h a off ?b g (0 + n)"
    by (rule copy_loop_copied [OF T start _ _ _ loop]) (use src SliceOf in \<open>auto simp: h1_def slice_reach_def\<close>)
  then have all: "extends h g" "?b < hp_next g" and each: "\<And>j. j < n \<Longrightarrow> reach g (elem_at T g ?b j) \<subseteq> {?b<..<hp_next g} \<and>
      val g (elem_at T g ?b j) = val h (elem_at T h a (off + j))" by (auto simp: copied_upto_def)
  from each have "slice_val T val g (SliceOf ?b 0 n) = slice_val T val h (SliceOf a off n)"
    by (simp add: slice_val_def slice_elems_def)
  moreover have "slice_reach T reach g (SliceOf ?b 0 n) \<subseteq> {?b..<hp_next g}"
    using each all(2) by (fastforce simp: slice_reach_def)
  ultimately show ?thesis using all(1) res SliceOf by simp
qed

lemma slice_copier: "elem_ok T \<Longrightarrow> copier (copy_slice T copy) (slice_val T val) (slice_reach T reach)"
  by unfold_locales (use slice_local slice_copied in blast)+

text \<open>A pointer is copied as a slice of one element.\<close>

lemma copy_pointer_slice:
  "run_state (copy_pointer T copy (Some (a, i))) h =
     (case run_state (copy_slice T copy (SliceOf a i 1)) h of (s, h') \<Rightarrow> (Some (hp_next h, 0), h'))"
  by (simp add: copy_pointer_def copy_slice_def split: prod.splits)

lemma copy_slice_result: "fst (run_state (copy_slice T copy (SliceOf a i n)) h) = SliceOf (hp_next h) 0 n"
  by (simp add: copy_slice_def split: prod.splits)

lemma pointer_slice:
  "pointer_val T val h (Some (a, i)) = map_option hd (slice_val T val h (SliceOf a i 1))"
  "pointer_reach T reach h (Some (a, i)) = slice_reach T reach h (SliceOf a i 1)"
  by (simp_all add: pointer_val_def slice_val_def slice_elems_def pointer_reach_def slice_reach_def lessThan_Suc)

lemma pointer_copier:
  assumes T: "elem_ok T"
  shows "copier (copy_pointer T copy) (pointer_val T val) (pointer_reach T reach)"
proof (unfold_locales, goal_cases)
  case (1 h p h')
  show ?case
  proof (cases p)
    case (Some ai)
    obtain a i where ai: "ai = (a, i)" by (cases ai)
    from 1 slice_local(1) [of T h "SliceOf a i 1" h'] show ?thesis unfolding Some ai pointer_slice by simp
  qed (simp add: pointer_val_def)
next
  case (2 h p h')
  show ?case
  proof (cases p)
    case (Some ai)
    obtain a i where ai: "ai = (a, i)" by (cases ai)
    from 2 slice_local(2) [of T h "SliceOf a i 1" h'] show ?thesis unfolding Some ai pointer_slice by simp
  qed (simp add: pointer_reach_def)
next
  case (3 h p q h')
  show ?case
  proof (cases p)
    case None
    with 3 show ?thesis by (simp add: copy_pointer_def pointer_val_def pointer_reach_def)
  next
    case (Some ai)
    obtain a i where ai: "ai = (a, i)" by force
    obtain s' g where run: "run_state (copy_slice T copy (SliceOf a i 1)) h = (s', g)" by force
    then have s': "s' = SliceOf (hp_next h) 0 1" using copy_slice_result [of T a i 1 h] by simp
    from 3 Some ai run have q: "q = Some (hp_next h, 0)" "h' = g" by (simp_all add: copy_pointer_slice)
    from slice_copied [OF T _ run] 3(1) Some ai show ?thesis by (simp add: q s' pointer_slice)
  qed
qed

end

text \<open>With a type of elements the copier gives those of slices and of pointers.\<close>

locale elem_copier = copier copy val reach
  for copy :: "'e \<Rightarrow> ('c heap, 'e) state" and val :: "'c heap \<Rightarrow> 'e \<Rightarrow> 'v" and reach :: "'c heap \<Rightarrow> 'e \<Rightarrow> nat set" +
  fixes elem :: "('c, 'e) elem_type"
  assumes elem: "elem_ok elem"

sublocale elem_copier \<subseteq> slice: copier "copy_slice elem copy" "slice_val elem val" "slice_reach elem reach"
  by (rule slice_copier [OF elem])

sublocale elem_copier \<subseteq> pointer: copier "copy_pointer elem copy" "pointer_val elem val" "pointer_reach elem reach"
  by (rule pointer_copier [OF elem])

context elem_copier
begin

lemmas copied_slice = slice.copier_axioms

lemma copied_pointer:
  assumes pre: "pointer_reach elem reach h (Some a) \<subseteq> {..<hp_next h}"
    and run: "run_state (copy_pointer elem copy (Some a)) h = (q, h')"
  shows "q = Some (hp_next h, 0)" and "extends h h'"
    and "pointer_val elem val h' q = pointer_val elem val h (Some a)"
    and "pointer_reach elem reach h' q \<subseteq> {hp_next h..<hp_next h'}"
    and "same_on (- pointer_reach elem reach h' q) h' g \<Longrightarrow> pointer_val elem val g (Some a) = pointer_val elem val h (Some a)"
    and "same_on (- pointer_reach elem reach h (Some a)) h' g \<Longrightarrow> pointer_val elem val g q = pointer_val elem val h (Some a)"
  using run pointer.copied [OF pre run] pointer.original_unchanged [OF pre run, of g] pointer.copy_unchanged [OF pre run, of g]
  by (auto simp: copy_pointer_def split: prod.splits)

end

section \<open>Structs of copied fields\<close>

text \<open>A struct with one or two fields that are copied; the others are part of its flat value.\<close>

lemma copier_two:
  assumes c1: "copier c1 v1 r1" and c2: "copier c2 v2 r2"
    and copy: "\<And>x. copy x = do { a \<leftarrow> c1 (f x); b \<leftarrow> c2 (g x); State_Monad.return (mk x a b) }"
    and mk: "\<And>x a b. f (mk x a b) = a" "\<And>x a b. g (mk x a b) = b" "\<And>x a b. flat (mk x a b) = flat x"
  shows "copier copy (\<lambda>h x. (flat x, v1 h (f x), v2 h (g x))) (\<lambda>h x. r1 h (f x) \<union> r2 h (g x))"
proof (unfold_locales, goal_cases)
  case (1 h x h')
  then show ?case by (simp add: same_on_Un copier.local_val [OF c1, of h] copier.local_val [OF c2, of h])
next
  case (2 h x h')
  then show ?case by (simp add: same_on_Un copier.local_reach [OF c1, of h] copier.local_reach [OF c2, of h])
next
  case (3 h x d h')
  obtain a h1 where run1: "run_state (c1 (f x)) h = (a, h1)" by (meson surj_pair)
  obtain b h2 where run2: "run_state (c2 (g x)) h1 = (b, h2)" by (meson surj_pair)
  from 3(2) run1 run2 have d: "d = mk x a b" "h' = h2" by (simp_all add: copy)
  from 3(1) have s: "r1 h (f x) \<subseteq> {..<hp_next h}" "r2 h (g x) \<subseteq> {..<hp_next h}" by simp_all
  from copier.copied [OF c1 s(1) run1] have one: "extends h h1" "v1 h1 a = v1 h (f x)" "r1 h1 a \<subseteq> {hp_next h..<hp_next h1}"
    by auto
  then have next1: "hp_next h \<le> hp_next h1" by (simp add: extends_def)
  from copier.extends_val [OF c2 one(1) s(2)] have g: "v2 h1 (g x) = v2 h (g x)" "r2 h1 (g x) \<subseteq> {..<hp_next h1}"
    using s(2) next1 by auto
  from copier.copied [OF c2 g(2) run2] g(1) have two: "extends h1 h2" "v2 h2 b = v2 h (g x)"
    "r2 h2 b \<subseteq> {hp_next h1..<hp_next h2}" by auto
  then have next2: "hp_next h1 \<le> hp_next h2" by (simp add: extends_def)
  have "v1 h2 a = v1 h1 a \<and> r1 h2 a = r1 h1 a"
    by (rule copier.extends_val [OF c1 two(1)]) (use one(3) in auto)
  moreover have "r1 h1 a \<subseteq> {hp_next h..<hp_next h2}" "r2 h2 b \<subseteq> {hp_next h..<hp_next h2}"
    using one(3) two(3) next1 next2 by (fastforce, fastforce)
  ultimately show ?case using one(2) two(2) extends_trans [OF one(1) two(1)] by (simp add: d mk)
qed

lemma copier_pair:
  assumes "copier c1 v1 r1" and "copier c2 v2 r2"
  shows "copier (\<lambda>x. do { a \<leftarrow> c1 (fst x); b \<leftarrow> c2 (snd x); State_Monad.return (a, b) })
    (\<lambda>h x. ((), v1 h (fst x), v2 h (snd x))) (\<lambda>h x. r1 h (fst x) \<union> r2 h (snd x))"
  by (rule copier_two [OF assms, where mk = "\<lambda>x. Pair"]) simp_all

lemma copier_one:
  assumes "copier c v r"
    and copy: "\<And>x. copy x = do { a \<leftarrow> c (f x); State_Monad.return (mk x a) }"
    and mk: "\<And>x a. f (mk x a) = a" "\<And>x a. flat (mk x a) = flat x"
  shows "copier copy (\<lambda>h x. (flat x, v h (f x), ())) (\<lambda>h x. r h (f x))"
proof -
  have "copier copy (\<lambda>h x. (flat x, v h (f x), ())) (\<lambda>h x. r h (f x) \<union> {})"
    by (rule copier_two [OF assms(1) copier_return, where mk = "\<lambda>x a b. mk x a"]) (simp_all add: copy mk)
  then show ?thesis by simp
qed

text \<open>What a value stands for may be read in another form.\<close>

lemma copier_view:
  assumes c: "copier copy val reach" and "\<And>h x. val' h x = F (val h x)" and "\<And>h x. reach' h x = reach h x"
  shows "copier copy val' reach'"
proof -
  have "val' = (\<lambda>h x. F (val h x))" "reach' = reach"
    by (rule ext, rule ext, rule assms(2), rule ext, rule ext, rule assms(3))
  then show ?thesis
    using copier.local_val [OF c] copier.local_reach [OF c] copier.copied [OF c] by unfold_locales auto
qed

end
