(* ===== verification/DeepCopy.thy ===== *)
theory DeepCopy
  imports GoHeap
begin

text \<open>
  The deep copies of the API types (\<open>apis/v1alpha1/zz_generated.deepcopy.go\<close>), on the memory of \<open>GoHeap\<close>. The
  types of the Kubernetes and KubeRay modules are opaque, and their \<open>DeepCopyInto\<close> are parameters. The
  struct a \<open>DeepCopyInto\<close> writes is its result.
\<close>

section \<open>Structs in memory\<close>

record type_meta =
  ty_Kind :: string
  ty_APIVersion :: string

record mode_struct =
  ms_Name :: string
  ms_Template :: string
  ms_RequiredFlags :: slice

record profile_spec_struct =
  ps_SupportedModes :: slice
  ps_VolumeBundles :: slice

record 'x profile_struct =
  pr_TypeMeta :: type_meta
  pr_ObjectMeta :: 'x
  pr_Spec :: profile_spec_struct

text \<open>The structs of the three kinds of templates, and the five lists, have the same fields.\<close>

record 'x template_spec_struct =
  tp_ObjectMeta :: 'x
  tp_Spec :: 'x

record 'x template_struct =
  te_TypeMeta :: type_meta
  te_ObjectMeta :: 'x
  te_Template :: "'x template_spec_struct"

record bundle_spec_struct =
  bs_Volumes :: slice
  bs_ContainerVolumeMounts :: slice
  bs_EnvVars :: slice

record 'x bundle_struct =
  bu_TypeMeta :: type_meta
  bu_ObjectMeta :: 'x
  bu_Spec :: bundle_spec_struct

record 'x list_struct =
  li_TypeMeta :: type_meta
  li_ListMeta :: 'x
  li_Items :: slice

datatype 'x cell =
    StringCell (the_string: string)
  | ForeignCell (the_foreign: 'x)
  | ModeCell (the_mode: mode_struct)
  | ProfileSpecCell (the_profile_spec: profile_spec_struct)
  | ProfileCell (the_profile: "'x profile_struct")
  | TemplateSpecCell (the_template_spec: "'x template_spec_struct")
  | TemplateCell (the_template: "'x template_struct")
  | BundleSpecCell (the_bundle_spec: bundle_spec_struct)
  | BundleCell (the_bundle: "'x bundle_struct")
  | ListCell (the_list: "'x list_struct")

text \<open>The types of elements, given the zero value of the opaque ones.\<close>

definition zero_meta :: type_meta where "zero_meta = \<lparr>ty_Kind = [], ty_APIVersion = []\<rparr>"

definition zero_profile_spec :: profile_spec_struct where
  "zero_profile_spec = \<lparr>ps_SupportedModes = NilSlice, ps_VolumeBundles = NilSlice\<rparr>"

definition zero_bundle_spec :: bundle_spec_struct where
  "zero_bundle_spec = \<lparr>bs_Volumes = NilSlice, bs_ContainerVolumeMounts = NilSlice, bs_EnvVars = NilSlice\<rparr>"

definition string_elem :: "('x cell, string) elem_type" where
  "string_elem = \<lparr>et_get = the_string, et_put = StringCell, et_zero = []\<rparr>"

definition foreign_elem :: "'x \<Rightarrow> ('x cell, 'x) elem_type" where
  "foreign_elem z = \<lparr>et_get = the_foreign, et_put = ForeignCell, et_zero = z\<rparr>"

definition mode_elem :: "('x cell, mode_struct) elem_type" where
  "mode_elem = \<lparr>et_get = the_mode, et_put = ModeCell, et_zero = \<lparr>ms_Name = [], ms_Template = [], ms_RequiredFlags = NilSlice\<rparr>\<rparr>"

definition profile_spec_elem :: "('x cell, profile_spec_struct) elem_type" where
  "profile_spec_elem =
     \<lparr>et_get = the_profile_spec, et_put = ProfileSpecCell, et_zero = zero_profile_spec\<rparr>"

definition profile_elem :: "'x \<Rightarrow> ('x cell, 'x profile_struct) elem_type" where
  "profile_elem z =
     \<lparr>et_get = the_profile, et_put = ProfileCell,
      et_zero = \<lparr>pr_TypeMeta = zero_meta, pr_ObjectMeta = z, pr_Spec = zero_profile_spec\<rparr>\<rparr>"

definition template_spec_elem :: "'x \<Rightarrow> ('x cell, 'x template_spec_struct) elem_type" where
  "template_spec_elem z =
     \<lparr>et_get = the_template_spec, et_put = TemplateSpecCell, et_zero = \<lparr>tp_ObjectMeta = z, tp_Spec = z\<rparr>\<rparr>"

definition template_elem :: "'x \<Rightarrow> ('x cell, 'x template_struct) elem_type" where
  "template_elem z =
     \<lparr>et_get = the_template, et_put = TemplateCell,
      et_zero = \<lparr>te_TypeMeta = zero_meta, te_ObjectMeta = z, te_Template = et_zero (template_spec_elem z)\<rparr>\<rparr>"

definition bundle_spec_elem :: "('x cell, bundle_spec_struct) elem_type" where
  "bundle_spec_elem =
     \<lparr>et_get = the_bundle_spec, et_put = BundleSpecCell,
      et_zero = zero_bundle_spec\<rparr>"

definition bundle_elem :: "'x \<Rightarrow> ('x cell, 'x bundle_struct) elem_type" where
  "bundle_elem z =
     \<lparr>et_get = the_bundle, et_put = BundleCell,
      et_zero = \<lparr>bu_TypeMeta = zero_meta, bu_ObjectMeta = z, bu_Spec = zero_bundle_spec\<rparr>\<rparr>"

definition list_elem :: "'x \<Rightarrow> ('x cell, 'x list_struct) elem_type" where
  "list_elem z =
     \<lparr>et_get = the_list, et_put = ListCell, et_zero = \<lparr>li_TypeMeta = zero_meta, li_ListMeta = z, li_Items = NilSlice\<rparr>\<rparr>"

lemmas elem_defs = string_elem_def foreign_elem_def mode_elem_def profile_spec_elem_def profile_elem_def
  template_spec_elem_def template_elem_def bundle_spec_elem_def bundle_elem_def list_elem_def

section \<open>Copies\<close>

text \<open>\<open>DeepCopyInto\<close> of the types of other modules, and their zero value.\<close>

type_synonym ('x, 'e) copy_fun = "'e \<Rightarrow> ('x cell heap, 'e) state"

record 'x foreign_api =
  fa_zero :: 'x
  fa_ObjectMeta :: "('x, 'x) copy_fun"
  fa_ListMeta :: "('x, 'x) copy_fun"
  fa_JobSpec :: "('x, 'x) copy_fun"
  fa_RayClusterSpec :: "('x, 'x) copy_fun"
  fa_RayJobSpec :: "('x, 'x) copy_fun"
  fa_Volume :: "('x, 'x) copy_fun"
  fa_VolumeMount :: "('x, 'x) copy_fun"
  fa_EnvVar :: "('x, 'x) copy_fun"

text \<open>The builtin \<open>copy\<close> into a slice that was just made assigns the elements one by one.\<close>

definition SupportedMode_DeepCopyInto :: "('x, mode_struct) copy_fun" where
  "SupportedMode_DeepCopyInto m = do {
     flags \<leftarrow> copy_slice string_elem State_Monad.return (ms_RequiredFlags m);
     State_Monad.return (m\<lparr>ms_RequiredFlags := flags\<rparr>)
   }"

definition ApplicationProfileSpec_DeepCopyInto :: "('x, profile_spec_struct) copy_fun" where
  "ApplicationProfileSpec_DeepCopyInto s = do {
     modes \<leftarrow> copy_slice mode_elem SupportedMode_DeepCopyInto (ps_SupportedModes s);
     bundles \<leftarrow> copy_slice string_elem State_Monad.return (ps_VolumeBundles s);
     State_Monad.return (s\<lparr>ps_SupportedModes := modes, ps_VolumeBundles := bundles\<rparr>)
   }"

definition ApplicationProfile_DeepCopyInto :: "'x foreign_api \<Rightarrow> ('x, 'x profile_struct) copy_fun" where
  "ApplicationProfile_DeepCopyInto F p = do {
     meta \<leftarrow> fa_ObjectMeta F (pr_ObjectMeta p);
     spec \<leftarrow> ApplicationProfileSpec_DeepCopyInto (pr_Spec p);
     State_Monad.return (p\<lparr>pr_ObjectMeta := meta, pr_Spec := spec\<rparr>)
   }"

text \<open>The lists differ in their elements, the templates in their specification.\<close>

definition copy_list :: "'x foreign_api \<Rightarrow> ('x cell, 'e) elem_type \<Rightarrow> ('x, 'e) copy_fun \<Rightarrow> ('x, 'x list_struct) copy_fun" where
  "copy_list F T copy l = do {
     meta \<leftarrow> fa_ListMeta F (li_ListMeta l);
     items \<leftarrow> copy_slice T copy (li_Items l);
     State_Monad.return (l\<lparr>li_ListMeta := meta, li_Items := items\<rparr>)
   }"

definition copy_template_spec :: "'x foreign_api \<Rightarrow> ('x, 'x) copy_fun \<Rightarrow> ('x, 'x template_spec_struct) copy_fun" where
  "copy_template_spec F copy t = do {
     meta \<leftarrow> fa_ObjectMeta F (tp_ObjectMeta t);
     spec \<leftarrow> copy (tp_Spec t);
     State_Monad.return (t\<lparr>tp_ObjectMeta := meta, tp_Spec := spec\<rparr>)
   }"

definition copy_template ::
  "'x foreign_api \<Rightarrow> ('x, 'x template_spec_struct) copy_fun \<Rightarrow> ('x, 'x template_struct) copy_fun" where
  "copy_template F copy t = do {
     meta \<leftarrow> fa_ObjectMeta F (te_ObjectMeta t);
     spec \<leftarrow> copy (te_Template t);
     State_Monad.return (t\<lparr>te_ObjectMeta := meta, te_Template := spec\<rparr>)
   }"

definition ApplicationProfileList_DeepCopyInto :: "'x foreign_api \<Rightarrow> ('x, 'x list_struct) copy_fun" where
  "ApplicationProfileList_DeepCopyInto F = copy_list F (profile_elem (fa_zero F)) (ApplicationProfile_DeepCopyInto F)"

definition JobTemplateSpec_DeepCopyInto :: "'x foreign_api \<Rightarrow> ('x, 'x template_spec_struct) copy_fun" where
  "JobTemplateSpec_DeepCopyInto F = copy_template_spec F (fa_JobSpec F)"

definition JobTemplate_DeepCopyInto :: "'x foreign_api \<Rightarrow> ('x, 'x template_struct) copy_fun" where
  "JobTemplate_DeepCopyInto F = copy_template F (JobTemplateSpec_DeepCopyInto F)"

definition JobTemplateList_DeepCopyInto :: "'x foreign_api \<Rightarrow> ('x, 'x list_struct) copy_fun" where
  "JobTemplateList_DeepCopyInto F = copy_list F (template_elem (fa_zero F)) (JobTemplate_DeepCopyInto F)"

definition RayClusterTemplateSpec_DeepCopyInto :: "'x foreign_api \<Rightarrow> ('x, 'x template_spec_struct) copy_fun" where
  "RayClusterTemplateSpec_DeepCopyInto F = copy_template_spec F (fa_RayClusterSpec F)"

definition RayClusterTemplate_DeepCopyInto :: "'x foreign_api \<Rightarrow> ('x, 'x template_struct) copy_fun" where
  "RayClusterTemplate_DeepCopyInto F = copy_template F (RayClusterTemplateSpec_DeepCopyInto F)"

definition RayClusterTemplateList_DeepCopyInto :: "'x foreign_api \<Rightarrow> ('x, 'x list_struct) copy_fun" where
  "RayClusterTemplateList_DeepCopyInto F = copy_list F (template_elem (fa_zero F)) (RayClusterTemplate_DeepCopyInto F)"

definition RayJobTemplateSpec_DeepCopyInto :: "'x foreign_api \<Rightarrow> ('x, 'x template_spec_struct) copy_fun" where
  "RayJobTemplateSpec_DeepCopyInto F = copy_template_spec F (fa_RayJobSpec F)"

definition RayJobTemplate_DeepCopyInto :: "'x foreign_api \<Rightarrow> ('x, 'x template_struct) copy_fun" where
  "RayJobTemplate_DeepCopyInto F = copy_template F (RayJobTemplateSpec_DeepCopyInto F)"

definition RayJobTemplateList_DeepCopyInto :: "'x foreign_api \<Rightarrow> ('x, 'x list_struct) copy_fun" where
  "RayJobTemplateList_DeepCopyInto F = copy_list F (template_elem (fa_zero F)) (RayJobTemplate_DeepCopyInto F)"

definition VolumeBundleSpec_DeepCopyInto :: "'x foreign_api \<Rightarrow> ('x, bundle_spec_struct) copy_fun" where
  "VolumeBundleSpec_DeepCopyInto F s = do {
     volumes \<leftarrow> copy_slice (foreign_elem (fa_zero F)) (fa_Volume F) (bs_Volumes s);
     mounts \<leftarrow> copy_slice (foreign_elem (fa_zero F)) (fa_VolumeMount F) (bs_ContainerVolumeMounts s);
     envs \<leftarrow> copy_slice (foreign_elem (fa_zero F)) (fa_EnvVar F) (bs_EnvVars s);
     State_Monad.return (s\<lparr>bs_Volumes := volumes, bs_ContainerVolumeMounts := mounts, bs_EnvVars := envs\<rparr>)
   }"

definition VolumeBundle_DeepCopyInto :: "'x foreign_api \<Rightarrow> ('x, 'x bundle_struct) copy_fun" where
  "VolumeBundle_DeepCopyInto F b = do {
     meta \<leftarrow> fa_ObjectMeta F (bu_ObjectMeta b);
     spec \<leftarrow> VolumeBundleSpec_DeepCopyInto F (bu_Spec b);
     State_Monad.return (b\<lparr>bu_ObjectMeta := meta, bu_Spec := spec\<rparr>)
   }"

definition VolumeBundleList_DeepCopyInto :: "'x foreign_api \<Rightarrow> ('x, 'x list_struct) copy_fun" where
  "VolumeBundleList_DeepCopyInto F = copy_list F (bundle_elem (fa_zero F)) (VolumeBundle_DeepCopyInto F)"

subsection \<open>Copies of pointers\<close>

definition ApplicationProfile_DeepCopy :: "'x foreign_api \<Rightarrow> ('x, pointer) copy_fun" where
  "ApplicationProfile_DeepCopy F = copy_pointer (profile_elem (fa_zero F)) (ApplicationProfile_DeepCopyInto F)"

definition ApplicationProfileList_DeepCopy :: "'x foreign_api \<Rightarrow> ('x, pointer) copy_fun" where
  "ApplicationProfileList_DeepCopy F = copy_pointer (list_elem (fa_zero F)) (ApplicationProfileList_DeepCopyInto F)"

definition ApplicationProfileSpec_DeepCopy :: "('x, pointer) copy_fun" where
  "ApplicationProfileSpec_DeepCopy = copy_pointer profile_spec_elem ApplicationProfileSpec_DeepCopyInto"

definition JobTemplate_DeepCopy :: "'x foreign_api \<Rightarrow> ('x, pointer) copy_fun" where
  "JobTemplate_DeepCopy F = copy_pointer (template_elem (fa_zero F)) (JobTemplate_DeepCopyInto F)"

definition JobTemplateList_DeepCopy :: "'x foreign_api \<Rightarrow> ('x, pointer) copy_fun" where
  "JobTemplateList_DeepCopy F = copy_pointer (list_elem (fa_zero F)) (JobTemplateList_DeepCopyInto F)"

definition JobTemplateSpec_DeepCopy :: "'x foreign_api \<Rightarrow> ('x, pointer) copy_fun" where
  "JobTemplateSpec_DeepCopy F = copy_pointer (template_spec_elem (fa_zero F)) (JobTemplateSpec_DeepCopyInto F)"

definition RayClusterTemplate_DeepCopy :: "'x foreign_api \<Rightarrow> ('x, pointer) copy_fun" where
  "RayClusterTemplate_DeepCopy F = copy_pointer (template_elem (fa_zero F)) (RayClusterTemplate_DeepCopyInto F)"

definition RayClusterTemplateList_DeepCopy :: "'x foreign_api \<Rightarrow> ('x, pointer) copy_fun" where
  "RayClusterTemplateList_DeepCopy F = copy_pointer (list_elem (fa_zero F)) (RayClusterTemplateList_DeepCopyInto F)"

definition RayClusterTemplateSpec_DeepCopy :: "'x foreign_api \<Rightarrow> ('x, pointer) copy_fun" where
  "RayClusterTemplateSpec_DeepCopy F = copy_pointer (template_spec_elem (fa_zero F)) (RayClusterTemplateSpec_DeepCopyInto F)"

definition RayJobTemplate_DeepCopy :: "'x foreign_api \<Rightarrow> ('x, pointer) copy_fun" where
  "RayJobTemplate_DeepCopy F = copy_pointer (template_elem (fa_zero F)) (RayJobTemplate_DeepCopyInto F)"

definition RayJobTemplateList_DeepCopy :: "'x foreign_api \<Rightarrow> ('x, pointer) copy_fun" where
  "RayJobTemplateList_DeepCopy F = copy_pointer (list_elem (fa_zero F)) (RayJobTemplateList_DeepCopyInto F)"

definition RayJobTemplateSpec_DeepCopy :: "'x foreign_api \<Rightarrow> ('x, pointer) copy_fun" where
  "RayJobTemplateSpec_DeepCopy F = copy_pointer (template_spec_elem (fa_zero F)) (RayJobTemplateSpec_DeepCopyInto F)"

definition SupportedMode_DeepCopy :: "('x, pointer) copy_fun" where
  "SupportedMode_DeepCopy = copy_pointer mode_elem SupportedMode_DeepCopyInto"

definition VolumeBundle_DeepCopy :: "'x foreign_api \<Rightarrow> ('x, pointer) copy_fun" where
  "VolumeBundle_DeepCopy F = copy_pointer (bundle_elem (fa_zero F)) (VolumeBundle_DeepCopyInto F)"

definition VolumeBundleList_DeepCopy :: "'x foreign_api \<Rightarrow> ('x, pointer) copy_fun" where
  "VolumeBundleList_DeepCopy F = copy_pointer (list_elem (fa_zero F)) (VolumeBundleList_DeepCopyInto F)"

definition VolumeBundleSpec_DeepCopy :: "'x foreign_api \<Rightarrow> ('x, pointer) copy_fun" where
  "VolumeBundleSpec_DeepCopy F = copy_pointer bundle_spec_elem (VolumeBundleSpec_DeepCopyInto F)"

text \<open>
  \<open>runtime.Object\<close>: nil, or a type and a pointer, which may itself be nil. A type's \<open>DeepCopyObject\<close> returns
  nil for a nil pointer.
\<close>

datatype (plugins only: size code) object_type =
  ApplicationProfileT
  | ApplicationProfileListT
  | JobTemplateT
  | JobTemplateListT
  | RayClusterTemplateT
  | RayClusterTemplateListT
  | RayJobTemplateT
  | RayJobTemplateListT
  | VolumeBundleT
  | VolumeBundleListT

type_synonym api_object = "object_type \<times> pointer"

definition as_object :: "object_type \<Rightarrow> ('x cell heap, pointer) state \<Rightarrow> ('x cell heap, api_object option) state" where
  "as_object T m = do { c \<leftarrow> m; State_Monad.return (if c \<noteq> None then Some (T, c) else None) }"

definition ApplicationProfile_DeepCopyObject :: "'x foreign_api \<Rightarrow> pointer \<Rightarrow> ('x cell heap, api_object option) state" where
  "ApplicationProfile_DeepCopyObject F p = as_object ApplicationProfileT (ApplicationProfile_DeepCopy F p)"

definition ApplicationProfileList_DeepCopyObject :: "'x foreign_api \<Rightarrow> pointer \<Rightarrow> ('x cell heap, api_object option) state" where
  "ApplicationProfileList_DeepCopyObject F p = as_object ApplicationProfileListT (ApplicationProfileList_DeepCopy F p)"

definition JobTemplate_DeepCopyObject :: "'x foreign_api \<Rightarrow> pointer \<Rightarrow> ('x cell heap, api_object option) state" where
  "JobTemplate_DeepCopyObject F p = as_object JobTemplateT (JobTemplate_DeepCopy F p)"

definition JobTemplateList_DeepCopyObject :: "'x foreign_api \<Rightarrow> pointer \<Rightarrow> ('x cell heap, api_object option) state" where
  "JobTemplateList_DeepCopyObject F p = as_object JobTemplateListT (JobTemplateList_DeepCopy F p)"

definition RayClusterTemplate_DeepCopyObject :: "'x foreign_api \<Rightarrow> pointer \<Rightarrow> ('x cell heap, api_object option) state" where
  "RayClusterTemplate_DeepCopyObject F p = as_object RayClusterTemplateT (RayClusterTemplate_DeepCopy F p)"

definition RayClusterTemplateList_DeepCopyObject :: "'x foreign_api \<Rightarrow> pointer \<Rightarrow> ('x cell heap, api_object option) state" where
  "RayClusterTemplateList_DeepCopyObject F p = as_object RayClusterTemplateListT (RayClusterTemplateList_DeepCopy F p)"

definition RayJobTemplate_DeepCopyObject :: "'x foreign_api \<Rightarrow> pointer \<Rightarrow> ('x cell heap, api_object option) state" where
  "RayJobTemplate_DeepCopyObject F p = as_object RayJobTemplateT (RayJobTemplate_DeepCopy F p)"

definition RayJobTemplateList_DeepCopyObject :: "'x foreign_api \<Rightarrow> pointer \<Rightarrow> ('x cell heap, api_object option) state" where
  "RayJobTemplateList_DeepCopyObject F p = as_object RayJobTemplateListT (RayJobTemplateList_DeepCopy F p)"

definition VolumeBundle_DeepCopyObject :: "'x foreign_api \<Rightarrow> pointer \<Rightarrow> ('x cell heap, api_object option) state" where
  "VolumeBundle_DeepCopyObject F p = as_object VolumeBundleT (VolumeBundle_DeepCopy F p)"

definition VolumeBundleList_DeepCopyObject :: "'x foreign_api \<Rightarrow> pointer \<Rightarrow> ('x cell heap, api_object option) state" where
  "VolumeBundleList_DeepCopyObject F p = as_object VolumeBundleListT (VolumeBundleList_DeepCopy F p)"

text \<open>The call of the method on an object.\<close>

fun DeepCopyObject :: "'x foreign_api \<Rightarrow> api_object \<Rightarrow> ('x cell heap, api_object option) state" where
  "DeepCopyObject F (ApplicationProfileT, p) = ApplicationProfile_DeepCopyObject F p"
| "DeepCopyObject F (ApplicationProfileListT, p) = ApplicationProfileList_DeepCopyObject F p"
| "DeepCopyObject F (JobTemplateT, p) = JobTemplate_DeepCopyObject F p"
| "DeepCopyObject F (JobTemplateListT, p) = JobTemplateList_DeepCopyObject F p"
| "DeepCopyObject F (RayClusterTemplateT, p) = RayClusterTemplate_DeepCopyObject F p"
| "DeepCopyObject F (RayClusterTemplateListT, p) = RayClusterTemplateList_DeepCopyObject F p"
| "DeepCopyObject F (RayJobTemplateT, p) = RayJobTemplate_DeepCopyObject F p"
| "DeepCopyObject F (RayJobTemplateListT, p) = RayJobTemplateList_DeepCopyObject F p"
| "DeepCopyObject F (VolumeBundleT, p) = VolumeBundle_DeepCopyObject F p"
| "DeepCopyObject F (VolumeBundleListT, p) = VolumeBundleList_DeepCopyObject F p"


section \<open>What the structs stand for\<close>

text \<open>The parameters are what an opaque value stands for and the arrays it is kept in.\<close>

type_synonym ('x, 'w) foreign_val = "'x cell heap \<Rightarrow> 'x \<Rightarrow> 'w"
type_synonym 'x foreign_reach = "'x cell heap \<Rightarrow> 'x \<Rightarrow> nat set"

type_synonym mode_value = "(string \<times> string) \<times> string list option \<times> unit"
type_synonym profile_spec_value = "unit \<times> mode_value list option \<times> string list option"
type_synonym 'w profile_value = "type_meta \<times> 'w \<times> profile_spec_value"
type_synonym 'w template_spec_value = "unit \<times> 'w \<times> 'w"
type_synonym 'w template_value = "type_meta \<times> 'w \<times> 'w template_spec_value"
type_synonym 'w bundle_spec_value = "unit \<times> 'w list option \<times> unit \<times> 'w list option \<times> 'w list option"
type_synonym 'w bundle_value = "type_meta \<times> 'w \<times> 'w bundle_spec_value"
type_synonym ('w, 'v) list_value = "type_meta \<times> 'w \<times> 'v list option"

definition mode_val :: "'x cell heap \<Rightarrow> mode_struct \<Rightarrow> mode_value" where
  "mode_val = (\<lambda>h m. ((ms_Name m, ms_Template m), slice_val string_elem (\<lambda>h e. e) h (ms_RequiredFlags m), ()))"

definition mode_reach :: "'x cell heap \<Rightarrow> mode_struct \<Rightarrow> nat set" where
  "mode_reach = (\<lambda>h m. slice_reach string_elem (\<lambda>h e. {}) h (ms_RequiredFlags m))"

definition profile_spec_val :: "'x cell heap \<Rightarrow> profile_spec_struct \<Rightarrow> profile_spec_value" where
  "profile_spec_val = (\<lambda>h s. ((), slice_val mode_elem mode_val h (ps_SupportedModes s),
     slice_val string_elem (\<lambda>h e. e) h (ps_VolumeBundles s)))"

definition profile_spec_reach :: "'x cell heap \<Rightarrow> profile_spec_struct \<Rightarrow> nat set" where
  "profile_spec_reach = (\<lambda>h s. slice_reach mode_elem mode_reach h (ps_SupportedModes s) \<union>
     slice_reach string_elem (\<lambda>h e. {}) h (ps_VolumeBundles s))"

definition profile_val :: "('x, 'w) foreign_val \<Rightarrow> 'x cell heap \<Rightarrow> 'x profile_struct \<Rightarrow> 'w profile_value" where
  "profile_val fv = (\<lambda>h p. (pr_TypeMeta p, fv h (pr_ObjectMeta p), profile_spec_val h (pr_Spec p)))"

definition profile_reach :: "'x foreign_reach \<Rightarrow> 'x cell heap \<Rightarrow> 'x profile_struct \<Rightarrow> nat set" where
  "profile_reach fr = (\<lambda>h p. fr h (pr_ObjectMeta p) \<union> profile_spec_reach h (pr_Spec p))"

definition template_spec_val :: "('x, 'w) foreign_val \<Rightarrow> 'x cell heap \<Rightarrow> 'x template_spec_struct \<Rightarrow> 'w template_spec_value" where
  "template_spec_val fv = (\<lambda>h t. ((), fv h (tp_ObjectMeta t), fv h (tp_Spec t)))"

definition template_spec_reach :: "'x foreign_reach \<Rightarrow> 'x cell heap \<Rightarrow> 'x template_spec_struct \<Rightarrow> nat set" where
  "template_spec_reach fr = (\<lambda>h t. fr h (tp_ObjectMeta t) \<union> fr h (tp_Spec t))"

definition template_val :: "('x, 'w) foreign_val \<Rightarrow> 'x cell heap \<Rightarrow> 'x template_struct \<Rightarrow> 'w template_value" where
  "template_val fv = (\<lambda>h t. (te_TypeMeta t, fv h (te_ObjectMeta t), template_spec_val fv h (te_Template t)))"

definition template_reach :: "'x foreign_reach \<Rightarrow> 'x cell heap \<Rightarrow> 'x template_struct \<Rightarrow> nat set" where
  "template_reach fr = (\<lambda>h t. fr h (te_ObjectMeta t) \<union> template_spec_reach fr h (te_Template t))"

definition bundle_spec_val :: "'x \<Rightarrow> ('x, 'w) foreign_val \<Rightarrow> 'x cell heap \<Rightarrow> bundle_spec_struct \<Rightarrow> 'w bundle_spec_value" where
  "bundle_spec_val z fv = (\<lambda>h s. ((), slice_val (foreign_elem z) fv h (bs_Volumes s), (),
     slice_val (foreign_elem z) fv h (bs_ContainerVolumeMounts s), slice_val (foreign_elem z) fv h (bs_EnvVars s)))"

definition bundle_spec_reach :: "'x \<Rightarrow> 'x foreign_reach \<Rightarrow> 'x cell heap \<Rightarrow> bundle_spec_struct \<Rightarrow> nat set" where
  "bundle_spec_reach z fr = (\<lambda>h s. slice_reach (foreign_elem z) fr h (bs_Volumes s) \<union>
     (slice_reach (foreign_elem z) fr h (bs_ContainerVolumeMounts s) \<union> slice_reach (foreign_elem z) fr h (bs_EnvVars s)))"

definition bundle_val :: "'x \<Rightarrow> ('x, 'w) foreign_val \<Rightarrow> 'x cell heap \<Rightarrow> 'x bundle_struct \<Rightarrow> 'w bundle_value" where
  "bundle_val z fv = (\<lambda>h b. (bu_TypeMeta b, fv h (bu_ObjectMeta b), bundle_spec_val z fv h (bu_Spec b)))"

definition bundle_reach :: "'x \<Rightarrow> 'x foreign_reach \<Rightarrow> 'x cell heap \<Rightarrow> 'x bundle_struct \<Rightarrow> nat set" where
  "bundle_reach z fr = (\<lambda>h b. fr h (bu_ObjectMeta b) \<union> bundle_spec_reach z fr h (bu_Spec b))"

definition list_val ::
  "('x, 'w) foreign_val \<Rightarrow> ('x cell, 'e) elem_type \<Rightarrow> ('x cell heap \<Rightarrow> 'e \<Rightarrow> 'v) \<Rightarrow> 'x cell heap \<Rightarrow> 'x list_struct \<Rightarrow> ('w, 'v) list_value" where
  "list_val fv T v = (\<lambda>h l. (li_TypeMeta l, fv h (li_ListMeta l), slice_val T v h (li_Items l)))"

definition list_reach ::
  "'x foreign_reach \<Rightarrow> ('x cell, 'e) elem_type \<Rightarrow> ('x cell heap \<Rightarrow> 'e \<Rightarrow> nat set) \<Rightarrow> 'x cell heap \<Rightarrow> 'x list_struct \<Rightarrow> nat set" where
  "list_reach fr T r = (\<lambda>h l. fr h (li_ListMeta l) \<union> slice_reach T r h (li_Items l))"

section \<open>Every copy is a deep copy\<close>

text \<open>What the copies rely on: the \<open>DeepCopyInto\<close> of the other modules are deep copies.\<close>

definition foreign_ok :: "'x foreign_api \<Rightarrow> ('x, 'w) foreign_val \<Rightarrow> 'x foreign_reach \<Rightarrow> bool" where
  "foreign_ok F fv fr \<longleftrightarrow> list_all (\<lambda>c. copier c fv fr)
     [fa_ObjectMeta F, fa_ListMeta F, fa_JobSpec F, fa_RayClusterSpec F, fa_RayJobSpec F, fa_Volume F, fa_VolumeMount F, fa_EnvVar F]"

lemma elem_types_ok:
  "elem_ok string_elem" "elem_ok (foreign_elem z)" "elem_ok mode_elem" "elem_ok profile_spec_elem" "elem_ok (profile_elem z)"
  "elem_ok (template_spec_elem z)" "elem_ok (template_elem z)" "elem_ok bundle_spec_elem" "elem_ok (bundle_elem z)"
  "elem_ok (list_elem z)"
  by (simp_all add: elem_ok_def elem_defs)

interpretation mode_copy: copier SupportedMode_DeepCopyInto mode_val mode_reach
  unfolding mode_val_def mode_reach_def
  by (rule copier_one [OF copier.slice_copier [OF copier_return elem_types_ok(1)], where mk = "\<lambda>m fs. m\<lparr>ms_RequiredFlags := fs\<rparr>"])
    (simp_all add: SupportedMode_DeepCopyInto_def)

interpretation mode_elems: elem_copier SupportedMode_DeepCopyInto mode_val mode_reach mode_elem
  by unfold_locales (rule elem_types_ok(3))

interpretation profile_spec_copy: copier ApplicationProfileSpec_DeepCopyInto profile_spec_val profile_spec_reach
  unfolding profile_spec_val_def profile_spec_reach_def
  by (rule copier_two [OF mode_elems.copied_slice copier.slice_copier [OF copier_return elem_types_ok(1)],
        where mk = "\<lambda>s a b. s\<lparr>ps_SupportedModes := a, ps_VolumeBundles := b\<rparr>"])
    (simp_all add: ApplicationProfileSpec_DeepCopyInto_def)

lemma copy_list_copier:
  assumes "copier (fa_ListMeta F) fv fr" and "copier copy v r" and "elem_ok T"
  shows "copier (copy_list F T copy) (list_val fv T v) (list_reach fr T r)"
  unfolding list_val_def list_reach_def
  by (rule copier_two [OF assms(1) copier.slice_copier [OF assms(2,3)], where mk = "\<lambda>l a b. l\<lparr>li_ListMeta := a, li_Items := b\<rparr>"])
    (simp_all add: copy_list_def)

lemma copy_template_copier:
  assumes "copier (fa_ObjectMeta F) fv fr" and "copier copy fv fr"
  shows "copier (copy_template_spec F copy) (template_spec_val fv) (template_spec_reach fr)"
    and "copier (copy_template F (copy_template_spec F copy)) (template_val fv) (template_reach fr)"
proof -
  show spec: "copier (copy_template_spec F copy) (template_spec_val fv) (template_spec_reach fr)"
    unfolding template_spec_val_def template_spec_reach_def
    by (rule copier_two [OF assms, where mk = "\<lambda>t a b. t\<lparr>tp_ObjectMeta := a, tp_Spec := b\<rparr>"])
      (simp_all add: copy_template_spec_def)
  show "copier (copy_template F (copy_template_spec F copy)) (template_val fv) (template_reach fr)"
    unfolding template_val_def template_reach_def
    by (rule copier_two [OF assms(1) spec, where mk = "\<lambda>t a b. t\<lparr>te_ObjectMeta := a, te_Template := b\<rparr>"])
      (simp_all add: copy_template_def)
qed

lemma profile_copier:
  assumes "copier (fa_ObjectMeta F) fv fr"
  shows "copier (ApplicationProfile_DeepCopyInto F) (profile_val fv) (profile_reach fr)"
  unfolding profile_val_def profile_reach_def
  by (rule copier_two [OF assms profile_spec_copy.copier_axioms, where mk = "\<lambda>p a b. p\<lparr>pr_ObjectMeta := a, pr_Spec := b\<rparr>"])
    (simp_all add: ApplicationProfile_DeepCopyInto_def)

lemma bundle_spec_copier:
  assumes "copier (fa_Volume F) fv fr" "copier (fa_VolumeMount F) fv fr" "copier (fa_EnvVar F) fv fr"
  shows "copier (VolumeBundleSpec_DeepCopyInto F) (bundle_spec_val (fa_zero F) fv) (bundle_spec_reach (fa_zero F) fr)"
proof -
  note slices = assms [THEN copier.slice_copier, OF elem_types_ok(2), of "fa_zero F"]
  show ?thesis
    using copier_two [OF slices(1) copier_pair [OF slices(2,3)], where mk = "\<lambda>s a b.
        s\<lparr>bs_Volumes := a, bs_ContainerVolumeMounts := fst b, bs_EnvVars := snd b\<rparr>" and
      g = "\<lambda>s. (bs_ContainerVolumeMounts s, bs_EnvVars s)" and flat = "\<lambda>s. ()" and f = bs_Volumes and
      copy = "VolumeBundleSpec_DeepCopyInto F"]
    unfolding bundle_spec_val_def bundle_spec_reach_def by (simp add: VolumeBundleSpec_DeepCopyInto_def)
qed

lemma bundle_copier:
  assumes "copier (fa_ObjectMeta F) fv fr" "copier (fa_Volume F) fv fr" "copier (fa_VolumeMount F) fv fr" "copier (fa_EnvVar F) fv fr"
  shows "copier (VolumeBundle_DeepCopyInto F) (bundle_val (fa_zero F) fv) (bundle_reach (fa_zero F) fr)"
  unfolding bundle_val_def bundle_reach_def
  by (rule copier_two [OF assms(1) bundle_spec_copier [OF assms(2-4)], where mk = "\<lambda>p a b. p\<lparr>bu_ObjectMeta := a, bu_Spec := b\<rparr>"])
    (simp_all add: VolumeBundle_DeepCopyInto_def)


text \<open>What an object stands for, \<open>None\<close> for a nil pointer.\<close>

datatype (plugins only: size code) 'w api_value =
    ProfileValue "'w profile_value"
  | ProfileListValue "('w, 'w profile_value) list_value"
  | TemplateValue "'w template_value"
  | TemplateListValue "('w, 'w template_value) list_value"
  | BundleValue "'w bundle_value"
  | BundleListValue "('w, 'w bundle_value) list_value"

fun object_val :: "'x foreign_api \<Rightarrow> ('x, 'w) foreign_val \<Rightarrow> 'x cell heap \<Rightarrow> api_object \<Rightarrow> 'w api_value option" where
  "object_val F fv h (ApplicationProfileT, p) = map_option ProfileValue (pointer_val (profile_elem (fa_zero F)) (profile_val fv) h p)"
| "object_val F fv h (ApplicationProfileListT, p) = map_option ProfileListValue (pointer_val (list_elem (fa_zero F)) (list_val fv (profile_elem (fa_zero F)) (profile_val fv)) h p)"
| "object_val F fv h (JobTemplateT, p) = map_option TemplateValue (pointer_val (template_elem (fa_zero F)) (template_val fv) h p)"
| "object_val F fv h (JobTemplateListT, p) = map_option TemplateListValue (pointer_val (list_elem (fa_zero F)) (list_val fv (template_elem (fa_zero F)) (template_val fv)) h p)"
| "object_val F fv h (RayClusterTemplateT, p) = map_option TemplateValue (pointer_val (template_elem (fa_zero F)) (template_val fv) h p)"
| "object_val F fv h (RayClusterTemplateListT, p) = map_option TemplateListValue (pointer_val (list_elem (fa_zero F)) (list_val fv (template_elem (fa_zero F)) (template_val fv)) h p)"
| "object_val F fv h (RayJobTemplateT, p) = map_option TemplateValue (pointer_val (template_elem (fa_zero F)) (template_val fv) h p)"
| "object_val F fv h (RayJobTemplateListT, p) = map_option TemplateListValue (pointer_val (list_elem (fa_zero F)) (list_val fv (template_elem (fa_zero F)) (template_val fv)) h p)"
| "object_val F fv h (VolumeBundleT, p) = map_option BundleValue (pointer_val (bundle_elem (fa_zero F)) (bundle_val (fa_zero F) fv) h p)"
| "object_val F fv h (VolumeBundleListT, p) = map_option BundleListValue (pointer_val (list_elem (fa_zero F)) (list_val fv (bundle_elem (fa_zero F)) (bundle_val (fa_zero F) fv)) h p)"

fun object_reach :: "'x foreign_api \<Rightarrow> 'x foreign_reach \<Rightarrow> 'x cell heap \<Rightarrow> api_object \<Rightarrow> nat set" where
  "object_reach F fr h (ApplicationProfileT, p) = pointer_reach (profile_elem (fa_zero F)) (profile_reach fr) h p"
| "object_reach F fr h (ApplicationProfileListT, p) = pointer_reach (list_elem (fa_zero F)) (list_reach fr (profile_elem (fa_zero F)) (profile_reach fr)) h p"
| "object_reach F fr h (JobTemplateT, p) = pointer_reach (template_elem (fa_zero F)) (template_reach fr) h p"
| "object_reach F fr h (JobTemplateListT, p) = pointer_reach (list_elem (fa_zero F)) (list_reach fr (template_elem (fa_zero F)) (template_reach fr)) h p"
| "object_reach F fr h (RayClusterTemplateT, p) = pointer_reach (template_elem (fa_zero F)) (template_reach fr) h p"
| "object_reach F fr h (RayClusterTemplateListT, p) = pointer_reach (list_elem (fa_zero F)) (list_reach fr (template_elem (fa_zero F)) (template_reach fr)) h p"
| "object_reach F fr h (RayJobTemplateT, p) = pointer_reach (template_elem (fa_zero F)) (template_reach fr) h p"
| "object_reach F fr h (RayJobTemplateListT, p) = pointer_reach (list_elem (fa_zero F)) (list_reach fr (template_elem (fa_zero F)) (template_reach fr)) h p"
| "object_reach F fr h (VolumeBundleT, p) = pointer_reach (bundle_elem (fa_zero F)) (bundle_reach (fa_zero F) fr) h p"
| "object_reach F fr h (VolumeBundleListT, p) = pointer_reach (list_elem (fa_zero F)) (list_reach fr (bundle_elem (fa_zero F)) (bundle_reach (fa_zero F) fr)) h p"

text \<open>The object a call returns for a pointer that is not nil.\<close>

definition fresh_copy ::
  "'x foreign_api \<Rightarrow> ('x, 'w) foreign_val \<Rightarrow> 'x foreign_reach \<Rightarrow> api_object \<Rightarrow> 'x cell heap \<Rightarrow> api_object \<Rightarrow> 'x cell heap \<Rightarrow> bool" where
  "fresh_copy F fv fr x h y h' \<longleftrightarrow>
     fst y = fst x \<and> extends h h' \<and> object_val F fv h' y = object_val F fv h x \<and>
     object_reach F fr h' y \<subseteq> {hp_next h..<hp_next h'} \<and>
     (\<forall>g. same_on (- object_reach F fr h' y) h' g \<longrightarrow> object_val F fv g x = object_val F fv h x) \<and>
     (\<forall>g. same_on (- object_reach F fr h x) h' g \<longrightarrow> object_val F fv g y = object_val F fv h x)"

lemma object_copied:
  assumes c: "elem_copier c v r T"
    and val: "\<And>h p. object_val F fv h (Ty, p) = map_option V (pointer_val T v h p)"
    and reach: "\<And>h p. object_reach F fr h (Ty, p) = pointer_reach T r h p"
    and copy: "\<And>p. DeepCopyObject F (Ty, p) = as_object Ty (copy_pointer T c p)"
    and pre: "object_reach F fr h (Ty, Some a) \<subseteq> {..<hp_next h}"
    and run: "run_state (DeepCopyObject F (Ty, Some a)) h = (y, h')"
  shows "\<exists>q. y = Some (Ty, Some q) \<and> fresh_copy F fv fr (Ty, Some a) h (Ty, Some q) h'"
proof -
  obtain q g where g: "run_state (copy_pointer T c (Some a)) h = (q, g)" by (meson surj_pair)
  from pre have p: "pointer_reach T r h (Some a) \<subseteq> {..<hp_next h}" by (simp add: reach)
  note fresh = elem_copier.copied_pointer [OF c p g]
  from run g fresh(1) have y: "y = Some (Ty, q)" "h' = g" by (simp_all add: copy as_object_def)
  have "fresh_copy F fv fr (Ty, Some a) h (Ty, q) g"
    using fresh(2-6) by (simp add: fresh_copy_def val reach)
  with y fresh(1) show ?thesis by blast
qed

lemmas object_copy_defs = ApplicationProfile_DeepCopyObject_def ApplicationProfile_DeepCopy_def
  ApplicationProfileList_DeepCopyObject_def ApplicationProfileList_DeepCopy_def
  JobTemplate_DeepCopyObject_def JobTemplate_DeepCopy_def
  JobTemplateList_DeepCopyObject_def JobTemplateList_DeepCopy_def
  RayClusterTemplate_DeepCopyObject_def RayClusterTemplate_DeepCopy_def
  RayClusterTemplateList_DeepCopyObject_def RayClusterTemplateList_DeepCopy_def
  RayJobTemplate_DeepCopyObject_def RayJobTemplate_DeepCopy_def
  RayJobTemplateList_DeepCopyObject_def RayJobTemplateList_DeepCopy_def
  VolumeBundle_DeepCopyObject_def VolumeBundle_DeepCopy_def
  VolumeBundleList_DeepCopyObject_def VolumeBundleList_DeepCopy_def

lemma DeepCopyObject_nil: "run_state (DeepCopyObject F (Ty, None)) h = (None, h)"
  by (cases Ty) (simp_all add: as_object_def copy_pointer_def object_copy_defs)

lemma foreign_copiers:
  assumes "foreign_ok F fv fr"
  shows "copier (fa_ObjectMeta F) fv fr" "copier (fa_ListMeta F) fv fr" "copier (fa_JobSpec F) fv fr"
    "copier (fa_RayClusterSpec F) fv fr" "copier (fa_RayJobSpec F) fv fr" "copier (fa_Volume F) fv fr"
    "copier (fa_VolumeMount F) fv fr" "copier (fa_EnvVar F) fv fr"
  using assms by (simp_all add: foreign_ok_def)

lemma object_copiers:
  assumes ok: "foreign_ok F fv fr"
  shows "copier (ApplicationProfile_DeepCopyInto F) (profile_val fv) (profile_reach fr)"
    and "copier (JobTemplate_DeepCopyInto F) (template_val fv) (template_reach fr)"
    and "copier (RayClusterTemplate_DeepCopyInto F) (template_val fv) (template_reach fr)"
    and "copier (RayJobTemplate_DeepCopyInto F) (template_val fv) (template_reach fr)"
    and "copier (VolumeBundle_DeepCopyInto F) (bundle_val (fa_zero F) fv) (bundle_reach (fa_zero F) fr)"
  using foreign_copiers [OF ok] profile_copier copy_template_copier(2) bundle_copier
  unfolding JobTemplate_DeepCopyInto_def RayClusterTemplate_DeepCopyInto_def RayJobTemplate_DeepCopyInto_def
    JobTemplateSpec_DeepCopyInto_def RayClusterTemplateSpec_DeepCopyInto_def RayJobTemplateSpec_DeepCopyInto_def
  by blast+

lemma list_copiers:
  assumes ok: "foreign_ok F fv fr"
  shows "copier (ApplicationProfileList_DeepCopyInto F) (list_val fv (profile_elem (fa_zero F)) (profile_val fv))
      (list_reach fr (profile_elem (fa_zero F)) (profile_reach fr))"
    and "copier (JobTemplateList_DeepCopyInto F) (list_val fv (template_elem (fa_zero F)) (template_val fv))
      (list_reach fr (template_elem (fa_zero F)) (template_reach fr))"
    and "copier (RayClusterTemplateList_DeepCopyInto F) (list_val fv (template_elem (fa_zero F)) (template_val fv))
      (list_reach fr (template_elem (fa_zero F)) (template_reach fr))"
    and "copier (RayJobTemplateList_DeepCopyInto F) (list_val fv (template_elem (fa_zero F)) (template_val fv))
      (list_reach fr (template_elem (fa_zero F)) (template_reach fr))"
    and "copier (VolumeBundleList_DeepCopyInto F) (list_val fv (bundle_elem (fa_zero F)) (bundle_val (fa_zero F) fv))
      (list_reach fr (bundle_elem (fa_zero F)) (bundle_reach (fa_zero F) fr))"
  unfolding ApplicationProfileList_DeepCopyInto_def JobTemplateList_DeepCopyInto_def RayClusterTemplateList_DeepCopyInto_def
    RayJobTemplateList_DeepCopyInto_def VolumeBundleList_DeepCopyInto_def
  by (rule copy_list_copier [OF foreign_copiers(2) [OF ok] _ elem_types_ok(5)] copy_list_copier [OF foreign_copiers(2) [OF ok] _ elem_types_ok(7)]
      copy_list_copier [OF foreign_copiers(2) [OF ok] _ elem_types_ok(9)], rule object_copiers [OF ok])+

lemma DeepCopyObject_pointers:
  "DeepCopyObject F (ApplicationProfileT, p) = as_object ApplicationProfileT (copy_pointer (profile_elem (fa_zero F)) (ApplicationProfile_DeepCopyInto F) p)"
  "DeepCopyObject F (ApplicationProfileListT, p) = as_object ApplicationProfileListT (copy_pointer (list_elem (fa_zero F)) (ApplicationProfileList_DeepCopyInto F) p)"
  "DeepCopyObject F (JobTemplateT, p) = as_object JobTemplateT (copy_pointer (template_elem (fa_zero F)) (JobTemplate_DeepCopyInto F) p)"
  "DeepCopyObject F (JobTemplateListT, p) = as_object JobTemplateListT (copy_pointer (list_elem (fa_zero F)) (JobTemplateList_DeepCopyInto F) p)"
  "DeepCopyObject F (RayClusterTemplateT, p) = as_object RayClusterTemplateT (copy_pointer (template_elem (fa_zero F)) (RayClusterTemplate_DeepCopyInto F) p)"
  "DeepCopyObject F (RayClusterTemplateListT, p) = as_object RayClusterTemplateListT (copy_pointer (list_elem (fa_zero F)) (RayClusterTemplateList_DeepCopyInto F) p)"
  "DeepCopyObject F (RayJobTemplateT, p) = as_object RayJobTemplateT (copy_pointer (template_elem (fa_zero F)) (RayJobTemplate_DeepCopyInto F) p)"
  "DeepCopyObject F (RayJobTemplateListT, p) = as_object RayJobTemplateListT (copy_pointer (list_elem (fa_zero F)) (RayJobTemplateList_DeepCopyInto F) p)"
  "DeepCopyObject F (VolumeBundleT, p) = as_object VolumeBundleT (copy_pointer (bundle_elem (fa_zero F)) (VolumeBundle_DeepCopyInto F) p)"
  "DeepCopyObject F (VolumeBundleListT, p) = as_object VolumeBundleListT (copy_pointer (list_elem (fa_zero F)) (VolumeBundleList_DeepCopyInto F) p)"
  by (simp_all only: DeepCopyObject.simps object_copy_defs)

lemma elem_copierI: "copier c v r \<Longrightarrow> elem_ok T \<Longrightarrow> elem_copier c v r T"
  by (intro elem_copier.intro elem_copier_axioms.intro)

lemmas typed_copied =
  object_copied [OF elem_copierI [OF object_copiers(1) elem_types_ok(5)] object_val.simps(1) object_reach.simps(1) DeepCopyObject_pointers(1)]
  object_copied [OF elem_copierI [OF list_copiers(1) elem_types_ok(10)] object_val.simps(2) object_reach.simps(2) DeepCopyObject_pointers(2)]
  object_copied [OF elem_copierI [OF object_copiers(2) elem_types_ok(7)] object_val.simps(3) object_reach.simps(3) DeepCopyObject_pointers(3)]
  object_copied [OF elem_copierI [OF list_copiers(2) elem_types_ok(10)] object_val.simps(4) object_reach.simps(4) DeepCopyObject_pointers(4)]
  object_copied [OF elem_copierI [OF object_copiers(3) elem_types_ok(7)] object_val.simps(5) object_reach.simps(5) DeepCopyObject_pointers(5)]
  object_copied [OF elem_copierI [OF list_copiers(3) elem_types_ok(10)] object_val.simps(6) object_reach.simps(6) DeepCopyObject_pointers(6)]
  object_copied [OF elem_copierI [OF object_copiers(4) elem_types_ok(7)] object_val.simps(7) object_reach.simps(7) DeepCopyObject_pointers(7)]
  object_copied [OF elem_copierI [OF list_copiers(4) elem_types_ok(10)] object_val.simps(8) object_reach.simps(8) DeepCopyObject_pointers(8)]
  object_copied [OF elem_copierI [OF object_copiers(5) elem_types_ok(9)] object_val.simps(9) object_reach.simps(9) DeepCopyObject_pointers(9)]
  object_copied [OF elem_copierI [OF list_copiers(5) elem_types_ok(10)] object_val.simps(10) object_reach.simps(10) DeepCopyObject_pointers(10)]

text \<open>
  C15. Copies of API objects: with deep copies of the types of other modules, \<open>DeepCopyObject\<close> of every type of
  the API returns nil for a nil pointer and else an object of the same type that stands for the same value
  and is kept in new arrays only: later assignments through the copy do not show in the original, nor
  those through the original in the copy.
\<close>

theorem DeepCopyObject_independent:
  assumes ok: "foreign_ok F fv fr" and pre: "object_reach F fr h (Ty, p) \<subseteq> {..<hp_next h}"
    and run: "run_state (DeepCopyObject F (Ty, p)) h = (y, h')"
  shows "(p = None \<longrightarrow> y = None \<and> h' = h) \<and>
    (p \<noteq> None \<longrightarrow> (\<exists>q. y = Some (Ty, Some q) \<and> fresh_copy F fv fr (Ty, p) h (Ty, Some q) h'))"
proof (cases p)
  case None
  with run show ?thesis by (simp add: DeepCopyObject_nil)
next
  case (Some a)
  from pre run have pre': "object_reach F fr h (Ty, Some a) \<subseteq> {..<hp_next h}"
    and run': "run_state (DeepCopyObject F (Ty, Some a)) h = (y, h')" by (simp_all only: Some)
  have "\<exists>q. y = Some (Ty, Some q) \<and> fresh_copy F fv fr (Ty, Some a) h (Ty, Some q) h'"
    using pre' run' by (cases Ty; hypsubst_thin; elim typed_copied [OF ok])
  with Some show ?thesis by simp
qed


text \<open>A sample: opaque values with a name and a slice of strings, and a profile with one mode.\<close>

definition named_copy :: "(string \<times> slice, string \<times> slice) copy_fun" where
  "named_copy x = do { s \<leftarrow> copy_slice string_elem State_Monad.return (snd x); State_Monad.return (fst x, s) }"

definition named_api :: "(string \<times> slice) foreign_api" where
  "named_api =
     \<lparr>fa_zero = ([], NilSlice), fa_ObjectMeta = named_copy, fa_ListMeta = named_copy, fa_JobSpec = named_copy,
      fa_RayClusterSpec = named_copy, fa_RayJobSpec = named_copy, fa_Volume = named_copy, fa_VolumeMount = named_copy,
      fa_EnvVar = named_copy\<rparr>"

definition named_val :: "(string \<times> slice, string \<times> string list option \<times> unit) foreign_val" where
  "named_val = (\<lambda>h x. (fst x, slice_val string_elem (\<lambda>h e. e) h (snd x), ()))"

definition named_reach :: "(string \<times> slice) foreign_reach" where
  "named_reach = (\<lambda>h x. slice_reach string_elem (\<lambda>h e. {}) h (snd x))"

lemma named_api_ok: "foreign_ok named_api named_val named_reach"
proof -
  have "copier named_copy named_val named_reach"
    unfolding named_val_def named_reach_def
    by (rule copier_one [OF copier.slice_copier [OF copier_return elem_types_ok(1)], where mk = "\<lambda>x s. (fst x, s)"])
      (simp_all add: named_copy_def)
  then show ?thesis by (simp add: foreign_ok_def named_api_def)
qed

definition profile_heap :: "(string \<times> slice) cell heap" where
  "profile_heap =
     \<lparr>hp_next = 4, hp_array = (\<lambda>a. [])
        (0 := [ProfileCell \<lparr>pr_TypeMeta = zero_meta, pr_ObjectMeta = (''sample'', SliceOf 3 0 1),
           pr_Spec = \<lparr>ps_SupportedModes = SliceOf 1 0 1, ps_VolumeBundles = NilSlice\<rparr>\<rparr>],
         1 := [ModeCell \<lparr>ms_Name = ''Job'', ms_Template = ''t'', ms_RequiredFlags = SliceOf 2 0 1\<rparr>],
         2 := [StringCell ''cmd''], 3 := [StringCell ''app=x''])\<rparr>"

theorem DeepCopyObject_independent_witness:
  "\<exists>q h'. run_state (DeepCopyObject named_api (ApplicationProfileT, Some (0, 0))) profile_heap = (Some (ApplicationProfileT, Some q), h') \<and>
     fresh_copy named_api named_val named_reach (ApplicationProfileT, Some (0, 0)) profile_heap (ApplicationProfileT, Some q) h'"
proof -
  have "object_reach named_api named_reach profile_heap (ApplicationProfileT, Some (0, 0)) \<subseteq> {..<hp_next profile_heap}"
    by (simp add: pointer_reach_def profile_reach_def profile_spec_reach_def mode_reach_def named_reach_def slice_reach_def
        elem_at_def elem_defs profile_heap_def nth_default_def lessThan_Suc)
  moreover obtain y h' where "run_state (DeepCopyObject named_api (ApplicationProfileT, Some (0, 0))) profile_heap = (y, h')"
    by (meson surj_pair)
  ultimately show ?thesis using DeepCopyObject_independent [OF named_api_ok] by blast
qed

end
