(* ===== verification/Clientset.thy ===== *)
theory Clientset
  imports Prelude
begin

text \<open>
  The clientset of kjob's API (\<open>client-go/clientset/versioned\<close>): how a configuration becomes a client of
  the group, a discovery client and the clients of the five resources. The transports and clients
  themselves are those of client-go and parameters.
\<close>

text \<open>
  The fields of \<open>rest.Config\<close> the code reads or writes; no other is touched. \<open>QPS\<close>, a finite float32, is
  counted in units of the smallest positive one.
\<close>

record ('l, 'z) client_config =
  rc_UserAgent :: string
  rc_APIPath :: string
  rc_GroupVersion :: "(string \<times> string) option"
  rc_NegotiatedSerializer :: "'z option"
  rc_QPS :: int
  rc_Burst :: int
  rc_RateLimiter :: "'l option"

record ('l, 'z, 'h, 'c, 'd) rest_libs =
  rl_DefaultKubernetesUserAgent :: string
  rl_HTTPClientFor :: "('l, 'z) client_config \<Rightarrow> string + 'h"
  rl_NewTokenBucketRateLimiter :: "int \<Rightarrow> int \<Rightarrow> 'l"
  rl_RESTClientForConfigAndClient :: "('l, 'z) client_config \<Rightarrow> 'h \<Rightarrow> string + 'c"
  rl_NewDiscoveryClientForConfigAndClient :: "('l, 'z) client_config \<Rightarrow> 'h \<Rightarrow> string + 'd"
  rl_NewDiscoveryClient :: "'c \<Rightarrow> 'd"
  rl_Serializer :: 'z

section \<open>The client of the group\<close>

definition SchemeGroupVersion :: "string \<times> string" where
  "SchemeGroupVersion = (''kjobctl.x-k8s.io'', ''v1alpha1'')"

text \<open>A client of a resource: what \<open>gentype.NewClientWithList\<close> is called with.\<close>

record 'c typed_client =
  tc_resource :: string
  tc_client :: "'c option"
  tc_namespace :: string

text \<open>A group client is a pointer, \<open>None\<close> for nil.\<close>

definition RESTClient :: "'c option \<Rightarrow> 'c option" where
  "RESTClient c = (case c of None \<Rightarrow> None | Some client \<Rightarrow> Some client)"

definition newApplicationProfiles :: "'c option \<Rightarrow> string \<Rightarrow> 'c typed_client" where
  "newApplicationProfiles c namespace = \<lparr>tc_resource = ''applicationprofiles'', tc_client = RESTClient c, tc_namespace = namespace\<rparr>"

definition newJobTemplates :: "'c option \<Rightarrow> string \<Rightarrow> 'c typed_client" where
  "newJobTemplates c namespace = \<lparr>tc_resource = ''jobtemplates'', tc_client = RESTClient c, tc_namespace = namespace\<rparr>"

definition newRayClusterTemplates :: "'c option \<Rightarrow> string \<Rightarrow> 'c typed_client" where
  "newRayClusterTemplates c namespace = \<lparr>tc_resource = ''rayclustertemplates'', tc_client = RESTClient c, tc_namespace = namespace\<rparr>"

definition newRayJobTemplates :: "'c option \<Rightarrow> string \<Rightarrow> 'c typed_client" where
  "newRayJobTemplates c namespace = \<lparr>tc_resource = ''rayjobtemplates'', tc_client = RESTClient c, tc_namespace = namespace\<rparr>"

definition newVolumeBundles :: "'c option \<Rightarrow> string \<Rightarrow> 'c typed_client" where
  "newVolumeBundles c namespace = \<lparr>tc_resource = ''volumebundles'', tc_client = RESTClient c, tc_namespace = namespace\<rparr>"

definition ApplicationProfiles :: "'c option \<Rightarrow> string \<Rightarrow> 'c typed_client" where
  "ApplicationProfiles c namespace = newApplicationProfiles c namespace"

definition JobTemplates :: "'c option \<Rightarrow> string \<Rightarrow> 'c typed_client" where
  "JobTemplates c namespace = newJobTemplates c namespace"

definition RayClusterTemplates :: "'c option \<Rightarrow> string \<Rightarrow> 'c typed_client" where
  "RayClusterTemplates c namespace = newRayClusterTemplates c namespace"

definition RayJobTemplates :: "'c option \<Rightarrow> string \<Rightarrow> 'c typed_client" where
  "RayJobTemplates c namespace = newRayJobTemplates c namespace"

definition VolumeBundles :: "'c option \<Rightarrow> string \<Rightarrow> 'c typed_client" where
  "VolumeBundles c namespace = newVolumeBundles c namespace"

definition setConfigDefaults :: "('l, 'z, 'h, 'c, 'd) rest_libs \<Rightarrow> ('l, 'z) client_config \<Rightarrow> ('l, 'z) client_config" where
  "setConfigDefaults L config =
     (let config = config\<lparr>rc_GroupVersion := Some SchemeGroupVersion, rc_APIPath := ''/apis'',
        rc_NegotiatedSerializer := Some (rl_Serializer L)\<rparr>
      in if rc_UserAgent config = [] then config\<lparr>rc_UserAgent := rl_DefaultKubernetesUserAgent L\<rparr> else config)"

definition group_NewForConfigAndClient :: "('l, 'z, 'h, 'c, 'd) rest_libs \<Rightarrow> ('l, 'z) client_config \<Rightarrow> 'h \<Rightarrow> string + 'c" where
  "group_NewForConfigAndClient L c h = rl_RESTClientForConfigAndClient L (setConfigDefaults L c) h"

definition group_NewForConfig :: "('l, 'z, 'h, 'c, 'd) rest_libs \<Rightarrow> ('l, 'z) client_config \<Rightarrow> string + 'c" where
  "group_NewForConfig L c =
     (let config = setConfigDefaults L c
      in and_then (rl_HTTPClientFor L config) (group_NewForConfigAndClient L config))"

text \<open>A panic carries the error on the left side.\<close>

definition group_NewForConfigOrDie :: "('l, 'z, 'h, 'c, 'd) rest_libs \<Rightarrow> ('l, 'z) client_config \<Rightarrow> string + 'c" where
  "group_NewForConfigOrDie L c = (case group_NewForConfig L c of Inl err \<Rightarrow> Inl (''panic: '' @ err) | Inr client \<Rightarrow> Inr client)"

section \<open>The clientset\<close>

record ('c, 'd) clientset =
  cs_DiscoveryClient :: 'd
  cs_kjobctlV1alpha1 :: 'c

definition burst_error :: string where
  "burst_error = ''burst is required to be greater than 0 when RateLimiter is not set and QPS is set to greater than 0''"

definition set_rate_limiter :: "('l, 'z, 'h, 'c, 'd) rest_libs \<Rightarrow> ('l, 'z) client_config \<Rightarrow> string + ('l, 'z) client_config" where
  "set_rate_limiter L config =
     (if rc_RateLimiter config = None \<and> rc_QPS config > 0 then
        (if rc_Burst config \<le> 0 then Inl burst_error
         else Inr (config\<lparr>rc_RateLimiter := Some (rl_NewTokenBucketRateLimiter L (rc_QPS config) (rc_Burst config))\<rparr>))
      else Inr config)"

definition NewForConfigAndClient :: "('l, 'z, 'h, 'c, 'd) rest_libs \<Rightarrow> ('l, 'z) client_config \<Rightarrow> 'h \<Rightarrow> string + ('c, 'd) clientset" where
  "NewForConfigAndClient L c httpClient =
     and_then (set_rate_limiter L c) (\<lambda>config.
     and_then (group_NewForConfigAndClient L config httpClient) (\<lambda>client.
     and_then (rl_NewDiscoveryClientForConfigAndClient L config httpClient) (\<lambda>discovery.
       Inr \<lparr>cs_DiscoveryClient = discovery, cs_kjobctlV1alpha1 = client\<rparr>)))"

definition set_user_agent :: "('l, 'z, 'h, 'c, 'd) rest_libs \<Rightarrow> ('l, 'z) client_config \<Rightarrow> ('l, 'z) client_config" where
  "set_user_agent L config =
     (if rc_UserAgent config = [] then config\<lparr>rc_UserAgent := rl_DefaultKubernetesUserAgent L\<rparr> else config)"

definition NewForConfig :: "('l, 'z, 'h, 'c, 'd) rest_libs \<Rightarrow> ('l, 'z) client_config \<Rightarrow> string + ('c, 'd) clientset" where
  "NewForConfig L c =
     (let config = set_user_agent L c in and_then (rl_HTTPClientFor L config) (NewForConfigAndClient L config))"

definition NewForConfigOrDie :: "('l, 'z, 'h, 'c, 'd) rest_libs \<Rightarrow> ('l, 'z) client_config \<Rightarrow> string + ('c, 'd) clientset" where
  "NewForConfigOrDie L c = (case NewForConfig L c of Inl err \<Rightarrow> Inl (''panic: '' @ err) | Inr cs \<Rightarrow> Inr cs)"

definition New_clientset :: "('l, 'z, 'h, 'c, 'd) rest_libs \<Rightarrow> 'c \<Rightarrow> ('c, 'd) clientset" where
  "New_clientset L c = \<lparr>cs_DiscoveryClient = rl_NewDiscoveryClient L c, cs_kjobctlV1alpha1 = c\<rparr>"

definition Discovery :: "('c, 'd) clientset option \<Rightarrow> 'd option" where
  "Discovery c = (case c of None \<Rightarrow> None | Some cs \<Rightarrow> Some (cs_DiscoveryClient cs))"

definition KjobctlV1alpha1 :: "('c, 'd) clientset \<Rightarrow> 'c" where
  "KjobctlV1alpha1 c = cs_kjobctlV1alpha1 c"

section \<open>The clients agree\<close>

text \<open>The configuration that the clients of a clientset share.\<close>

lemma set_rate_limiter_ok:
  "is_ok (set_rate_limiter L c) \<longleftrightarrow> rc_RateLimiter c \<noteq> None \<or> rc_QPS c \<le> 0 \<or> rc_Burst c > 0"
  by (auto simp: set_rate_limiter_def)

lemma set_rate_limiter_keeps:
  "set_rate_limiter L c = Inr config \<Longrightarrow>
     rc_UserAgent config = rc_UserAgent c \<and> (rc_QPS c > 0 \<longrightarrow> rc_RateLimiter config \<noteq> None) \<and>
     (rc_RateLimiter c \<noteq> None \<longrightarrow> config = c)"
  by (auto simp: set_rate_limiter_def split: if_splits)

lemma set_user_agent_simps [simp]:
  "rc_RateLimiter (set_user_agent L c) = rc_RateLimiter c" "rc_QPS (set_user_agent L c) = rc_QPS c"
  "rc_Burst (set_user_agent L c) = rc_Burst c"
  by (simp_all add: set_user_agent_def)

lemma set_config_defaults_simps [simp]:
  "rc_RateLimiter (setConfigDefaults L c) = rc_RateLimiter c" "rc_GroupVersion (setConfigDefaults L c) = Some SchemeGroupVersion"
  "rc_APIPath (setConfigDefaults L c) = ''/apis''" "rc_UserAgent c \<noteq> [] \<Longrightarrow> rc_UserAgent (setConfigDefaults L c) = rc_UserAgent c"
  by (simp_all add: setConfigDefaults_def Let_def)

text \<open>
  A clientset: where \<open>NewForConfig\<close> succeeds, the client of the group and the discovery client are made from one
  transport and from configurations with the same user agent and the same rate limiter, which is set
  whenever a rate is; the client of the group speaks to the group and version of the API. It does not
  succeed with a rate but neither a limiter nor a burst.
\<close>

theorem NewForConfig_shared:
  assumes "rl_DefaultKubernetesUserAgent L \<noteq> []"
  shows "(\<forall>cs. NewForConfig L c = Inr cs \<longrightarrow> (\<exists>h config group.
      rl_HTTPClientFor L (set_user_agent L c) = Inr h \<and>
      rl_RESTClientForConfigAndClient L group h = Inr (cs_kjobctlV1alpha1 cs) \<and>
      rl_NewDiscoveryClientForConfigAndClient L config h = Inr (cs_DiscoveryClient cs) \<and>
      rc_UserAgent group = rc_UserAgent config \<and> rc_UserAgent config \<noteq> [] \<and>
      rc_RateLimiter group = rc_RateLimiter config \<and> (rc_QPS c > 0 \<longrightarrow> rc_RateLimiter config \<noteq> None) \<and>
      rc_GroupVersion group = Some SchemeGroupVersion \<and> rc_APIPath group = ''/apis'')) \<and>
    (rc_RateLimiter c = None \<and> rc_QPS c > 0 \<and> rc_Burst c \<le> 0 \<longrightarrow> \<not> is_ok (NewForConfig L c))"
proof (intro conjI allI impI)
  fix cs assume "NewForConfig L c = Inr cs"
  then obtain h config where h: "rl_HTTPClientFor L (set_user_agent L c) = Inr h"
    and config: "set_rate_limiter L (set_user_agent L c) = Inr config"
    and clients: "rl_RESTClientForConfigAndClient L (setConfigDefaults L config) h = Inr (cs_kjobctlV1alpha1 cs)"
      "rl_NewDiscoveryClientForConfigAndClient L config h = Inr (cs_DiscoveryClient cs)"
    by (auto simp: NewForConfig_def NewForConfigAndClient_def group_NewForConfigAndClient_def Let_def)
  from set_rate_limiter_keeps [OF config] have "rc_UserAgent config \<noteq> []" "rc_QPS c > 0 \<longrightarrow> rc_RateLimiter config \<noteq> None"
    using assms by (auto simp: set_user_agent_def split: if_splits)
  with h clients show "\<exists>h config group.
      rl_HTTPClientFor L (set_user_agent L c) = Inr h \<and>
      rl_RESTClientForConfigAndClient L group h = Inr (cs_kjobctlV1alpha1 cs) \<and>
      rl_NewDiscoveryClientForConfigAndClient L config h = Inr (cs_DiscoveryClient cs) \<and>
      rc_UserAgent group = rc_UserAgent config \<and> rc_UserAgent config \<noteq> [] \<and>
      rc_RateLimiter group = rc_RateLimiter config \<and> (rc_QPS c > 0 \<longrightarrow> rc_RateLimiter config \<noteq> None) \<and>
      rc_GroupVersion group = Some SchemeGroupVersion \<and> rc_APIPath group = ''/apis''"
    by (intro exI [of _ h] exI [of _ config] exI [of _ "setConfigDefaults L config"]) simp
next
  assume "rc_RateLimiter c = None \<and> rc_QPS c > 0 \<and> rc_Burst c \<le> 0"
  then have "\<not> is_ok (set_rate_limiter L (set_user_agent L c))" by (simp add: set_rate_limiter_ok)
  then show "\<not> is_ok (NewForConfig L c)"
    by (auto simp: NewForConfig_def NewForConfigAndClient_def Let_def is_ok_iff)
qed

definition sample_libs :: "(int \<times> int, unit, string, string \<times> (int \<times> int) option, string) rest_libs" where
  "sample_libs =
     \<lparr>rl_DefaultKubernetesUserAgent = ''kjobctl'', rl_HTTPClientFor = (\<lambda>c. Inr (rc_UserAgent c)),
      rl_NewTokenBucketRateLimiter = (\<lambda>q b. (q, b)),
      rl_RESTClientForConfigAndClient = (\<lambda>c h. Inr (h, rc_RateLimiter c)),
      rl_NewDiscoveryClientForConfigAndClient = (\<lambda>c h. Inr h), rl_NewDiscoveryClient = (\<lambda>c. fst c), rl_Serializer = ()\<rparr>"

definition sample_rest :: "int \<Rightarrow> (int \<times> int, unit) client_config" where
  "sample_rest burst =
     \<lparr>rc_UserAgent = [], rc_APIPath = [], rc_GroupVersion = None, rc_NegotiatedSerializer = None, rc_QPS = 5, rc_Burst = burst,
      rc_RateLimiter = None\<rparr>"

theorem NewForConfig_shared_witness:
  "NewForConfig sample_libs (sample_rest 10) =
     Inr \<lparr>cs_DiscoveryClient = ''kjobctl'', cs_kjobctlV1alpha1 = (''kjobctl'', Some (5, 10))\<rparr> \<and>
   \<not> is_ok (NewForConfig sample_libs (sample_rest 0))"
proof -
  have "NewForConfig sample_libs (sample_rest 10) =
     Inr \<lparr>cs_DiscoveryClient = ''kjobctl'', cs_kjobctlV1alpha1 = (''kjobctl'', Some (5, 10))\<rparr>"
    by (simp add: NewForConfig_def NewForConfigAndClient_def group_NewForConfigAndClient_def setConfigDefaults_def
        set_rate_limiter_def set_user_agent_def sample_libs_def sample_rest_def Let_def)
  moreover have "rl_DefaultKubernetesUserAgent sample_libs \<noteq> []" by (simp add: sample_libs_def)
  from NewForConfig_shared [OF this, of "sample_rest 0"] have "\<not> is_ok (NewForConfig sample_libs (sample_rest 0))"
    by (simp add: sample_rest_def)
  ultimately show ?thesis ..
qed

end
