(* ===== verification/Spec2Isabelle.thy ===== *)
theory Spec2Isabelle
  imports ArrayIndexes TimeLimit Utils SlurmScript SlurmBuilder DeleteCmd ListCmd CreateCmd Completion DescribeCmd CommandTree LogStream DocSite DeepCopy Clientset
begin

text \<open>
  A verification of kjob (\<open>kjobctl\<close>), the command line tool that turns an application profile and
  command line options into Kubernetes, KubeRay and Slurm-like jobs, and lists, describes and deletes them.

  \<^bold>\<open>The program and its parts.\<close> A command of \<open>src/pkg/cmd\<close> completes its options and runs. \<open>create\<close> hands
  the options to the builder of \<open>src/pkg/builder\<close>, which fetches the profile, the volume bundles and
  the template of the mode, checks the required flags and builds a root object and its children; the
  command then creates them, and for some modes attaches a terminal or waits for the job. \<open>list\<close>,
  \<open>describe\<close> and \<open>delete\<close> find these objects again by their labels. The Slurm mode reads flags from the command line,
  the environment and the script with \<open>src/pkg/parser\<close>.

  \<^bold>\<open>The theories\<close>, in the order of their imports:

  \<^item> \<open>Prelude\<close>: machine integers (\<open>int32\<close> is \<open>32 word\<close>), results with an error side, Go maps; the
    locale \<open>go_map\<close> is their contract and is interpreted on the association lists of the model.
  \<^item> \<open>GoStd\<close>: what the program uses of \<open>strings\<close>, \<open>strconv\<close>, \<open>bufio\<close> and \<open>unicode\<close>, on byte strings.
  \<^item> \<open>ArrayIndexes\<close> and \<open>TimeLimit\<close>: \<open>parser/array_indexes.go\<close> and \<open>parser/time_limit.go\<close>. Ranges and
    lists of indexes parse to what they denote; a range up to the largest index does not end; time
    limits are accepted exactly by the documented grammar and have the value they stand for, as long
    as it fits.
  \<^item> \<open>Utils\<close>: \<open>util/maps\<close>, \<open>util/slices\<close>, \<open>util/validate\<close>.
  \<^item> \<open>ApiTypes\<close>: \<open>apis/v1alpha1\<close>, \<open>pkg/constants\<close> and the Kubernetes types the program touches.
  \<^item> \<open>SlurmScript\<close>: \<open>parser/slurm.go\<close> and the GPU flag: directives, words of a command line, \<open>srun\<close>
    steps and unsupported commands; the rewriting of a script is characterised by its logical lines.
  \<^item> \<open>Builder\<close>, \<open>ModeBuilders\<close>, \<open>SlurmBuilder\<close>: \<open>pkg/builder\<close>. \<open>Builder\<close> has the state (\<open>builder\<close>), the
    setters, checks and shared pieces; \<open>ModeBuilders\<close> the four plain modes and the locale
    \<open>mode_builder_contract\<close> (every object is labelled with profile and mode) and what the containers of
    built pods have (\<open>equipped\<close>); \<open>SlurmBuilder\<close> the Slurm mode with its shell templates, interpretation
    of the same locale, and \<open>Do\<close>.
  \<^item> \<open>CmdHelpers\<close>: \<open>cmd/helpers\<close>, dry-run strategies, flags, clientsets, and the loop \<open>for_each\<close>.
  \<^item> \<open>DeleteCmd\<close>: the five commands of \<open>cmd/delete\<close>. The locale \<open>delete_command\<close> is what one round
    promises; it is interpreted on each command and gives what a run keeps, what it calls and that a
    run is the abstract command that selects the deletable names and sends one request for each. What
    an accepted request does to the object is the server's: it may keep it while it terminates.
  \<^item> \<open>ListCmd\<close>: the five commands of \<open>cmd/list\<close> and their table printers; the loop over pages is a
    \<open>partial_function (option)\<close>, \<open>None\<close> being a server that never sends a last page.
  \<^item> \<open>Completion\<close>: \<open>cmd/completion\<close>, with the locale \<open>name_completion\<close> and its interpretations.
  \<^item> \<open>CreateCmd\<close>: \<open>cmd/create\<close>, from the completion of the options to the interactive session and the
    wait for a Slurm job; the channels of its \<open>select\<close> are the inductive relation \<open>wait_ready\<close>.
  \<^item> \<open>DescribePrint\<close>, \<open>DescribeVolumes\<close>: \<open>cmd/describe/helpers.go\<close>, the texts on labels, containers and the 29
    kinds of volumes, as lists of write operations; \<open>DescribeTexts\<close>: what these texts say, with the locale
    \<open>keyed_printer\<close> of the two printers of maps.
  \<^item> \<open>DescribePrinter\<close>: \<open>cmd/describe/describe_printer.go\<close>, the five describers and their choice.
  \<^item> \<open>DescribeCmd\<close>: \<open>cmd/describe/describe.go\<close>, from the arguments to the query, the config maps of the
    Slurm mode and the loop that prints and collects errors, which equals a reference definition. The
    locale \<open>weak_comparator\<close> is what \<open>slices.SortFunc\<close> requires, interpreted on the comparison of the code.
  \<^item> \<open>LogStream\<close>: what a log stream writes. \<open>CreateFlags\<close>: the subcommands of \<open>create\<close> with their flags, and how
    they relate to the validation rules of profiles. \<open>CommandTree\<close>: the tree of all commands (\<open>cmd/cmd.go\<close>)
    with the flags of \<open>list\<close>, \<open>delete\<close> and \<open>describe\<close>, and the bodies of \<open>version\<close> and \<open>printcrds\<close>.
  \<^item> \<open>GoPath\<close>: \<open>path/filepath\<close>, more of \<open>strings\<close>, and \<open>html\<close>. \<open>DocGen\<close>: \<open>src/cmd/kjobctl-docs\<close>, the generator
    of the command documentation. \<open>DocSite\<close>: the walk of the generator as a plan of directories and pages,
    the locale \<open>file_store\<close> under which the plan succeeds with its interpretation on a file system in
    memory, the pages it leaves and where their links lead.
  \<^item> \<open>GoHeap\<close>: arrays, slices and pointers in a state monad, and the locale \<open>copier\<close>, the contract of a deep
    copy, which slices, pointers and structs inherit from their parts. \<open>DeepCopy\<close>: the generated copies of
    the API types, with interpretations of the locale.
  \<^item> \<open>Clientset\<close>: \<open>src/client-go/clientset/versioned\<close>, from a configuration to the clients of the group.
  \<^item> This theory: the properties that span components.

  \<^bold>\<open>How code is modelled.\<close> A function that returns an error is a sum whose left side is the error; a
  nil pointer or map is \<open>None\<close>; a run-time panic is an error value. Code outside the repository is a
  parameter: the API server and its clients, the clock, random names, quantities, pflag, the
  printers and the terminal come in records of functions (\<open>world\<close>, \<open>list_world\<close>, \<open>create_world\<close>,
  \<open>resource_client\<close>, \<open>completion_world\<close>, \<open>describe_world\<close>, \<open>describe_texts\<close>, \<open>log_world\<close>,
  \<open>os_ops\<close>, \<open>doc_env\<close>, \<open>foreign_api\<close>, \<open>rest_libs\<close>) and what a property needs of them is a named predicate
  (\<open>labels_distinct\<close>, \<open>frame_client\<close>, \<open>pages_answer\<close>, \<open>sorts\<close>,
  \<open>compatible_cli\<close>, \<open>cobra_tree\<close>, \<open>templates_ok\<close>, \<open>foreign_ok\<close>), shown to hold of a concrete
  instance in the witness. Commands return, besides the state of the server, the list of what they
  did. An iteration over a Go map runs over the list that stands for it.

  \<^bold>\<open>What is shown.\<close> Everything \<open>create\<close> builds in a mode is found by the selector of \<open>list\<close>, and \<open>delete\<close> of
  that mode has the server delete it and touches nothing else (here and in \<open>DeleteCmd\<close>); \<open>describe\<close> describes it,
  ignores objects without the profile label, keeps a Slurm job and its config map together, reports each
  error once and fails only on the nil pointers the code does not test; dry runs send what
  they may send; a list command returns and shows every object once; the root is created before its
  children and owns them; labels, volumes, variables and the numbers of nodes and tasks of
  the built objects are the ones asked for; the source of every Slurm option is stated, which is the
  documented one but for the memory per CPU; the flags of all
  commands can be registered and merged, and a flag that a valid profile requires is one of the mode's
  command but for two exceptions; the documentation generator writes one page for every command, and
  all links of the documentation of kjobctl lead to a page; copies of API objects are equal and share no
  memory with the original, which is why the other theories may treat these objects as values; the
  parsers accept what they document, with round trips, error cases and the inputs on which they diverge, wrap around
  or lose text.

  \<^bold>\<open>Bounds.\<close> No fuel is used: loops are structural, have a measure, or are partial functions in the
  option type with a theorem on when they return.

  \<^bold>\<open>Not modelled.\<close> Help texts, the contents of the manifests that \<open>printcrds\<close> unpacks and of the
  documentation templates, the registration of types with the scheme, the fake clients and the
  wrappers and helpers of tests: they are data, calls of other modules, or not part of the program. Goroutines
  and the layout of tables and descriptions by
  \<open>cli-runtime\<close> are represented by their inputs and results only, and no other client changes the
  server while a command runs.
\<close>

section \<open>Properties that span components\<close>

text \<open>
  C1. What \<open>create\<close> makes, \<open>delete\<close> deletes: let the builder return an object in a mode, and let the
  server hold it, under some name, with the labels it was sent with. Then a run of the delete command
  of the same mode, given that name among others, that returns no error has sent the request to delete
  the object, in its namespace and with the options of the command, while the server still held the
  object as it was; the server has accepted the request, and the object has been printed right after.
  Given that name alone, the command does return no error when the server accepts the deletion and the
  printer the object, and then this request and this text are all it does. Nothing is assumed of when
  the server removes an object whose deletion it has accepted.
\<close>

theorem created_then_deleted:
  assumes Do: "Do W b = Some (Inr (root, cs))" and "labels_distinct (names W)"
    and "b_mode b = None" and "b_volumeBundles b = []" and mode: "b_modeName b = mode_name mode"
    and made: "obj \<in> set (root # cs)" and labels: "meta_Labels (object_meta_of stored) = meta_Labels (object_meta_of obj)"
    and get: "cl_Get (dc_Client opt) (ds_objects st) (dc_Namespace opt) n = Inr stored" and "n \<in> set (dc_Names opt)"
    and client: "frame_client (dc_Client opt)" and "dc_DryRunStrategy opt \<noteq> DryRunClient"
    and run: "delete_Run mode opt st = (st', err)"
  shows "(err = None \<longrightarrow>
      (\<exists>s before t after. ds_events st' = ds_events st @ before @
          [DeleteCall (dc_Namespace opt) n (delete_opts_of opt), Out t] @ after \<and>
        cl_Get (dc_Client opt) s (dc_Namespace opt) n = Inr stored \<and>
        snd (cl_Delete (dc_Client opt) s (dc_Namespace opt) n (delete_opts_of opt)) = None \<and>
        dc_PrintObj opt stored = Inr t)) \<and>
    (\<forall>s t. dc_Names opt = [n] \<and> dc_PrintObj opt stored = Inr t \<and>
      cl_Delete (dc_Client opt) (ds_objects st) (dc_Namespace opt) n (delete_opts_of opt) = (s, None) \<longrightarrow>
      err = None \<and> ds_objects st' = s \<and>
      ds_events st' = ds_events st @ [DeleteCall (dc_Namespace opt) n (delete_opts_of opt), Out t])"
proof -
  from Do_objects [OF assms(1-4)] made obtain p m where "kjob_owned p m obj" and "sm_Name m = mode_name mode"
    unfolding mode by blast
  then have may: "may_delete mode (object_meta_of stored)" using labels by (rule kjob_owned_may_delete)
  from run have loop: "for_each (delete_step mode opt) (dc_Names opt) st = (st', err)" by (simp only: delete_Run_steps)
  with dr.run_deletes [OF client get may assms(9,11)] dr.accepted [OF get may] assms(11) show ?thesis
    by (auto simp: delete_call_def print_object_def emit_def)
qed

text \<open>On a server that keeps the object while it terminates, with the dependents deleted in the foreground.\<close>

theorem created_then_deleted_witness:
  "\<exists>m spec st'. Do sample_world (sample_builder RayClusterMode) = Some (Inr (RayClusterObject m spec, [])) \<and>
    delete_Run RayClusterMode (sample_grace_delete [''rc''] DryRunNone)
      \<lparr>ds_objects = ([((''ns'', ''rc''), RayClusterObject m spec)], []), ds_events = []\<rparr> = (st', None) \<and>
    ds_events st' =
      [DeleteCall ''ns'' ''rc'' \<lparr>do_PropagationPolicy = Some DeletePropagationForeground, do_DryRun = []\<rparr>,
       Out (meta_Name m @ '' deleted'')] \<and>
    ds_objects st' = ([((''ns'', ''rc''), RayClusterObject m spec)], [(''ns'', ''rc'')])"
proof -
  from sample_Do obtain m spec
    where Do: "Do sample_world (sample_builder RayClusterMode) = Some (Inr (RayClusterObject m spec, []))" by blast
  let ?st = "\<lparr>ds_objects = ([((''ns'', ''rc''), RayClusterObject m spec)], []), ds_events = []\<rparr>"
    and ?o = "sample_grace_delete [''rc''] DryRunNone"
  have fresh: "b_mode (sample_builder RayClusterMode) = None" "b_volumeBundles (sample_builder RayClusterMode) = []"
    "b_modeName (sample_builder RayClusterMode) = mode_name RayClusterMode"
    by (simp_all add: sample_defs)
  have get: "cl_Get (dc_Client ?o) (ds_objects ?st) (dc_Namespace ?o) ''rc'' = Inr (RayClusterObject m spec)"
    by (simp add: grace_client_def mget_def)
  have mem: "RayClusterObject m spec \<in> set [RayClusterObject m spec]" "''rc'' \<in> set (dc_Names ?o)"
    "frame_client (dc_Client ?o)" "dc_DryRunStrategy ?o \<noteq> DryRunClient" by (simp_all add: grace_client_frame)
  have opts: "delete_opts_of ?o = \<lparr>do_PropagationPolicy = Some DeletePropagationForeground, do_DryRun = []\<rparr>"
    by (simp add: delete_opts_of_def sample_grace_delete_def)
  have del: "cl_Delete (dc_Client ?o) (ds_objects ?st) (dc_Namespace ?o) ''rc'' (delete_opts_of ?o) =
      (([((''ns'', ''rc''), RayClusterObject m spec)], [(''ns'', ''rc'')]), None)"
    by (simp add: grace_client_def opts mget_def DryRunAll_def)
  obtain st' err where run: "delete_Run RayClusterMode ?o ?st = (st', err)" by fastforce
  from created_then_deleted [OF Do sample_labels_distinct fresh mem(1) refl get mem(2,3,4) run] del opts
  have "err = None" "ds_events st' = [DeleteCall ''ns'' ''rc'' (delete_opts_of ?o), Out (meta_Name m @ '' deleted'')]"
    "ds_objects st' = ([((''ns'', ''rc''), RayClusterObject m spec)], [(''ns'', ''rc'')])" by simp_all
  with Do run opts show ?thesis by auto
qed

text \<open>
  C2. What \<open>create\<close> makes, \<open>list\<close> asks for: the requests of the list command of a mode carry, as their
  label selector, the text of a list of requirements on labels followed by the user's selector, and
  every object the builder returns in that mode satisfies all these requirements, when no filter or
  the filter on its profile is given and no queue is asked for.
\<close>

theorem created_then_listed:
  assumes Do: "Do W b = Some (Inr (root, cs))" and "labels_distinct (names W)"
    and "b_mode b = None" and "b_volumeBundles b = []" and mode: "b_modeName b = mode_name mode"
    and profile: "get_profile W (b_namespace b) (b_profileName b) = Inr p"
    and "lc_ProfileFilter opt = [] \<or> lc_ProfileFilter opt = meta_Name (ap_Meta p)"
    and "lc_LocalQueueFilter opt = []"
  shows "list_Run mode LW P opt =
      list_loop LW opt (list_ToPrinter mode LW P opt) (list_namespace opt)
        \<lparr>lo_LabelSelector = str_join '','' (map requirement_text (list_requirements mode LW opt) @
           (if lc_LabelSelector opt \<noteq> [] then [lc_LabelSelector opt] else [])),
         lo_FieldSelector = lc_FieldSelector opt, lo_Limit = lc_Limit opt, lo_Continue = []\<rparr> 0 [] \<and>
    (\<forall>obj \<in> set (root # cs). list_all (satisfies (object_meta_of obj)) (list_requirements mode LW opt))"
proof -
  from Do_objects [OF assms(1-4)] profile obtain m where "sm_Name m = mode_name mode"
    and owned: "\<forall>obj \<in> set (root # cs). kjob_owned p m obj"
    unfolding mode by auto
  then have "\<forall>obj \<in> set (root # cs). label_of (object_meta_of obj) ProfileLabel = Some (meta_Name (ap_Meta p)) \<and>
      label_of (object_meta_of obj) ModeLabel = Some (mode_name mode)"
    by (simp add: kjob_owned_def)
  with assms(7,8) have "\<forall>obj \<in> set (root # cs). list_all (satisfies (object_meta_of obj)) (list_requirements mode LW opt)"
    by (auto simp: list_requirements_def)
  then show ?thesis by (simp add: list_Run_loop first_request_def list_selector_def)
qed

theorem created_then_listed_witness:
  "\<exists>root. Do sample_world (sample_builder RayClusterMode) = Some (Inr (root, [])) \<and>
    list_all (satisfies (object_meta_of root))
      (list_requirements RayClusterMode sample_list_world (sample_list_options RayClusterMode))"
proof -
  from sample_Do obtain m spec
    where Do: "Do sample_world (sample_builder RayClusterMode) = Some (Inr (RayClusterObject m spec, []))" by blast
  let ?b = "sample_builder RayClusterMode" and ?o = "sample_list_options RayClusterMode"
  have fresh: "b_mode ?b = None" "b_volumeBundles ?b = []" "b_modeName ?b = mode_name RayClusterMode"
    "get_profile sample_world (b_namespace ?b) (b_profileName ?b) = Inr sample_profile"
    by (simp_all add: sample_world_def sample_builder_def WithNamespace_def WithProfileName_def WithModeName_def NewBuilder_def)
  have filters: "lc_ProfileFilter ?o = [] \<or> lc_ProfileFilter ?o = meta_Name (ap_Meta sample_profile)" "lc_LocalQueueFilter ?o = []"
    by (simp_all add: sample_list_options_def)
  from created_then_listed [OF Do sample_labels_distinct fresh filters, of sample_list_world sample_print_api] Do show ?thesis by auto
qed

text \<open>The group of an object's kind, before the slash of its API version; the core group has none.\<close>

definition object_group :: "'q runtime_object \<Rightarrow> string" where
  "object_group obj = (case split_on (CHR ''/'') (object_api_version obj) of [g, v] \<Rightarrow> g | _ \<Rightarrow> [])"

lemma object_group_simps [simp]:
  "object_group (PodObject m ps) = []"
  "object_group (JobObject m js) = ''batch''"
  "object_group (RayJobObject m rj) = ''ray.io''"
  "object_group (RayClusterObject m rc) = ''ray.io''"
  by (simp_all add: object_group_def)

lemma resourceFor_modes:
  "resourceFor ''Interactive'' = ''pod''" "resourceFor ''Slurm'' = ''job''" "resourceFor ''Job'' = ''job''"
  "resourceFor ''RayJob'' = ''rayjob''" "resourceFor ''RayCluster'' = ''raycluster''"
  by code_simp+

lemma lower_kinds:
  "to_lower ''Pod'' = ''pod''" "to_lower ''Job'' = ''job''" "to_lower ''RayJob'' = ''rayjob''" "to_lower ''RayCluster'' = ''raycluster''"
  by code_simp+

lemma created_kind_describable:
  assumes "(name, object_kind root) \<in> {(''Job'', ''Job''), (''Interactive'', ''Pod''), (''RayJob'', ''RayJob''),
      (''RayCluster'', ''RayCluster''), (''Slurm'', ''Job'')}"
  shows "resourceFor name = to_lower (object_kind root) \<and>
    (\<exists>d. DescriberFor (object_group root, object_kind root) = Some d)"
  using assms by (cases root) (auto simp: resourceFor_modes lower_kinds DescriberFor_def mget_def)

text \<open>
  C3. What \<open>create\<close> makes, \<open>describe\<close> finds and describes: the resource that \<open>describe\<close> looks up for a mode
  is the kind of the root object the builder returns in that mode, and for this object, with the labels
  and the kind it was made with, there is a describer whose result is printed or reported; the object
  is never skipped.
\<close>

theorem created_then_described:
  assumes Do: "Do W b = Some (Inr (root, cs))" and "labels_distinct (names W)"
    and "b_mode b = None" and "b_volumeBundles b = []"
    and object: "inf_Object info = Unstructured u"
    and labels: "dw_GetLabels DW u = meta_Labels (object_meta_of root)"
    and mapping: "gvk_Group (inf_Mapping info) = object_group root" "gvk_Kind (inf_Mapping info) = object_kind root"
  shows "resourceFor (b_modeName b) = to_lower (object_kind root) \<and>
    (\<exists>d. DescriberFor (object_group root, object_kind root) = Some d \<and> describe_round DW info st =
      (case Describe d (dw_converters DW) (dw_texts DW) u of
        None \<Rightarrow> (st, Some ())
      | Some (Inl err) \<Rightarrow> (add_error err st, None)
      | Some (Inr output) \<Rightarrow> (print_output output st, None)))"
proof -
  from Do_objects [OF assms(1-4)] obtain p m where owned: "kjob_owned p m root"
    and kind: "(b_modeName b, object_kind root) \<in> {(''Job'', ''Job''), (''Interactive'', ''Pod''), (''RayJob'', ''RayJob''),
      (''RayCluster'', ''RayCluster''), (''Slurm'', ''Job'')}" by auto
  from created_kind_describable [OF kind] obtain d where resource: "resourceFor (b_modeName b) = to_lower (object_kind root)"
    and describer: "DescriberFor (object_group root, object_kind root) = Some d" by blast
  from owned have "mget (deref (meta_Labels (object_meta_of root)) []) ProfileLabel \<noteq> None"
    by (auto simp: kjob_owned_def label_of_def split: option.splits)
  with object labels mapping describer have "describe_round DW info st =
      (case Describe d (dw_converters DW) (dw_texts DW) u of
        None \<Rightarrow> (st, Some ())
      | Some (Inl err) \<Rightarrow> (add_error err st, None)
      | Some (Inr output) \<Rightarrow> (print_output output st, None))"
    by (auto simp: describe_round_def NewResourceDescriber_def)
  with resource describer show ?thesis by blast
qed

theorem created_then_described_witness:
  "\<exists>root. Do sample_world (sample_builder RayClusterMode) = Some (Inr (root, [])) \<and>
    resourceFor ''RayCluster'' = to_lower (object_kind root) \<and>
    (\<exists>d. DescriberFor (''ray.io'', ''RayCluster'') = Some d \<and> describe_round sample_describe_world
        \<lparr>inf_Mapping = \<lparr>gvk_Group = object_group root, gvk_Version = ''v1'', gvk_Kind = object_kind root\<rparr>,
         inf_Name = [], inf_Object = Unstructured (object_meta_of root)\<rparr> start_state =
      (case Describe d sample_converters sample_texts (object_meta_of root) of
        None \<Rightarrow> (start_state, Some ())
      | Some (Inl err) \<Rightarrow> (add_error err start_state, None)
      | Some (Inr output) \<Rightarrow> (print_output output start_state, None)))"
proof -
  from sample_Do obtain m spec
    where Do: "Do sample_world (sample_builder RayClusterMode) = Some (Inr (RayClusterObject m spec, []))" by blast
  let ?r = "RayClusterObject m spec"
  let ?i = "\<lparr>inf_Mapping = \<lparr>gvk_Group = object_group ?r, gvk_Version = ''v1'', gvk_Kind = object_kind ?r\<rparr>,
         inf_Name = [], inf_Object = Unstructured (object_meta_of ?r)\<rparr>"
  have fresh: "b_mode (sample_builder RayClusterMode) = None" "b_volumeBundles (sample_builder RayClusterMode) = []"
    "b_modeName (sample_builder RayClusterMode) = ''RayCluster''"
    by (simp_all add: sample_defs)
  have world: "dw_GetLabels sample_describe_world (object_meta_of ?r) = meta_Labels (object_meta_of ?r)"
    "dw_converters sample_describe_world = sample_converters" "dw_texts sample_describe_world = sample_texts"
    by (simp_all add: sample_describe_world_def)
  have "inf_Object ?i = Unstructured (object_meta_of ?r)" "gvk_Group (inf_Mapping ?i) = object_group ?r"
    "gvk_Kind (inf_Mapping ?i) = object_kind ?r" by simp_all
  from created_then_described [OF Do sample_labels_distinct fresh(1,2) this(1) world(1) this(2,3)]
  show ?thesis using Do unfolding fresh(3) world(2,3) by force
qed

end
